(* ===== verification/Prelude.thy ===== *)
theory Prelude
  imports Complex_Main "HOL-Library.AList" "HOL-Library.List_Lexorder"
    "HOL-Library.Char_ord" "HOL-Library.Product_Lexorder" "HOL-Library.Option_ord"
begin

text \<open>
  The values and effects every component shares.

  Python data.  JSON values and the keyword dictionaries handed to the NetBox client are the
  datatype \<open>json\<close>; a dictionary is an association list in insertion order with distinct keys
  (\<open>wf_obj\<close>).  Python's \<open>==\<close> on such values is \<open>py_eq\<close>: numbers compare across
  \<open>bool\<close>, \<open>int\<close> and \<open>float\<close>, dictionaries compare regardless of order.  A float carries the
  text Python prints for it and its exact value (no NaN, no infinity).  Strings are character
  lists; the string methods are those of Python on ASCII text.

  Effects.  Code that talks to a service is a function from the state of the world to an
  exception or a value and the next state (\<open>io\<close>).  \<open>preserves R m\<close> says that running \<open>m\<close>
  from any state ends in a state related to it by \<open>R\<close>, whether \<open>m\<close> returns or raises; the
  collection \<open>preserves_intros\<close> proves it by following the structure of \<open>m\<close>.
\<close>

named_theorems preserves_intros \<open>introduction rules for preserves\<close>
named_theorems io_simps \<open>equations that run io programs\<close>

section \<open>Exceptions\<close>

text \<open>
  One constructor per exception class of the source; the string is the fixed leading text of
  the message (interpolated identifiers are left out).  \<open>CodedError cls code\<close> is an instance of one of the
  program's own exception classes that carry a stable \<open>code\<close> (\<open>ManualSyncError\<close>, \<open>ConfirmationError\<close>,
  \<open>ApplyWorkerError\<close>); \<open>SystemExit\<close> and \<open>KeyboardInterrupt\<close> are the two that are no \<open>Exception\<close>.
\<close>

datatype py_exn =
    ValueError string
  | TypeError string
  | KeyError string
  | AttributeError string
  | AssertionError string
  | RuntimeError string
  | OverflowError string
  | HostApplyError string
  | VMApplyError string
  | VMNetworkApplyError string
  | LXCApplyError string
  | LXCNetworkApplyError string
  | RequestError string
  | CodedError string string
  | SystemExit
  | KeyboardInterrupt

section \<open>JSON values and dictionaries\<close>

datatype json =
    JNull
  | JBool bool
  | JInt int
  | JFloat string rat
  | JStr string
  | JList "json list"
  | JObj "(string \<times> json) list"

type_synonym obj = "(string \<times> json) list"

definition dget :: "('k \<times> 'v) list \<Rightarrow> 'k \<Rightarrow> 'v option" where
  "dget d k = map_of d k"

definition dset :: "'k \<Rightarrow> 'v \<Rightarrow> ('k \<times> 'v) list \<Rightarrow> ('k \<times> 'v) list" where
  "dset k v d = AList.update k v d"

fun dupdate :: "('k \<times> 'v) list \<Rightarrow> ('k \<times> 'v) list \<Rightarrow> ('k \<times> 'v) list" where
  "dupdate d [] = d"
| "dupdate d ((k, v) # kvs) = dupdate (dset k v d) kvs"

definition jget :: "obj \<Rightarrow> string \<Rightarrow> json" where
  "jget d k = (case dget d k of None \<Rightarrow> JNull | Some v \<Rightarrow> v)"

fun dappend :: "'k \<Rightarrow> 'v \<Rightarrow> ('k \<times> 'v list) list \<Rightarrow> ('k \<times> 'v list) list" where
  "dappend k v [] = [(k, [v])]"
| "dappend k v ((k', vs) # d) = (if k' = k then (k', vs @ [v]) # d else (k', vs) # dappend k v d)"

definition dgetl :: "('k \<times> 'v list) list \<Rightarrow> 'k \<Rightarrow> 'v list" where
  "dgetl d k = (case dget d k of None \<Rightarrow> [] | Some vs \<Rightarrow> vs)"

lemma dget_Nil [simp]: "dget [] k = None"
  by (simp add: dget_def)

lemma dget_Cons [simp]: "dget ((k', v) # d) k = (if k' = k then Some v else dget d k)"
  by (simp add: dget_def)

lemma dget_dset [simp]: "dget (dset k v d) k' = (if k' = k then Some v else dget d k')"
  by (simp add: dget_def dset_def update_conv')

lemma dset_Nil [simp]: "dset k v [] = [(k, v)]"
  by (simp add: dset_def)

lemma dset_Cons [simp]:
  "dset k v ((k', v') # d) = (if k' = k then (k, v) # d else (k', v') # dset k v d)"
  by (simp add: dset_def)

lemma dset_same [simp]: "dget d k = Some v \<Longrightarrow> dset k v d = d"
  by (induction d) (auto split: if_splits)

lemma keys_dset: "map fst (dset k v d) = (if k \<in> set (map fst d) then map fst d else map fst d @ [k])"
  by (induction d) (simp_all add: dset_def)

lemma distinct_dset [simp]: "distinct (map fst d) \<Longrightarrow> distinct (map fst (dset k v d))"
  by (simp add: keys_dset)

lemma distinct_dupdate [simp]: "distinct (map fst d) \<Longrightarrow> distinct (map fst (dupdate d kvs))"
  by (induction d kvs rule: dupdate.induct) auto

lemma dget_dupdate:
  "dget (dupdate d kvs) k = (case dget (rev kvs) k of None \<Rightarrow> dget d k | Some v \<Rightarrow> Some v)"
proof (induction d kvs rule: dupdate.induct)
  case (2 d k' v kvs)
  then show ?case
    using dget_dset [of k' v d k] by (auto simp: dget_def map_add_def split: option.splits)
qed simp

lemma dget_Some_mem: "dget d k = Some v \<Longrightarrow> (k, v) \<in> set d"
  by (simp add: dget_def map_of_SomeD)

lemma dget_mem: "distinct (map fst d) \<Longrightarrow> (k, v) \<in> set d \<Longrightarrow> dget d k = Some v"
  by (simp add: dget_def map_of_eq_Some_iff)

lemma dget_None_iff: "dget d k = None \<longleftrightarrow> k \<notin> set (map fst d)"
  by (simp add: dget_def map_of_eq_None_iff)

lemma jget_Nil [simp]: "jget [] k = JNull"
  by (simp add: jget_def)

lemma jget_Cons [simp]: "jget ((k', v) # d) k = (if k' = k then v else jget d k)"
  by (simp add: jget_def)

lemma jget_dset [simp]: "jget (dset k v d) k' = (if k' = k then v else jget d k')"
  by (simp add: jget_def)

lemma dgetl_Nil [simp]: "dgetl [] k = []"
  by (simp add: dgetl_def)

lemma dgetl_Cons [simp]: "dgetl ((k', v) # d) k = (if k' = k then v else dgetl d k)"
  by (simp add: dgetl_def)

lemma dgetl_dappend [simp]: "dgetl (dappend k v d) k' = (if k' = k then dgetl d k @ [v] else dgetl d k')"
  by (induction d) (auto)


lemma dgetl_mem_keys: "dgetl d k \<noteq> [] \<Longrightarrow> k \<in> set (map fst d)"
  by (induction d) (auto split: if_splits)

text \<open>
  Counting occurrences: a list grouped by key has a group of two or more exactly when a key
  occurs twice.
\<close>

fun group_by :: "('a \<Rightarrow> 'k) \<Rightarrow> 'a list \<Rightarrow> ('k \<times> 'a list) list \<Rightarrow> ('k \<times> 'a list) list" where
  "group_by f [] d = d"
| "group_by f (x # xs) d = group_by f xs (dappend (f x) x d)"

definition repeated_keys :: "('k \<times> 'v list) list \<Rightarrow> 'k list" where
  "repeated_keys d = map fst (filter (\<lambda>(k, vs). length vs > 1) d)"

lemma dgetl_group_by: "dgetl (group_by f xs d) k = dgetl d k @ filter (\<lambda>x. f x = k) xs"
  by (induction f xs d rule: group_by.induct) auto

lemma keys_dappend: "map fst (dappend k v d) = (if k \<in> set (map fst d) then map fst d else map fst d @ [k])"
  by (induction k v d rule: dappend.induct) simp_all

lemma distinct_group_by: "distinct (map fst d) \<Longrightarrow> distinct (map fst (group_by f xs d))"
  by (induction f xs d rule: group_by.induct) (simp_all add: keys_dappend)

lemma dgetl_mem: "distinct (map fst d) \<Longrightarrow> (k, vs) \<in> set d \<Longrightarrow> dgetl d k = vs"
  by (induction d) force+

lemma mem_dgetl: "dgetl d k \<noteq> [] \<Longrightarrow> (k, dgetl d k) \<in> set d"
  by (induction d) (auto split: if_splits)

lemma repeated_keys_group_by:
  "k \<in> set (repeated_keys (group_by f xs [])) \<longleftrightarrow> length (filter (\<lambda>x. f x = k) xs) > 1"
proof -
  let ?g = "group_by f xs []"
  have d: "distinct (map fst ?g)" by (simp add: distinct_group_by)
  have g: "dgetl ?g k = filter (\<lambda>x. f x = k) xs" by (simp add: dgetl_group_by)
  show ?thesis
  proof
    assume "k \<in> set (repeated_keys ?g)"
    then obtain vs where "(k, vs) \<in> set ?g" "length vs > 1"
      by (auto simp: repeated_keys_def)
    with dgetl_mem [OF d] g show "length (filter (\<lambda>x. f x = k) xs) > 1" by metis
  next
    assume len: "length (filter (\<lambda>x. f x = k) xs) > 1"
    with g have "dgetl ?g k \<noteq> []" by auto
    from mem_dgetl [OF this] g len show "k \<in> set (repeated_keys ?g)"
      by (force simp: repeated_keys_def)
  qed
qed

lemma filter_key_Nil: "filter (\<lambda>y. f y = k) xs = [] \<longleftrightarrow> k \<notin> f ` set xs"
  by (auto simp: filter_empty_conv)

lemma filter_key_le_1_distinct:
  "(\<forall>k. length (filter (\<lambda>x. f x = k) xs) \<le> 1) \<longleftrightarrow> distinct (map f xs)"
proof (induction xs)
  case (Cons x xs)
  show ?case
  proof
    assume all: "\<forall>k. length (filter (\<lambda>x. f x = k) (x # xs)) \<le> 1"
    then have "length (filter (\<lambda>y. f y = f x) (x # xs)) \<le> 1" by (rule spec)
    then have "f x \<notin> f ` set xs" by (simp add: filter_key_Nil)
    moreover have "length (filter (\<lambda>y. f y = k) xs) \<le> 1" for k
      using all [THEN spec, of k] by (simp split: if_splits)
    ultimately show "distinct (map f (x # xs))" using Cons.IH by simp
  next
    assume "distinct (map f (x # xs))"
    with Cons.IH have n: "f x \<notin> f ` set xs" and le: "\<forall>k. length (filter (\<lambda>y. f y = k) xs) \<le> 1"
      by simp_all
    show "\<forall>k. length (filter (\<lambda>x. f x = k) (x # xs)) \<le> 1"
      using n le by (auto simp: filter_key_Nil [symmetric])
  qed
qed simp

lemma repeated_keys_Nil:
  "repeated_keys (group_by f xs []) = [] \<longleftrightarrow> distinct (map f xs)"
proof -
  have "repeated_keys (group_by f xs []) = [] \<longleftrightarrow> (\<forall>k. k \<notin> set (repeated_keys (group_by f xs [])))"
    by auto
  also have "\<dots> \<longleftrightarrow> (\<forall>k. length (filter (\<lambda>x. f x = k) xs) \<le> 1)"
    by (simp add: repeated_keys_group_by not_less)
  also note filter_key_le_1_distinct
  finally show ?thesis .
qed

end
