(* ===== verification/PyText.thy ===== *)
theory PyText
  imports Prelude
begin

text \<open>
  Python's text and value operations that the synchroniser uses: \<open>str.casefold\<close>,
  \<open>upper\<close>, \<open>strip\<close>, \<open>startswith\<close>, decimal conversion, \<open>repr\<close>, truth values and \<open>==\<close> on
  JSON values.
\<close>

section \<open>Characters and strings\<close>

definition py_lower_char :: "char \<Rightarrow> char" where
  "py_lower_char c =
     (case map_of (zip ''ABCDEFGHIJKLMNOPQRSTUVWXYZ'' ''abcdefghijklmnopqrstuvwxyz'') c of
        None \<Rightarrow> c | Some l \<Rightarrow> l)"

definition py_upper_char :: "char \<Rightarrow> char" where
  "py_upper_char c =
     (case map_of (zip ''abcdefghijklmnopqrstuvwxyz'' ''ABCDEFGHIJKLMNOPQRSTUVWXYZ'') c of
        None \<Rightarrow> c | Some u \<Rightarrow> u)"

definition casefold :: "string \<Rightarrow> string" where
  "casefold s = map py_lower_char s"

definition py_upper :: "string \<Rightarrow> string" where
  "py_upper s = map py_upper_char s"

definition is_space :: "char \<Rightarrow> bool" where
  "is_space c \<longleftrightarrow> c \<in> {CHR '' '', CHR 0x09, CHR 0x0A, CHR 0x0B, CHR 0x0C, CHR 0x0D,
                      CHR 0x1C, CHR 0x1D, CHR 0x1E, CHR 0x1F}"

definition py_strip :: "string \<Rightarrow> string" where
  "py_strip s = rev (dropWhile is_space (rev (dropWhile is_space s)))"

definition starts_with :: "string \<Rightarrow> string \<Rightarrow> bool" where
  "starts_with s p \<longleftrightarrow> take (length p) s = p"

fun join :: "string \<Rightarrow> string list \<Rightarrow> string" where
  "join sep [] = []"
| "join sep [x] = x"
| "join sep (x # y # xs) = x @ sep @ join sep (y # xs)"

fun nat_digits :: "nat \<Rightarrow> string" where
  "nat_digits n = (if n < 10 then [''0123456789'' ! n]
                   else nat_digits (n div 10) @ [''0123456789'' ! (n mod 10)])"

declare nat_digits.simps [simp del]

definition py_str_int :: "int \<Rightarrow> string" where
  "py_str_int i = (if i < 0 then ''-'' @ nat_digits (nat (- i)) else nat_digits (nat i))"

definition digit_value :: "char \<Rightarrow> nat option" where
  "digit_value c = map_of (zip ''0123456789'' [0..<10]) c"

fun digits_value :: "nat \<Rightarrow> string \<Rightarrow> nat option" where
  "digits_value acc [] = Some acc"
| "digits_value acc (c # cs) =
     (case digit_value c of None \<Rightarrow> None | Some d \<Rightarrow> digits_value (10 * acc + d) cs)"

definition nat_of_digits :: "string \<Rightarrow> nat option" where
  "nat_of_digits s = (if s = [] then None else digits_value 0 s)"

lemma length_casefold [simp]: "length (casefold s) = length s"
  by (simp add: casefold_def)

lemma starts_with_append [simp]: "starts_with (p @ s) p"
  by (simp add: starts_with_def)

lemma starts_with_split: "starts_with s p \<Longrightarrow> s = p @ drop (length p) s"
  unfolding starts_with_def by (metis append_take_drop_id)

lemma digit_value_nth: "d < 10 \<Longrightarrow> digit_value (''0123456789'' ! d) = Some d"
  by (simp add: digit_value_def map_of_zip_nth del: upt_rec_numeral)

lemma digits_value_append:
  "digits_value acc (xs @ ys) =
     (case digits_value acc xs of None \<Rightarrow> None | Some a \<Rightarrow> digits_value a ys)"
  by (induction acc xs rule: digits_value.induct) (auto split: option.splits)

lemma digits_value_nat_digits: "digits_value 0 (nat_digits n) = Some n"
proof (induction n rule: nat_digits.induct)
  case (1 n)
  show ?case
  proof (cases "n < 10")
    case True
    then show ?thesis by (subst nat_digits.simps) (simp add: digit_value_nth)
  next
    case False
    with "1.IH" show ?thesis
      by (subst nat_digits.simps) (simp add: digits_value_append digit_value_nth)
  qed
qed

lemma nat_digits_not_Nil [simp]: "nat_digits n \<noteq> []"
  by (subst nat_digits.simps) simp

lemma nat_of_digits_nat_digits [simp]: "nat_of_digits (nat_digits n) = Some n"
  by (simp add: nat_of_digits_def digits_value_nat_digits)

lemma nat_digits_inject [simp]: "nat_digits m = nat_digits n \<longleftrightarrow> m = n"
  by (metis nat_of_digits_nat_digits option.inject)

section \<open>Numbers from text\<close>

text \<open>
  The literals \<open>int()\<close> and \<open>float()\<close> accept: surrounding blanks, a sign, digits grouped by
  single underscores; for \<open>float\<close> a fraction, an exponent, \<open>inf\<close> and \<open>nan\<close>.  A decimal literal
  is read exactly: the rounding of \<open>float\<close> beyond 53 bits is not modelled.
\<close>

fun grouped_digits :: "nat \<Rightarrow> bool \<Rightarrow> string \<Rightarrow> nat option" where
  "grouped_digits acc prev [] = (if prev then Some acc else None)"
| "grouped_digits acc prev (c # cs) =
     (if c = CHR ''_'' then (if prev then grouped_digits acc False cs else None)
      else case digit_value c of None \<Rightarrow> None | Some d \<Rightarrow> grouped_digits (10 * acc + d) True cs)"

definition split_sign :: "string \<Rightarrow> int \<times> string" where
  "split_sign s = (case s of [] \<Rightarrow> (1, [])
     | c # cs \<Rightarrow> if c = CHR ''-'' then (- 1, cs) else if c = CHR ''+'' then (1, cs) else (1, s))"

definition int_of_text :: "string \<Rightarrow> int option" where
  "int_of_text s =
     (let (sgn, body) = split_sign (py_strip s)
      in map_option (\<lambda>n. sgn * int n) (grouped_digits 0 False body))"

datatype float_value = FloatNum rat | FloatInf | FloatNan

definition decimal_of_text :: "string \<Rightarrow> rat option" where
  "decimal_of_text s =
     (let whole = takeWhile (\<lambda>c. c \<noteq> CHR ''.'') s;
          frac = drop (Suc (length whole)) s;
          part = (\<lambda>t. if t = [] then Some 0 else grouped_digits 0 False t)
      in if whole = [] \<and> frac = [] then None
         else case (part whole, part frac) of
           (Some w, Some f) \<Rightarrow>
             Some (of_nat w + of_nat f / of_nat (10 ^ length (filter (\<lambda>c. c \<noteq> CHR ''_'') frac)))
         | _ \<Rightarrow> None)"

definition float_of_text :: "string \<Rightarrow> float_value option" where
  "float_of_text s =
     (let (sgn, body) = split_sign (casefold (py_strip s))
      in if body \<in> {''inf'', ''infinity''} then Some FloatInf
         else if body = ''nan'' then Some FloatNan
         else let mant = takeWhile (\<lambda>c. c \<noteq> CHR ''e'') body;
                  rest = drop (length mant) body
              in case decimal_of_text mant of None \<Rightarrow> None
                 | Some m \<Rightarrow>
                     (if rest = [] then Some (FloatNum (of_int sgn * m))
                      else let (esgn, ebody) = split_sign (tl rest)
                        in case grouped_digits 0 False ebody of None \<Rightarrow> None
                           | Some e \<Rightarrow> Some (FloatNum (of_int sgn *
                               (if esgn = 1 then m * 10 ^ e else m / 10 ^ e)))))"

definition truncate_rat :: "rat \<Rightarrow> int" where
  "truncate_rat r = (if r < 0 then - \<lfloor>- r\<rfloor> else \<lfloor>r\<rfloor>)"

section \<open>repr and str\<close>

definition hex_digit :: "nat \<Rightarrow> char" where
  "hex_digit n = ''0123456789abcdef'' ! (n mod 16)"

definition repr_char :: "char \<Rightarrow> char \<Rightarrow> string" where
  "repr_char q c =
     (if c = CHR 0x5C then [CHR 0x5C, CHR 0x5C]
      else if c = q then [CHR 0x5C, q]
      else if c = CHR 0x0A then [CHR 0x5C, CHR ''n'']
      else if c = CHR 0x0D then [CHR 0x5C, CHR ''r'']
      else if c = CHR 0x09 then [CHR 0x5C, CHR ''t'']
      else let n = (of_char c :: nat) in
        if n < 32 \<or> n = 127 then [CHR 0x5C, CHR ''x'', hex_digit (n div 16), hex_digit n]
        else [c])"

definition py_repr_str :: "string \<Rightarrow> string" where
  "py_repr_str s =
     (let q = (if CHR 0x27 \<in> set s \<and> CHR 0x22 \<notin> set s then CHR 0x22 else CHR 0x27)
      in q # concat (map (repr_char q) s) @ [q])"

fun py_repr :: "json \<Rightarrow> string" where
  "py_repr JNull = ''None''"
| "py_repr (JBool b) = (if b then ''True'' else ''False'')"
| "py_repr (JInt i) = py_str_int i"
| "py_repr (JFloat t r) = t"
| "py_repr (JStr s) = py_repr_str s"
| "py_repr (JList xs) = ''['' @ join '', '' (map py_repr xs) @ '']''"
| "py_repr (JObj kvs) =
     ''{'' @ join '', '' (map (\<lambda>(k, v). py_repr_str k @ '': '' @ py_repr v) kvs) @ ''}''"

definition py_str :: "json \<Rightarrow> string" where
  "py_str v = (case v of JStr s \<Rightarrow> s | _ \<Rightarrow> py_repr v)"

definition items_repr :: "obj \<Rightarrow> string" where
  "items_repr d =
     ''['' @ join '', '' (map (\<lambda>(k, v). ''('' @ py_repr_str k @ '', '' @ py_repr v @ '')'')
       (sort_key fst d)) @ '']''"

section \<open>Truth values and equality\<close>

definition truthy :: "json \<Rightarrow> bool" where
  "truthy v = (case v of
       JNull \<Rightarrow> False
     | JBool b \<Rightarrow> b
     | JInt i \<Rightarrow> i \<noteq> 0
     | JFloat t r \<Rightarrow> r \<noteq> 0
     | JStr s \<Rightarrow> s \<noteq> []
     | JList xs \<Rightarrow> xs \<noteq> []
     | JObj kvs \<Rightarrow> kvs \<noteq> [])"

definition num_value :: "json \<Rightarrow> rat option" where
  "num_value v = (case v of
       JBool b \<Rightarrow> Some (if b then 1 else 0)
     | JInt i \<Rightarrow> Some (of_int i)
     | JFloat t r \<Rightarrow> Some r
     | _ \<Rightarrow> None)"

fun py_eq :: "json \<Rightarrow> json \<Rightarrow> bool"
and py_eq_list :: "json list \<Rightarrow> json list \<Rightarrow> bool"
and py_eq_items :: "(string \<times> json) list \<Rightarrow> (string \<times> json) list \<Rightarrow> bool" where
  "py_eq JNull w = (w = JNull)"
| "py_eq (JStr s) w = (w = JStr s)"
| "py_eq (JBool b) w = (num_value w = Some (if b then 1 else 0))"
| "py_eq (JInt i) w = (num_value w = Some (of_int i))"
| "py_eq (JFloat t r) w = (num_value w = Some r)"
| "py_eq (JList xs) w = (case w of JList ys \<Rightarrow> py_eq_list xs ys | _ \<Rightarrow> False)"
| "py_eq (JObj kvs) w =
     (case w of JObj kws \<Rightarrow> length kvs = length kws \<and> py_eq_items kvs kws | _ \<Rightarrow> False)"
| "py_eq_list [] ys = (ys = [])"
| "py_eq_list (x # xs) ys = (case ys of [] \<Rightarrow> False | y # ys' \<Rightarrow> py_eq x y \<and> py_eq_list xs ys')"
| "py_eq_items [] kws = True"
| "py_eq_items ((k, v) # kvs) kws =
     ((case dget kws k of None \<Rightarrow> False | Some w \<Rightarrow> py_eq v w) \<and> py_eq_items kvs kws)"

fun wf_json :: "json \<Rightarrow> bool"
and wf_list :: "json list \<Rightarrow> bool"
and wf_items :: "(string \<times> json) list \<Rightarrow> bool" where
  "wf_json (JList xs) = wf_list xs"
| "wf_json (JObj kvs) = (distinct (map fst kvs) \<and> wf_items kvs)"
| "wf_json _ = True"
| "wf_list [] = True"
| "wf_list (x # xs) = (wf_json x \<and> wf_list xs)"
| "wf_items [] = True"
| "wf_items ((k, v) # kvs) = (wf_json v \<and> wf_items kvs)"

abbreviation wf_obj :: "obj \<Rightarrow> bool" where
  "wf_obj d \<equiv> wf_json (JObj d)"

lemma py_eq_items_refl_sub:
  "distinct (map fst kws) \<Longrightarrow> set kvs \<subseteq> set kws \<Longrightarrow> (\<forall>(k, v) \<in> set kvs. py_eq v v) \<Longrightarrow>
     py_eq_items kvs kws"
  by (induction kvs) (auto simp: dget_mem)

lemma py_eq_refl_aux:
  "wf_json v \<Longrightarrow> py_eq v v"
  "wf_list xs \<Longrightarrow> py_eq_list xs xs"
  "wf_items kvs \<Longrightarrow> (\<forall>(k, v) \<in> set kvs. py_eq v v)"
proof (induction v and xs and kvs rule: wf_json_wf_list_wf_items.induct)
  case (2 kvs)
  then show ?case by (auto intro: py_eq_items_refl_sub)
qed (auto simp: num_value_def)

lemma py_eq_refl: "wf_json v \<Longrightarrow> py_eq v v"
  by (rule py_eq_refl_aux(1))

lemma wf_items_iff: "wf_items kvs \<longleftrightarrow> (\<forall>(k, v) \<in> set kvs. wf_json v)"
  by (induction kvs) auto

lemma wf_list_iff: "wf_list xs \<longleftrightarrow> (\<forall>v \<in> set xs. wf_json v)"
  by (induction xs) auto

lemma wf_jget: "wf_obj d \<Longrightarrow> wf_json (jget d k)"
  by (auto simp: jget_def wf_items_iff split: option.splits dest!: dget_Some_mem)

lemma wf_dset: "wf_obj d \<Longrightarrow> wf_json v \<Longrightarrow> wf_obj (dset k v d)"
  by (induction d) auto

lemma wf_items_dset [simp]: "wf_items d \<Longrightarrow> wf_json v \<Longrightarrow> wf_items (dset k v d)"
  by (induction d) auto

lemma py_eq_JStr [simp]: "py_eq w (JStr s) \<longleftrightarrow> w = JStr s"
  by (cases w) (auto simp: num_value_def)

lemma py_eq_JNull [simp]: "py_eq w JNull \<longleftrightarrow> w = JNull"
  by (cases w) (auto simp: num_value_def)

end
