(* ===== verification/PyIO.thy ===== *)
theory PyIO
  imports PyText
begin

text \<open>
  Exceptions and effects.  \<open>'a res\<close> is a value or a raised exception; \<open>('s, 'a) io\<close> also
  threads the state of the world, which survives a raise.  The loops of the source are
  \<open>res_map\<close>, \<open>io_map\<close> (build a list) and \<open>io_fold\<close> (carry an accumulator); each stops at the
  first exception.
\<close>

type_synonym 'a res = "py_exn + 'a"
type_synonym ('s, 'a) io = "'s \<Rightarrow> (py_exn + 'a) \<times> 's"

section \<open>Pure results\<close>

definition res_bind :: "'a res \<Rightarrow> ('a \<Rightarrow> 'b res) \<Rightarrow> 'b res" where
  "res_bind r f = (case r of Inl e \<Rightarrow> Inl e | Inr x \<Rightarrow> f x)"

fun res_map :: "('a \<Rightarrow> 'b res) \<Rightarrow> 'a list \<Rightarrow> 'b list res" where
  "res_map f [] = Inr []"
| "res_map f (x # xs) = res_bind (f x) (\<lambda>y. res_bind (res_map f xs) (\<lambda>ys. Inr (y # ys)))"

fun res_fold :: "('b \<Rightarrow> 'a \<Rightarrow> 'b res) \<Rightarrow> 'b \<Rightarrow> 'a list \<Rightarrow> 'b res" where
  "res_fold f b [] = Inr b"
| "res_fold f b (x # xs) = res_bind (f b x) (\<lambda>b'. res_fold f b' xs)"

lemma res_bind_Inl [simp]: "res_bind (Inl e) f = Inl e"
  and res_bind_Inr [simp]: "res_bind (Inr x) f = f x"
  by (simp_all add: res_bind_def)

lemma res_bind_eq_Inr: "res_bind r f = Inr y \<longleftrightarrow> (\<exists>x. r = Inr x \<and> f x = Inr y)"
  by (cases r) simp_all

lemma res_bind_eq_Inl: "res_bind r f = Inl e \<longleftrightarrow> r = Inl e \<or> (\<exists>x. r = Inr x \<and> f x = Inl e)"
  by (cases r) simp_all

lemma res_map_eq_Inr: "res_map f xs = Inr ys \<longleftrightarrow> list_all2 (\<lambda>x y. f x = Inr y) xs ys"
  by (induction xs arbitrary: ys) (auto simp: res_bind_eq_Inr list_all2_Cons1)

lemma res_map_length: "res_map f xs = Inr ys \<Longrightarrow> length ys = length xs"
  by (simp add: res_map_eq_Inr list_all2_lengthD)

lemma res_fold_append:
  "res_fold f b (xs @ ys) = res_bind (res_fold f b xs) (\<lambda>b'. res_fold f b' ys)"
  by (induction xs arbitrary: b) (auto simp: res_bind_def split: sum.splits)

lemma res_fold_invariant:
  assumes "res_fold f b xs = Inr b'" and "P b"
    and "\<And>b x b'. x \<in> set xs \<Longrightarrow> P b \<Longrightarrow> f b x = Inr b' \<Longrightarrow> P b'"
  shows "P b'"
  using assms by (induction xs arbitrary: b) (auto simp: res_bind_eq_Inr)

definition lookup_key :: "('k \<times> 'v) list \<Rightarrow> 'k \<Rightarrow> 'v res" where
  "lookup_key d k = (case dget d k of None \<Rightarrow> Inl (KeyError ''lookup'') | Some v \<Rightarrow> Inr v)"

section \<open>Effects\<close>

definition io_return :: "'a \<Rightarrow> ('s, 'a) io" where
  "io_return x = (\<lambda>s. (Inr x, s))"

definition io_raise :: "py_exn \<Rightarrow> ('s, 'a) io" where
  "io_raise e = (\<lambda>s. (Inl e, s))"

definition io_lift :: "'a res \<Rightarrow> ('s, 'a) io" where
  "io_lift r = (\<lambda>s. (r, s))"

definition io_read :: "('s \<Rightarrow> 'a res) \<Rightarrow> ('s, 'a) io" where
  "io_read f = (\<lambda>s. (f s, s))"

definition io_bind :: "('s, 'a) io \<Rightarrow> ('a \<Rightarrow> ('s, 'b) io) \<Rightarrow> ('s, 'b) io" where
  "io_bind m f = (\<lambda>s. case m s of (Inl e, t) \<Rightarrow> (Inl e, t) | (Inr x, t) \<Rightarrow> f x t)"

definition io_try :: "('s, 'a) io \<Rightarrow> (py_exn \<Rightarrow> ('s, 'a) io) \<Rightarrow> ('s, 'a) io" where
  "io_try m h = (\<lambda>s. case m s of (Inl e, t) \<Rightarrow> h e t | (Inr x, t) \<Rightarrow> (Inr x, t))"

text \<open>\<open>try: ... except\<close> whose handler needs to know whether the body raised: \<open>P\<close> names the caught classes.\<close>

definition io_attempt :: "(py_exn \<Rightarrow> bool) \<Rightarrow> ('s, 'a) io \<Rightarrow> ('s, py_exn + 'a) io" where
  "io_attempt P m = (\<lambda>s. case m s of
       (Inl e, t) \<Rightarrow> (if P e then Inr (Inl e) else Inl e, t)
     | (Inr x, t) \<Rightarrow> (Inr (Inr x), t))"

fun io_map :: "('a \<Rightarrow> ('s, 'b) io) \<Rightarrow> 'a list \<Rightarrow> ('s, 'b list) io" where
  "io_map f [] = io_return []"
| "io_map f (x # xs) = io_bind (f x) (\<lambda>y. io_bind (io_map f xs) (\<lambda>ys. io_return (y # ys)))"

fun io_fold :: "('b \<Rightarrow> 'a \<Rightarrow> ('s, 'b) io) \<Rightarrow> 'b \<Rightarrow> 'a list \<Rightarrow> ('s, 'b) io" where
  "io_fold f b [] = io_return b"
| "io_fold f b (x # xs) = io_bind (f b x) (\<lambda>b'. io_fold f b' xs)"

lemma io_return_run [io_simps]: "io_return x s = (Inr x, s)"
  by (simp add: io_return_def)

lemma io_raise_run [io_simps]: "io_raise e s = (Inl e, s)"
  by (simp add: io_raise_def)

lemma io_lift_run [io_simps]: "io_lift r s = (r, s)"
  by (simp add: io_lift_def)

lemma io_read_run [io_simps]: "io_read f s = (f s, s)"
  by (simp add: io_read_def)

lemma io_bind_run [io_simps]:
  "io_bind m f s = (case m s of (Inl e, t) \<Rightarrow> (Inl e, t) | (Inr x, t) \<Rightarrow> f x t)"
  by (simp add: io_bind_def)

lemma io_try_run [io_simps]:
  "io_try m h s = (case m s of (Inl e, t) \<Rightarrow> h e t | (Inr x, t) \<Rightarrow> (Inr x, t))"
  by (simp add: io_try_def)

lemma io_attempt_run [io_simps]:
  "io_attempt P m s = (case m s of (Inl e, t) \<Rightarrow> (if P e then Inr (Inl e) else Inl e, t)
                                  | (Inr x, t) \<Rightarrow> (Inr (Inr x), t))"
  by (simp add: io_attempt_def)

lemma io_bind_Inr: "io_bind m f s = (Inr y, u) \<longleftrightarrow> (\<exists>x t. m s = (Inr x, t) \<and> f x t = (Inr y, u))"
  by (auto simp: io_bind_def split: prod.splits sum.splits)

lemma io_bind_Inl: "io_bind m f s = (Inl e, u) \<longleftrightarrow>
    m s = (Inl e, u) \<or> (\<exists>x t. m s = (Inr x, t) \<and> f x t = (Inl e, u))"
  by (auto simp: io_bind_def split: prod.splits sum.splits)

lemma io_bind_assoc: "io_bind (io_bind m f) g = io_bind m (\<lambda>x. io_bind (f x) g)"
  by (auto simp: io_bind_def fun_eq_iff split: prod.splits sum.splits)

lemma io_bind_return [simp]: "io_bind (io_return x) f = f x"
  by (simp add: io_bind_def io_return_def)

lemma io_bind_raise [simp]: "io_bind (io_raise e) f = io_raise e"
  by (simp add: io_bind_def io_raise_def)

section \<open>What an effect keeps\<close>

definition preserves :: "('s \<Rightarrow> 's \<Rightarrow> bool) \<Rightarrow> ('s, 'a) io \<Rightarrow> bool" where
  "preserves R m \<longleftrightarrow> (\<forall>s. R s (snd (m s)))"

lemma preservesD: "preserves R m \<Longrightarrow> R s (snd (m s))"
  by (simp add: preserves_def)

lemma preserves_return [preserves_intros]: "reflp R \<Longrightarrow> preserves R (io_return x)"
  by (simp add: preserves_def io_return_def reflpD)

lemma preserves_raise [preserves_intros]: "reflp R \<Longrightarrow> preserves R (io_raise e)"
  by (simp add: preserves_def io_raise_def reflpD)

lemma preserves_lift [preserves_intros]: "reflp R \<Longrightarrow> preserves R (io_lift r)"
  by (simp add: preserves_def io_lift_def reflpD)

lemma preserves_read [preserves_intros]: "reflp R \<Longrightarrow> preserves R (io_read f)"
  by (simp add: preserves_def io_read_def reflpD)

lemma preserves_bind [preserves_intros]:
  assumes "transp R" and m: "preserves R m" and f: "\<And>x. preserves R (f x)"
  shows "preserves R (io_bind m f)"
  unfolding preserves_def
proof
  fix s
  obtain r t where ms: "m s = (r, t)" by (cases "m s")
  have st: "R s t" using preservesD [OF m, of s] ms by simp
  show "R s (snd (io_bind m f s))"
  proof (cases r)
    case (Inl e)
    with ms st show ?thesis by (simp add: io_bind_def)
  next
    case (Inr x)
    have "R t (snd (f x t))" using f by (rule preservesD)
    with st have "R s (snd (f x t))" by (rule transpD [OF \<open>transp R\<close>])
    with ms Inr show ?thesis by (simp add: io_bind_def)
  qed
qed

lemma preserves_try [preserves_intros]:
  assumes "transp R" and m: "preserves R m" and h: "\<And>e. preserves R (h e)"
  shows "preserves R (io_try m h)"
  unfolding preserves_def
proof
  fix s
  obtain r t where ms: "m s = (r, t)" by (cases "m s")
  have st: "R s t" using preservesD [OF m, of s] ms by simp
  show "R s (snd (io_try m h s))"
  proof (cases r)
    case (Inr x)
    with ms st show ?thesis by (simp add: io_try_def)
  next
    case (Inl e)
    have "R t (snd (h e t))" using h by (rule preservesD)
    with st have "R s (snd (h e t))" by (rule transpD [OF \<open>transp R\<close>])
    with ms Inl show ?thesis by (simp add: io_try_def)
  qed
qed

lemma preserves_attempt [preserves_intros]: "preserves R m \<Longrightarrow> preserves R (io_attempt P m)"
  by (auto simp: preserves_def io_attempt_def split: prod.splits sum.splits) (metis snd_conv)+

lemma preserves_map [preserves_intros]:
  assumes "reflp R" "transp R" and "\<And>x. preserves R (f x)"
  shows "preserves R (io_map f xs)"
  by (induction xs) (auto intro!: preserves_intros assms)

lemma preserves_fold [preserves_intros]:
  assumes "reflp R" "transp R" and "\<And>b x. preserves R (f b x)"
  shows "preserves R (io_fold f b xs)"
  by (induction xs arbitrary: b) (auto intro!: preserves_intros assms)

lemma preserves_if [preserves_intros]:
  "(b \<Longrightarrow> preserves R m) \<Longrightarrow> (\<not> b \<Longrightarrow> preserves R n) \<Longrightarrow> preserves R (if b then m else n)"
  by simp

lemma preserves_case_option [preserves_intros]:
  "preserves R m \<Longrightarrow> (\<And>x. preserves R (f x)) \<Longrightarrow>
     preserves R (case v of None \<Rightarrow> m | Some x \<Rightarrow> f x)"
  by (cases v) simp_all

lemma preserves_case_sum [preserves_intros]:
  "(\<And>x. preserves R (f x)) \<Longrightarrow> (\<And>x. preserves R (g x)) \<Longrightarrow>
     preserves R (case v of Inl x \<Rightarrow> f x | Inr x \<Rightarrow> g x)"
  by (cases v) simp_all

lemma preserves_case_prod [preserves_intros]:
  "(\<And>x y. preserves R (f x y)) \<Longrightarrow> preserves R (case p of (x, y) \<Rightarrow> f x y)"
  by (cases p) simp

lemma preserves_case_list [preserves_intros]:
  "preserves R m \<Longrightarrow> (\<And>x xs. preserves R (f x xs)) \<Longrightarrow>
     preserves R (case v of [] \<Rightarrow> m | x # xs \<Rightarrow> f x xs)"
  by (cases v) simp_all

lemma preserves_fold_mem:
  assumes "reflp R" "transp R" and "\<And>b x. x \<in> set xs \<Longrightarrow> preserves R (f b x)"
  shows "preserves R (io_fold f b xs)"
  using assms(3)
proof (induction xs arbitrary: b)
  case (Cons x xs)
  show ?case
    unfolding io_fold.simps by (rule preserves_bind [OF assms(2)]) (use Cons in auto)
qed (simp add: preserves_return assms(1))

lemma preserves_let [preserves_intros]: "preserves R (f x) \<Longrightarrow> preserves R (let y = x in f y)"
  by simp

section \<open>What an effect returns\<close>

text \<open>\<open>returns P m\<close>: whatever state it starts in, a value returned by \<open>m\<close> satisfies \<open>P\<close>.\<close>

definition returns :: "('a \<Rightarrow> bool) \<Rightarrow> ('s, 'a) io \<Rightarrow> bool" where
  "returns P m \<longleftrightarrow> (\<forall>s x t. m s = (Inr x, t) \<longrightarrow> P x)"

lemma returnsD: "returns P m \<Longrightarrow> m s = (Inr x, t) \<Longrightarrow> P x"
  unfolding returns_def by blast

lemma returns_return: "P x \<Longrightarrow> returns P (io_return x)"
  by (simp add: returns_def io_return_def)

lemma returns_raise: "returns P (io_raise e)"
  by (simp add: returns_def io_raise_def)

lemma returns_read: "(\<And>s x. f s = Inr x \<Longrightarrow> P x) \<Longrightarrow> returns P (io_read f)"
  by (simp add: returns_def io_read_def)

lemma returns_bind: "(\<And>x. returns P (f x)) \<Longrightarrow> returns P (io_bind m f)"
  by (auto simp: returns_def io_bind_Inr)

lemma returns_bind_via: "returns Q m \<Longrightarrow> (\<And>x. Q x \<Longrightarrow> returns P (f x)) \<Longrightarrow> returns P (io_bind m f)"
  unfolding returns_def io_bind_Inr by blast

lemma returns_true: "returns (\<lambda>x. True) m"
  by (simp add: returns_def)

lemma preserves_bind_via:
  assumes "transp R" "preserves R m" "returns Q m" "\<And>x. Q x \<Longrightarrow> preserves R (f x)"
  shows "preserves R (io_bind m f)"
  unfolding preserves_def
proof
  fix s
  obtain r t where ms: "m s = (r, t)" by (cases "m s")
  have st: "R s t" using preservesD [OF assms(2), of s] ms by simp
  show "R s (snd (io_bind m f s))"
  proof (cases r)
    case (Inr x)
    then have "Q x" using returnsD [OF assms(3)] ms by simp
    then have "R t (snd (f x t))" by (rule preservesD [OF assms(4)])
    with st have "R s (snd (f x t))" by (rule transpD [OF assms(1)])
    with ms Inr show ?thesis by (simp add: io_bind_def)
  qed (use ms st in \<open>simp add: io_bind_def\<close>)
qed

lemma res_map_mem: "res_map f xs = Inr ys \<Longrightarrow> y \<in> set ys \<Longrightarrow> \<exists>x \<in> set xs. f x = Inr y"
  by (auto simp: res_map_eq_Inr list_all2_conv_all_nth in_set_conv_nth) (metis nth_mem)

lemma res_map_mem_fst: "res_map f xs = Inr ys \<Longrightarrow> x \<in> set xs \<Longrightarrow> \<exists>y \<in> set ys. f x = Inr y"
  by (auto simp: res_map_eq_Inr list_all2_conv_all_nth in_set_conv_nth)

lemma res_map_inverse:
  "res_map f xs = Inr ys \<Longrightarrow> (\<And>x y. f x = Inr y \<Longrightarrow> g y = x) \<Longrightarrow> map g ys = xs"
  by (induction xs arbitrary: ys) (auto simp: res_bind_eq_Inr)

definition succeeded :: "(py_exn + 'a) \<times> 's \<Rightarrow> bool" where
  "succeeded r \<longleftrightarrow> (case fst r of Inl e \<Rightarrow> False | Inr x \<Rightarrow> True)"

lemma succeededE: "succeeded r \<Longrightarrow> (\<And>x t. r = (Inr x, t) \<Longrightarrow> thesis) \<Longrightarrow> thesis"
  by (cases r) (auto simp: succeeded_def split: sum.splits)

lemma run_obtain:
  "(case m of (Inl e, t) \<Rightarrow> False | (Inr x, t) \<Rightarrow> P x t) \<Longrightarrow> \<exists>x t. m = (Inr x, t) \<and> P x t"
  by (cases m) (auto split: sum.splits)

end
