(* ===== verification/Discovery.thy ===== *)
theory Discovery
  imports PyIO
begin

text \<open>
  The provider-neutral inventory (netbox_sync/discovery.py).  A QEMU or ESXi virtual machine
  and an LXC container share most fields; the shared part is the record \<open>discovered_guest\<close>,
  which both extend.  Proxmox numbers its guests (\<open>IntId\<close>) and ESXi names them (\<open>StrId\<close>);
  one run handles one source, so the two are never compared, and the order below puts numbers
  first only to be total.
\<close>

datatype vmid = IntId int | StrId string

fun vmid_text :: "vmid \<Rightarrow> string" where
  "vmid_text (IntId i) = py_str_int i"
| "vmid_text (StrId s) = s"

instantiation vmid :: linorder
begin

fun less_eq_vmid :: "vmid \<Rightarrow> vmid \<Rightarrow> bool" where
  "less_eq_vmid (IntId i) (IntId j) = (i \<le> j)"
| "less_eq_vmid (IntId i) (StrId t) = True"
| "less_eq_vmid (StrId s) (IntId j) = False"
| "less_eq_vmid (StrId s) (StrId t) = (s \<le> t)"

definition less_vmid :: "vmid \<Rightarrow> vmid \<Rightarrow> bool" where
  "less_vmid a b \<longleftrightarrow> a \<le> b \<and> \<not> b \<le> a"

instance
proof
  fix x y z :: vmid
  show "x < y \<longleftrightarrow> x \<le> y \<and> \<not> y \<le> x" by (rule less_vmid_def)
  show "x \<le> x" by (cases x) auto
  show "x \<le> y \<Longrightarrow> y \<le> z \<Longrightarrow> x \<le> z" by (cases x; cases y; cases z) auto
  show "x \<le> y \<Longrightarrow> y \<le> x \<Longrightarrow> x = y" by (cases x; cases y) auto
  show "x \<le> y \<or> y \<le> x" by (cases x; cases y) auto
qed

end

record discovered_disk =
  disk_path :: string
  disk_model :: "string option"
  disk_serial :: "string option"
  disk_size_bytes :: int
  disk_type :: "string option"
  disk_health :: "string option"

record discovered_cpu =
  cpu_model :: "string option"
  cpu_vendor :: "string option"
  cpu_sockets :: int
  cpu_cores :: int
  cpu_logical_cpus :: int

record discovered_host_interface =
  hi_name :: string
  hi_interface_type :: "string option"
  hi_active :: bool
  hi_autostart :: bool
  hi_method :: "string option"
  hi_addresses :: "string list"
  hi_gateway :: "string option"
  hi_bridge_ports :: "string list"
  hi_vlan_id :: "int option"
  hi_vlan_aware :: bool
  hi_comments :: "string option"
  hi_mac_address :: "string option"
  hi_management :: bool

record discovered_virtual_disk =
  vd_name :: string
  vd_storage :: "string option"
  vd_size_bytes :: int

record discovered_interface =
  nic_name :: string
  nic_mac_address :: "string option"
  nic_bridge :: "string option"
  nic_vlan_id :: "int option"
  nic_ip_addresses :: "string list"
  nic_external_id :: "string option"

record discovered_guest =
  g_source :: string
  g_source_instance :: string
  g_legacy_identity_owner :: bool
  g_source_id :: string
  g_node_source_id :: string
  g_vmid :: vmid
  g_original_name :: string
  g_normalized_name :: string
  g_status :: string
  g_vcpus :: int
  g_memory_bytes :: int
  g_autostart :: bool
  g_disks :: "discovered_virtual_disk list"
  g_interfaces :: "discovered_interface list"

record discovered_vm = discovered_guest +
  vm_external_id :: "string option"

record discovered_container = discovered_guest +
  ct_architecture :: "string option"
  ct_os_type :: "string option"
  ct_swap_bytes :: int
  ct_unprivileged :: bool

record discovered_host =
  h_source :: string
  h_source_instance :: string
  h_legacy_identity_owner :: bool
  h_source_id :: string
  h_original_name :: string
  h_normalized_name :: string
  h_management_ip :: "string option"
  h_hypervisor :: string
  h_hypervisor_version :: "string option"
  h_cpu :: discovered_cpu
  h_memory_bytes :: int
  h_disks :: "discovered_disk list"
  h_interfaces :: "discovered_host_interface list"
  h_virtual_machines :: "discovered_vm list"
  h_containers :: "discovered_container list"

text \<open>Code that takes either kind of guest branches on \<open>hasattr(vm, 'architecture')\<close>.\<close>

datatype guest = VmGuest discovered_vm | LxcGuest discovered_container

definition opt_json :: "string option \<Rightarrow> json" where
  "opt_json v = (case v of None \<Rightarrow> JNull | Some s \<Rightarrow> JStr s)"

definition opt_int_json :: "int option \<Rightarrow> json" where
  "opt_int_json v = (case v of None \<Rightarrow> JNull | Some i \<Rightarrow> JInt i)"

text \<open>\<open>bytes // 1024**2\<close>: Python's floor division.\<close>

definition mib :: "int \<Rightarrow> int" where
  "mib b = b div (1024 * 1024)"

definition disks_mib :: "discovered_virtual_disk list \<Rightarrow> int" where
  "disks_mib ds = sum_list (map vd_size_bytes ds) div (1024 * 1024)"

end
