(* ===== verification/SourceIdentity.thy ===== *)
theory SourceIdentity
  imports Discovery "HOL-Library.Multiset"
begin

text \<open>
  Versioned source identities (netbox_sync/source_identity.py): the v2 record stored in the
  custom field \<open>sync_identities\<close>, its parser, the match rank of a NetBox object for a
  discovered object, and the merge that owns one (type, instance, kind) namespace.
\<close>

section \<open>Identities\<close>

definition IDENTITY_SCHEMA_V2 :: string where
  "IDENTITY_SCHEMA_V2 = ''v2''"

definition NO_IDENTITY_MATCH :: nat where "NO_IDENTITY_MATCH = 0"
definition LEGACY_IDENTITY_MATCH :: nat where "LEGACY_IDENTITY_MATCH = 1"
definition V2_IDENTITY_MATCH :: nat where "V2_IDENTITY_MATCH = 2"

definition required_text :: "json \<Rightarrow> string \<Rightarrow> string res" where
  "required_text v field =
     (case v of
        JStr s \<Rightarrow> if py_strip s = [] then Inl (ValueError (field @ '' must be a non-empty string'')) else Inr s
      | _ \<Rightarrow> Inl (ValueError (field @ '' must be a non-empty string'')))"

record source_identity =
  si_schema :: string
  si_type :: string
  si_instance :: string
  si_kind :: string
  si_external_id :: string

text \<open>The constructor runs \<open>__post_init__\<close>: schema first, then the four texts in order.\<close>

definition make_identity :: "json \<Rightarrow> json \<Rightarrow> json \<Rightarrow> json \<Rightarrow> json \<Rightarrow> source_identity res" where
  "make_identity schema ty inst kind ext =
     (if schema \<noteq> JStr IDENTITY_SCHEMA_V2 then Inl (ValueError ''unsupported source identity schema'')
      else res_bind (required_text ty ''type'') (\<lambda>t.
           res_bind (required_text inst ''instance'') (\<lambda>i.
           res_bind (required_text kind ''kind'') (\<lambda>k.
           res_bind (required_text ext ''external_id'') (\<lambda>e.
             Inr \<lparr>si_schema = IDENTITY_SCHEMA_V2, si_type = t, si_instance = i, si_kind = k,
                  si_external_id = e\<rparr>)))))"

definition to_record :: "source_identity \<Rightarrow> obj" where
  "to_record i =
     [(''schema'', JStr (si_schema i)), (''type'', JStr (si_type i)),
      (''instance'', JStr (si_instance i)), (''kind'', JStr (si_kind i)),
      (''external_id'', JStr (si_external_id i))]"

definition dget_required :: "obj \<Rightarrow> string \<Rightarrow> json res" where
  "dget_required d k = (case dget d k of None \<Rightarrow> Inl (KeyError k) | Some v \<Rightarrow> Inr v)"

text \<open>
  \<open>from_record\<close>: \<open>None\<close> for anything that is not a v2 record; a v2 record that is incomplete or
  ill-typed raises \<open>ValueError\<close>.
\<close>

definition from_record :: "json \<Rightarrow> source_identity option res" where
  "from_record v =
     (case v of
        JObj d \<Rightarrow>
          if jget d ''schema'' \<noteq> JStr IDENTITY_SCHEMA_V2 then Inr None
          else (case
              res_bind (dget_required d ''schema'') (\<lambda>s.
              res_bind (dget_required d ''type'') (\<lambda>t.
              res_bind (dget_required d ''instance'') (\<lambda>i.
              res_bind (dget_required d ''kind'') (\<lambda>k.
              res_bind (dget_required d ''external_id'') (\<lambda>e.
                make_identity s t i k (JStr (py_str e)))))))
            of Inl _ \<Rightarrow> Inl (ValueError ''invalid source identity v2 record'')
             | Inr i \<Rightarrow> Inr (Some i))
      | _ \<Rightarrow> Inr None)"

definition valid_identity :: "source_identity \<Rightarrow> bool" where
  "valid_identity i \<longleftrightarrow> si_schema i = IDENTITY_SCHEMA_V2 \<and> py_strip (si_type i) \<noteq> [] \<and>
     py_strip (si_instance i) \<noteq> [] \<and> py_strip (si_kind i) \<noteq> [] \<and> py_strip (si_external_id i) \<noteq> []"

definition identity_of :: "string \<Rightarrow> string \<Rightarrow> string \<Rightarrow> string \<Rightarrow> source_identity res" where
  "identity_of source inst kind ext =
     make_identity (JStr IDENTITY_SCHEMA_V2) (JStr source) (JStr inst) (JStr kind) (JStr ext)"

definition host_source_identity :: "discovered_host \<Rightarrow> source_identity res" where
  "host_source_identity h = identity_of (h_source h) (h_source_instance h) ''host'' (h_source_id h)"

definition qemu_source_identity :: "discovered_vm \<Rightarrow> source_identity res" where
  "qemu_source_identity vm = identity_of (g_source vm) (g_source_instance vm) ''qemu'' (vmid_text (g_vmid vm))"

definition lxc_source_identity :: "discovered_container \<Rightarrow> source_identity res" where
  "lxc_source_identity c = identity_of (g_source c) (g_source_instance c) ''lxc'' (vmid_text (g_vmid c))"

text \<open>\<open>x or y\<close> on an optional string: the empty string falls through like \<open>None\<close>.\<close>

definition or_text :: "string option \<Rightarrow> string \<Rightarrow> string" where
  "or_text v d = (case v of None \<Rightarrow> d | Some s \<Rightarrow> if s = [] then d else s)"

definition qemu_nic_source_identity :: "discovered_vm \<Rightarrow> discovered_interface \<Rightarrow> source_identity res" where
  "qemu_nic_source_identity vm nic =
     identity_of (g_source vm) (g_source_instance vm) ''qemu-nic''
       (vmid_text (g_vmid vm) @ '':'' @ or_text (nic_external_id nic) (nic_name nic))"

definition virtual_machine_source_identity :: "discovered_vm \<Rightarrow> source_identity res" where
  "virtual_machine_source_identity vm =
     (if g_source vm = ''esxi''
      then identity_of (g_source vm) (g_source_instance vm) ''vm''
             (or_text (vm_external_id vm) (vmid_text (g_vmid vm)))
      else qemu_source_identity vm)"

definition virtual_machine_nic_source_identity ::
    "discovered_vm \<Rightarrow> discovered_interface \<Rightarrow> source_identity res" where
  "virtual_machine_nic_source_identity vm nic =
     (if g_source vm = ''esxi''
      then identity_of (g_source vm) (g_source_instance vm) ''vm-nic''
             (or_text (vm_external_id vm) (vmid_text (g_vmid vm)) @ '':'' @
              or_text (nic_external_id nic) (nic_name nic))
      else qemu_nic_source_identity vm nic)"

definition lxc_nic_source_identity ::
    "discovered_container \<Rightarrow> discovered_interface \<Rightarrow> source_identity res" where
  "lxc_nic_source_identity c nic =
     identity_of (g_source c) (g_source_instance c) ''lxc-nic''
       (vmid_text (g_vmid c) @ '':'' @ or_text (nic_external_id nic) (nic_name nic))"

definition original_name_key :: "source_identity \<Rightarrow> string" where
  "original_name_key i = si_type i @ ''/'' @ si_instance i @ ''/'' @ si_kind i"

section \<open>Match rank\<close>

fun first_v2_match :: "json list \<Rightarrow> source_identity \<Rightarrow> bool res" where
  "first_v2_match [] desired = Inr False"
| "first_v2_match (v # vs) desired =
     res_bind (from_record v) (\<lambda>p.
       if p = Some desired then Inr True else first_v2_match vs desired)"

definition legacy_match :: "json \<Rightarrow> source_identity \<Rightarrow> string list \<Rightarrow> bool" where
  "legacy_match v desired wanted =
     (case v of
        JObj d \<Rightarrow> jget d ''schema'' \<noteq> JStr IDENTITY_SCHEMA_V2
          \<and> jget d ''source'' = JStr (si_type desired)
          \<and> py_str (case dget d ''source_id'' of Some x \<Rightarrow> x | None \<Rightarrow> jget d ''id'') \<in> set wanted
      | _ \<Rightarrow> False)"

definition source_identity_match_rank ::
    "obj \<Rightarrow> source_identity \<Rightarrow> string list \<Rightarrow> bool \<Rightarrow> nat res" where
  "source_identity_match_rank cf desired legacy_source_ids legacy_identity_owner =
     (case jget cf ''sync_identities'' of
        JList ids \<Rightarrow>
          res_bind (first_v2_match ids desired) (\<lambda>found.
            if found then Inr V2_IDENTITY_MATCH
            else if \<not> legacy_identity_owner then Inr NO_IDENTITY_MATCH
            else if list_ex (\<lambda>v. legacy_match v desired legacy_source_ids) ids
            then Inr LEGACY_IDENTITY_MATCH
            else Inr NO_IDENTITY_MATCH)
      | _ \<Rightarrow> Inr NO_IDENTITY_MATCH)"

section \<open>Merging\<close>

definition same_namespace :: "source_identity \<Rightarrow> source_identity \<Rightarrow> bool" where
  "same_namespace a b \<longleftrightarrow>
     si_type a = si_type b \<and> si_instance a = si_instance b \<and> si_kind a = si_kind b"

definition merge_step :: "source_identity \<Rightarrow> obj list \<Rightarrow> json \<Rightarrow> obj list res" where
  "merge_step desired acc v =
     (case v of
        JObj d \<Rightarrow>
          res_bind (from_record v) (\<lambda>p.
            case p of
              Some i \<Rightarrow> if same_namespace i desired then Inr acc else Inr (acc @ [d])
            | None \<Rightarrow> Inr (acc @ [d]))
      | _ \<Rightarrow> Inl (ValueError ''sync_identities contains an unsupported value''))"

definition merge_source_identities :: "obj \<Rightarrow> source_identity \<Rightarrow> obj list res" where
  "merge_source_identities cf desired =
     (case (case dget cf ''sync_identities'' of None \<Rightarrow> JList [] | Some v \<Rightarrow> v) of
        JList ids \<Rightarrow>
          res_bind (res_fold (merge_step desired) [] ids) (\<lambda>result.
            Inr (sort_key items_repr (result @ [to_record desired])))
      | _ \<Rightarrow> Inl (ValueError ''sync_identities must be a JSON list''))"

definition merge_original_name :: "obj \<Rightarrow> source_identity \<Rightarrow> string \<Rightarrow> obj res" where
  "merge_original_name cf desired original_name =
     (case (case dget cf ''sync_original_names'' of None \<Rightarrow> JObj [] | Some v \<Rightarrow> v) of
        JObj d \<Rightarrow> Inr (dset (original_name_key desired) (JStr original_name) d)
      | _ \<Rightarrow> Inl (ValueError ''sync_original_names must be a JSON object''))"

section \<open>Selecting the best matches\<close>

definition select_step :: "('a \<Rightarrow> nat res) \<Rightarrow> nat \<times> 'a list \<Rightarrow> 'a \<Rightarrow> (nat \<times> 'a list) res" where
  "select_step ranker st candidate =
     res_bind (ranker candidate) (\<lambda>rank.
       if rank > fst st then Inr (rank, [candidate])
       else if rank \<noteq> 0 \<and> rank = fst st then Inr (fst st, snd st @ [candidate])
       else Inr st)"

definition select_best_identity_matches :: "'a list \<Rightarrow> ('a \<Rightarrow> nat res) \<Rightarrow> 'a list res" where
  "select_best_identity_matches candidates ranker =
     res_bind (res_fold (select_step ranker) (NO_IDENTITY_MATCH, []) candidates) (\<lambda>st. Inr (snd st))"


section \<open>Parsing and printing\<close>

lemmas res_eqs = res_bind_eq_Inr res_bind_eq_Inl

lemma required_text_Inr:
  "required_text v f = Inr s \<longleftrightarrow> v = JStr s \<and> py_strip s \<noteq> []"
  by (cases v) (auto simp: required_text_def)

lemma make_identity_Inr:
  "make_identity sc t i k e = Inr si \<longleftrightarrow>
     sc = JStr IDENTITY_SCHEMA_V2 \<and> valid_identity si \<and> t = JStr (si_type si) \<and>
     i = JStr (si_instance si) \<and> k = JStr (si_kind si) \<and> e = JStr (si_external_id si)"
  by (cases si) (auto simp: make_identity_def res_bind_eq_Inr required_text_Inr valid_identity_def)

lemma identity_of_Inr:
  "identity_of t i k e = Inr si \<longleftrightarrow>
     valid_identity si \<and> t = si_type si \<and> i = si_instance si \<and> k = si_kind si \<and> e = si_external_id si"
  by (auto simp: identity_of_def make_identity_Inr)

lemma from_record_valid: "from_record v = Inr (Some i) \<Longrightarrow> valid_identity i"
  by (auto simp: from_record_def res_bind_eq_Inr make_identity_Inr split: json.splits if_splits sum.splits)

lemma from_record_to_record [simp]:
  assumes "valid_identity i"
  shows "from_record (JObj (to_record i)) = Inr (Some i)"
proof -
  have "make_identity (JStr IDENTITY_SCHEMA_V2) (JStr (si_type i)) (JStr (si_instance i))
      (JStr (si_kind i)) (JStr (si_external_id i)) = Inr i"
    using assms by (simp add: make_identity_Inr)
  moreover have "si_schema i = IDENTITY_SCHEMA_V2"
    using assms by (simp add: valid_identity_def)
  ultimately show ?thesis
    by (simp add: from_record_def to_record_def dget_required_def py_str_def)
qed

lemma virtual_machine_source_identity_valid:
  "virtual_machine_source_identity vm = Inr i \<Longrightarrow>
     valid_identity i \<and> si_type i = g_source vm \<and> si_instance i = g_source_instance vm"
  by (auto simp: virtual_machine_source_identity_def qemu_source_identity_def identity_of_Inr
      split: if_splits)

lemma host_source_identity_valid:
  "host_source_identity h = Inr i \<Longrightarrow>
     valid_identity i \<and> si_type i = h_source h \<and> si_instance i = h_source_instance h \<and> si_kind i = ''host''"
  by (auto simp: host_source_identity_def identity_of_Inr)

lemma lxc_source_identity_valid:
  "lxc_source_identity c = Inr i \<Longrightarrow>
     valid_identity i \<and> si_type i = g_source c \<and> si_instance i = g_source_instance c \<and> si_kind i = ''lxc''"
  by (auto simp: lxc_source_identity_def identity_of_Inr)

section \<open>Rank lemmas\<close>

lemma first_v2_match_True_intro:
  "from_record v = Inr (Some d) \<Longrightarrow> (\<forall>u \<in> set pre. \<exists>p. from_record u = Inr p) \<Longrightarrow>
     first_v2_match (pre @ v # post) d = Inr True"
  by (induction pre) auto

lemma first_v2_match_True_elim:
  "first_v2_match vs d = Inr True \<Longrightarrow>
     \<exists>pre v post. vs = pre @ v # post \<and> from_record v = Inr (Some d) \<and>
        (\<forall>u \<in> set pre. \<exists>p. from_record u = Inr p)"
proof (induction vs)
  case (Cons w ws)
  from Cons.prems obtain p where p: "from_record w = Inr p"
    by (auto simp: res_bind_eq_Inr)
  show ?case
  proof (cases "p = Some d")
    case True
    with p show ?thesis by (intro exI [of _ "[]"]) simp
  next
    case False
    with Cons p obtain pre v post where "ws = pre @ v # post" "from_record v = Inr (Some d)"
      "\<forall>u \<in> set pre. \<exists>p. from_record u = Inr p" by auto
    with p show ?thesis by (intro exI [of _ "w # pre"] exI [of _ v] exI [of _ post]) auto
  qed
qed simp

lemma first_v2_match_True:
  "first_v2_match vs d = Inr True \<longleftrightarrow>
     (\<exists>pre v post. vs = pre @ v # post \<and> from_record v = Inr (Some d) \<and>
        (\<forall>u \<in> set pre. \<exists>p. from_record u = Inr p))"
  using first_v2_match_True_intro first_v2_match_True_elim by blast

lemma first_v2_match_complete:
  assumes "\<forall>v \<in> set vs. \<exists>p. from_record v = Inr p"
  shows "first_v2_match vs d = Inr (\<exists>v \<in> set vs. from_record v = Inr (Some d))"
  using assms by (induction vs) auto

lemma rank_V2:
  "source_identity_match_rank cf d wanted owner = Inr V2_IDENTITY_MATCH \<longleftrightarrow>
     (\<exists>ids. jget cf ''sync_identities'' = JList ids \<and> first_v2_match ids d = Inr True)"
  by (auto simp: source_identity_match_rank_def res_bind_eq_Inr V2_IDENTITY_MATCH_def
      NO_IDENTITY_MATCH_def LEGACY_IDENTITY_MATCH_def split: json.splits if_splits)

lemma rank_legacy:
  "source_identity_match_rank cf d wanted owner = Inr LEGACY_IDENTITY_MATCH \<longleftrightarrow>
     owner \<and> (\<exists>ids. jget cf ''sync_identities'' = JList ids \<and> first_v2_match ids d = Inr False \<and>
        (\<exists>v \<in> set ids. legacy_match v d wanted))"
  by (auto simp: source_identity_match_rank_def res_bind_eq_Inr V2_IDENTITY_MATCH_def
      NO_IDENTITY_MATCH_def LEGACY_IDENTITY_MATCH_def list_ex_iff split: json.splits if_splits)

lemma rank_values:
  "source_identity_match_rank cf d wanted owner = Inr r \<Longrightarrow>
     r \<in> {NO_IDENTITY_MATCH, LEGACY_IDENTITY_MATCH, V2_IDENTITY_MATCH}"
  by (auto simp: source_identity_match_rank_def res_bind_eq_Inr split: json.splits if_splits)


section \<open>Merge lemmas\<close>

text \<open>The records the merge keeps: everything outside the desired namespace.\<close>

definition outside_namespace :: "source_identity \<Rightarrow> obj \<Rightarrow> bool" where
  "outside_namespace desired d \<longleftrightarrow>
     (\<forall>i. from_record (JObj d) = Inr (Some i) \<longrightarrow> \<not> same_namespace i desired)"

definition parseable :: "obj \<Rightarrow> bool" where
  "parseable d \<longleftrightarrow> (\<exists>p. from_record (JObj d) = Inr p)"

lemma merge_step_JObj:
  "parseable d \<Longrightarrow> merge_step desired acc (JObj d) =
     Inr (if outside_namespace desired d then acc @ [d] else acc)"
  by (auto simp: merge_step_def parseable_def outside_namespace_def split: option.splits)

lemma merge_step_Inr_JObj:
  "merge_step desired acc v = Inr r \<Longrightarrow> \<exists>d. v = JObj d \<and> parseable d"
  by (auto simp: merge_step_def parseable_def res_bind_eq_Inr split: json.splits)

lemma merge_fold:
  "\<forall>d \<in> set ds. parseable d \<Longrightarrow>
     res_fold (merge_step desired) acc (map JObj ds) = Inr (acc @ filter (outside_namespace desired) ds)"
  by (induction ds arbitrary: acc) (auto simp: merge_step_JObj)

lemma merge_fold_objects:
  "res_fold (merge_step desired) acc vs = Inr r \<Longrightarrow>
     \<exists>ds. vs = map JObj ds \<and> (\<forall>d \<in> set ds. parseable d)"
proof (induction vs arbitrary: acc)
  case (Cons v vs)
  from Cons.prems obtain acc' where "merge_step desired acc v = Inr acc'"
    and rest: "res_fold (merge_step desired) acc' vs = Inr r"
    by (auto simp: res_bind_eq_Inr)
  then obtain d where d: "v = JObj d" "parseable d" using merge_step_Inr_JObj by blast
  from Cons.IH [OF rest] obtain ds where "vs = map JObj ds" "\<forall>d \<in> set ds. parseable d" by blast
  with d show ?case by (intro exI [of _ "d # ds"]) simp
qed simp

definition stored_identities :: "obj \<Rightarrow> obj list \<Rightarrow> bool" where
  "stored_identities cf ds \<longleftrightarrow>
     (dget cf ''sync_identities'' = None \<and> ds = [] \<or>
      dget cf ''sync_identities'' = Some (JList (map JObj ds)))
     \<and> (\<forall>d \<in> set ds. parseable d)"

lemma merge_source_identities_eq:
  "stored_identities cf ds \<Longrightarrow> merge_source_identities cf desired =
     Inr (sort_key items_repr (filter (outside_namespace desired) ds @ [to_record desired]))"
  by (auto simp: merge_source_identities_def stored_identities_def merge_fold)

lemma merge_source_identities_Inr:
  assumes "merge_source_identities cf desired = Inr rs"
  shows "\<exists>ds. stored_identities cf ds"
proof (cases "dget cf ''sync_identities''")
  case None
  then show ?thesis by (auto simp: stored_identities_def)
next
  case (Some v)
  with assms obtain ids r where v: "v = JList ids" "res_fold (merge_step desired) [] ids = Inr r"
    by (auto simp: merge_source_identities_def res_bind_eq_Inr split: json.splits)
  with merge_fold_objects [OF v(2)] Some show ?thesis by (auto simp: stored_identities_def)
qed

lemma parseable_to_record [simp]: "valid_identity i \<Longrightarrow> parseable (to_record i)"
  by (auto simp: parseable_def)

lemma outside_namespace_to_record [simp]:
  "valid_identity i \<Longrightarrow> outside_namespace d (to_record i) \<longleftrightarrow> \<not> same_namespace i d"
  by (auto simp: outside_namespace_def)

lemma same_namespace_refl [simp]: "same_namespace i i"
  by (simp add: same_namespace_def)

lemma filter_key_sort_key: "filter (\<lambda>x. k = f x) (sort_key f xs) = filter (\<lambda>x. k = f x) xs"
  using sort_key_stable [of f k xs] by (simp add: eq_commute)

lemma sort_key_sort_append: "sort_key f (sort_key f xs @ ys) = sort_key f (xs @ ys)"
  by (rule properties_for_sort_key) (simp_all add: filter_key_sort_key)

lemma stored_identities_dset:
  "(\<forall>d \<in> set rs. parseable d) \<Longrightarrow>
     stored_identities (dset ''sync_identities'' (JList (map JObj rs)) cf) rs"
  by (simp add: stored_identities_def)

lemma stored_identities_parseable: "stored_identities cf ds \<Longrightarrow> d \<in> set ds \<Longrightarrow> parseable d"
  by (simp add: stored_identities_def)

lemma merged_parseable:
  "stored_identities cf ds \<Longrightarrow> valid_identity d \<Longrightarrow> merge_source_identities cf d = Inr rs \<Longrightarrow>
     \<forall>r \<in> set rs. parseable r"
  by (auto simp: merge_source_identities_eq stored_identities_parseable)

lemma merge_again:
  assumes "valid_identity desired" and "merge_source_identities cf desired = Inr rs"
    and "dget cf' ''sync_identities'' = Some (JList (map JObj rs))"
  shows "source_identity_match_rank cf' desired wanted owner = Inr V2_IDENTITY_MATCH
         \<and> merge_source_identities cf' desired = Inr rs"
proof -
  from merge_source_identities_Inr [OF assms(2)] obtain ds where ds: "stored_identities cf ds" ..
  let ?A = "filter (outside_namespace desired) ds"
  have rs: "rs = sort_key items_repr (?A @ [to_record desired])"
    using assms(2) merge_source_identities_eq [OF ds, of desired] by simp
  have p: "\<forall>r \<in> set rs. parseable r" by (rule merged_parseable [OF ds assms(1,2)])
  have "first_v2_match (map JObj rs) desired = Inr (\<exists>v \<in> set (map JObj rs). from_record v = Inr (Some desired))"
    by (rule first_v2_match_complete) (use p in \<open>auto simp: parseable_def\<close>)
  then have "first_v2_match (map JObj rs) desired = Inr True"
    using from_record_to_record [OF assms(1)] rs by simp
  then have rank: "source_identity_match_rank cf' desired wanted owner = Inr V2_IDENTITY_MATCH"
    by (simp add: rank_V2 jget_def assms(3))
  have "filter (outside_namespace desired) rs = sort_key items_repr ?A"
    using assms(1) by (simp add: rs filter_sort)
  moreover have "stored_identities cf' rs"
    using p assms(3) by (simp add: stored_identities_def)
  ultimately
  have "merge_source_identities cf' desired = Inr rs"
    by (simp add: merge_source_identities_eq) (simp add: sort_key_sort_append rs)
  with rank show ?thesis ..
qed

section \<open>Selection lemmas\<close>

definition max_rank :: "nat list \<Rightarrow> nat" where
  "max_rank rs = fold max rs 0"

lemma max_rank_snoc: "max_rank (rs @ [r]) = max r (max_rank rs)"
  by (simp add: max_rank_def)

lemma max_rank_ge: "r \<in> set rs \<Longrightarrow> r \<le> max_rank rs"
  by (induction rs rule: rev_induct) (auto simp: max_rank_snoc)

definition best_of :: "('a \<Rightarrow> nat) \<Rightarrow> 'a list \<Rightarrow> 'a list" where
  "best_of f cs = (if max_rank (map f cs) = 0 then [] else filter (\<lambda>c. f c = max_rank (map f cs)) cs)"

lemma filter_above_max: "max_rank (map f cs) < k \<Longrightarrow> filter (\<lambda>c. f c = k) cs = []"
  using max_rank_ge [of _ "map f cs"] by (fastforce simp: filter_empty_conv)

lemma select_fold:
  "\<forall>c \<in> set cs. ranker c = Inr (f c) \<Longrightarrow>
     res_fold (select_step ranker) (0, []) cs = Inr (max_rank (map f cs), best_of f cs)"
proof (induction cs rule: rev_induct)
  case (snoc c cs)
  then show ?case
    by (auto simp: res_fold_append select_step_def best_of_def max_rank_snoc max_def filter_above_max
        not_less le_less)
qed (simp add: max_rank_def best_of_def)

lemma select_best_eq:
  "\<forall>c \<in> set cs. ranker c = Inr (f c) \<Longrightarrow> select_best_identity_matches cs ranker = Inr (best_of f cs)"
  using select_fold [of cs ranker f] by (simp add: select_best_identity_matches_def NO_IDENTITY_MATCH_def)

lemma select_fold_total:
  "res_fold (select_step ranker) st cs = Inr st' \<Longrightarrow> \<forall>c \<in> set cs. \<exists>r. ranker c = Inr r"
  by (induction cs arbitrary: st) (auto simp: res_bind_eq_Inr select_step_def)

lemma select_best_subset:
  assumes "select_best_identity_matches cs ranker = Inr ms"
  obtains f where "\<forall>c \<in> set cs. ranker c = Inr (f c)" "ms = best_of f cs"
proof -
  from assms obtain st where "res_fold (select_step ranker) (NO_IDENTITY_MATCH, []) cs = Inr st"
    by (auto simp: select_best_identity_matches_def res_bind_eq_Inr)
  from select_fold_total [OF this] obtain f where f: "\<forall>c \<in> set cs. ranker c = Inr (f c)" by metis
  from select_best_eq [OF f] assms have "ms = best_of f cs" by simp
  with f show ?thesis by (rule that)
qed

lemma max_rank_attained: "max_rank rs \<noteq> 0 \<Longrightarrow> max_rank rs \<in> set rs"
  by (induction rs rule: rev_induct) (auto simp: max_rank_snoc max_def max_rank_def)

lemma best_of_Nil: "best_of f cs = [] \<longleftrightarrow> (\<forall>c \<in> set cs. f c = 0)"
proof
  assume b: "best_of f cs = []"
  have "max_rank (map f cs) = 0"
  proof (rule ccontr)
    assume m: "max_rank (map f cs) \<noteq> 0"
    then obtain c where "c \<in> set cs" "f c = max_rank (map f cs)" using max_rank_attained by fastforce
    with b m show False by (auto simp: best_of_def filter_empty_conv)
  qed
  then show "\<forall>c \<in> set cs. f c = 0" using max_rank_ge [of _ "map f cs"] by fastforce
next
  assume z: "\<forall>c \<in> set cs. f c = 0"
  have "max_rank (map f cs) = 0"
    using max_rank_attained [of "map f cs"] z by fastforce
  then show "best_of f cs = []" by (simp add: best_of_def)
qed

lemma select_best_mem:
  assumes "select_best_identity_matches cs ranker = Inr ms" and "r \<in> set ms"
  shows "r \<in> set cs \<and> (\<exists>rank. ranker r = Inr rank \<and> rank \<noteq> NO_IDENTITY_MATCH)"
proof -
  from assms(1) obtain f where "\<forall>c \<in> set cs. ranker c = Inr (f c)" "ms = best_of f cs"
    by (rule select_best_subset)
  with assms(2) show ?thesis by (auto simp: best_of_def NO_IDENTITY_MATCH_def split: if_splits)
qed

lemma select_best_Nil:
  assumes "select_best_identity_matches cs ranker = Inr []" and "r \<in> set cs"
  shows "ranker r = Inr NO_IDENTITY_MATCH"
proof -
  from assms(1) obtain f where "\<forall>c \<in> set cs. ranker c = Inr (f c)" "[] = best_of f cs"
    by (rule select_best_subset)
  with assms(2) best_of_Nil [of f cs] show ?thesis by (auto simp: NO_IDENTITY_MATCH_def)
qed

section \<open>Properties\<close>

definition sample_identity :: source_identity where
  "sample_identity = \<lparr>si_schema = ''v2'', si_type = ''proxmox'', si_instance = ''pve-a'',
     si_kind = ''qemu'', si_external_id = ''100''\<rparr>"

definition sample_fields :: obj where
  "sample_fields = [(''sync_identities'', JList [
     JObj [(''source'', JStr ''proxmox''), (''source_id'', JStr ''n1:100'')],
     JObj (to_record (sample_identity\<lparr>si_instance := ''pve-b''\<rparr>)),
     JObj (to_record (sample_identity\<lparr>si_external_id := ''7''\<rparr>))])]"

definition sample_records :: "obj list" where
  "sample_records =
     [[(''source'', JStr ''proxmox''), (''source_id'', JStr ''n1:100'')],
      to_record (sample_identity\<lparr>si_instance := ''pve-b''\<rparr>),
      to_record (sample_identity\<lparr>si_external_id := ''7''\<rparr>)]"

lemma valid_sample:
  "valid_identity sample_identity"
  "valid_identity (sample_identity\<lparr>si_instance := ''pve-b''\<rparr>)"
  "valid_identity (sample_identity\<lparr>si_external_id := ''7''\<rparr>)"
  by (simp_all add: valid_identity_def sample_identity_def IDENTITY_SCHEMA_V2_def py_strip_def is_space_def)

lemma stored_sample: "stored_identities sample_fields sample_records"
  using valid_sample
  by (simp add: stored_identities_def sample_fields_def sample_records_def)
    (simp add: parseable_def from_record_def IDENTITY_SCHEMA_V2_def)

text \<open>Writing an identity as a v2 record and parsing it back returns it, and only identities
  with the v2 schema and four non-blank texts survive the trip.\<close>

theorem source_identity_roundtrip:
  "from_record (JObj (to_record i)) = Inr (Some i) \<longleftrightarrow> valid_identity i"
  using from_record_valid by auto

text \<open>C9: Merging a v2 identity into stored identities keeps, as a multiset and sorted by their
  items' text, every stored record outside the identity's (type, instance, kind) namespace - those of
  other instances and legacy v1 records alike - and adds exactly one record in the namespace: its own.\<close>

theorem merge_owns_one_namespace:
  assumes "stored_identities cf ds" and "valid_identity desired"
  shows "\<exists>rs. merge_source_identities cf desired = Inr rs \<and>
           mset rs = mset (filter (outside_namespace desired) ds) + {# to_record desired #} \<and>
           sorted (map items_repr rs) \<and>
           filter (\<lambda>r. \<not> outside_namespace desired r) rs = [to_record desired]"
proof -
  let ?rs = "sort_key items_repr (filter (outside_namespace desired) ds @ [to_record desired])"
  have "filter (\<lambda>r. \<not> outside_namespace desired r) ?rs = [to_record desired]"
    using assms(2) by (simp add: filter_sort)
  then show ?thesis using merge_source_identities_eq [OF assms(1), of desired] by simp
qed

theorem merge_owns_one_namespace_witness:
  "\<exists>rs. merge_source_identities sample_fields sample_identity = Inr rs \<and>
     mset rs = mset (filter (outside_namespace sample_identity) sample_records) + {# to_record sample_identity #} \<and>
     sorted (map items_repr rs) \<and>
     filter (\<lambda>r. \<not> outside_namespace sample_identity r) rs = [to_record sample_identity]"
  by (rule merge_owns_one_namespace [OF stored_sample valid_sample(1)])

text \<open>After the merged list is written back, the object has the top match rank for that identity
  whatever legacy rules apply, and merging again changes nothing.\<close>

theorem merge_stable:
  assumes "valid_identity desired" and "merge_source_identities cf desired = Inr rs"
    and "cf' = dset ''sync_identities'' (JList (map JObj rs)) cf"
  shows "source_identity_match_rank cf' desired wanted owner = Inr V2_IDENTITY_MATCH
         \<and> merge_source_identities cf' desired = Inr rs"
  using merge_again [OF assms(1,2)] assms(3) by simp

theorem merge_stable_witness:
  "\<exists>rs. source_identity_match_rank (dset ''sync_identities'' (JList (map JObj rs)) sample_fields)
           sample_identity [] False = Inr V2_IDENTITY_MATCH
     \<and> merge_source_identities (dset ''sync_identities'' (JList (map JObj rs)) sample_fields)
           sample_identity = Inr rs"
  using merge_source_identities_eq [OF stored_sample, of sample_identity]
    merge_stable [OF valid_sample(1) _ refl, of sample_fields] by blast

text \<open>A non-zero rank is earned: rank 2 means a stored record parses to exactly this identity, and
  rank 1 means the source owns the legacy identities and a stored record without the v2 schema names its
  type and one of its legacy identifiers.\<close>

theorem match_rank_sound:
  assumes "source_identity_match_rank cf desired wanted owner = Inr r" and "r \<noteq> NO_IDENTITY_MATCH"
  shows "\<exists>ids v. jget cf ''sync_identities'' = JList ids \<and> v \<in> set ids \<and>
           (if r = V2_IDENTITY_MATCH then from_record v = Inr (Some desired)
            else r = LEGACY_IDENTITY_MATCH \<and> owner \<and> legacy_match v desired wanted)"
proof -
  consider (v2) "r = V2_IDENTITY_MATCH" | (legacy) "r = LEGACY_IDENTITY_MATCH" "r \<noteq> V2_IDENTITY_MATCH"
    using rank_values [OF assms(1)] assms(2) by (auto simp: V2_IDENTITY_MATCH_def LEGACY_IDENTITY_MATCH_def)
  then show ?thesis
  proof cases
    case v2
    with assms(1) obtain ids where ids: "jget cf ''sync_identities'' = JList ids"
      "first_v2_match ids desired = Inr True" by (auto simp: rank_V2)
    from first_v2_match_True_elim [OF ids(2)] obtain pre v post where "ids = pre @ v # post"
      and v: "from_record v = Inr (Some desired)" by blast
    then have "v \<in> set ids" by simp
    with ids v2 v show ?thesis by auto
  next
    case legacy
    with assms(1) show ?thesis by (auto simp: rank_legacy)
  qed
qed

theorem match_rank_sound_witness:
  "\<exists>ids v. jget sample_fields ''sync_identities'' = JList ids \<and> v \<in> set ids \<and>
     (if LEGACY_IDENTITY_MATCH = V2_IDENTITY_MATCH then from_record v = Inr (Some sample_identity)
      else LEGACY_IDENTITY_MATCH = LEGACY_IDENTITY_MATCH \<and> True \<and> legacy_match v sample_identity [''n1:100''])"
proof (rule match_rank_sound)
  have "first_v2_match [JObj (to_record (sample_identity\<lparr>si_instance := ''pve-b''\<rparr>)),
     JObj (to_record (sample_identity\<lparr>si_external_id := ''7''\<rparr>))] sample_identity = Inr False"
    using valid_sample by (simp add: sample_identity_def)
  then show "source_identity_match_rank sample_fields sample_identity [''n1:100''] True
      = Inr LEGACY_IDENTITY_MATCH"
    by (simp add: rank_legacy sample_fields_def from_record_def IDENTITY_SCHEMA_V2_def)
      (simp add: legacy_match_def IDENTITY_SCHEMA_V2_def sample_identity_def py_str_def)
  show "LEGACY_IDENTITY_MATCH \<noteq> NO_IDENTITY_MATCH"
    by (simp add: LEGACY_IDENTITY_MATCH_def NO_IDENTITY_MATCH_def)
qed

text \<open>C31: The selected candidates are, in order, exactly those of the greatest positive rank (none when
  no candidate has one), and the selection succeeds exactly when every candidate can be ranked.\<close>

theorem select_best_spec:
  "select_best_identity_matches cs ranker = Inr ms \<longleftrightarrow>
     (\<exists>f. (\<forall>c \<in> set cs. ranker c = Inr (f c)) \<and> ms = best_of f cs)"
proof
  assume "select_best_identity_matches cs ranker = Inr ms"
  then show "\<exists>f. (\<forall>c \<in> set cs. ranker c = Inr (f c)) \<and> ms = best_of f cs"
    by (rule select_best_subset) blast
qed (auto simp: select_best_eq)

theorem select_best_spec_witness:
  "select_best_identity_matches [''a'', ''b'', ''c''] (\<lambda>c. Inr (if c = ''b'' then 1 else 2)) = Inr [''a'', ''c'']"
  unfolding select_best_spec
  by (rule exI [of _ "\<lambda>c. if c = ''b'' then 1 else 2"]) (simp add: best_of_def max_rank_def)

end
