(* ===== verification/Metadata.thy ===== *)
theory Metadata
  imports SourceIdentity
begin

text \<open>
  The custom fields the synchroniser manages on each kind of NetBox object and the match rank of
  an object for a discovered one (netbox_metadata.py, netbox_vm_metadata.py,
  netbox_lxc_metadata.py, netbox_vm_interface_metadata.py).
\<close>

section \<open>Hosts\<close>

definition MANAGED_DEVICE_CUSTOM_FIELDS :: "string list" where
  "MANAGED_DEVICE_CUSTOM_FIELDS =
     [''sync_identities'', ''sync_original_names'', ''hypervisor_version'', ''cpu_model'',
      ''cpu_vendor'', ''cpu_sockets'', ''cpu_cores'', ''cpu_threads'', ''memory_mb'',
      ''physical_disks'']"

definition sync_identity_match_rank :: "obj \<Rightarrow> discovered_host \<Rightarrow> nat res" where
  "sync_identity_match_rank cf host =
     res_bind (host_source_identity host) (\<lambda>i.
       source_identity_match_rank cf i [h_source_id host] (h_legacy_identity_owner host))"

definition find_sync_identity_matches ::
    "('r \<Rightarrow> obj) \<Rightarrow> 'r list \<Rightarrow> discovered_host \<Rightarrow> 'r list res" where
  "find_sync_identity_matches custom_fields candidates host =
     select_best_identity_matches candidates
       (\<lambda>c. sync_identity_match_rank (custom_fields c) host)"

definition physical_disk_record :: "discovered_disk \<Rightarrow> json" where
  "physical_disk_record disk = JObj
     [(''path'', JStr (disk_path disk)),
      (''model'', opt_json (disk_model disk)),
      (''serial'', opt_json (disk_serial disk)),
      (''type'', opt_json (disk_type disk)),
      (''size_bytes'', JInt (disk_size_bytes disk)),
      (''health'', opt_json (disk_health disk))]"

definition build_device_custom_fields :: "discovered_host \<Rightarrow> obj \<Rightarrow> obj res" where
  "build_device_custom_fields host existing =
     res_bind (host_source_identity host) (\<lambda>desired.
     res_bind (merge_source_identities existing desired) (\<lambda>identities.
     res_bind (merge_original_name existing desired (h_original_name host)) (\<lambda>names.
       Inr (dupdate existing
         [(''sync_identities'', JList (map JObj identities)),
          (''sync_original_names'', JObj names),
          (''hypervisor_version'', opt_json (h_hypervisor_version host)),
          (''cpu_model'', opt_json (cpu_model (h_cpu host))),
          (''cpu_vendor'', opt_json (cpu_vendor (h_cpu host))),
          (''cpu_sockets'', JInt (cpu_sockets (h_cpu host))),
          (''cpu_cores'', JInt (cpu_cores (h_cpu host))),
          (''cpu_threads'', JInt (cpu_logical_cpus (h_cpu host))),
          (''memory_mb'', JInt (mib (h_memory_bytes host))),
          (''physical_disks'',
             JList (map physical_disk_record (sort_key disk_path (h_disks host))))]))))"

section \<open>Virtual machines\<close>

definition MANAGED_VM_CUSTOM_FIELDS :: "string list" where
  "MANAGED_VM_CUSTOM_FIELDS = [''sync_identities'', ''sync_original_names'']"

definition vm_identity_source_id :: "'a discovered_guest_scheme \<Rightarrow> string" where
  "vm_identity_source_id vm =
     (let prefix = g_source vm @ '':''
      in if starts_with (g_source_id vm) prefix then drop (length prefix) (g_source_id vm)
         else g_source_id vm)"

definition vm_sync_identity_match_rank :: "obj \<Rightarrow> discovered_vm \<Rightarrow> nat res" where
  "vm_sync_identity_match_rank cf vm =
     res_bind (virtual_machine_source_identity vm) (\<lambda>i.
       source_identity_match_rank cf i [vm_identity_source_id vm, g_source_id vm]
         (g_legacy_identity_owner vm))"

definition find_vm_sync_identity_matches ::
    "('r \<Rightarrow> obj) \<Rightarrow> 'r list \<Rightarrow> discovered_vm \<Rightarrow> 'r list res" where
  "find_vm_sync_identity_matches custom_fields candidates vm =
     select_best_identity_matches candidates
       (\<lambda>c. vm_sync_identity_match_rank (custom_fields c) vm)"

definition build_vm_custom_fields :: "discovered_vm \<Rightarrow> obj \<Rightarrow> obj res" where
  "build_vm_custom_fields vm existing =
     (let n1 = (if jget existing ''sync_identities'' = JNull
                then dset ''sync_identities'' (JList []) existing else existing);
          normalized = (if jget n1 ''sync_original_names'' = JNull
                then dset ''sync_original_names'' (JObj []) n1 else n1)
      in res_bind (virtual_machine_source_identity vm) (\<lambda>desired.
         res_bind (merge_source_identities normalized desired) (\<lambda>identities.
         res_bind (merge_original_name normalized desired (g_original_name vm)) (\<lambda>names.
           Inr (dupdate existing
             [(''sync_identities'', JList (map JObj identities)),
              (''sync_original_names'', JObj names)])))))"

section \<open>Containers\<close>

definition MANAGED_LXC_CUSTOM_FIELDS :: "string list" where
  "MANAGED_LXC_CUSTOM_FIELDS =
     [''sync_identities'', ''sync_original_names'', ''guest_kind'', ''guest_architecture'',
      ''guest_os_type'', ''swap_mb'']"

definition lxc_identity_source_id :: "discovered_container \<Rightarrow> string" where
  "lxc_identity_source_id c =
     (let prefix = g_source c @ '':''
      in if starts_with (g_source_id c) prefix then drop (length prefix) (g_source_id c)
         else g_source_id c)"

definition lxc_sync_identity_match_rank :: "obj \<Rightarrow> discovered_container \<Rightarrow> nat res" where
  "lxc_sync_identity_match_rank cf c =
     res_bind (lxc_source_identity c) (\<lambda>i.
       source_identity_match_rank cf i [lxc_identity_source_id c] (g_legacy_identity_owner c))"

definition find_lxc_sync_identity_matches ::
    "('r \<Rightarrow> obj) \<Rightarrow> 'r list \<Rightarrow> discovered_container \<Rightarrow> 'r list res" where
  "find_lxc_sync_identity_matches custom_fields candidates c =
     select_best_identity_matches candidates
       (\<lambda>r. lxc_sync_identity_match_rank (custom_fields r) c)"

definition build_lxc_custom_fields :: "discovered_container \<Rightarrow> obj \<Rightarrow> obj res" where
  "build_lxc_custom_fields c existing =
     res_bind (lxc_source_identity c) (\<lambda>desired.
     res_bind (merge_source_identities existing desired) (\<lambda>identities.
     res_bind (merge_original_name existing desired (g_original_name c)) (\<lambda>names.
       Inr (dupdate existing
         [(''sync_identities'', JList (map JObj identities)),
          (''sync_original_names'', JObj names),
          (''guest_kind'', JStr ''lxc''),
          (''guest_architecture'', opt_json (ct_architecture c)),
          (''guest_os_type'', opt_json (ct_os_type c)),
          (''swap_mb'', JInt (mib (ct_swap_bytes c)))]))))"

section \<open>Guest interfaces\<close>

definition MANAGED_VM_INTERFACE_CUSTOM_FIELDS :: "string list" where
  "MANAGED_VM_INTERFACE_CUSTOM_FIELDS =
     [''sync_identities'', ''sync_original_names'', ''source_bridge'', ''source_vlan_id'']"

definition nic_identity_source_id :: "'a discovered_guest_scheme \<Rightarrow> discovered_interface \<Rightarrow> string" where
  "nic_identity_source_id vm nic = vm_identity_source_id vm @ '':'' @ nic_name nic"

text \<open>Either kind of guest, seen through the fields both have.\<close>

definition guest_core :: "guest \<Rightarrow> discovered_guest" where
  "guest_core g = (case g of VmGuest vm \<Rightarrow> discovered_guest.truncate vm
                           | LxcGuest c \<Rightarrow> discovered_guest.truncate c)"

definition guest_nic_identity :: "guest \<Rightarrow> discovered_interface \<Rightarrow> source_identity res" where
  "guest_nic_identity g nic =
     (case g of LxcGuest c \<Rightarrow> lxc_nic_source_identity c nic
              | VmGuest vm \<Rightarrow> virtual_machine_nic_source_identity vm nic)"

definition nic_sync_identity_match_rank :: "obj \<Rightarrow> guest \<Rightarrow> discovered_interface \<Rightarrow> nat res" where
  "nic_sync_identity_match_rank cf g nic =
     res_bind (guest_nic_identity g nic) (\<lambda>desired.
     res_bind (source_identity_match_rank cf desired [nic_identity_source_id (guest_core g) nic]
                 (g_legacy_identity_owner (guest_core g))) (\<lambda>rank.
       if rank \<noteq> 0 \<or> si_type desired \<noteq> ''proxmox'' \<or> si_kind desired \<noteq> ''lxc-nic''
          \<or> or_text (nic_external_id nic) [] = []
          \<or> nic_external_id nic = Some (nic_name nic)
       then Inr rank
       else res_bind (make_identity (JStr (si_schema desired)) (JStr (si_type desired))
              (JStr (si_instance desired)) (JStr (si_kind desired))
              (JStr (vmid_text (g_vmid (guest_core g)) @ '':'' @ nic_name nic))) (\<lambda>legacy_v2.
              source_identity_match_rank cf legacy_v2 [] False)))"

definition find_nic_sync_identity_matches ::
    "('r \<Rightarrow> obj) \<Rightarrow> 'r list \<Rightarrow> guest \<Rightarrow> discovered_interface \<Rightarrow> 'r list res" where
  "find_nic_sync_identity_matches custom_fields candidates g nic =
     select_best_identity_matches candidates
       (\<lambda>r. nic_sync_identity_match_rank (custom_fields r) g nic)"

definition build_nic_custom_fields :: "guest \<Rightarrow> discovered_interface \<Rightarrow> obj \<Rightarrow> obj res" where
  "build_nic_custom_fields g nic existing =
     res_bind (guest_nic_identity g nic) (\<lambda>desired.
     res_bind (merge_source_identities existing desired) (\<lambda>identities.
     res_bind (merge_original_name existing desired (nic_name nic)) (\<lambda>names.
       Inr (dupdate existing
         [(''sync_identities'', JList (map JObj identities)),
          (''sync_original_names'', JObj names),
          (''source_bridge'', opt_json (nic_bridge nic)),
          (''source_vlan_id'', opt_int_json (nic_vlan_id nic))]))))"

section \<open>What every builder does\<close>

lemma dupdate_same: "(\<And>k v. (k, v) \<in> set kvs \<Longrightarrow> dget d k = Some v) \<Longrightarrow> dupdate d kvs = d"
proof (induction kvs)
  case (Cons kv kvs)
  then show ?case by (cases kv) auto
qed simp

lemma dget_rev: "distinct (map fst kvs) \<Longrightarrow> dget (rev kvs) k = dget kvs k"
  unfolding dget_def by (metis distinct_rev map_of_eqI map_of_eq_Some_iff option.exhaust rev_map set_rev)

lemma dget_dupdate_distinct:
  "distinct (map fst kvs) \<Longrightarrow> dget (dupdate d kvs) k = (case dget kvs k of None \<Rightarrow> dget d k | Some v \<Rightarrow> Some v)"
  by (simp add: dget_dupdate dget_rev)

lemma wf_dupdate: "wf_obj d \<Longrightarrow> wf_items kvs \<Longrightarrow> wf_obj (dupdate d kvs)"
proof (induction d kvs rule: dupdate.induct)
  case (2 d k v kvs)
  have "wf_obj (dset k v d)" by (rule wf_dset) (use "2.prems" in simp_all)
  with 2 show ?case by simp
qed simp

lemma merge_wf:
  assumes "merge_source_identities cf i = Inr rs" and "wf_obj cf"
  shows "wf_list (map JObj rs)"
proof -
  from merge_source_identities_Inr [OF assms(1)] obtain ds where ds: "stored_identities cf ds" ..
  have "wf_obj d" if "d \<in> set ds" for d
    using ds that wf_jget [OF assms(2), of "''sync_identities''"]
    by (auto simp: stored_identities_def jget_def wf_list_iff)
  moreover have "rs = sort_key items_repr (filter (outside_namespace i) ds @ [to_record i])"
    using assms(1) merge_source_identities_eq [OF ds, of i] by simp
  ultimately show ?thesis by (auto simp: wf_list_iff to_record_def)
qed

lemma merge_name_wf:
  assumes "merge_original_name cf i n = Inr names" and "wf_obj cf"
  shows "wf_obj names"
proof -
  from assms(1) obtain d where d: "(case dget cf ''sync_original_names'' of None \<Rightarrow> JObj [] | Some v \<Rightarrow> v) = JObj d"
    and names: "names = dset (original_name_key i) (JStr n) d"
    by (auto simp: merge_original_name_def split: json.splits)
  have "wf_obj d"
    using d wf_jget [OF assms(2), of "''sync_original_names''"] by (auto simp: jget_def split: option.splits)
  with names show ?thesis using wf_dset [of d "JStr n"] by simp
qed

text \<open>
  The contract of the four builders: an identity, a display name and further fields of their own,
  written over the existing custom fields.
\<close>

locale managed_fields =
  fixes build :: "'x \<Rightarrow> obj \<Rightarrow> obj res"
    and identity :: "'x \<Rightarrow> source_identity res"
    and display_name :: "'x \<Rightarrow> string"
    and extra :: "'x \<Rightarrow> obj"
    and prepare :: "obj \<Rightarrow> obj"
    and managed :: "string list"
  assumes identity_valid: "identity x = Inr i \<Longrightarrow> valid_identity i"
    and managed_keys: "managed = ''sync_identities'' # ''sync_original_names'' # map fst (extra x)"
    and managed_distinct: "distinct managed"
    and prepare_keeps: "dget cf ''sync_identities'' = Some (JList ids) \<Longrightarrow>
          dget cf ''sync_original_names'' = Some (JObj names) \<Longrightarrow> prepare cf = cf"
    and prepare_wf: "wf_obj cf \<Longrightarrow> wf_obj (prepare cf)"
    and extra_wf: "wf_items (extra x)"
    and build_eq: "build x cf = res_bind (identity x) (\<lambda>i.
          res_bind (merge_source_identities (prepare cf) i) (\<lambda>identities.
          res_bind (merge_original_name (prepare cf) i (display_name x)) (\<lambda>names.
            Inr (dupdate cf ((''sync_identities'', JList (map JObj identities)) #
               (''sync_original_names'', JObj names) # extra x)))))"
begin

lemma build_Inr:
  assumes "build x cf = Inr cf'"
  obtains i rs names where "identity x = Inr i" "merge_source_identities (prepare cf) i = Inr rs"
    "merge_original_name (prepare cf) i (display_name x) = Inr names"
    "cf' = dupdate cf ((''sync_identities'', JList (map JObj rs)) # (''sync_original_names'', JObj names) # extra x)"
  using assms by (auto simp: build_eq res_bind_eq_Inr)

lemma distinct_written:
  "distinct (map fst ((''sync_identities'', a) # (''sync_original_names'', b) # extra x))"
  using managed_distinct managed_keys [of x] by simp

lemma build_keeps_unmanaged:
  assumes "build x cf = Inr cf'" and "k \<notin> set managed"
  shows "dget cf' k = dget cf k"
proof -
  from assms(1) obtain a b where
    cf': "cf' = dupdate cf ((''sync_identities'', a) # (''sync_original_names'', b) # extra x)"
    by (rule build_Inr) blast
  have "dget (extra x) k = None" "k \<noteq> ''sync_identities''" "k \<noteq> ''sync_original_names''"
    using assms(2) managed_keys [of x] by (auto simp: dget_def map_of_eq_None_iff)
  then show ?thesis
    unfolding cf' by (subst dget_dupdate_distinct [OF distinct_written]) simp
qed

lemma build_again:
  assumes "build x cf = Inr cf'" and "identity x = Inr i"
  shows "build x cf' = Inr cf'"
    and "source_identity_match_rank cf' i wanted owner = Inr V2_IDENTITY_MATCH"
proof -
  from assms obtain rs names where m: "merge_source_identities (prepare cf) i = Inr rs"
    and n: "merge_original_name (prepare cf) i (display_name x) = Inr names"
    and cf': "cf' = dupdate cf ((''sync_identities'', JList (map JObj rs)) #
                (''sync_original_names'', JObj names) # extra x)"
    by (auto elim: build_Inr)
  let ?w = "(''sync_identities'', JList (map JObj rs)) # (''sync_original_names'', JObj names) # extra x"
  have get: "dget cf' k = (case dget ?w k of None \<Rightarrow> dget cf k | Some v \<Rightarrow> Some v)" for k
    unfolding cf' by (rule dget_dupdate_distinct [OF distinct_written])
  have ids: "dget cf' ''sync_identities'' = Some (JList (map JObj rs))"
    and nm: "dget cf' ''sync_original_names'' = Some (JObj names)"
    by (simp_all add: get)
  have p: "prepare cf' = cf'" by (rule prepare_keeps [OF ids nm])
  note again = merge_again [OF identity_valid [OF assms(2)] m ids]
  show "source_identity_match_rank cf' i wanted owner = Inr V2_IDENTITY_MATCH" using again by simp
  have names: "dget names (original_name_key i) = Some (JStr (display_name x))"
    using n by (auto simp: merge_original_name_def split: json.splits option.splits)
  have "dupdate cf' ?w = cf'"
    by (rule dupdate_same) (simp only: get dget_mem [OF distinct_written] option.simps)
  moreover have "merge_original_name cf' i (display_name x) = Inr names"
    using nm names by (simp add: merge_original_name_def)
  ultimately show "build x cf' = Inr cf'"
    using again assms(2) by (simp add: build_eq p)
qed

lemma build_wf:
  assumes "build x cf = Inr cf'" and "wf_obj cf"
  shows "wf_obj cf'"
proof -
  from assms(1) obtain i rs names where i: "identity x = Inr i"
    and m: "merge_source_identities (prepare cf) i = Inr rs"
    and n: "merge_original_name (prepare cf) i (display_name x) = Inr names"
    and cf': "cf' = dupdate cf ((''sync_identities'', JList (map JObj rs)) #
                (''sync_original_names'', JObj names) # extra x)"
    by (rule build_Inr)
  have p: "wf_obj (prepare cf)" using assms(2) by (rule prepare_wf)
  have "wf_list (map JObj rs)" using m p by (rule merge_wf)
  moreover have "wf_obj names" using n p by (rule merge_name_wf)
  ultimately show ?thesis
    using assms(2) extra_wf [of x] unfolding cf' by (intro wf_dupdate) simp_all
qed

end

section \<open>The four builders meet the contract\<close>

lemma wf_opt_json: "wf_json (opt_json v)" "wf_json (opt_int_json i)"
  by (simp_all add: opt_json_def opt_int_json_def split: option.splits)

lemma wf_physical_disks: "wf_list (map physical_disk_record ds)"
  by (simp add: wf_list_iff physical_disk_record_def wf_opt_json)

interpretation device_fields: managed_fields build_device_custom_fields host_source_identity
  h_original_name
  "\<lambda>host. [(''hypervisor_version'', opt_json (h_hypervisor_version host)),
     (''cpu_model'', opt_json (cpu_model (h_cpu host))),
     (''cpu_vendor'', opt_json (cpu_vendor (h_cpu host))),
     (''cpu_sockets'', JInt (cpu_sockets (h_cpu host))),
     (''cpu_cores'', JInt (cpu_cores (h_cpu host))),
     (''cpu_threads'', JInt (cpu_logical_cpus (h_cpu host))),
     (''memory_mb'', JInt (mib (h_memory_bytes host))),
     (''physical_disks'', JList (map physical_disk_record (sort_key disk_path (h_disks host))))]"
  "\<lambda>cf. cf" MANAGED_DEVICE_CUSTOM_FIELDS
proof (unfold_locales, goal_cases)
  case (1 x i)
  then show ?case by (rule host_source_identity_valid [THEN conjunct1])
next
  case (7 x cf)
  show ?case by (rule build_device_custom_fields_def)
qed (simp_all add: MANAGED_DEVICE_CUSTOM_FIELDS_def wf_opt_json wf_physical_disks)

definition vm_prepare :: "obj \<Rightarrow> obj" where
  "vm_prepare existing =
     (let n1 = (if jget existing ''sync_identities'' = JNull
                then dset ''sync_identities'' (JList []) existing else existing)
      in if jget n1 ''sync_original_names'' = JNull
         then dset ''sync_original_names'' (JObj []) n1 else n1)"

interpretation vm_fields: managed_fields build_vm_custom_fields virtual_machine_source_identity
  g_original_name "\<lambda>vm. []" vm_prepare MANAGED_VM_CUSTOM_FIELDS
proof
  show "build_vm_custom_fields vm cf = res_bind (virtual_machine_source_identity vm) (\<lambda>i.
          res_bind (merge_source_identities (vm_prepare cf) i) (\<lambda>identities.
          res_bind (merge_original_name (vm_prepare cf) i (g_original_name vm)) (\<lambda>names.
            Inr (dupdate cf ((''sync_identities'', JList (map JObj identities)) #
               (''sync_original_names'', JObj names) # [])))))" for vm cf
    by (simp only: build_vm_custom_fields_def vm_prepare_def Let_def)
  show "wf_obj (vm_prepare cf)" if "wf_obj cf" for cf
    using that by (simp add: vm_prepare_def Let_def)
qed (auto simp: MANAGED_VM_CUSTOM_FIELDS_def virtual_machine_source_identity_valid vm_prepare_def jget_def)

interpretation lxc_fields: managed_fields build_lxc_custom_fields lxc_source_identity
  g_original_name
  "\<lambda>c. [(''guest_kind'', JStr ''lxc''),
     (''guest_architecture'', opt_json (ct_architecture c)),
     (''guest_os_type'', opt_json (ct_os_type c)),
     (''swap_mb'', JInt (mib (ct_swap_bytes c)))]"
  "\<lambda>cf. cf" MANAGED_LXC_CUSTOM_FIELDS
proof (unfold_locales, goal_cases)
  case (1 x i)
  then show ?case by (rule lxc_source_identity_valid [THEN conjunct1])
next
  case (7 x cf)
  show ?case by (rule build_lxc_custom_fields_def)
qed (simp_all add: MANAGED_LXC_CUSTOM_FIELDS_def wf_opt_json wf_physical_disks)

lemma guest_nic_identity_valid: "guest_nic_identity g nic = Inr i \<Longrightarrow> valid_identity i"
  by (auto simp: guest_nic_identity_def lxc_nic_source_identity_def identity_of_Inr
      virtual_machine_nic_source_identity_def qemu_nic_source_identity_def split: guest.splits if_splits)

interpretation nic_fields: managed_fields "\<lambda>p. build_nic_custom_fields (fst p) (snd p)"
  "\<lambda>p. guest_nic_identity (fst p) (snd p)" "\<lambda>p. nic_name (snd p)"
  "\<lambda>p. [(''source_bridge'', opt_json (nic_bridge (snd p))),
     (''source_vlan_id'', opt_int_json (nic_vlan_id (snd p)))]"
  "\<lambda>cf. cf" MANAGED_VM_INTERFACE_CUSTOM_FIELDS
proof (unfold_locales, goal_cases)
  case (1 x i)
  then show ?case by (rule guest_nic_identity_valid)
next
  case (7 x cf)
  show ?case by (simp only: build_nic_custom_fields_def prod.sel)
qed (simp_all add: MANAGED_VM_INTERFACE_CUSTOM_FIELDS_def wf_opt_json wf_physical_disks)

section \<open>Samples\<close>

definition sample_nic :: discovered_interface where
  "sample_nic = \<lparr>nic_name = ''eth0'', nic_mac_address = Some ''BC:24:11:00:00:01'',
     nic_bridge = Some ''vmbr0'', nic_vlan_id = Some 20, nic_ip_addresses = [''10.0.20.5/24''],
     nic_external_id = Some ''net0''\<rparr>"

definition sample_vm :: discovered_vm where
  "sample_vm = \<lparr>g_source = ''proxmox'', g_source_instance = ''pve-a'', g_legacy_identity_owner = True,
     g_source_id = ''proxmox:n1:100'', g_node_source_id = ''n1'', g_vmid = IntId 100,
     g_original_name = ''Web'', g_normalized_name = ''WEB'', g_status = ''running'', g_vcpus = 2,
     g_memory_bytes = 2147483648, g_autostart = True,
     g_disks = [\<lparr>vd_name = ''scsi0'', vd_storage = Some ''local'', vd_size_bytes = 34359738368\<rparr>],
     g_interfaces = [sample_nic], vm_external_id = None\<rparr>"

definition sample_container :: discovered_container where
  "sample_container = \<lparr>g_source = ''proxmox'', g_source_instance = ''pve-a'', g_legacy_identity_owner = True,
     g_source_id = ''n1:101'', g_node_source_id = ''n1'', g_vmid = IntId 101,
     g_original_name = ''dns'', g_normalized_name = ''DNS'', g_status = ''running'', g_vcpus = 1,
     g_memory_bytes = 536870912, g_autostart = True,
     g_disks = [\<lparr>vd_name = ''rootfs'', vd_storage = Some ''local'', vd_size_bytes = 8589934592\<rparr>],
     g_interfaces = [sample_nic], ct_architecture = Some ''amd64'', ct_os_type = Some ''debian'',
     ct_swap_bytes = 536870912, ct_unprivileged = True\<rparr>"

lemma sample_vm_build: "\<exists>cf'. build_vm_custom_fields sample_vm [(''owner'', JStr ''ops''), (''sync_identities'', JNull)] = Inr cf'"
  by (rule exI) code_simp

section \<open>Properties\<close>

lemma vm_rank_after_build:
  assumes "build_vm_custom_fields vm cf = Inr cf'"
  shows "vm_sync_identity_match_rank cf' vm = Inr V2_IDENTITY_MATCH"
proof -
  from assms obtain i where i: "virtual_machine_source_identity vm = Inr i" by (auto elim: vm_fields.build_Inr)
  with vm_fields.build_again(2) [OF assms i] show ?thesis by (simp add: vm_sync_identity_match_rank_def)
qed

lemma device_rank_after_build:
  assumes "build_device_custom_fields h cf = Inr cf'"
  shows "sync_identity_match_rank cf' h = Inr V2_IDENTITY_MATCH"
proof -
  from assms obtain i where i: "host_source_identity h = Inr i" by (auto elim: device_fields.build_Inr)
  with device_fields.build_again(2) [OF assms i] show ?thesis by (simp add: sync_identity_match_rank_def)
qed

lemma lxc_rank_after_build:
  assumes "build_lxc_custom_fields c cf = Inr cf'"
  shows "lxc_sync_identity_match_rank cf' c = Inr V2_IDENTITY_MATCH"
proof -
  from assms obtain i where i: "lxc_source_identity c = Inr i" by (auto elim: lxc_fields.build_Inr)
  with lxc_fields.build_again(2) [OF assms i] show ?thesis by (simp add: lxc_sync_identity_match_rank_def)
qed

lemma nic_rank_after_build:
  assumes "build_nic_custom_fields g nic cf = Inr cf'"
  shows "nic_sync_identity_match_rank cf' g nic = Inr V2_IDENTITY_MATCH"
proof -
  have b: "build_nic_custom_fields (fst (g, nic)) (snd (g, nic)) cf = Inr cf'" using assms by simp
  obtain i where i: "guest_nic_identity (fst (g, nic)) (snd (g, nic)) = Inr i"
    by (rule nic_fields.build_Inr [OF b], rule that)
  have "source_identity_match_rank cf' i wanted owner = Inr V2_IDENTITY_MATCH" for wanted owner
    by (rule nic_fields.build_again(2) [OF b i])
  with i show ?thesis by (simp add: nic_sync_identity_match_rank_def V2_IDENTITY_MATCH_def)
qed

lemma device_build_again:
  "build_device_custom_fields h cf = Inr cf' \<Longrightarrow> build_device_custom_fields h cf' = Inr cf'"
  by (auto elim: device_fields.build_Inr intro: device_fields.build_again(1))

lemma vm_build_again:
  "build_vm_custom_fields vm cf = Inr cf' \<Longrightarrow> build_vm_custom_fields vm cf' = Inr cf'"
  by (auto elim: vm_fields.build_Inr intro: vm_fields.build_again(1))

lemma lxc_build_again:
  "build_lxc_custom_fields c cf = Inr cf' \<Longrightarrow> build_lxc_custom_fields c cf' = Inr cf'"
  by (auto elim: lxc_fields.build_Inr intro: lxc_fields.build_again(1))

text \<open>The custom fields built for a host are stable: building them again over the result changes
  nothing, the device carrying them has the top rank for the host, and every field outside the managed
  list keeps its value.\<close>

theorem device_custom_fields_stable:
  assumes "build_device_custom_fields host cf = Inr cf'"
  shows "build_device_custom_fields host cf' = Inr cf'
         \<and> sync_identity_match_rank cf' host = Inr V2_IDENTITY_MATCH
         \<and> (\<forall>k. k \<notin> set MANAGED_DEVICE_CUSTOM_FIELDS \<longrightarrow> dget cf' k = dget cf k)"
  using device_build_again [OF assms] device_rank_after_build [OF assms]
    device_fields.build_keeps_unmanaged [OF assms] by blast

definition sample_interface :: "string \<Rightarrow> string list \<Rightarrow> discovered_host_interface" where
  "sample_interface n addresses = \<lparr>hi_name = n, hi_interface_type = Some ''bridge'', hi_active = True,
     hi_autostart = True, hi_method = Some ''static'', hi_addresses = addresses, hi_gateway = None,
     hi_bridge_ports = [], hi_vlan_id = None, hi_vlan_aware = False, hi_comments = Some ''uplink'',
     hi_mac_address = None, hi_management = True\<rparr>"

definition sample_host :: discovered_host where
  "sample_host = \<lparr>h_source = ''proxmox'', h_source_instance = ''pve-a'', h_legacy_identity_owner = True,
     h_source_id = ''n1'', h_original_name = ''n1.lab'', h_normalized_name = ''N1'',
     h_management_ip = Some ''10.0.0.2'', h_hypervisor = ''Proxmox VE'', h_hypervisor_version = Some ''8.1'',
     h_cpu = \<lparr>cpu_model = Some ''EPYC'', cpu_vendor = None, cpu_sockets = 1, cpu_cores = 16,
       cpu_logical_cpus = 32\<rparr>, h_memory_bytes = 68719476736, h_disks = [],
     h_interfaces = [sample_interface ''vmbr0'' [''10.0.0.2/24'']],
     h_virtual_machines = [sample_vm], h_containers = [sample_container]\<rparr>"

theorem device_custom_fields_stable_witness:
  "\<exists>cf'. build_device_custom_fields sample_host [(''owner'', JStr ''ops'')] = Inr cf' \<and>
     (build_device_custom_fields sample_host cf' = Inr cf'
      \<and> sync_identity_match_rank cf' sample_host = Inr V2_IDENTITY_MATCH
      \<and> (\<forall>k. k \<notin> set MANAGED_DEVICE_CUSTOM_FIELDS \<longrightarrow> dget cf' k = dget [(''owner'', JStr ''ops'')] k))"
proof -
  have "\<exists>cf'. build_device_custom_fields sample_host [(''owner'', JStr ''ops'')] = Inr cf'"
    by (rule exI) code_simp
  with device_custom_fields_stable show ?thesis by blast
qed

text \<open>The custom fields built for a virtual machine are stable in the same sense, also where NetBox
  returns null for the identity fields.\<close>

theorem vm_custom_fields_stable:
  assumes "build_vm_custom_fields vm cf = Inr cf'"
  shows "build_vm_custom_fields vm cf' = Inr cf'
         \<and> vm_sync_identity_match_rank cf' vm = Inr V2_IDENTITY_MATCH
         \<and> (\<forall>k. k \<notin> set MANAGED_VM_CUSTOM_FIELDS \<longrightarrow> dget cf' k = dget cf k)"
  using vm_build_again [OF assms] vm_rank_after_build [OF assms]
    vm_fields.build_keeps_unmanaged [OF assms] by blast

theorem vm_custom_fields_stable_witness:
  "\<exists>cf'. build_vm_custom_fields sample_vm [(''owner'', JStr ''ops''), (''sync_identities'', JNull)] = Inr cf' \<and>
     (build_vm_custom_fields sample_vm cf' = Inr cf'
      \<and> vm_sync_identity_match_rank cf' sample_vm = Inr V2_IDENTITY_MATCH
      \<and> (\<forall>k. k \<notin> set MANAGED_VM_CUSTOM_FIELDS \<longrightarrow>
            dget cf' k = dget [(''owner'', JStr ''ops''), (''sync_identities'', JNull)] k))"
  using sample_vm_build vm_custom_fields_stable by blast

lemma stored_first_v2_match:
  assumes "stored_identities cf ds" and "dget cf ''sync_identities'' \<noteq> None"
  shows "jget cf ''sync_identities'' = JList (map JObj ds)"
    and "first_v2_match (map JObj ds) d = Inr (\<exists>r \<in> set ds. from_record (JObj r) = Inr (Some d))"
proof -
  show "jget cf ''sync_identities'' = JList (map JObj ds)"
    using assms by (auto simp: stored_identities_def jget_def)
  have "\<forall>v \<in> set (map JObj ds). \<exists>p. from_record v = Inr p"
    using assms(1) by (auto simp: stored_identities_def parseable_def)
  from first_v2_match_complete [OF this]
  show "first_v2_match (map JObj ds) d = Inr (\<exists>r \<in> set ds. from_record (JObj r) = Inr (Some d))"
    by simp
qed

lemma stored_rank_total:
  assumes "stored_identities cf ds"
  shows "\<exists>r. source_identity_match_rank cf d wanted owner = Inr r"
proof (cases "dget cf ''sync_identities''")
  case (Some v)
  with stored_first_v2_match [OF assms] show ?thesis
    by (simp add: source_identity_match_rank_def)
qed (simp add: source_identity_match_rank_def jget_def)

lemma stored_rank_V2:
  assumes "stored_identities cf ds" and "r \<in> set ds" and "from_record (JObj r) = Inr (Some d)"
  shows "source_identity_match_rank cf d wanted owner = Inr V2_IDENTITY_MATCH"
proof -
  have "dget cf ''sync_identities'' \<noteq> None" using assms(1,2) by (auto simp: stored_identities_def)
  from stored_first_v2_match [OF assms(1) this] assms(2,3) show ?thesis by (auto simp: rank_V2)
qed

text \<open>A container interface that an earlier version recorded under its displayed name is still found
  when the provider now gives it a stable key, and one managed write moves it to that key: of the source's
  container interfaces the merged list then holds exactly one record, the stable one.\<close>

theorem lxc_nic_key_migration:
  assumes source: "g_source c = ''proxmox''" and key: "nic_external_id nic = Some key" "key \<noteq> []"
    and old: "identity_of ''proxmox'' (g_source_instance c) ''lxc-nic''
                (vmid_text (g_vmid c) @ '':'' @ nic_name nic) = Inr old"
    and new: "lxc_nic_source_identity c nic = Inr new"
    and stored: "stored_identities cf ds" "to_record old \<in> set ds"
    and names: "dget cf ''sync_original_names'' = Some (JObj original_names)"
  shows "\<exists>rank cf' rs. nic_sync_identity_match_rank cf (LxcGuest c) nic = Inr rank
           \<and> rank \<noteq> NO_IDENTITY_MATCH
           \<and> build_nic_custom_fields (LxcGuest c) nic cf = Inr cf'
           \<and> dget cf' ''sync_identities'' = Some (JList (map JObj rs))
           \<and> filter (\<lambda>r. \<not> outside_namespace new r) rs = [to_record new]"
proof -
  have valid: "valid_identity old" "valid_identity new"
    using old new by (simp_all add: identity_of_Inr lxc_nic_source_identity_def)
  have oldV2: "source_identity_match_rank cf old [] False = Inr V2_IDENTITY_MATCH"
    by (rule stored_rank_V2 [OF stored]) (simp add: valid)
  have new_fields: "si_schema new = ''v2''" "si_type new = ''proxmox''" "si_kind new = ''lxc-nic''"
      "si_instance new = g_source_instance c"
    using new source by (simp_all add: lxc_nic_source_identity_def identity_of_Inr valid_identity_def IDENTITY_SCHEMA_V2_def)
  have same: "new = old" if "key = nic_name nic"
    using new old that source key by (simp add: lxc_nic_source_identity_def or_text_def)
  obtain r where r: "source_identity_match_rank cf new
      [nic_identity_source_id (guest_core (LxcGuest c)) nic] (g_legacy_identity_owner (guest_core (LxcGuest c))) = Inr r"
    using stored_rank_total [OF stored(1)] by blast
  have sameV2: "source_identity_match_rank cf new wanted owner = Inr V2_IDENTITY_MATCH"
    if "new = old" for wanted owner
    using stored_rank_V2 [OF stored] that valid by simp
  have "\<exists>rank. nic_sync_identity_match_rank cf (LxcGuest c) nic = Inr rank \<and> rank \<noteq> NO_IDENTITY_MATCH"
  proof (cases "r = 0")
    case False
    with r new show ?thesis
      by (simp add: nic_sync_identity_match_rank_def guest_nic_identity_def NO_IDENTITY_MATCH_def)
  next
    case True
    with r sameV2 same have "key \<noteq> nic_name nic" by (auto simp: V2_IDENTITY_MATCH_def)
    with r new new_fields key old oldV2 True show ?thesis
      by (simp add: nic_sync_identity_match_rank_def guest_nic_identity_def or_text_def guest_core_def
          identity_of_def IDENTITY_SCHEMA_V2_def discovered_guest.defs
          V2_IDENTITY_MATCH_def NO_IDENTITY_MATCH_def)
  qed
  moreover
  let ?rs = "sort_key items_repr (filter (outside_namespace new) ds @ [to_record new])"
  have "merge_source_identities cf new = Inr ?rs" by (rule merge_source_identities_eq [OF stored(1)])
  then have "\<exists>cf'. build_nic_custom_fields (LxcGuest c) nic cf = Inr cf' \<and>
      dget cf' ''sync_identities'' = Some (JList (map JObj ?rs))"
    using new names
    by (simp add: build_nic_custom_fields_def guest_nic_identity_def merge_original_name_def dget_dupdate_distinct)
  moreover have "filter (\<lambda>r. \<not> outside_namespace new r) ?rs = [to_record new]"
    using valid by (simp add: filter_sort)
  ultimately show ?thesis by blast
qed

definition sample_nic_identity :: "string \<Rightarrow> source_identity" where
  "sample_nic_identity key = \<lparr>si_schema = ''v2'', si_type = ''proxmox'', si_instance = ''pve-a'',
     si_kind = ''lxc-nic'', si_external_id = ''101:'' @ key\<rparr>"

theorem lxc_nic_key_migration_witness:
  "\<exists>rank cf' rs. nic_sync_identity_match_rank
        [(''sync_identities'', JList [JObj (to_record (sample_nic_identity ''eth0''))]), (''sync_original_names'', JObj [])]
        (LxcGuest sample_container) sample_nic = Inr rank
     \<and> rank \<noteq> NO_IDENTITY_MATCH
     \<and> build_nic_custom_fields (LxcGuest sample_container) sample_nic
        [(''sync_identities'', JList [JObj (to_record (sample_nic_identity ''eth0''))]), (''sync_original_names'', JObj [])] = Inr cf'
     \<and> dget cf' ''sync_identities'' = Some (JList (map JObj rs))
     \<and> filter (\<lambda>r. \<not> outside_namespace (sample_nic_identity ''net0'') r) rs = [to_record (sample_nic_identity ''net0'')]"
proof (rule lxc_nic_key_migration [where key = "''net0''"])
  show "stored_identities [(''sync_identities'', JList [JObj (to_record (sample_nic_identity ''eth0''))]),
      (''sync_original_names'', JObj [])] [to_record (sample_nic_identity ''eth0'')]"
    by (simp add: stored_identities_def parseable_to_record valid_identity_def sample_nic_identity_def
        IDENTITY_SCHEMA_V2_def py_strip_def is_space_def)
  show "identity_of ''proxmox'' (g_source_instance sample_container) ''lxc-nic''
     (vmid_text (g_vmid sample_container) @ '':'' @ nic_name sample_nic) = Inr (sample_nic_identity ''eth0'')"
    by code_simp
  show "lxc_nic_source_identity sample_container sample_nic = Inr (sample_nic_identity ''net0'')"
    by code_simp
qed (simp_all add: sample_container_def sample_nic_def)

end
