(* ===== verification/NetboxApi.thy ===== *)
theory NetboxApi
  imports Metadata
begin

text \<open>
  The NetBox client (pynetbox) as the code uses it.  It is a third-party package, so it is a
  parameter of every definition: a record of operations on a client state and on record
  handles.  Endpoints are named as in \<open>PlanningNetBox\<close> (\<open>''dcim.devices''\<close>); filters and
  fields are keyword dictionaries.  Attribute reads and \<open>serialize()\<close> look at the record as the
  client holds it, so they are functions of the state.  An attribute is a plain value or a related
  record, of which the code reads the id and \<open>str()\<close>.

  What the code relies on is stated by two locales: \<open>netbox_reader\<close> (the read operations keep a
  relation on states) and \<open>netbox_writer\<close> (so do \<open>create\<close> and \<open>update\<close>; nothing is
  assumed of \<open>delete\<close>, which no stage calls).
\<close>

section \<open>The client\<close>

datatype attr = AVal json | ARec "int option" string

record ('s, 'r) netbox =
  nb_all :: "string \<Rightarrow> ('s, 'r list) io"
  nb_filter :: "string \<Rightarrow> obj \<Rightarrow> ('s, 'r list) io"
  nb_get :: "string \<Rightarrow> obj \<Rightarrow> ('s, 'r option) io"
  nb_create :: "string \<Rightarrow> obj \<Rightarrow> ('s, 'r) io"
  nb_update :: "'r \<Rightarrow> obj \<Rightarrow> ('s, unit) io"
  nb_delete :: "'r \<Rightarrow> ('s, unit) io"
  nb_id :: "'s \<Rightarrow> 'r \<Rightarrow> int"
  nb_attr :: "'s \<Rightarrow> 'r \<Rightarrow> string \<Rightarrow> attr option"
  nb_data :: "'s \<Rightarrow> 'r \<Rightarrow> obj"

text \<open>\<open>dict(getattr(record, 'custom_fields', None) or {})\<close>: null and absent read as empty.\<close>

definition custom_fields_of :: "('s, 'r) netbox \<Rightarrow> 's \<Rightarrow> 'r \<Rightarrow> obj" where
  "custom_fields_of nb s r =
     (case nb_attr nb s r ''custom_fields'' of Some (AVal (JObj d)) \<Rightarrow> d | _ \<Rightarrow> [])"

definition attr_str :: "attr \<Rightarrow> string" where
  "attr_str a = (case a of AVal v \<Rightarrow> py_str v | ARec i t \<Rightarrow> t)"

text \<open>\<open>record.name\<close> as a text; NetBox allows a device without a name.\<close>

definition name_of :: "('s, 'r) netbox \<Rightarrow> 's \<Rightarrow> 'r \<Rightarrow> string option" where
  "name_of nb s r = (case nb_attr nb s r ''name'' of Some (AVal (JStr n)) \<Rightarrow> Some n | _ \<Rightarrow> None)"

definition folded_name :: "('s, 'r) netbox \<Rightarrow> 's \<Rightarrow> 'r \<Rightarrow> string res" where
  "folded_name nb s r =
     (case name_of nb s r of None \<Rightarrow> Inl (AttributeError ''casefold'') | Some n \<Rightarrow> Inr (casefold n))"

section \<open>Values of serialized records\<close>

definition object_id :: "json \<Rightarrow> json" where
  "object_id v = (case v of
       JInt i \<Rightarrow> JInt i
     | JBool b \<Rightarrow> JBool b
     | JObj d \<Rightarrow> jget d ''id''
     | _ \<Rightarrow> JNull)"

definition choice_value :: "json \<Rightarrow> json" where
  "choice_value v = (case v of JObj d \<Rightarrow> jget d ''value'' | _ \<Rightarrow> v)"

definition integer_value :: "json \<Rightarrow> json res" where
  "integer_value v = (case v of
       JNull \<Rightarrow> Inr JNull
     | JBool b \<Rightarrow> Inr (JInt (if b then 1 else 0))
     | JInt i \<Rightarrow> Inr (JInt i)
     | JFloat t r \<Rightarrow> Inr (JInt (truncate_rat r))
     | JStr s \<Rightarrow> (case int_of_text s of Some i \<Rightarrow> Inr (JInt i)
         | None \<Rightarrow> (case float_of_text s of
             None \<Rightarrow> Inl (ValueError ''could not convert string to float'')
           | Some (FloatNum r) \<Rightarrow> Inr (JInt (truncate_rat r))
           | Some FloatInf \<Rightarrow> Inl (OverflowError ''cannot convert float infinity to integer'')
           | Some FloatNan \<Rightarrow> Inl (ValueError ''cannot convert float NaN to integer'')))
     | JList xs \<Rightarrow> Inl (TypeError ''float() argument must be a string or a real number'')
     | JObj d \<Rightarrow> Inl (TypeError ''float() argument must be a string or a real number''))"

text \<open>The assignment \<open>(type, id)\<close> of an address or MAC record.\<close>

definition assigned_object :: "('s, 'r) netbox \<Rightarrow> 's \<Rightarrow> 'r \<Rightarrow> json \<times> json" where
  "assigned_object nb s r =
     (jget (nb_data nb s r) ''assigned_object_type'', jget (nb_data nb s r) ''assigned_object_id'')"

text \<open>The managed fields of \<open>desired\<close> that differ from \<open>existing\<close>, in the list's order.\<close>

definition changed_fields :: "string list \<Rightarrow> obj \<Rightarrow> obj \<Rightarrow> string list" where
  "changed_fields managed existing desired =
     filter (\<lambda>f. \<not> py_eq (jget existing f) (jget desired f)) managed"

definition field_change :: "string \<Rightarrow> json \<Rightarrow> json \<Rightarrow> obj" where
  "field_change key current desired = (if py_eq current desired then [] else [(key, desired)])"

lemma mem_field_change [simp]:
  "kv \<in> set (field_change k c d) \<longleftrightarrow> kv = (k, d) \<and> \<not> py_eq c d"
  by (auto simp: field_change_def)

lemma jget_dupdate_field_change:
  "jget (dupdate d (field_change k c v @ kvs)) k' =
     jget (dupdate (if py_eq c v then d else dset k v d) kvs) k'"
  by (simp add: field_change_def)

text \<open>A batch of field changes over distinct keys: each field is what its own change makes it.\<close>

definition field_changes :: "(string \<times> json \<times> json) list \<Rightarrow> obj" where
  "field_changes fs = concat (map (\<lambda>(k, c, v). field_change k c v) fs)"

lemma field_changes_simps [simp]:
  "field_changes [] = []" "field_changes ((k, c, v) # fs) = field_change k c v @ field_changes fs"
  by (simp_all add: field_changes_def)

lemma jget_field_changes:
  assumes "distinct (map fst fs)" and "k \<notin> set (map fst rest)"
  shows "jget (dupdate d (field_changes fs @ rest)) k =
     (case map_of fs k of None \<Rightarrow> jget d k | Some (c, v) \<Rightarrow> if py_eq c v then jget d k else v)"
  using assms
proof (induction fs arbitrary: d)
  case Nil
  have "dget (rev rest) k = None" using Nil.prems(2) by (simp add: dget_None_iff)
  then show ?case by (simp add: jget_def dget_dupdate)
next
  case (Cons f fs)
  obtain k' c v where f: "f = (k', c, v)" by (cases f)
  have none: "map_of fs k' = None" using Cons.prems(1) f by (simp add: map_of_eq_None_iff)
  have d: "distinct (map fst fs)" using Cons.prems(1) by simp
  note IH = Cons.IH [OF d Cons.prems(2)]
  show ?case
  proof (cases "k' = k")
    case True
    with none have "map_of fs k = None" by simp
    with IH True f show ?thesis by (simp add: jget_dupdate_field_change)
  next
    case False
    then have "jget (dset k' v d) k = jget d k" by simp
    moreover have "jget (dupdate d (field_changes (f # fs) @ rest)) k
        = jget (dupdate (if py_eq c v then d else dset k' v d) (field_changes fs @ rest)) k"
      by (simp only: f field_changes_simps append_assoc jget_dupdate_field_change)
    moreover have "map_of (f # fs) k = map_of fs k" using False f by simp
    ultimately show ?thesis unfolding IH by (cases "map_of fs k") (auto split: prod.split)
  qed
qed

lemma integer_value_settled:
  "integer_value c = Inr x \<Longrightarrow>
     \<exists>y. integer_value (if py_eq x (JInt d) then c else JInt d) = Inr y \<and> py_eq y (JInt d)"
  by (auto simp: integer_value_def num_value_def)

lemma object_id_settled: "py_eq (object_id (if py_eq (object_id c) (JInt i) then c else JInt i)) (JInt i)"
  by (simp add: object_id_def num_value_def)

lemma choice_value_settled:
  "py_eq (choice_value (if py_eq (choice_value c) (JStr t) then c else JStr t)) (JStr t)"
  by (simp add: choice_value_def)

section \<open>Targets and counters\<close>

record sync_target =
  t_site_slug :: string
  t_cluster_type_slug :: string
  t_cluster_name :: string
  t_device_role_slug :: string
  t_platform_slug :: string
  t_device_type_slug :: string

record apply_counts =
  n_created :: nat
  n_updated :: nat
  n_skipped :: nat

definition no_counts :: apply_counts where
  "no_counts = \<lparr>n_created = 0, n_updated = 0, n_skipped = 0\<rparr>"

definition count_created :: "apply_counts \<Rightarrow> apply_counts" where
  "count_created c = c\<lparr>n_created := n_created c + 1\<rparr>"

definition count_updated :: "apply_counts \<Rightarrow> apply_counts" where
  "count_updated c = c\<lparr>n_updated := n_updated c + 1\<rparr>"

definition count_skipped :: "apply_counts \<Rightarrow> apply_counts" where
  "count_skipped c = c\<lparr>n_skipped := n_skipped c + 1\<rparr>"

section \<open>Interfaces of the client\<close>

locale netbox_reader =
  fixes nb :: "('s, 'r) netbox" and R :: "'s \<Rightarrow> 's \<Rightarrow> bool"
  assumes R_refl [preserves_intros]: "reflp R"
    and R_trans [preserves_intros]: "transp R"
    and all_R [preserves_intros]: "preserves R (nb_all nb ep)"
    and filter_R [preserves_intros]: "preserves R (nb_filter nb ep fs)"
    and get_R [preserves_intros]: "preserves R (nb_get nb ep fs)"

locale netbox_writer = netbox_reader nb R for nb :: "('s, 'r) netbox" and R +
  fixes may_create :: "string \<Rightarrow> obj \<Rightarrow> bool" and may_update :: "obj \<Rightarrow> bool"
  assumes create_R: "may_create ep kvs \<Longrightarrow> preserves R (nb_create nb ep kvs)"
    and update_R: "may_update kvs \<Longrightarrow> preserves R (nb_update nb r kvs)"

section \<open>Shared lookups\<close>

text \<open>\<open>_required\<close> and \<open>_resolve_cluster\<close>; each module raises its own error class.\<close>

definition nb_required ::
    "('s, 'r) netbox \<Rightarrow> (string \<Rightarrow> py_exn) \<Rightarrow> string \<Rightarrow> obj \<Rightarrow> ('s, 'r) io" where
  "nb_required nb err ep filters =
     io_bind (nb_get nb ep filters) (\<lambda>result.
       case result of None \<Rightarrow> io_raise (err ''NetBox prerequisite not found: '')
                    | Some r \<Rightarrow> io_return r)"

definition in_site_cluster :: "('s, 'r) netbox \<Rightarrow> 's \<Rightarrow> 'r \<Rightarrow> 'r \<Rightarrow> 'r \<Rightarrow> bool" where
  "in_site_cluster nb s site cluster_type cluster =
     (let data = nb_data nb s cluster
      in py_eq (object_id (jget data ''type'')) (JInt (nb_id nb s cluster_type))
         \<and> jget data ''scope_type'' = JStr ''dcim.site''
         \<and> py_eq (jget data ''scope_id'') (JInt (nb_id nb s site)))"

definition resolve_cluster ::
    "('s, 'r) netbox \<Rightarrow> (string \<Rightarrow> py_exn) \<Rightarrow> 'r \<Rightarrow> 'r \<Rightarrow> string \<Rightarrow> ('s, 'r) io" where
  "resolve_cluster nb err site cluster_type cluster_name =
     io_bind (nb_filter nb ''virtualization.clusters'' [(''name'', JStr cluster_name)]) (\<lambda>clusters.
     io_bind (io_read (\<lambda>s. Inr (filter (in_site_cluster nb s site cluster_type) clusters))) (\<lambda>matches.
       if length matches \<noteq> 1 then io_raise (err ''Expected exactly one target cluster '')
       else io_return (hd matches)))"

text \<open>The guest stages look the site up by slug and take its only cluster of the given name.\<close>

definition site_cluster ::
    "('s, 'r) netbox \<Rightarrow> (string \<Rightarrow> py_exn) \<Rightarrow> string \<Rightarrow> string \<Rightarrow> ('s, 'r \<times> 'r) io" where
  "site_cluster nb err site_slug cluster_name =
     io_bind (nb_get nb ''dcim.sites'' [(''slug'', JStr site_slug)]) (\<lambda>found.
     (case found of
        None \<Rightarrow> io_raise (err ''Target site not found'')
      | Some site \<Rightarrow>
          io_bind (nb_filter nb ''virtualization.clusters'' [(''name'', JStr cluster_name)]) (\<lambda>clusters.
          io_bind (io_read (\<lambda>s. Inr (filter (\<lambda>c.
              jget (nb_data nb s c) ''scope_type'' = JStr ''dcim.site''
              \<and> py_eq (jget (nb_data nb s c) ''scope_id'') (JInt (nb_id nb s site))) clusters))) (\<lambda>targets.
            if length targets \<noteq> 1 then io_raise (err ''Expected exactly one target cluster'')
            else io_return (site, hd targets)))))"

context netbox_reader
begin

lemmas reader_intros = R_refl R_trans all_R filter_R get_R preserves_intros

lemma required_R [preserves_intros]: "preserves R (nb_required nb err ep filters)"
  unfolding nb_required_def by (intro reader_intros)

lemma site_cluster_R: "preserves R (site_cluster nb err slug name)"
  unfolding site_cluster_def by (intro reader_intros)

lemma resolve_cluster_R [preserves_intros]: "preserves R (resolve_cluster nb err site ct name)"
  unfolding resolve_cluster_def by (intro reader_intros)

end

end
