(* ===== verification/FakeNetbox.thy ===== *)
theory FakeNetbox
  imports NetboxApi
begin

text \<open>
  The in-memory NetBox of the test suite (tests/fakes/netbox.py), an instance of the client
  interface: records live in per-endpoint lists, a handle is an endpoint name and an index, every
  mutation is logged.
\<close>

datatype fake_value = FVal json | FRef string nat | FNamespace obj

type_synonym fake_record = "(string \<times> fake_value) list"
type_synonym fake_mutation = "string \<times> string \<times> int \<times> obj"

record fake_state =
  fk_records :: "(string \<times> fake_record list) list"
  fk_mutations :: "fake_mutation list"

type_synonym fake_handle = "string \<times> nat"

definition fake_lookup :: "fake_state \<Rightarrow> fake_handle \<Rightarrow> fake_record" where
  "fake_lookup s h =
     (let rs = dgetl (fk_records s) (fst h) in if snd h < length rs then rs ! snd h else [])"

definition fake_id :: "fake_state \<Rightarrow> fake_handle \<Rightarrow> int" where
  "fake_id s h = (case dget (fake_lookup s h) ''id'' of Some (FVal (JInt i)) \<Rightarrow> i | _ \<Rightarrow> 0)"

definition fake_json :: "fake_state \<Rightarrow> fake_value \<Rightarrow> json" where
  "fake_json s v = (case v of FVal j \<Rightarrow> j
                            | FRef ep i \<Rightarrow> JInt (fake_id s (ep, i))
                            | FNamespace d \<Rightarrow> (case dget d ''id'' of Some i \<Rightarrow> i | None \<Rightarrow> JObj d))"

definition fake_data :: "fake_state \<Rightarrow> fake_handle \<Rightarrow> obj" where
  "fake_data s h = map (\<lambda>(k, v). (k, fake_json s v)) (fake_lookup s h)"

definition fake_attr :: "fake_state \<Rightarrow> fake_handle \<Rightarrow> string \<Rightarrow> attr option" where
  "fake_attr s h name =
     (case dget (fake_lookup s h) name of
        None \<Rightarrow> None
      | Some (FVal j) \<Rightarrow> Some (AVal j)
      | Some (FRef ep i) \<Rightarrow> Some (ARec (Some (fake_id s (ep, i))) ''FakeRecord'')
      | Some (FNamespace d) \<Rightarrow>
          Some (ARec (case dget d ''id'' of Some (JInt i) \<Rightarrow> Some i | _ \<Rightarrow> None) ''namespace''))"

definition fake_field_matches :: "fake_state \<Rightarrow> fake_handle \<Rightarrow> string \<times> json \<Rightarrow> bool" where
  "fake_field_matches s h f =
     (let (key, expected) = f;
          is_id = (take 3 (rev key) = rev ''_id'');
          attribute = (if is_id then take (length key - 3) key else key)
      in case dget (fake_lookup s h) attribute of
           None \<Rightarrow> py_eq JNull expected
         | Some (FVal j) \<Rightarrow> py_eq (if is_id then object_id j else j) expected
         | Some v \<Rightarrow> is_id \<and> py_eq (fake_json s v) expected)"

definition fake_handles :: "fake_state \<Rightarrow> string \<Rightarrow> fake_handle list" where
  "fake_handles s ep = map (\<lambda>i. (ep, i)) [0..<length (dgetl (fk_records s) ep)]"

definition fake_filter :: "string \<Rightarrow> obj \<Rightarrow> (fake_state, fake_handle list) io" where
  "fake_filter ep fs =
     io_read (\<lambda>s. Inr (filter (\<lambda>h. list_all (fake_field_matches s h) fs) (fake_handles s ep)))"

definition fake_get :: "string \<Rightarrow> obj \<Rightarrow> (fake_state, fake_handle option) io" where
  "fake_get ep fs = io_bind (fake_filter ep fs) (\<lambda>matches.
     case matches of [] \<Rightarrow> io_return None
       | [r] \<Rightarrow> io_return (Some r)
       | _ \<Rightarrow> io_raise (ValueError ''Multiple fake ''))"

definition fake_create :: "string \<Rightarrow> obj \<Rightarrow> (fake_state, fake_handle) io" where
  "fake_create ep kvs = (\<lambda>s.
     let rs = dgetl (fk_records s) ep;
         next_id = (if rs = [] then 0 else Max (set (map (fake_id s) (fake_handles s ep)))) + 1;
         kvs1 = (if dget kvs ''id'' = None then dset ''id'' (JInt next_id) kvs else kvs);
         cf = (case dget kvs1 ''custom_fields'' of None \<Rightarrow> JObj [] | Some v \<Rightarrow> v);
         rec = map (\<lambda>(k, v). (k, FVal v)) (dset ''custom_fields'' cf kvs1);
         new_id = (case jget kvs1 ''id'' of JInt i \<Rightarrow> i | _ \<Rightarrow> 0)
     in (Inr (ep, length rs),
         s\<lparr>fk_records := dset ep (rs @ [rec]) (fk_records s),
           fk_mutations := fk_mutations s @ [(''create'', ep, new_id, kvs1)]\<rparr>))"

definition fake_update :: "fake_handle \<Rightarrow> obj \<Rightarrow> (fake_state, unit) io" where
  "fake_update h changes = (\<lambda>s.
     let rs = dgetl (fk_records s) (fst h);
         rec = dupdate (fake_lookup s h) (map (\<lambda>(k, v). (k, FVal v)) changes);
         s' = s\<lparr>fk_records := dset (fst h) (rs[snd h := rec]) (fk_records s)\<rparr>
     in (Inr (), s'\<lparr>fk_mutations := fk_mutations s @ [(''update'', fst h, fake_id s' h, changes)]\<rparr>))"

definition fake_delete :: "fake_handle \<Rightarrow> (fake_state, unit) io" where
  "fake_delete h = (\<lambda>s. (Inl (AssertionError ''Delete is forbidden in the safety baseline''),
     s\<lparr>fk_mutations := fk_mutations s @ [(''delete'', fst h, fake_id s h, [])]\<rparr>))"

definition fake_netbox :: "(fake_state, fake_handle) netbox" where
  "fake_netbox = \<lparr>nb_all = (\<lambda>ep. io_read (\<lambda>s. Inr (fake_handles s ep))),
     nb_filter = fake_filter, nb_get = fake_get, nb_create = fake_create, nb_update = fake_update,
     nb_delete = fake_delete, nb_id = fake_id, nb_attr = fake_attr, nb_data = fake_data\<rparr>"

section \<open>The fake meets both interfaces\<close>

lemma preserves_eq_read: "preserves (=) (io_read f)"
  by (simp add: preserves_def io_read_def)

lemma fake_filter_eq: "preserves (=) (fake_filter ep fs)"
  by (simp add: fake_filter_def preserves_eq_read)

lemma fake_get_eq: "preserves (=) (fake_get ep fs)"
  unfolding fake_get_def by (intro preserves_intros fake_filter_eq reflpI transpI) auto

interpretation fake_reads: netbox_reader fake_netbox "(=)"
  by unfold_locales
    (auto simp: fake_netbox_def reflp_def transp_def preserves_eq_read fake_filter_eq fake_get_eq)

text \<open>The log only grows, and only by entries the two predicates allow.\<close>

definition fake_log :: "(string \<Rightarrow> obj \<Rightarrow> bool) \<Rightarrow> (obj \<Rightarrow> bool) \<Rightarrow> fake_state \<Rightarrow> fake_state \<Rightarrow> bool" where
  "fake_log okc oku s t \<longleftrightarrow>
     (\<exists>new. fk_mutations t = fk_mutations s @ new \<and>
        (\<forall>(op, ep, i, kvs) \<in> set new.
            op = ''create'' \<and> (\<exists>kvs0. okc ep kvs0 \<and> set (map fst kvs) = insert ''id'' (set (map fst kvs0)))
            \<or> op = ''update'' \<and> oku kvs))"

lemma fake_log_refl: "reflp (fake_log okc oku)"
  by (auto simp: reflp_def fake_log_def)

lemma fake_log_trans: "transp (fake_log okc oku)"
proof (rule transpI)
  fix s t u assume "fake_log okc oku s t" "fake_log okc oku t u"
  then obtain a b where "fk_mutations t = fk_mutations s @ a" "fk_mutations u = fk_mutations t @ b"
    "\<forall>(op, ep, i, kvs) \<in> set (a @ b).
        op = ''create'' \<and> (\<exists>kvs0. okc ep kvs0 \<and> set (map fst kvs) = insert ''id'' (set (map fst kvs0)))
        \<or> op = ''update'' \<and> oku kvs"
    unfolding fake_log_def by (metis (no_types, lifting) set_append Un_iff)
  then show "fake_log okc oku s u" unfolding fake_log_def by (intro exI [of _ "a @ b"]) simp
qed

lemma preserves_refine: "preserves (=) m \<Longrightarrow> reflp R \<Longrightarrow> preserves R m"
  unfolding preserves_def by (metis reflpD)

interpretation fake: netbox_writer fake_netbox "fake_log okc oku" okc oku for okc oku
proof
  show "preserves (fake_log okc oku) (nb_create fake_netbox ep kvs)" if "okc ep kvs" for ep kvs
    using that
    by (auto simp: preserves_def fake_netbox_def fake_create_def fake_log_def Let_def keys_dset dget_def
        map_of_eq_None_iff simp flip: set_map)
  show "preserves (fake_log okc oku) (nb_update fake_netbox r kvs)" if "oku kvs" for r kvs
    using that by (auto simp: preserves_def fake_netbox_def fake_update_def fake_log_def Let_def)
qed (auto intro: fake_log_refl fake_log_trans preserves_refine fake_reads.all_R fake_reads.filter_R
    fake_reads.get_R)

end
