(* ===== verification/PlanningNetbox.thy ===== *)
theory PlanningNetbox
  imports FakeNetbox
begin

text \<open>
  The planning facade (netbox_sync/application/planning_netbox.py): a NetBox client that reads
  through to another one and records every mutation instead of sending it.  A wrapped record is a
  cell of the heap \<open>pl_heap\<close>; wrapping the same NetBox record twice gives two cells, as in the
  code.  Endpoints are created on first use there; here every endpoint name has an empty list of
  created records and starts numbering them at -1.
\<close>

datatype 'r plan_source = Existing 'r | Planned obj

record 'r planning_record =
  pr_record :: "'r plan_source"
  pr_endpoint :: string
  pr_original :: obj
  pr_changes :: obj

datatype plan_op = PlanUpdate | PlanCreate

record planned_mutation =
  pm_operation :: plan_op
  pm_endpoint :: string
  pm_object_id :: json
  pm_before :: obj
  pm_after :: obj

record ('s, 'r) planning =
  pl_base :: 's
  pl_heap :: "'r planning_record list"
  pl_created :: "(string \<times> nat list) list"
  pl_next_id :: "(string \<times> int) list"
  pl_mutations :: "planned_mutation list"

section \<open>Records\<close>

definition planning_init :: "'r plan_source \<Rightarrow> string \<Rightarrow> obj \<Rightarrow> bool \<Rightarrow> 'r planning_record" where
  "planning_init r ep serialized created =
     \<lparr>pr_record = r, pr_endpoint = ep, pr_original = serialized,
      pr_changes =
        (if created then serialized
         else case dget serialized ''custom_fields'' of
             None \<Rightarrow> [] | Some v \<Rightarrow> [(''custom_fields'', v)])\<rparr>"

definition planning_cell :: "('s, 'r) planning \<Rightarrow> nat \<Rightarrow> 'r planning_record" where
  "planning_cell s h =
     (if h < length (pl_heap s) then pl_heap s ! h else planning_init (Planned []) [] [] True)"

definition record_serialize :: "'r planning_record \<Rightarrow> obj" where
  "record_serialize r = dupdate (pr_original r) (pr_changes r)"

definition planning_serialize :: "('s, 'r) planning \<Rightarrow> nat \<Rightarrow> obj" where
  "planning_serialize s h = record_serialize (planning_cell s h)"

definition planning_attr ::
    "('s, 'r) netbox \<Rightarrow> ('s, 'r) planning \<Rightarrow> nat \<Rightarrow> string \<Rightarrow> attr option" where
  "planning_attr nb s h name =
     (case dget (pr_changes (planning_cell s h)) name of
        Some v \<Rightarrow> Some (AVal v)
      | None \<Rightarrow> (case pr_record (planning_cell s h) of
            Existing r \<Rightarrow> nb_attr nb (pl_base s) r name
          | Planned values \<Rightarrow> None))"

definition planning_id :: "('s, 'r) netbox \<Rightarrow> ('s, 'r) planning \<Rightarrow> nat \<Rightarrow> int" where
  "planning_id nb s h =
     (case dget (pr_changes (planning_cell s h)) ''id'' of
        Some (JInt i) \<Rightarrow> i
      | _ \<Rightarrow> (case pr_record (planning_cell s h) of
            Existing r \<Rightarrow> nb_id nb (pl_base s) r | Planned values \<Rightarrow> 0))"

definition planning_record_mutation ::
    "planned_mutation \<Rightarrow> ('s, 'r) planning \<Rightarrow> ('s, 'r) planning" where
  "planning_record_mutation m s = s\<lparr>pl_mutations := pl_mutations s @ [m]\<rparr>"

definition planning_update :: "nat \<Rightarrow> obj \<Rightarrow> (('s, 'r) planning, unit) io" where
  "planning_update h changes = (\<lambda>s.
     let r = planning_cell s h;
         current = record_serialize r;
         before = map (\<lambda>(k, v). (k, jget current k)) changes;
         s' = s\<lparr>pl_heap := (pl_heap s)[h := r\<lparr>pr_changes := dupdate (pr_changes r) changes\<rparr>]\<rparr>
     in (Inr (), planning_record_mutation
          \<lparr>pm_operation = PlanUpdate, pm_endpoint = pr_endpoint r, pm_object_id = jget current ''id'',
           pm_before = before, pm_after = changes\<rparr> s'))"

definition planning_save :: "nat \<Rightarrow> (('s, 'r) planning, unit) io" where
  "planning_save h = (\<lambda>s.
     let r = planning_cell s h;
         changes = filter (\<lambda>(k, v). \<not> py_eq (jget (pr_original r) k) v) (pr_changes r)
     in if changes = [] then (Inr (), s)
        else (Inr (), planning_record_mutation
          \<lparr>pm_operation = PlanUpdate, pm_endpoint = pr_endpoint r,
           pm_object_id = jget (record_serialize r) ''id'',
           pm_before = map (\<lambda>(k, v). (k, jget (pr_original r) k)) changes, pm_after = changes\<rparr>
          (s\<lparr>pl_heap := (pl_heap s)[h :=
               r\<lparr>pr_original := dupdate (pr_original r) changes, pr_changes := []\<rparr>]\<rparr>)))"

definition planning_delete :: "nat \<Rightarrow> (('s, 'r) planning, unit) io" where
  "planning_delete h = io_raise (AssertionError ''Delete is forbidden during sync planning'')"

section \<open>Endpoints\<close>

definition planning_wrap ::
    "('s, 'r) netbox \<Rightarrow> string \<Rightarrow> 'r \<Rightarrow> (('s, 'r) planning, nat) io" where
  "planning_wrap nb ep r = (\<lambda>s.
     (Inr (length (pl_heap s)),
      s\<lparr>pl_heap := pl_heap s @ [planning_init (Existing r) ep (nb_data nb (pl_base s) r) False]\<rparr>))"

text \<open>Run an operation of the wrapped client on its own state.\<close>

definition on_base :: "('s, 'a) io \<Rightarrow> (('s, 'r) planning, 'a) io" where
  "on_base m = (\<lambda>s. case m (pl_base s) of (r, b) \<Rightarrow> (r, s\<lparr>pl_base := b\<rparr>))"

definition planning_matches :: "('s, 'r) planning \<Rightarrow> obj \<Rightarrow> nat \<Rightarrow> bool" where
  "planning_matches s filters h =
     (let values = planning_serialize s h
      in list_all (\<lambda>(key, expected).
           let field = (if take 3 (rev key) = rev ''_id'' then take (length key - 3) key else key);
               actual = (case jget values field of JObj d \<Rightarrow> jget d ''id'' | v \<Rightarrow> v)
           in py_eq actual expected) filters)"

definition planning_all ::
    "('s, 'r) netbox \<Rightarrow> string \<Rightarrow> (('s, 'r) planning, nat list) io" where
  "planning_all nb ep =
     io_bind (on_base (nb_all nb ep)) (\<lambda>rs.
     io_bind (io_map (planning_wrap nb ep) rs) (\<lambda>hs.
     io_read (\<lambda>s. Inr (hs @ dgetl (pl_created s) ep))))"

definition planning_filter ::
    "('s, 'r) netbox \<Rightarrow> string \<Rightarrow> obj \<Rightarrow> (('s, 'r) planning, nat list) io" where
  "planning_filter nb ep filters =
     io_bind (on_base (nb_filter nb ep filters)) (\<lambda>rs.
     io_bind (io_map (planning_wrap nb ep) rs) (\<lambda>hs.
     io_read (\<lambda>s. Inr (hs @ filter (planning_matches s filters) (dgetl (pl_created s) ep)))))"

definition planning_get ::
    "('s, 'r) netbox \<Rightarrow> string \<Rightarrow> obj \<Rightarrow> (('s, 'r) planning, nat option) io" where
  "planning_get nb ep filters =
     io_bind (on_base (nb_get nb ep filters)) (\<lambda>existing.
       case existing of
         Some r \<Rightarrow> io_bind (planning_wrap nb ep r) (\<lambda>h. io_return (Some h))
       | None \<Rightarrow>
           io_bind (io_read (\<lambda>s. Inr (filter (planning_matches s filters) (dgetl (pl_created s) ep))))
             (\<lambda>created.
               if length created > 1 then io_raise (ValueError ''Multiple planned records match'')
               else io_return (case created of [] \<Rightarrow> None | h # hs \<Rightarrow> Some h)))"

definition next_planned_id :: "('s, 'r) planning \<Rightarrow> string \<Rightarrow> int" where
  "next_planned_id s ep = (case dget (pl_next_id s) ep of None \<Rightarrow> - 1 | Some i \<Rightarrow> i)"

definition planning_create :: "string \<Rightarrow> obj \<Rightarrow> (('s, 'r) planning, nat) io" where
  "planning_create ep kvs = (\<lambda>s.
     let values = (if dget kvs ''id'' = None
                   then dset ''id'' (JInt (next_planned_id s ep)) kvs else kvs);
         h = length (pl_heap s);
         s' = s\<lparr>pl_heap := pl_heap s @ [planning_init (Planned values) ep values True],
                pl_created := dset ep (dgetl (pl_created s) ep @ [h]) (pl_created s),
                pl_next_id := dset ep (next_planned_id s ep - 1) (pl_next_id s)\<rparr>
     in (Inr h, planning_record_mutation
          \<lparr>pm_operation = PlanCreate, pm_endpoint = ep, pm_object_id = jget values ''id'',
           pm_before = [], pm_after = values\<rparr> s'))"

definition planning_netbox :: "('s, 'r) netbox \<Rightarrow> (('s, 'r) planning, nat) netbox" where
  "planning_netbox nb = \<lparr>nb_all = planning_all nb, nb_filter = planning_filter nb,
     nb_get = planning_get nb, nb_create = planning_create, nb_update = planning_update,
     nb_delete = planning_delete, nb_id = planning_id nb, nb_attr = planning_attr nb,
     nb_data = planning_serialize\<rparr>"

definition start_planning :: "'s \<Rightarrow> ('s, 'r) planning" where
  "start_planning b = \<lparr>pl_base = b, pl_heap = [], pl_created = [], pl_next_id = [], pl_mutations = []\<rparr>"

section \<open>The facade meets the writer interface over any reader\<close>

definition allowed_mutation :: "(string \<Rightarrow> obj \<Rightarrow> bool) \<Rightarrow> (obj \<Rightarrow> bool) \<Rightarrow> planned_mutation \<Rightarrow> bool" where
  "allowed_mutation okc oku m =
     (case pm_operation m of
        PlanUpdate \<Rightarrow> oku (pm_after m)
      | PlanCreate \<Rightarrow> (\<exists>kvs. okc (pm_endpoint m) kvs \<and> set (map fst (pm_after m)) = insert ''id'' (set (map fst kvs))))"

definition plan_rel ::
    "('s \<Rightarrow> 's \<Rightarrow> bool) \<Rightarrow> (string \<Rightarrow> obj \<Rightarrow> bool) \<Rightarrow> (obj \<Rightarrow> bool) \<Rightarrow>
     ('s, 'r) planning \<Rightarrow> ('s, 'r) planning \<Rightarrow> bool" where
  "plan_rel Rb okc oku s t \<longleftrightarrow> Rb (pl_base s) (pl_base t) \<and>
     (\<exists>new. pl_mutations t = pl_mutations s @ new \<and> (\<forall>m \<in> set new. allowed_mutation okc oku m))"

lemma plan_rel_base: "plan_rel Rb okc oku s t \<Longrightarrow> Rb (pl_base s) (pl_base t)"
  by (simp add: plan_rel_def)

lemma plan_rel_refl: "reflp Rb \<Longrightarrow> reflp (plan_rel Rb okc oku)"
  by (auto simp: reflp_def plan_rel_def)

lemma plan_rel_trans:
  assumes "transp Rb" shows "transp (plan_rel Rb okc oku)"
proof (rule transpI)
  fix s t u assume st: "plan_rel Rb okc oku s t" and tu: "plan_rel Rb okc oku t u"
  then obtain a b where "pl_mutations t = pl_mutations s @ a" "pl_mutations u = pl_mutations t @ b"
    "\<forall>m \<in> set (a @ b). allowed_mutation okc oku m"
    unfolding plan_rel_def by (metis (no_types, lifting) set_append Un_iff)
  moreover have "Rb (pl_base s) (pl_base u)"
    using transpD [OF assms plan_rel_base [OF st] plan_rel_base [OF tu]] .
  ultimately show "plan_rel Rb okc oku s u" unfolding plan_rel_def by (intro conjI exI [of _ "a @ b"]) simp_all
qed

lemma on_base_rel: "preserves Rb m \<Longrightarrow> preserves (plan_rel Rb okc oku) (on_base m)"
  by (auto simp: preserves_def on_base_def plan_rel_def split: prod.splits) (metis snd_conv)

lemma wrap_rel: "reflp Rb \<Longrightarrow> preserves (plan_rel Rb okc oku) (planning_wrap nb ep r)"
  by (auto simp: preserves_def planning_wrap_def plan_rel_def reflpD)

lemma planning_writer:
  assumes base: "netbox_reader nb Rb"
  shows "netbox_writer (planning_netbox nb) (plan_rel Rb okc oku) okc oku"
proof -
  have r: "reflp Rb" and t: "transp Rb"
    using base by (auto intro: netbox_reader.R_refl netbox_reader.R_trans)
  note intros = plan_rel_refl [OF r] plan_rel_trans [OF t] wrap_rel [OF r] on_base_rel
    netbox_reader.all_R [OF base] netbox_reader.filter_R [OF base] netbox_reader.get_R [OF base]
    preserves_intros
  show ?thesis
  proof
    show "reflp (plan_rel Rb okc oku)" by (rule plan_rel_refl [OF r])
    show "transp (plan_rel Rb okc oku)" by (rule plan_rel_trans [OF t])
    show "preserves (plan_rel Rb okc oku) (nb_all (planning_netbox nb) ep)" for ep
      by (simp add: planning_netbox_def planning_all_def) (intro intros)
    show "preserves (plan_rel Rb okc oku) (nb_filter (planning_netbox nb) ep fs)" for ep fs
      by (simp add: planning_netbox_def planning_filter_def) (intro intros)
    show "preserves (plan_rel Rb okc oku) (nb_get (planning_netbox nb) ep fs)" for ep fs
      by (simp add: planning_netbox_def planning_get_def) (intro intros)
    show "preserves (plan_rel Rb okc oku) (nb_create (planning_netbox nb) ep kvs)" if "okc ep kvs" for ep kvs
      using that
      by (auto simp: preserves_def planning_netbox_def planning_create_def plan_rel_def Let_def reflpD [OF r]
          planning_record_mutation_def allowed_mutation_def keys_dset dget_def map_of_eq_None_iff
          simp flip: set_map)
    show "preserves (plan_rel Rb okc oku) (nb_update (planning_netbox nb) h kvs)" if "oku kvs" for h kvs
      using that
      by (auto simp: preserves_def planning_netbox_def planning_update_def plan_rel_def Let_def reflpD [OF r]
          planning_record_mutation_def allowed_mutation_def)
  qed
qed

interpretation plan: netbox_writer "planning_netbox fake_netbox" "plan_rel (=) okc oku" okc oku for okc oku
  by (rule planning_writer) (rule fake_reads.netbox_reader_axioms)

section \<open>Updates\<close>

lemma keys_dupdate_distinct: "distinct (map fst d) \<Longrightarrow> distinct (map fst (dupdate d kvs))"
  by simp

lemma dget_dupdate_dupdate:
  assumes "distinct (map fst c)" "distinct (map fst ch)"
  shows "dget (dupdate d (dupdate c ch)) k = dget (dupdate (dupdate d c) ch) k"
  using assms by (simp add: dget_dupdate_distinct split: option.splits)

text \<open>Every cell's working copy is a dictionary: its keys are distinct.\<close>

definition wf_cell :: "'r planning_record \<Rightarrow> bool" where
  "wf_cell r \<longleftrightarrow> distinct (map fst (pr_original r)) \<and> distinct (map fst (pr_changes r))"

lemma planning_cell_update:
  "h < length (pl_heap s) \<Longrightarrow> pl_heap t = (pl_heap s)[h := r] \<Longrightarrow>
     planning_cell t h' = (if h' = h then r else planning_cell s h')"
  by (simp add: planning_cell_def)

lemma dget_before: "dget (map (\<lambda>(k, v). (k, jget d k)) ch) k =
    (if k \<in> set (map fst ch) then Some (jget d k) else None)"
  by (induction ch) (auto simp: rev_image_eqI)

lemma jget_undo:
  assumes "distinct (map fst ch)"
  shows "jget (dupdate d' (map (\<lambda>(k, v). (k, jget d k)) ch)) k = (if k \<in> fst ` set ch then jget d k else jget d' k)"
proof -
  have "distinct (map fst (map (\<lambda>(k, v). (k, jget d k)) ch))"
    using assms by (simp add: comp_def case_prod_beta)
  then have "dget (dupdate d' (map (\<lambda>(k, v). (k, jget d k)) ch)) k
      = (if k \<in> fst ` set ch then Some (jget d k) else dget d' k)"
    by (simp add: dget_dupdate_distinct dget_before)
  then show ?thesis by (simp add: jget_def [of "dupdate d' _"] jget_def [of d'])
qed

section \<open>States a planning run reaches\<close>

inductive planning_reach :: "('s, 'r) netbox \<Rightarrow> ('s, 'r) planning \<Rightarrow> bool" for nb where
  start: "planning_reach nb (start_planning b)"
| all: "planning_reach nb s \<Longrightarrow> planning_all nb ep s = (r, t) \<Longrightarrow> planning_reach nb t"
| filter: "planning_reach nb s \<Longrightarrow> planning_filter nb ep fs s = (r, t) \<Longrightarrow> planning_reach nb t"
| get: "planning_reach nb s \<Longrightarrow> planning_get nb ep fs s = (r, t) \<Longrightarrow> planning_reach nb t"
| create: "planning_reach nb s \<Longrightarrow> dget kvs ''id'' = None \<Longrightarrow> planning_create ep kvs s = (r, t) \<Longrightarrow>
    planning_reach nb t"
| update: "planning_reach nb s \<Longrightarrow> dget changes ''id'' = None \<Longrightarrow>
    planning_update h changes s = (r, t) \<Longrightarrow> planning_reach nb t"
| save: "planning_reach nb s \<Longrightarrow> planning_save h s = (r, t) \<Longrightarrow>
    planning_reach nb t"

text \<open>The created records of an endpoint carry the identifiers -1, -2, ... in order of creation.\<close>

definition cell_has_id :: "'r planning_record \<Rightarrow> int \<Rightarrow> bool" where
  "cell_has_id r i \<longleftrightarrow> dget (pr_original r) ''id'' = Some (JInt i) \<and>
     (\<forall>v. (''id'', v) \<in> set (pr_changes r) \<longrightarrow> v = JInt i)"

definition planned_cell :: "('s, 'r) planning \<Rightarrow> nat \<Rightarrow> int \<Rightarrow> bool" where
  "planned_cell s h i \<longleftrightarrow> h < length (pl_heap s) \<and> cell_has_id (pl_heap s ! h) i"

definition planned_ids_ok :: "('s, 'r) planning \<Rightarrow> bool" where
  "planned_ids_ok s \<longleftrightarrow> (\<forall>ep.
     next_planned_id s ep = - int (length (dgetl (pl_created s) ep)) - 1 \<and>
     (\<forall>i < length (dgetl (pl_created s) ep). planned_cell s (dgetl (pl_created s) ep ! i) (- int i - 1)))"

lemma planned_ids_mono:
  assumes "planned_ids_ok s" and "pl_created t = pl_created s" "pl_next_id t = pl_next_id s"
    and "\<And>h i. planned_cell s h i \<Longrightarrow> planned_cell t h i"
  shows "planned_ids_ok t"
  using assms by (simp add: planned_ids_ok_def next_planned_id_def)

definition heap_grows :: "('s, 'r) planning \<Rightarrow> ('s, 'r) planning \<Rightarrow> bool" where
  "heap_grows s t \<longleftrightarrow> pl_created t = pl_created s \<and> pl_next_id t = pl_next_id s \<and>
     (\<exists>new. pl_heap t = pl_heap s @ new)"

lemma heap_grows_ids: "heap_grows s t \<Longrightarrow> planned_ids_ok s \<Longrightarrow> planned_ids_ok t"
  by (rule planned_ids_mono [of s t]) (auto simp: heap_grows_def planned_cell_def nth_append)

lemma heap_grows_refl: "reflp heap_grows"
  by (auto simp: reflp_def heap_grows_def)

lemma heap_grows_trans: "transp heap_grows"
  by (rule transpI) (auto simp: heap_grows_def)

lemmas heap_intros = heap_grows_refl heap_grows_trans preserves_intros

lemma wrap_grows: "preserves heap_grows (planning_wrap nb ep r)"
  by (simp add: preserves_def planning_wrap_def heap_grows_def)

lemma on_base_grows: "preserves heap_grows (on_base m)"
  by (simp add: preserves_def on_base_def heap_grows_def split: prod.splits)

lemma reads_grow:
  "preserves heap_grows (planning_all nb ep)"
  "preserves heap_grows (planning_filter nb ep fs)"
  "preserves heap_grows (planning_get nb ep fs)"
  unfolding planning_all_def planning_filter_def planning_get_def
  by (intro heap_intros wrap_grows on_base_grows)+

lemma read_ids: "preserves heap_grows m \<Longrightarrow> m s = (r, t) \<Longrightarrow> planned_ids_ok s \<Longrightarrow> planned_ids_ok t"
  using heap_grows_ids by (metis preservesD snd_conv)

lemma mem_dset: "(k, v) \<in> set (dset k' v' d) \<Longrightarrow> (k, v) = (k', v') \<or> (k, v) \<in> set d"
  by (induction d) (auto split: if_splits)

lemma mem_dupdate: "(k, v) \<in> set (dupdate d kvs) \<Longrightarrow> (k, v) \<in> set d \<or> (k, v) \<in> set kvs"
  by (induction d kvs rule: dupdate.induct) (auto dest: mem_dset)

lemma cell_has_id_serialize:
  "cell_has_id r i \<Longrightarrow> dget (record_serialize r) ''id'' = Some (JInt i)"
  by (auto simp: cell_has_id_def record_serialize_def dget_dupdate split: option.splits dest!: dget_Some_mem)

lemma dget_None_mem: "dget d k = None \<Longrightarrow> (k, v) \<notin> set d"
  by (force simp: dget_None_iff)

lemma create_ids:
  assumes ok: "planned_ids_ok s" and id: "dget kvs ''id'' = None"
    and run: "planning_create ep kvs s = (r, t)"
  shows "planned_ids_ok t"
proof -
  let ?h = "length (pl_heap s)"
  let ?vals = "dset ''id'' (JInt (next_planned_id s ep)) kvs"
  have heap: "pl_heap t = pl_heap s @ [planning_init (Planned ?vals) ep ?vals True]"
    and created: "pl_created t = dset ep (dgetl (pl_created s) ep @ [?h]) (pl_created s)"
    and ids: "pl_next_id t = dset ep (next_planned_id s ep - 1) (pl_next_id s)"
    using run id by (auto simp: planning_create_def planning_record_mutation_def Let_def)
  have get: "dgetl (pl_created t) ep' = (if ep' = ep then dgetl (pl_created s) ep @ [?h] else dgetl (pl_created s) ep')" for ep'
    by (simp add: created dgetl_def)
  have n: "next_planned_id s ep = - int (length (dgetl (pl_created s) ep)) - 1"
    using ok by (simp add: planned_ids_ok_def)
  have "cell_has_id (planning_init (Planned ?vals) ep ?vals True) (- int (length (dgetl (pl_created s) ep)) - 1)"
    using dget_None_mem [OF id] by (auto simp: cell_has_id_def planning_init_def n dest: mem_dset)
  then have new: "planned_cell t ?h (- int (length (dgetl (pl_created s) ep)) - 1)"
    by (simp add: planned_cell_def heap)
  have old: "planned_cell s h i \<Longrightarrow> planned_cell t h i" for h i
    by (simp add: planned_cell_def heap nth_append)
  show ?thesis
    unfolding planned_ids_ok_def
  proof (intro allI conjI impI)
    fix ep'
    show "next_planned_id t ep' = - int (length (dgetl (pl_created t) ep')) - 1"
      using ok by (simp add: get planned_ids_ok_def) (simp add: next_planned_id_def ids)
    fix i assume i: "i < length (dgetl (pl_created t) ep')"
    show "planned_cell t (dgetl (pl_created t) ep' ! i) (- int i - 1)"
      using ok i new old by (auto simp: get planned_ids_ok_def nth_append less_Suc_eq split: if_splits)
  qed
qed

lemma cell_change_ids:
  assumes "planned_ids_ok s" and "pl_created t = pl_created s" "pl_next_id t = pl_next_id s"
    and "pl_heap t = (pl_heap s)[h := r]"
    and "\<And>i. planned_cell s h i \<Longrightarrow> cell_has_id r i"
  shows "planned_ids_ok t"
proof (rule planned_ids_mono [OF assms(1-3)])
  show "planned_cell t h' i" if "planned_cell s h' i" for h' i
    using that assms(4) assms(5) [of i] by (cases "h' = h") (simp_all add: planned_cell_def)
qed

lemma update_ids:
  assumes ok: "planned_ids_ok s" and id: "dget changes ''id'' = None"
    and run: "planning_update h changes s = (r, t)"
  shows "planned_ids_ok t"
proof (rule cell_change_ids [OF ok])
  let ?r = "(planning_cell s h)\<lparr>pr_changes := dupdate (pr_changes (planning_cell s h)) changes\<rparr>"
  show "pl_created t = pl_created s" "pl_next_id t = pl_next_id s" "pl_heap t = (pl_heap s)[h := ?r]"
    using run by (auto simp: planning_update_def planning_record_mutation_def Let_def)
  show "cell_has_id ?r i" if "planned_cell s h i" for i
    using that dget_None_mem [OF id]
    by (auto simp: cell_has_id_def planned_cell_def planning_cell_def dest: mem_dupdate)
qed

lemma save_ids:
  assumes ok: "planned_ids_ok s" and run: "planning_save h s = (r, t)"
  shows "planned_ids_ok t"
proof (cases "t = s")
  case False
  let ?c = "planning_cell s h"
  let ?ch = "filter (\<lambda>(k, v). \<not> py_eq (jget (pr_original ?c) k) v) (pr_changes ?c)"
  let ?r = "?c\<lparr>pr_original := dupdate (pr_original ?c) ?ch, pr_changes := []\<rparr>"
  show ?thesis
  proof (rule cell_change_ids [OF ok])
    show "pl_created t = pl_created s" "pl_next_id t = pl_next_id s" "pl_heap t = (pl_heap s)[h := ?r]"
      using run False by (auto simp: planning_save_def planning_record_mutation_def Let_def split: if_splits)
    show "cell_has_id ?r i" if "planned_cell s h i" for i
    proof -
      have c: "cell_has_id ?c i" using that by (simp add: planned_cell_def planning_cell_def)
      then have "(''id'', v) \<notin> set (rev ?ch)" for v
        by (auto simp: cell_has_id_def jget_def num_value_def)
      then have "dget (rev ?ch) ''id'' = None"
        using dget_Some_mem by (metis not_None_eq)
      with c show ?thesis by (simp add: cell_has_id_def dget_dupdate)
    qed
  qed
qed (use ok in simp)

lemma reach_ids: "planning_reach nb s \<Longrightarrow> planned_ids_ok s"
proof (induction rule: planning_reach.induct)
  case (start b)
  show ?case by (simp add: planned_ids_ok_def start_planning_def next_planned_id_def)
qed (blast intro: read_ids reads_grow create_ids update_ids save_ids)+

section \<open>Properties\<close>

text \<open>A planned update leaves NetBox and every other record alone; the record's working copy is
  overwritten by the changes, and the logged mutation carries exactly those changes together with the
  values that, written back, restore the working copy.\<close>

theorem planned_update_undo:
  assumes "h < length (pl_heap s)" and "wf_cell (pl_heap s ! h)" and "distinct (map fst changes)"
    and "planning_update h changes s = (r, t)"
  shows "\<exists>m. pl_base t = pl_base s \<and> pl_mutations t = pl_mutations s @ [m]
           \<and> pm_operation m = PlanUpdate \<and> pm_after m = changes
           \<and> (\<forall>h'. h' \<noteq> h \<longrightarrow> planning_cell t h' = planning_cell s h')
           \<and> (\<forall>k. dget (planning_serialize t h) k = dget (dupdate (planning_serialize s h) changes) k)
           \<and> (\<forall>k. jget (dupdate (planning_serialize t h) (pm_before m)) k = jget (planning_serialize s h) k)"
proof -
  let ?c = "pl_heap s ! h"
  let ?r = "?c\<lparr>pr_changes := dupdate (pr_changes ?c) changes\<rparr>"
  let ?m = "\<lparr>pm_operation = PlanUpdate, pm_endpoint = pr_endpoint ?c,
     pm_object_id = jget (record_serialize ?c) ''id'',
     pm_before = map (\<lambda>(k, v). (k, jget (record_serialize ?c) k)) changes, pm_after = changes\<rparr>"
  have cell: "planning_cell s h = ?c" using assms(1) by (simp add: planning_cell_def)
  have t: "t = planning_record_mutation ?m (s\<lparr>pl_heap := (pl_heap s)[h := ?r]\<rparr>)"
    using assms(4) by (simp add: planning_update_def cell Let_def)
  have other: "planning_cell t h' = planning_cell s h'" if "h' \<noteq> h" for h'
    using that by (simp add: t planning_record_mutation_def planning_cell_def)
  have ser: "planning_serialize s h = dupdate (pr_original ?c) (pr_changes ?c)"
      "planning_serialize t h = dupdate (pr_original ?c) (dupdate (pr_changes ?c) changes)"
    using assms(1) by (simp_all add: planning_serialize_def record_serialize_def cell)
      (simp add: t planning_record_mutation_def planning_cell_def)
  have d: "distinct (map fst (pr_changes ?c))" using assms(2) by (simp add: wf_cell_def)
  have upd: "dget (planning_serialize t h) k = dget (dupdate (planning_serialize s h) changes) k" for k
    unfolding ser using d assms(3) by (rule dget_dupdate_dupdate)
  have "jget (planning_serialize t h) k = jget (planning_serialize s h) k" if "k \<notin> fst ` set changes" for k
    using assms(3) that by (simp add: jget_def upd dget_dupdate_distinct dget_None_iff [THEN iffD2])
  then have "jget (dupdate (planning_serialize t h) (pm_before ?m)) k = jget (planning_serialize s h) k" for k
    using jget_undo [OF assms(3)] by (simp add: planning_serialize_def cell)
  with upd other show ?thesis
    by (intro exI [of _ ?m]) (simp add: t planning_record_mutation_def)
qed

definition sample_planning :: "(fake_state, fake_handle) planning" where
  "sample_planning = (start_planning \<lparr>fk_records = [], fk_mutations = []\<rparr>)
     \<lparr>pl_heap := [planning_init (Existing (''ipam.ip_addresses'', 0)) ''ipam.ip_addresses''
        [(''id'', JInt 4), (''address'', JStr ''10.0.0.5/24''), (''description'', JStr ''x'')] False]\<rparr>"

theorem planned_update_undo_witness:
  "\<exists>m. let t = snd (planning_update 0 [(''description'', JStr ''y'')] sample_planning) in
     pl_base t = pl_base sample_planning \<and> pl_mutations t = [] @ [m]
     \<and> pm_operation m = PlanUpdate \<and> pm_after m = [(''description'', JStr ''y'')]
     \<and> (\<forall>h'. h' \<noteq> 0 \<longrightarrow> planning_cell t h' = planning_cell sample_planning h')
     \<and> (\<forall>k. dget (planning_serialize t 0) k
              = dget (dupdate (planning_serialize sample_planning 0) [(''description'', JStr ''y'')]) k)
     \<and> (\<forall>k. jget (dupdate (planning_serialize t 0) (pm_before m)) k = jget (planning_serialize sample_planning 0) k)"
  using planned_update_undo [where h = 0 and s = sample_planning and changes = "[(''description'', JStr ''y'')]",
      OF _ _ _ surjective_pairing]
  by (simp add: sample_planning_def start_planning_def wf_cell_def planning_init_def Let_def)

text \<open>In every state a planning run reaches - whatever it reads, creates, updates or saves - the
  records created at one endpoint have pairwise different, negative identifiers, so a planned record is
  never confused with another planned one or with one of NetBox.\<close>

theorem planned_ids_distinct:
  assumes "planning_reach nb s"
  shows "\<exists>ids. map (\<lambda>h. jget (planning_serialize s h) ''id'') (dgetl (pl_created s) ep) = map JInt ids
           \<and> distinct ids \<and> (\<forall>i \<in> set ids. i < 0)"
proof -
  let ?hs = "dgetl (pl_created s) ep"
  let ?ids = "map (\<lambda>i. - int i - 1) [0..<length ?hs]"
  have "jget (planning_serialize s (?hs ! i)) ''id'' = JInt (- int i - 1)" if "i < length ?hs" for i
  proof -
    have "planned_cell s (?hs ! i) (- int i - 1)"
      using reach_ids [OF assms] that by (simp add: planned_ids_ok_def)
    then have "planning_cell s (?hs ! i) = pl_heap s ! (?hs ! i)" "cell_has_id (pl_heap s ! (?hs ! i)) (- int i - 1)"
      by (simp_all add: planned_cell_def planning_cell_def)
    then show ?thesis
      by (simp add: jget_def planning_serialize_def cell_has_id_serialize [of _ "- int i - 1"])
  qed
  then have "map (\<lambda>h. jget (planning_serialize s h) ''id'') ?hs = map JInt ?ids"
    by (intro nth_equalityI) simp_all
  moreover have "distinct ?ids" by (simp add: distinct_map inj_on_def)
  ultimately show ?thesis by (intro exI [of _ ?ids]) auto
qed

definition sample_created :: "(fake_state, fake_handle) planning" where
  "sample_created = snd (planning_create ''ipam.ip_addresses'' [(''address'', JStr ''10.0.0.6/24'')]
     (snd (planning_create ''ipam.ip_addresses'' [(''address'', JStr ''10.0.0.5/24'')]
       (start_planning \<lparr>fk_records = [], fk_mutations = []\<rparr>))))"

theorem planned_ids_distinct_witness:
  "\<exists>ids. map (\<lambda>h. jget (planning_serialize sample_created h) ''id'')
            (dgetl (pl_created sample_created) ''ipam.ip_addresses'') = map JInt ids
     \<and> distinct ids \<and> (\<forall>i \<in> set ids. i < 0)"
proof (rule planned_ids_distinct)
  have "planning_reach fake_netbox (snd (planning_create ''ipam.ip_addresses'' [(''address'', JStr ''10.0.0.5/24'')]
      (start_planning \<lparr>fk_records = [], fk_mutations = []\<rparr>)))"
    by (rule planning_reach.create [OF planning_reach.start _ surjective_pairing]) simp
  then show "planning_reach fake_netbox sample_created"
    unfolding sample_created_def
    by (rule planning_reach.create [OF _ _ surjective_pairing]) simp
qed

end
