(* ===== verification/Samples.thy ===== *)
theory Samples
  imports PlanningNetbox
begin

text \<open>
  A small NetBox (in the fake client's form) and a target that fits it; the concrete inputs on which
  the stages are evaluated.
\<close>

definition sample_target :: sync_target where
  "sample_target = \<lparr>t_site_slug = ''lab'', t_cluster_type_slug = ''proxmox-ve'', t_cluster_name = ''PVE'',
     t_device_role_slug = ''hypervisor'', t_platform_slug = ''proxmox'', t_device_type_slug = ''generic''\<rparr>"

definition fake_rec :: "obj \<Rightarrow> fake_record" where
  "fake_rec d = map (\<lambda>(k, v). (k, FVal v)) d"

definition sample_vm_record :: obj where
  "sample_vm_record = [(''id'', JInt 5), (''name'', JStr ''web''), (''cluster'', JInt 1),
     (''status'', JObj [(''value'', JStr ''active''), (''label'', JStr ''Active'')]),
     (''vcpus'', JFloat ''2.0'' 2), (''memory'', JInt 1024), (''disk'', JInt 32768),
     (''start_on_boot'', JStr ''on''), (''tenant'', JNull),
     (''custom_fields'', JObj [(''owner'', JStr ''ops''),
        (''sync_identities'', JList [JObj [(''source'', JStr ''proxmox''), (''source_id'', JStr ''n1:100'')]]),
        (''sync_original_names'', JNull)])]"

definition sample_netbox :: fake_state where
  "sample_netbox = \<lparr>fk_records =
     [(''dcim.sites'', [fake_rec [(''id'', JInt 1), (''name'', JStr ''LAB''), (''slug'', JStr ''lab'')]]),
      (''dcim.device_roles'', [fake_rec [(''id'', JInt 2), (''slug'', JStr ''hypervisor'')]]),
      (''dcim.platforms'', [fake_rec [(''id'', JInt 3), (''slug'', JStr ''proxmox'')]]),
      (''dcim.device_types'', [fake_rec [(''id'', JInt 4), (''slug'', JStr ''generic'')]]),
      (''virtualization.cluster_types'', [fake_rec [(''id'', JInt 1), (''slug'', JStr ''proxmox-ve'')]]),
      (''virtualization.clusters'', [fake_rec [(''id'', JInt 1), (''name'', JStr ''PVE''), (''type'', JInt 1),
         (''scope_type'', JStr ''dcim.site''), (''scope_id'', JInt 1)]]),
      (''virtualization.virtual_machines'', [fake_rec sample_vm_record])],
     fk_mutations = []\<rparr>"

end
