(* ===== verification/VmApply.thy ===== *)
theory VmApply
  imports Samples
begin

text \<open>
  The virtual machine stage (netbox_sync/netbox_vm_apply.py).  It reads NetBox, builds one context
  per discovered machine, refuses to write when a context is blocked, and otherwise creates or
  updates.  The printed report is not modelled, except that printing a context computes the desired
  status and so may raise; the summary counters are returned.
\<close>

section \<open>Desired values\<close>

definition vm_desired_status :: "discovered_vm \<Rightarrow> string res" where
  "vm_desired_status vm =
     (case dget [(''running'', ''active''), (''stopped'', ''offline''), (''paused'', ''paused'')] (g_status vm) of
        None \<Rightarrow> Inl (VMApplyError ''Unsupported Proxmox VM status: '')
      | Some s \<Rightarrow> Inr s)"

definition vm_desired_memory :: "discovered_vm \<Rightarrow> int" where
  "vm_desired_memory vm = mib (g_memory_bytes vm)"

definition vm_desired_disk :: "discovered_vm \<Rightarrow> int" where
  "vm_desired_disk vm = disks_mib (g_disks vm)"

definition vm_desired_start_on_boot :: "'a discovered_guest_scheme \<Rightarrow> string" where
  "vm_desired_start_on_boot vm = (if g_autostart vm then ''on'' else ''off'')"

definition vm_identity :: "discovered_vm \<Rightarrow> string" where
  "vm_identity vm = g_source vm @ '':'' @ vm_identity_source_id vm"

section \<open>Candidates\<close>

definition vm_tenant_id :: "('s, 'r) netbox \<Rightarrow> 's \<Rightarrow> 'r \<Rightarrow> json" where
  "vm_tenant_id nb s r = object_id (jget (nb_data nb s r) ''tenant'')"

fun vm_name_matches ::
    "('s, 'r) netbox \<Rightarrow> 's \<Rightarrow> string \<Rightarrow> json \<Rightarrow> int option \<Rightarrow> 'r list \<Rightarrow> 'r list res" where
  "vm_name_matches nb s name tenant excluded [] = Inr []"
| "vm_name_matches nb s name tenant excluded (c # cs) =
     (if excluded = Some (nb_id nb s c) then vm_name_matches nb s name tenant excluded cs
      else res_bind (folded_name nb s c) (\<lambda>n.
        if n \<noteq> casefold name \<or> \<not> py_eq (vm_tenant_id nb s c) tenant
        then vm_name_matches nb s name tenant excluded cs
        else res_bind (vm_name_matches nb s name tenant excluded cs) (\<lambda>ms. Inr (c # ms))))"

definition vm_managed_metadata :: "discovered_vm \<Rightarrow> obj \<Rightarrow> (obj \<times> string list) res" where
  "vm_managed_metadata vm existing =
     (case build_vm_custom_fields vm existing of
        Inl (ValueError m) \<Rightarrow> Inl (VMApplyError ''Invalid managed VM metadata for '')
      | Inl e \<Rightarrow> Inl e
      | Inr desired \<Rightarrow> Inr (desired, changed_fields MANAGED_VM_CUSTOM_FIELDS existing desired))"

definition build_vm_create_fields :: "discovered_vm \<Rightarrow> int \<Rightarrow> obj option \<Rightarrow> obj res" where
  "build_vm_create_fields vm cluster_id desired =
     res_bind (case desired of Some cf \<Rightarrow> Inr cf
                 | None \<Rightarrow> res_bind (vm_managed_metadata vm []) (\<lambda>(cf, changed). Inr cf)) (\<lambda>cf.
     res_bind (vm_desired_status vm) (\<lambda>status.
       Inr [(''name'', JStr (g_original_name vm)),
            (''cluster'', JInt cluster_id),
            (''status'', JStr status),
            (''vcpus'', JInt (g_vcpus vm)),
            (''memory'', JInt (vm_desired_memory vm)),
            (''disk'', JInt (vm_desired_disk vm)),
            (''start_on_boot'', JStr (vm_desired_start_on_boot vm)),
            (''custom_fields'', JObj cf)]))"

section \<open>Field differences\<close>

definition vm_changes :: "obj \<Rightarrow> discovered_vm \<Rightarrow> int \<Rightarrow> obj \<Rightarrow> string list \<Rightarrow> obj res" where
  "vm_changes data vm cluster_id desired changed =
     res_bind (vm_desired_status vm) (\<lambda>status.
     res_bind (integer_value (jget data ''vcpus'')) (\<lambda>vcpus.
     res_bind (integer_value (jget data ''memory'')) (\<lambda>memory.
     res_bind (integer_value (jget data ''disk'')) (\<lambda>disk.
       Inr (field_change ''name'' (jget data ''name'') (JStr (g_original_name vm))
          @ field_change ''cluster'' (object_id (jget data ''cluster'')) (JInt cluster_id)
          @ field_change ''status'' (choice_value (jget data ''status'')) (JStr status)
          @ field_change ''vcpus'' vcpus (JInt (g_vcpus vm))
          @ field_change ''memory'' memory (JInt (vm_desired_memory vm))
          @ field_change ''disk'' disk (JInt (vm_desired_disk vm))
          @ field_change ''start_on_boot'' (choice_value (jget data ''start_on_boot''))
              (JStr (vm_desired_start_on_boot vm))
          @ (if changed \<noteq> [] then [(''custom_fields'', JObj desired)] else []))))))"

section \<open>Preflight\<close>

datatype 'r vm_context =
    VmBlocked discovered_vm string "'r list"
  | VmCreate discovered_vm obj "string list"
  | VmMatch discovered_vm 'r obj "string list" obj

definition vm_create_context :: "discovered_vm \<Rightarrow> 'r vm_context res" where
  "vm_create_context vm = res_bind (vm_managed_metadata vm []) (\<lambda>(desired, changed).
     Inr (VmCreate vm desired changed))"

definition vm_match_context ::
    "('s, 'r) netbox \<Rightarrow> 's \<Rightarrow> discovered_vm \<Rightarrow> 'r \<Rightarrow> 'r \<Rightarrow> 'r vm_context res" where
  "vm_match_context nb s vm cluster existing =
     res_bind (vm_managed_metadata vm (custom_fields_of nb s existing)) (\<lambda>(desired, changed).
     res_bind (vm_changes (nb_data nb s existing) vm (nb_id nb s cluster) desired changed) (\<lambda>changes.
       Inr (VmMatch vm existing desired changed changes)))"

definition preflight_vm ::
    "('s, 'r) netbox \<Rightarrow> 's \<Rightarrow> 'r list \<Rightarrow> 'r list \<Rightarrow> 'r \<Rightarrow> discovered_vm \<Rightarrow> 'r vm_context res" where
  "preflight_vm nb s all_vms target_vms cluster vm =
     res_bind (find_vm_sync_identity_matches (custom_fields_of nb s) all_vms vm) (\<lambda>matches.
     (case matches of
        [] \<Rightarrow>
          res_bind (vm_name_matches nb s (g_original_name vm) JNull None target_vms) (\<lambda>names.
            if length names > 1 then Inr (VmBlocked vm ''duplicate_name_candidate'' names)
            else if length names = 1 then Inr (VmBlocked vm ''adopt_candidate'' names)
            else vm_create_context vm)
      | [existing] \<Rightarrow>
          if \<not> py_eq (object_id (jget (nb_data nb s existing) ''cluster'')) (JInt (nb_id nb s cluster))
          then Inr (VmBlocked vm ''identity_outside_target_cluster'' [existing])
          else res_bind (vm_name_matches nb s (g_original_name vm) (vm_tenant_id nb s existing)
                 (Some (nb_id nb s existing)) target_vms) (\<lambda>conflicts.
            if conflicts \<noteq> [] then Inr (VmBlocked vm ''desired_name_conflict'' conflicts)
            else vm_match_context nb s vm cluster existing)
      | _ \<Rightarrow> Inr (VmBlocked vm ''duplicate_sync_identity'' matches)))"

definition vm_blocked :: "'r vm_context \<Rightarrow> bool" where
  "vm_blocked c = (case c of VmBlocked vm reason cands \<Rightarrow> True | _ \<Rightarrow> False)"

definition vm_of_context :: "'r vm_context \<Rightarrow> discovered_vm" where
  "vm_of_context c = (case c of VmBlocked vm reason cands \<Rightarrow> vm | VmCreate vm cf ch \<Rightarrow> vm
                              | VmMatch vm r cf ch changes \<Rightarrow> vm)"

section \<open>The stage\<close>

definition vm_check_duplicates :: "discovered_vm list \<Rightarrow> unit res" where
  "vm_check_duplicates discovered =
     (if repeated_keys (group_by vm_identity discovered []) \<noteq> []
      then Inl (VMApplyError ''Duplicate discovered VM identities: '')
      else if repeated_keys (group_by (\<lambda>vm. casefold (g_original_name vm)) discovered []) \<noteq> []
      then Inl (VMApplyError ''Duplicate discovered VM names in target cluster: '')
      else Inr ())"

text \<open>Printing the report evaluates the desired status of every context that is not blocked.\<close>

definition vm_report :: "'r vm_context list \<Rightarrow> unit res" where
  "vm_report contexts =
     res_bind (res_map (\<lambda>c. if vm_blocked c then Inr [] else vm_desired_status (vm_of_context c)) contexts)
       (\<lambda>statuses. if list_ex vm_blocked contexts then Inl (VMApplyError ''VM apply precheck failed'')
                  else Inr ())"

definition vm_precheck ::
    "('s, 'r) netbox \<Rightarrow> discovered_host list \<Rightarrow> sync_target \<Rightarrow> ('s, 'r \<times> 'r vm_context list) io" where
  "vm_precheck nb hosts config =
     io_bind (nb_required nb VMApplyError ''dcim.sites'' [(''slug'', JStr (t_site_slug config))]) (\<lambda>site.
     io_bind (nb_required nb VMApplyError ''virtualization.cluster_types''
                [(''slug'', JStr (t_cluster_type_slug config))]) (\<lambda>cluster_type.
     io_bind (resolve_cluster nb VMApplyError site cluster_type (t_cluster_name config)) (\<lambda>cluster.
     io_bind (nb_all nb ''virtualization.virtual_machines'') (\<lambda>all_vms.
     io_bind (io_read (\<lambda>s. Inr (nb_id nb s cluster))) (\<lambda>cluster_id.
     io_bind (nb_filter nb ''virtualization.virtual_machines'' [(''cluster_id'', JInt cluster_id)]) (\<lambda>target_vms.
     let discovered = concat (map h_virtual_machines hosts) in
     io_bind (io_lift (vm_check_duplicates discovered)) (\<lambda>_.
     io_bind (io_read (\<lambda>s. res_map (preflight_vm nb s all_vms target_vms cluster)
                (sort_key (\<lambda>vm. (g_node_source_id vm, g_vmid vm)) discovered))) (\<lambda>contexts.
     io_bind (io_lift (vm_report contexts)) (\<lambda>_.
       io_return (cluster, contexts))))))))))"

definition vm_write_step ::
    "('s, 'r) netbox \<Rightarrow> 'r \<Rightarrow> apply_counts \<Rightarrow> 'r vm_context \<Rightarrow> ('s, apply_counts) io" where
  "vm_write_step nb cluster counts context =
     (case context of
        VmBlocked vm reason cands \<Rightarrow> io_return counts
      | VmCreate vm desired changed \<Rightarrow>
          io_bind (io_read (\<lambda>s. build_vm_create_fields vm (nb_id nb s cluster) (Some desired))) (\<lambda>kvs.
          io_bind (nb_create nb ''virtualization.virtual_machines'' kvs) (\<lambda>r.
            io_return (count_created counts)))
      | VmMatch vm existing desired changed changes \<Rightarrow>
          if changes \<noteq> []
          then io_bind (nb_update nb existing changes) (\<lambda>_. io_return (count_updated counts))
          else io_return (count_skipped counts))"

definition apply_virtual_machines ::
    "('s, 'r) netbox \<Rightarrow> discovered_host list \<Rightarrow> sync_target \<Rightarrow> bool \<Rightarrow> ('s, apply_counts option) io" where
  "apply_virtual_machines nb hosts config confirmed =
     io_bind (vm_precheck nb hosts config) (\<lambda>(cluster, contexts).
       if \<not> confirmed then io_return None
       else io_bind (io_fold (vm_write_step nb cluster) no_counts contexts) (\<lambda>counts.
              io_return (Some counts)))"

section \<open>What the stage writes\<close>

definition VM_FIELDS :: "string list" where
  "VM_FIELDS = [''name'', ''cluster'', ''status'', ''vcpus'', ''memory'', ''disk'', ''start_on_boot'',
     ''custom_fields'']"

lemma vm_changes_keys: "vm_changes data vm cid cf ch = Inr changes \<Longrightarrow> set (map fst changes) \<subseteq> set VM_FIELDS"
  by (auto simp: vm_changes_def res_bind_eq_Inr VM_FIELDS_def split: if_splits)

lemma build_vm_create_fields_keys:
  "build_vm_create_fields vm cid cf = Inr kvs \<Longrightarrow> map fst kvs = VM_FIELDS"
  by (auto simp: build_vm_create_fields_def res_bind_eq_Inr VM_FIELDS_def)

definition vm_context_ok :: "'r vm_context \<Rightarrow> bool" where
  "vm_context_ok c = (case c of VmMatch vm r cf ch changes \<Rightarrow> set (map fst changes) \<subseteq> set VM_FIELDS | _ \<Rightarrow> True)"

lemma vm_create_context_Inr:
  "vm_create_context vm = Inr c \<longleftrightarrow>
     (\<exists>cf ch. vm_managed_metadata vm [] = Inr (cf, ch) \<and> c = VmCreate vm cf ch)"
  by (auto simp: vm_create_context_def res_bind_eq_Inr)

lemma vm_match_context_Inr:
  "vm_match_context nb s vm cluster existing = Inr c \<longleftrightarrow>
     (\<exists>cf ch changes. vm_managed_metadata vm (custom_fields_of nb s existing) = Inr (cf, ch) \<and>
        vm_changes (nb_data nb s existing) vm (nb_id nb s cluster) cf ch = Inr changes \<and>
        c = VmMatch vm existing cf ch changes)"
  by (auto simp: vm_match_context_def res_bind_eq_Inr)

text \<open>The shape of a preflight that is not blocked.\<close>

lemma preflight_vm_match:
  assumes "preflight_vm nb s all_vms target_vms cluster vm = Inr (VmMatch vm' r cf ch changes)"
  shows "vm' = vm \<and> find_vm_sync_identity_matches (custom_fields_of nb s) all_vms vm = Inr [r]
     \<and> py_eq (object_id (jget (nb_data nb s r) ''cluster'')) (JInt (nb_id nb s cluster))
     \<and> vm_name_matches nb s (g_original_name vm) (vm_tenant_id nb s r) (Some (nb_id nb s r)) target_vms = Inr []
     \<and> vm_managed_metadata vm (custom_fields_of nb s r) = Inr (cf, ch)
     \<and> vm_changes (nb_data nb s r) vm (nb_id nb s cluster) cf ch = Inr changes"
proof -
  from assms obtain ms where ms: "find_vm_sync_identity_matches (custom_fields_of nb s) all_vms vm = Inr ms"
    by (auto simp: preflight_vm_def res_bind_eq_Inr)
  note simps = preflight_vm_def ms res_bind_eq_Inr vm_create_context_Inr vm_match_context_Inr
  consider "ms = []" | x where "ms = [x]" | x y zs where "ms = x # y # zs"
    by (metis neq_Nil_conv)
  then show ?thesis
    by cases (use assms in \<open>auto simp: simps split: if_splits\<close>)
qed

lemma preflight_vm_create:
  assumes "preflight_vm nb s all_vms target_vms cluster vm = Inr (VmCreate vm' cf ch)"
  shows "vm' = vm \<and> find_vm_sync_identity_matches (custom_fields_of nb s) all_vms vm = Inr []
     \<and> vm_name_matches nb s (g_original_name vm) JNull None target_vms = Inr []
     \<and> vm_managed_metadata vm [] = Inr (cf, ch)"
proof -
  from assms obtain ms where ms: "find_vm_sync_identity_matches (custom_fields_of nb s) all_vms vm = Inr ms"
    by (auto simp: preflight_vm_def res_bind_eq_Inr)
  note simps = preflight_vm_def ms res_bind_eq_Inr vm_create_context_Inr vm_match_context_Inr
  consider "ms = []" | x where "ms = [x]" | x y zs where "ms = x # y # zs"
    by (metis neq_Nil_conv)
  then show ?thesis
    by cases (use assms in \<open>auto simp: simps not_less le_Suc_eq split: if_splits\<close>)
qed

lemma preflight_vm_ok: "preflight_vm nb s all_vms target_vms cluster vm = Inr c \<Longrightarrow> vm_context_ok c"
proof (cases c)
  case (VmMatch vm' r cf ch changes)
  moreover assume "preflight_vm nb s all_vms target_vms cluster vm = Inr c"
  ultimately show ?thesis
    using preflight_vm_match vm_changes_keys by (fastforce simp: vm_context_ok_def)
qed (simp_all add: vm_context_ok_def)

lemma vm_report_unblocked: "vm_report cs = Inr u \<Longrightarrow> \<forall>c \<in> set cs. \<not> vm_blocked c"
  by (auto simp: vm_report_def res_bind_eq_Inr list_ex_iff split: if_splits)

lemma vm_precheck_returns:
  "returns (\<lambda>(cluster, cs). \<forall>c \<in> set cs. vm_context_ok c) (vm_precheck nb hosts config)"
  unfolding vm_precheck_def Let_def
  apply (rule returns_bind, rule returns_bind, rule returns_bind, rule returns_bind, rule returns_bind,
      rule returns_bind, rule returns_bind)
  apply (rule returns_bind_via [where Q = "\<lambda>cs. \<forall>c \<in> set cs. vm_context_ok c"])
   apply (rule returns_read)
   apply (blast dest: res_map_mem intro: preflight_vm_ok)
  apply (auto intro!: returns_bind returns_return)
  done

context netbox_reader
begin

lemma vm_precheck_R: "preserves R (vm_precheck nb hosts config)"
  unfolding vm_precheck_def Let_def by (intro reader_intros required_R resolve_cluster_R)

lemma vm_unconfirmed_R: "preserves R (apply_virtual_machines nb hosts config False)"
  unfolding apply_virtual_machines_def by (intro reader_intros vm_precheck_R) simp_all

end

context netbox_writer
begin

lemma vm_apply_R:
  assumes "\<And>kvs. map fst kvs = VM_FIELDS \<Longrightarrow> may_create ''virtualization.virtual_machines'' kvs"
    and "\<And>kvs. set (map fst kvs) \<subseteq> set VM_FIELDS \<Longrightarrow> may_update kvs"
  shows "preserves R (apply_virtual_machines nb hosts config confirmed)"
proof -
  have step: "preserves R (vm_write_step nb cluster counts c)" if "vm_context_ok c" for cluster counts c
  proof (cases c)
    case (VmCreate vm cf ch)
    have "preserves R (io_bind (io_read (\<lambda>s. build_vm_create_fields vm (nb_id nb s cluster) (Some cf)))
        (\<lambda>kvs. io_bind (nb_create nb ''virtualization.virtual_machines'' kvs) (\<lambda>r. io_return (count_created counts))))"
      by (rule preserves_bind_via [where Q = "\<lambda>kvs. map fst kvs = VM_FIELDS"])
        (auto intro!: reader_intros returns_read create_R assms(1) dest: build_vm_create_fields_keys)
    with VmCreate show ?thesis by (simp add: vm_write_step_def)
  next
    case (VmMatch vm r cf ch changes)
    with that show ?thesis
      by (auto simp: vm_write_step_def vm_context_ok_def intro!: reader_intros update_R assms(2))
  qed (auto simp: vm_write_step_def intro!: reader_intros)
  show ?thesis
    unfolding apply_virtual_machines_def
    by (rule preserves_bind_via [OF R_trans vm_precheck_R vm_precheck_returns])
      (auto intro!: reader_intros preserves_fold_mem step)
qed

end

section \<open>Lemmas for the properties\<close>

lemma preflight_vm_of_context:
  "preflight_vm nb s all_vms target_vms cluster vm = Inr c \<Longrightarrow> vm_of_context c = vm"
proof -
  assume p: "preflight_vm nb s all_vms target_vms cluster vm = Inr c"
  then obtain ms where ms: "find_vm_sync_identity_matches (custom_fields_of nb s) all_vms vm = Inr ms"
    by (auto simp: preflight_vm_def res_bind_eq_Inr)
  consider "ms = []" | x where "ms = [x]" | x y zs where "ms = x # y # zs" by (metis neq_Nil_conv)
  then show ?thesis
    by cases (use p in \<open>auto simp: preflight_vm_def ms vm_of_context_def res_bind_eq_Inr
      vm_create_context_Inr vm_match_context_Inr split: if_splits\<close>)
qed

lemma vm_changes_settled:
  assumes "vm_changes data vm cid cf ch = Inr changes"
  shows "vm_changes (dupdate data changes) vm cid cf' [] = Inr []"
proof -
  from assms obtain status vcpus memory disk where
    st: "vm_desired_status vm = Inr status" and
    ints: "integer_value (jget data ''vcpus'') = Inr vcpus" "integer_value (jget data ''memory'') = Inr memory"
      "integer_value (jget data ''disk'') = Inr disk" and
    changes: "changes = field_change ''name'' (jget data ''name'') (JStr (g_original_name vm))
          @ field_change ''cluster'' (object_id (jget data ''cluster'')) (JInt cid)
          @ field_change ''status'' (choice_value (jget data ''status'')) (JStr status)
          @ field_change ''vcpus'' vcpus (JInt (g_vcpus vm))
          @ field_change ''memory'' memory (JInt (vm_desired_memory vm))
          @ field_change ''disk'' disk (JInt (vm_desired_disk vm))
          @ field_change ''start_on_boot'' (choice_value (jget data ''start_on_boot''))
              (JStr (vm_desired_start_on_boot vm))
          @ (if ch \<noteq> [] then [(''custom_fields'', JObj cf)] else [])"
    by (auto simp: vm_changes_def res_bind_eq_Inr)
  let ?d = "dupdate data changes"
  define fs where "fs = [(''name'', jget data ''name'', JStr (g_original_name vm)),
    (''cluster'', object_id (jget data ''cluster''), JInt cid),
    (''status'', choice_value (jget data ''status''), JStr status),
    (''vcpus'', vcpus, JInt (g_vcpus vm)), (''memory'', memory, JInt (vm_desired_memory vm)),
    (''disk'', disk, JInt (vm_desired_disk vm)),
    (''start_on_boot'', choice_value (jget data ''start_on_boot''), JStr (vm_desired_start_on_boot vm))]"
  define rest where "rest = (if ch \<noteq> [] then [(''custom_fields'', JObj cf)] else [])"
  have d: "?d = dupdate data (field_changes fs @ rest)"
    unfolding changes fs_def rest_def by (simp only: field_changes_simps append_assoc append_Nil)
  have keys: "distinct (map fst fs)" by (simp add: fs_def)
  have other: "k \<notin> set (map fst rest)" if "k \<noteq> ''custom_fields''" for k
    using that by (auto simp: rest_def)
  have field: "jget ?d k = (case map_of fs k of None \<Rightarrow> jget data k
      | Some (c, v) \<Rightarrow> if py_eq c v then jget data k else v)" if "k \<noteq> ''custom_fields''" for k
    unfolding d by (rule jget_field_changes [OF keys other [OF that]])
  have get: "jget ?d ''name'' = (if py_eq (jget data ''name'') (JStr (g_original_name vm))
        then jget data ''name'' else JStr (g_original_name vm))"
    "jget ?d ''cluster'' = (if py_eq (object_id (jget data ''cluster'')) (JInt cid)
        then jget data ''cluster'' else JInt cid)"
    "jget ?d ''status'' = (if py_eq (choice_value (jget data ''status'')) (JStr status)
        then jget data ''status'' else JStr status)"
    "jget ?d ''vcpus'' = (if py_eq vcpus (JInt (g_vcpus vm)) then jget data ''vcpus'' else JInt (g_vcpus vm))"
    "jget ?d ''memory'' = (if py_eq memory (JInt (vm_desired_memory vm)) then jget data ''memory'' else JInt (vm_desired_memory vm))"
    "jget ?d ''disk'' = (if py_eq disk (JInt (vm_desired_disk vm)) then jget data ''disk'' else JInt (vm_desired_disk vm))"
    "jget ?d ''start_on_boot'' = (if py_eq (choice_value (jget data ''start_on_boot'')) (JStr (vm_desired_start_on_boot vm))
        then jget data ''start_on_boot'' else JStr (vm_desired_start_on_boot vm))"
    by (subst field, simp, simp add: fs_def)+
  have name: "py_eq (jget ?d ''name'') (JStr (g_original_name vm))" by (simp add: get)
  note ints' = integer_value_settled [OF ints(1), of "g_vcpus vm"]
    integer_value_settled [OF ints(2), of "vm_desired_memory vm"]
    integer_value_settled [OF ints(3), of "vm_desired_disk vm"]
  from ints' obtain v m k where
    vals: "integer_value (jget ?d ''vcpus'') = Inr v" "integer_value (jget ?d ''memory'') = Inr m"
      "integer_value (jget ?d ''disk'') = Inr k"
    and eqs: "py_eq v (JInt (g_vcpus vm))" "py_eq m (JInt (vm_desired_memory vm))"
      "py_eq k (JInt (vm_desired_disk vm))"
    unfolding get by blast
  have refs: "py_eq (object_id (jget ?d ''cluster'')) (JInt cid)"
      "py_eq (choice_value (jget ?d ''status'')) (JStr status)"
      "py_eq (choice_value (jget ?d ''start_on_boot'')) (JStr (vm_desired_start_on_boot vm))"
    unfolding get by (rule object_id_settled choice_value_settled)+
  show ?thesis
    by (simp only: vm_changes_def st vals res_bind_Inr field_change_def name eqs refs) simp
qed

section \<open>Properties\<close>

text \<open>Why a context may be written: the object it updates carries the machine's identity and lies in
  the target cluster; a machine it creates is known to no NetBox machine and clashes with no name.\<close>

definition vm_justified ::
    "('s, 'r) netbox \<Rightarrow> 's \<Rightarrow> 'r list \<Rightarrow> 'r list \<Rightarrow> 'r \<Rightarrow> 'r vm_context \<Rightarrow> bool" where
  "vm_justified nb s all_vms target_vms cluster c =
     (case c of
        VmBlocked vm reason cands \<Rightarrow> False
      | VmMatch vm r cf ch changes \<Rightarrow>
          r \<in> set all_vms
          \<and> (\<exists>rank. vm_sync_identity_match_rank (custom_fields_of nb s r) vm = Inr rank \<and> rank \<noteq> NO_IDENTITY_MATCH)
          \<and> py_eq (object_id (jget (nb_data nb s r) ''cluster'')) (JInt (nb_id nb s cluster))
      | VmCreate vm cf ch \<Rightarrow>
          (\<forall>r \<in> set all_vms. vm_sync_identity_match_rank (custom_fields_of nb s r) vm = Inr NO_IDENTITY_MATCH)
          \<and> (\<forall>r \<in> set target_vms. folded_name nb s r = Inr (casefold (g_original_name vm)) \<longrightarrow>
                \<not> py_eq (vm_tenant_id nb s r) JNull))"

lemma vm_name_matches_Nil:
  assumes "vm_name_matches nb s name tenant None cs = Inr []" and "r \<in> set cs"
    and "folded_name nb s r = Inr (casefold name)"
  shows "\<not> py_eq (vm_tenant_id nb s r) tenant"
  using assms by (induction cs) (auto simp: res_bind_eq_Inr split: if_splits)

lemma preflight_vm_justified:
  assumes "preflight_vm nb s all_vms target_vms cluster vm = Inr c" and "\<not> vm_blocked c"
  shows "vm_justified nb s all_vms target_vms cluster c"
proof (cases c)
  case (VmBlocked vm' reason cands)
  with assms(2) show ?thesis by (simp add: vm_blocked_def)
next
  case (VmCreate vm' cf ch)
  from preflight_vm_create [OF assms(1) [unfolded VmCreate]]
  have "find_vm_sync_identity_matches (custom_fields_of nb s) all_vms vm = Inr []" "vm' = vm"
    "vm_name_matches nb s (g_original_name vm) JNull None target_vms = Inr []" by simp_all
  with select_best_Nil vm_name_matches_Nil show ?thesis
    unfolding VmCreate vm_justified_def find_vm_sync_identity_matches_def by fastforce
next
  case (VmMatch vm' r cf ch changes)
  from preflight_vm_match [OF assms(1) [unfolded VmMatch]]
  have "find_vm_sync_identity_matches (custom_fields_of nb s) all_vms vm = Inr [r]" "vm' = vm"
    "py_eq (object_id (jget (nb_data nb s r) ''cluster'')) (JInt (nb_id nb s cluster))" by simp_all
  with select_best_mem show ?thesis
    unfolding VmMatch vm_justified_def find_vm_sync_identity_matches_def by fastforce
qed

lemma vm_check_duplicates_ok:
  "vm_check_duplicates vms = Inr u \<longleftrightarrow>
     distinct (map vm_identity vms) \<and> distinct (map (\<lambda>vm. casefold (g_original_name vm)) vms)"
  by (simp add: vm_check_duplicates_def repeated_keys_Nil)

lemma vm_precheck_Inr:
  assumes "vm_precheck nb hosts config s = (Inr (cluster, contexts), t)"
  shows "\<exists>s1 s2 cid all_vms target_vms.
           nb_all nb ''virtualization.virtual_machines'' s1 = (Inr all_vms, s2)
           \<and> nb_filter nb ''virtualization.virtual_machines'' [(''cluster_id'', JInt cid)] s2 = (Inr target_vms, t)
           \<and> vm_check_duplicates (concat (map h_virtual_machines hosts)) = Inr ()
           \<and> res_map (preflight_vm nb t all_vms target_vms cluster)
               (sort_key (\<lambda>vm. (g_node_source_id vm, g_vmid vm)) (concat (map h_virtual_machines hosts))) = Inr contexts
           \<and> (\<forall>c \<in> set contexts. vm_justified nb t all_vms target_vms cluster c)"
proof -
  let ?vms = "concat (map h_virtual_machines hosts)"
  from assms obtain s1 s2 all_vms target_vms where
    reads: "nb_all nb ''virtualization.virtual_machines'' s1 = (Inr all_vms, s2)"
      "nb_filter nb ''virtualization.virtual_machines'' [(''cluster_id'', JInt (nb_id nb s2 cluster))] s2
         = (Inr target_vms, t)"
    and dup: "vm_check_duplicates ?vms = Inr ()"
    and pre: "res_map (preflight_vm nb t all_vms target_vms cluster)
        (sort_key (\<lambda>vm. (g_node_source_id vm, g_vmid vm)) ?vms) = Inr contexts"
    and rep: "vm_report contexts = Inr ()"
    unfolding vm_precheck_def Let_def io_bind_Inr io_read_def io_lift_def io_return_def by auto
  have "vm_justified nb t all_vms target_vms cluster c" if "c \<in> set contexts" for c
    using res_map_mem [OF pre that] vm_report_unblocked [OF rep] that preflight_vm_justified by metis
  with dup reads pre show ?thesis by blast
qed

text \<open>C27: A precheck that passes has one unblocked context for each discovered machine, in the order
  of node and vmid; identities and names are unique among the machines; and every context is justified
  by what NetBox returned for all machines and for those of the target cluster.\<close>

theorem vm_precheck_sound:
  assumes "vm_precheck nb hosts config s = (Inr (cluster, contexts), t)"
  shows "let vms = concat (map h_virtual_machines hosts) in
           map vm_of_context contexts = sort_key (\<lambda>vm. (g_node_source_id vm, g_vmid vm)) vms
           \<and> distinct (map vm_identity vms)
           \<and> distinct (map (\<lambda>vm. casefold (g_original_name vm)) vms)
           \<and> (\<exists>s1 s2 cid all_vms target_vms.
                nb_all nb ''virtualization.virtual_machines'' s1 = (Inr all_vms, s2)
                \<and> nb_filter nb ''virtualization.virtual_machines'' [(''cluster_id'', JInt cid)] s2 = (Inr target_vms, t)
                \<and> (\<forall>c \<in> set contexts. vm_justified nb t all_vms target_vms cluster c))"
proof -
  from vm_precheck_Inr [OF assms] obtain s1 s2 cid all_vms target_vms where
    run: "nb_all nb ''virtualization.virtual_machines'' s1 = (Inr all_vms, s2)"
      "nb_filter nb ''virtualization.virtual_machines'' [(''cluster_id'', JInt cid)] s2 = (Inr target_vms, t)"
      "\<forall>c \<in> set contexts. vm_justified nb t all_vms target_vms cluster c"
    and dup: "vm_check_duplicates (concat (map h_virtual_machines hosts)) = Inr ()"
    and pre: "res_map (preflight_vm nb t all_vms target_vms cluster)
        (sort_key (\<lambda>vm. (g_node_source_id vm, g_vmid vm)) (concat (map h_virtual_machines hosts))) = Inr contexts"
    by blast
  have "map vm_of_context contexts
      = sort_key (\<lambda>vm. (g_node_source_id vm, g_vmid vm)) (concat (map h_virtual_machines hosts))"
    using pre by (rule res_map_inverse) (rule preflight_vm_of_context)
  with run dup [unfolded vm_check_duplicates_ok] show ?thesis unfolding Let_def by blast
qed

theorem vm_precheck_sound_witness:
  "\<exists>cluster contexts t. vm_precheck fake_netbox [sample_host] sample_target sample_netbox = (Inr (cluster, contexts), t)
     \<and> map vm_of_context contexts = [sample_vm]"
proof -
  have "succeeded (vm_precheck fake_netbox [sample_host] sample_target sample_netbox)" by code_simp
  then obtain cluster contexts t where run:
    "vm_precheck fake_netbox [sample_host] sample_target sample_netbox = (Inr (cluster, contexts), t)"
    by (auto elim: succeededE)
  from vm_precheck_sound [OF run] have "map vm_of_context contexts = [sample_vm]"
    by (simp add: sample_host_def Let_def)
  with run show ?thesis by (intro exI conjI)
qed

text \<open>Over the planning facade the whole stage, confirmed or not, only reads the wrapped client;
  what it logs are creations of virtual machines with exactly the managed fields and updates of managed
  fields: it never plans to touch another kind of object, a tenant, a primary address or a comment.\<close>

theorem vm_stage_plan:
  assumes "netbox_reader base Rb"
  shows "plan_rel Rb (\<lambda>ep kvs. ep = ''virtualization.virtual_machines'' \<and> map fst kvs = VM_FIELDS)
           (\<lambda>kvs. set (map fst kvs) \<subseteq> set VM_FIELDS)
           p (snd (apply_virtual_machines (planning_netbox base) hosts config confirmed p))"
  by (rule preservesD, rule netbox_writer.vm_apply_R [OF planning_writer [OF assms]]) simp_all

theorem vm_stage_plan_witness:
  "plan_rel (=) (\<lambda>ep kvs. ep = ''virtualization.virtual_machines'' \<and> map fst kvs = VM_FIELDS)
     (\<lambda>kvs. set (map fst kvs) \<subseteq> set VM_FIELDS) (start_planning sample_netbox)
     (snd (apply_virtual_machines (planning_netbox fake_netbox) [sample_host] sample_target True
        (start_planning sample_netbox)))"
  by (rule vm_stage_plan [OF fake_reads.netbox_reader_axioms])

text \<open>C22: Convergence.  When the changes of a matched machine have been written - the record reads
  back with the changed fields, and with the desired custom fields if they were among them - matching
  the same machine again computes no change at all.\<close>

theorem vm_update_converges:
  assumes "vm_match_context nb s vm cluster r = Inr (VmMatch vm r cf ch changes)"
    and "wf_obj (custom_fields_of nb s r)"
    and "nb_data nb t r = dupdate (nb_data nb s r) changes" and "nb_id nb t cluster = nb_id nb s cluster"
    and "custom_fields_of nb t r = (if ch = [] then custom_fields_of nb s r else cf)"
  shows "vm_match_context nb t vm cluster r = Inr (VmMatch vm r cf [] [])"
proof -
  let ?cf = "custom_fields_of nb s r"
  from assms(1) have m: "vm_managed_metadata vm ?cf = Inr (cf, ch)"
    and c: "vm_changes (nb_data nb s r) vm (nb_id nb s cluster) cf ch = Inr changes"
    by (auto simp: vm_match_context_Inr)
  from m have b: "build_vm_custom_fields vm ?cf = Inr cf"
    and ch: "ch = changed_fields MANAGED_VM_CUSTOM_FIELDS ?cf cf"
    by (auto simp: vm_managed_metadata_def split: sum.splits py_exn.splits)
  have wf: "wf_obj cf" using b assms(2) by (rule vm_fields.build_wf)
  have "vm_managed_metadata vm (custom_fields_of nb t r) = Inr (cf, [])"
  proof (cases "ch = []")
    case True
    then show ?thesis using b ch assms(5) by (simp add: vm_managed_metadata_def)
  next
    case False
    have "changed_fields MANAGED_VM_CUSTOM_FIELDS cf cf = []"
      by (simp add: changed_fields_def py_eq_refl wf_jget [OF wf])
    then show ?thesis using False assms(5) vm_build_again [OF b] by (simp add: vm_managed_metadata_def)
  qed
  then show ?thesis
    using vm_changes_settled [OF c] assms(3,4) by (simp add: vm_match_context_def)
qed

definition sample_after_update :: fake_state where
  "sample_after_update = snd (apply_virtual_machines fake_netbox [sample_host] sample_target True sample_netbox)"

theorem vm_update_converges_witness:
  "\<exists>cf. vm_match_context fake_netbox sample_after_update sample_vm
     (''virtualization.clusters'', 0) (''virtualization.virtual_machines'', 0)
     = Inr (VmMatch sample_vm (''virtualization.virtual_machines'', 0) cf [] [])"
proof -
  let ?vm = "(''virtualization.virtual_machines'', 0)" and ?cl = "(''virtualization.clusters'', 0)"
  have "case vm_match_context fake_netbox sample_netbox sample_vm ?cl ?vm of
      Inr (VmMatch vm r cf ch changes) \<Rightarrow> vm = sample_vm \<and> r = ?vm
        \<and> nb_data fake_netbox sample_after_update ?vm = dupdate (nb_data fake_netbox sample_netbox ?vm) changes
        \<and> custom_fields_of fake_netbox sample_after_update ?vm
            = (if ch = [] then custom_fields_of fake_netbox sample_netbox ?vm else cf)
    | _ \<Rightarrow> False"
    by code_simp
  then obtain cf ch changes where
    "vm_match_context fake_netbox sample_netbox sample_vm ?cl ?vm = Inr (VmMatch sample_vm ?vm cf ch changes)"
    "nb_data fake_netbox sample_after_update ?vm = dupdate (nb_data fake_netbox sample_netbox ?vm) changes"
    "custom_fields_of fake_netbox sample_after_update ?vm
            = (if ch = [] then custom_fields_of fake_netbox sample_netbox ?vm else cf)"
    by (auto split: sum.splits vm_context.splits)
  moreover have "wf_obj (custom_fields_of fake_netbox sample_netbox ?vm)" by code_simp
  moreover have "nb_id fake_netbox sample_after_update ?cl = nb_id fake_netbox sample_netbox ?cl" by code_simp
  ultimately show ?thesis by (intro exI) (rule vm_update_converges)
qed

end
