(* ===== verification/IpAddress.thy ===== *)
theory IpAddress
  imports PyIO "HOL-Library.Word"
begin

text \<open>
  Python's \<open>ipaddress.ip_interface\<close> as the stages use it (CPython 3.12, the version of the
  container image): parsing an address with an optional prefix or netmask, its canonical text, and the
  address classes.  Addresses are words of their width.  An IPv4-mapped IPv6 address is classified by
  its IPv6 value, as in 3.12.
\<close>

datatype ip_address = IPv4 "32 word" | IPv6 "128 word" "string option"

type_synonym ip_interface = "ip_address \<times> nat"

fun split_on :: "char \<Rightarrow> string \<Rightarrow> string list" where
  "split_on c [] = [[]]"
| "split_on c (x # xs) =
     (if x = c then [] # split_on c xs
      else case split_on c xs of [] \<Rightarrow> [[x]] | p # ps \<Rightarrow> (x # p) # ps)"

section \<open>IPv4\<close>

definition parse_octet :: "string \<Rightarrow> nat option" where
  "parse_octet s = (case nat_of_digits s of
       None \<Rightarrow> None
     | Some v \<Rightarrow> if length s > 3 \<or> (s \<noteq> ''0'' \<and> hd s = CHR ''0'') \<or> v > 255 then None else Some v)"

definition parse_ipv4 :: "string \<Rightarrow> 32 word option" where
  "parse_ipv4 s = (case map parse_octet (split_on (CHR ''.'') s) of
       [Some a, Some b, Some c, Some d] \<Rightarrow>
         Some (word_of_int (((int a * 256 + int b) * 256 + int c) * 256 + int d))
     | _ \<Rightarrow> None)"

definition ipv4_octets :: "32 word \<Rightarrow> nat list" where
  "ipv4_octets w = map nat
     [uint w div 16777216, uint w div 65536 mod 256, uint w div 256 mod 256, uint w mod 256]"

definition str_ipv4 :: "32 word \<Rightarrow> string" where
  "str_ipv4 w = join ''.'' (map nat_digits (ipv4_octets w))"

definition netmask_word :: "nat \<Rightarrow> 32 word" where
  "netmask_word n = word_of_int (2 ^ 32 - 2 ^ (32 - n))"

definition prefix_of_netmask :: "32 word \<Rightarrow> nat option" where
  "prefix_of_netmask w =
     (case find (\<lambda>n. netmask_word n = w) [0..<33] of
        Some n \<Rightarrow> Some n
      | None \<Rightarrow> find (\<lambda>n. netmask_word n = - w - 1) [0..<33])"

definition parse_prefix_digits :: "nat \<Rightarrow> string \<Rightarrow> nat option" where
  "parse_prefix_digits bits m =
     (case nat_of_digits m of None \<Rightarrow> None | Some n \<Rightarrow> if n \<le> bits then Some n else None)"

definition parse_ipv4_prefix :: "string \<Rightarrow> nat option" where
  "parse_ipv4_prefix m =
     (case parse_prefix_digits 32 m of
        Some n \<Rightarrow> Some n
      | None \<Rightarrow> (case parse_ipv4 m of None \<Rightarrow> None | Some w \<Rightarrow> prefix_of_netmask w))"

section \<open>IPv6\<close>

definition hex_value :: "char \<Rightarrow> nat option" where
  "hex_value c = map_of (zip ''0123456789abcdefABCDEF'' ([0..<16] @ [10..<16])) c"

fun hex_number :: "nat \<Rightarrow> string \<Rightarrow> nat option" where
  "hex_number acc [] = Some acc"
| "hex_number acc (c # cs) =
     (case hex_value c of None \<Rightarrow> None | Some d \<Rightarrow> hex_number (16 * acc + d) cs)"

definition parse_hextet :: "string \<Rightarrow> nat option" where
  "parse_hextet s = (if s = [] \<or> length s > 4 then None else hex_number 0 s)"

fun hex_digits :: "nat \<Rightarrow> string" where
  "hex_digits n = (if n < 16 then [hex_digit n] else hex_digits (n div 16) @ [hex_digit n])"

declare hex_digits.simps [simp del]

text \<open>The IPv4-style suffix becomes two hextets.\<close>

definition expand_ipv4_suffix :: "string list \<Rightarrow> string list option" where
  "expand_ipv4_suffix parts =
     (if CHR ''.'' \<in> set (last parts)
      then (case parse_ipv4 (last parts) of
          None \<Rightarrow> None
        | Some w \<Rightarrow> Some (butlast parts @ [hex_digits (nat (uint w div 65536)), hex_digits (nat (uint w mod 65536))]))
      else Some parts)"

definition skip_indexes :: "string list \<Rightarrow> nat list" where
  "skip_indexes parts = filter (\<lambda>i. parts ! i = []) [1..<length parts - 1]"

fun all_some :: "'a option list \<Rightarrow> 'a list option" where
  "all_some [] = Some []"
| "all_some (None # xs) = None"
| "all_some (Some x # xs) = map_option ((#) x) (all_some xs)"

definition hextet_parts :: "string list \<Rightarrow> (string list \<times> nat \<times> string list) option" where
  "hextet_parts parts =
     (case skip_indexes parts of
        [] \<Rightarrow> if length parts \<noteq> 8 \<or> hd parts = [] \<or> last parts = [] then None else Some (parts, 0, [])
      | [i] \<Rightarrow>
          let hi = take i parts; lo = drop (i + 1) parts;
              hi' = (if hd parts = [] then tl hi else hi);
              lo' = (if last parts = [] then butlast lo else lo)
          in if hd parts = [] \<and> hi' \<noteq> [] \<or> last parts = [] \<and> lo' \<noteq> [] then None
             else if length hi' + length lo' > 7 then None
             else Some (hi', 8 - (length hi' + length lo'), lo')
      | _ \<Rightarrow> None)"

definition hextets_value :: "nat list \<Rightarrow> int" where
  "hextets_value hs = foldl (\<lambda>acc h. acc * 65536 + int h) 0 hs"

definition parse_ipv6_plain :: "string \<Rightarrow> 128 word option" where
  "parse_ipv6_plain s =
     (let parts = split_on (CHR '':'') s
      in if s = [] \<or> length parts < 3 then None
         else case expand_ipv4_suffix parts of
           None \<Rightarrow> None
         | Some parts' \<Rightarrow>
             (if length parts' > 9 then None
              else case hextet_parts parts' of
                None \<Rightarrow> None
              | Some (hi, skipped, lo) \<Rightarrow>
                  (case (all_some (map parse_hextet hi), all_some (map parse_hextet lo)) of
                     (Some hs, Some ls) \<Rightarrow> Some (word_of_int (hextets_value (hs @ replicate skipped 0 @ ls)))
                   | _ \<Rightarrow> None)))"

definition parse_ipv6 :: "string \<Rightarrow> ip_address option" where
  "parse_ipv6 s =
     (let addr = takeWhile (\<lambda>c. c \<noteq> CHR ''%'') s;
          scope = drop (length addr + 1) s
      in if length addr = length s then map_option (\<lambda>w. IPv6 w None) (parse_ipv6_plain s)
         else if scope = [] \<or> CHR ''%'' \<in> set scope then None
         else map_option (\<lambda>w. IPv6 w (Some scope)) (parse_ipv6_plain addr))"

definition ipv6_hextets :: "128 word \<Rightarrow> nat list" where
  "ipv6_hextets w = map (\<lambda>i. nat (uint w div 65536 ^ (7 - i) mod 65536)) [0..<8]"

text \<open>Start and length of the first longest run of zero hextets: state (best start, best length,
  current start, current length).\<close>

fun zero_runs :: "nat \<Rightarrow> nat list \<Rightarrow> nat \<times> nat \<times> nat \<times> nat \<Rightarrow> nat \<times> nat" where
  "zero_runs i [] (bs, bl, cs, cl) = (bs, bl)"
| "zero_runs i (h # hs) (bs, bl, cs, cl) =
     (if h = 0
      then let cs' = (if cl = 0 then i else cs); cl' = cl + 1
           in zero_runs (i + 1) hs (if cl' > bl then (cs', cl', cs', cl') else (bs, bl, cs', cl'))
      else zero_runs (i + 1) hs (bs, bl, 0, 0))"

definition compress_hextets :: "nat list \<Rightarrow> string list" where
  "compress_hextets hs =
     (let (start, len) = zero_runs 0 hs (0, 0, 0, 0);
          texts = map hex_digits hs
      in if len > 1
         then (if start = 0 then [[]] else []) @ take start texts @ [[]] @ drop (start + len) texts
              @ (if start + len = length hs then [[]] else [])
         else texts)"

definition str_ipv6 :: "128 word \<Rightarrow> string" where
  "str_ipv6 w = join '':'' (compress_hextets (ipv6_hextets w))"

section \<open>Interfaces\<close>

definition str_ip :: "ip_address \<Rightarrow> string" where
  "str_ip a = (case a of IPv4 w \<Rightarrow> str_ipv4 w
                       | IPv6 w scope \<Rightarrow> str_ipv6 w @ (case scope of None \<Rightarrow> [] | Some z \<Rightarrow> ''%'' @ z))"

definition ip_version :: "ip_address \<Rightarrow> nat" where
  "ip_version a = (case a of IPv4 w \<Rightarrow> 4 | IPv6 w scope \<Rightarrow> 6)"

definition str_interface :: "ip_interface \<Rightarrow> string" where
  "str_interface i = str_ip (fst i) @ ''/'' @ nat_digits (snd i)"

definition parse_interface4 :: "string list \<Rightarrow> ip_interface option" where
  "parse_interface4 parts =
     (case parts of
        [a] \<Rightarrow> map_option (\<lambda>w. (IPv4 w, 32)) (parse_ipv4 a)
      | [a, m] \<Rightarrow> (case (parse_ipv4 a, parse_ipv4_prefix m) of
            (Some w, Some n) \<Rightarrow> Some (IPv4 w, n) | _ \<Rightarrow> None)
      | _ \<Rightarrow> None)"

definition parse_interface6 :: "string list \<Rightarrow> ip_interface option" where
  "parse_interface6 parts =
     (case parts of
        [a] \<Rightarrow> map_option (\<lambda>w. (w, 128)) (parse_ipv6 a)
      | [a, m] \<Rightarrow> (case (parse_ipv6 a, parse_prefix_digits 128 m) of
            (Some w, Some n) \<Rightarrow> Some (w, n) | _ \<Rightarrow> None)
      | _ \<Rightarrow> None)"

definition parse_interface :: "string \<Rightarrow> ip_interface option" where
  "parse_interface s =
     (let parts = split_on (CHR ''/'') s
      in case parse_interface4 parts of Some i \<Rightarrow> Some i | None \<Rightarrow> parse_interface6 parts)"

definition ip_interface_of :: "string \<Rightarrow> ip_interface res" where
  "ip_interface_of s = (case parse_interface s of
       None \<Rightarrow> Inl (ValueError ''does not appear to be an IPv4 or IPv6 interface'')
     | Some i \<Rightarrow> Inr i)"

definition canonical_address :: "string \<Rightarrow> string res" where
  "canonical_address s = res_bind (ip_interface_of s) (\<lambda>i. Inr (str_interface i))"

definition address_ip :: "string \<Rightarrow> string res" where
  "address_ip s = res_bind (ip_interface_of s) (\<lambda>i. Inr (str_ip (fst i)))"

section \<open>Address classes\<close>

definition is_loopback :: "ip_address \<Rightarrow> bool" where
  "is_loopback a = (case a of IPv4 w \<Rightarrow> uint w div 16777216 = 127 | IPv6 w scope \<Rightarrow> w = 1)"

definition is_link_local :: "ip_address \<Rightarrow> bool" where
  "is_link_local a = (case a of IPv4 w \<Rightarrow> uint w div 65536 = 169 * 256 + 254
                              | IPv6 w scope \<Rightarrow> uint w div 2 ^ 118 = 0x3FA)"

definition is_multicast :: "ip_address \<Rightarrow> bool" where
  "is_multicast a = (case a of IPv4 w \<Rightarrow> uint w div 2 ^ 28 = 14 | IPv6 w scope \<Rightarrow> uint w div 2 ^ 120 = 255)"

definition is_unspecified :: "ip_address \<Rightarrow> bool" where
  "is_unspecified a = (case a of IPv4 w \<Rightarrow> w = 0 | IPv6 w scope \<Rightarrow> w = 0)"

section \<open>The canonical text\<close>

lemma split_on_no_sep: "c \<notin> set xs \<Longrightarrow> split_on c xs = [xs]"
  by (induction xs) auto

lemma split_on_append: "c \<notin> set xs \<Longrightarrow> split_on c (xs @ c # ys) = xs # split_on c ys"
  by (induction xs) auto

lemma split_on_join:
  "xs \<noteq> [] \<Longrightarrow> \<forall>x \<in> set xs. c \<notin> set x \<Longrightarrow> split_on c (join [c] xs) = xs"
proof (induction "[c]" xs rule: join.induct)
  case (3 x y xs)
  then show ?case using split_on_append [of c x] by simp
qed (auto simp: split_on_no_sep)

lemma nat_digits_chars: "set (nat_digits n) \<subseteq> set ''0123456789''"
proof (induction n rule: nat_digits.induct)
  case (1 n)
  have d: "''0123456789'' ! k \<in> set ''0123456789''" if "k < 10" for k :: nat
    using that by (intro nth_mem) simp
  show ?case
  proof (cases "n < 10")
    case True
    then show ?thesis using d [of n] by (subst nat_digits.simps) auto
  next
    case False
    then show ?thesis using 1 d [of "n mod 10"] by (subst nat_digits.simps) auto
  qed
qed

lemma length_nat_digits: "n < 10 ^ Suc k \<Longrightarrow> length (nat_digits n) \<le> Suc k"
proof (induction k arbitrary: n)
  case 0
  then show ?case by (subst nat_digits.simps) simp
next
  case (Suc k)
  then have "n div 10 < 10 ^ Suc k" by (simp add: less_mult_imp_div_less)
  from Suc.IH [OF this] show ?case by (subst nat_digits.simps) simp
qed

lemma nat_digits_no_leading_zero: "n \<noteq> 0 \<Longrightarrow> hd (nat_digits n) \<noteq> CHR ''0''"
proof (induction n rule: nat_digits.induct)
  case (1 n)
  show ?case
  proof (cases "n < 10")
    case True
    with 1(2) have "n \<in> {1, 2, 3, 4, 5, 6, 7, 8, 9}" by auto
    then show ?thesis by (subst nat_digits.simps) auto
  next
    case False
    with 1(1) have "hd (nat_digits (n div 10)) \<noteq> CHR ''0''" by simp
    with False show ?thesis by (subst nat_digits.simps) simp
  qed
qed

lemma parse_octet_digits: "v < 256 \<Longrightarrow> parse_octet (nat_digits v) = Some v"
proof -
  assume v: "v < 256"
  then have "length (nat_digits v) \<le> 3" using length_nat_digits [of v 2] by simp
  moreover have "nat_digits v = ''0'' \<or> hd (nat_digits v) \<noteq> CHR ''0''"
    using nat_digits_no_leading_zero [of v] by (cases "v = 0") (simp_all add: nat_digits.simps [of 0])
  ultimately show ?thesis using v by (auto simp: parse_octet_def)
qed

lemma octet_bounds:
  fixes w :: "32 word"
  shows "nat (uint w div 16777216) < 256" "nat (uint w div 65536 mod 256) < 256"
    "nat (uint w div 256 mod 256) < 256" "nat (uint w mod 256) < 256"
proof -
  have "uint w < 2 ^ 32" using uint_lt2p [of w] by simp
  then have "uint w div 16777216 < 256" by (simp add: div_less_iff_less_mult)
  then show "nat (uint w div 16777216) < 256" by simp
qed (simp_all add: nat_less_iff)

lemma octets_value:
  fixes n :: int
  shows "((n div 16777216 * 256 + n div 65536 mod 256) * 256 + n div 256 mod 256) * 256 + n mod 256 = n"
proof -
  have "n div 65536 = n div 256 div 256" "n div 16777216 = n div 256 div 256 div 256"
    by (simp_all add: zdiv_zmult2_eq [symmetric])
  then show ?thesis by simp
qed

lemma parse_str_ipv4: "parse_ipv4 (str_ipv4 w) = Some w"
proof -
  have "split_on (CHR ''.'') (str_ipv4 w) = map nat_digits (ipv4_octets w)"
    unfolding str_ipv4_def
    by (rule split_on_join) (use nat_digits_chars in \<open>fastforce simp: ipv4_octets_def\<close>)+
  then have "parse_ipv4 (str_ipv4 w) = Some (word_of_int
      (((int (nat (uint w div 16777216)) * 256 + int (nat (uint w div 65536 mod 256))) * 256
         + int (nat (uint w div 256 mod 256))) * 256 + int (nat (uint w mod 256))))"
    by (simp only: parse_ipv4_def ipv4_octets_def list.map parse_octet_digits octet_bounds
        list.case option.case)
  also have "\<dots> = Some (word_of_int (uint w))"
    by (subst int_nat_eq)+ (simp only: pos_imp_zdiv_nonneg_iff uint_ge_0 pos_mod_sign if_True
        zero_less_numeral octets_value)
  finally show ?thesis by simp
qed

lemma str_ipv4_chars: "set (str_ipv4 w) \<subseteq> set ''0123456789.''"
  using nat_digits_chars by (fastforce simp: str_ipv4_def ipv4_octets_def)

lemma parse_str_interface4:
  "n \<le> 32 \<Longrightarrow> parse_interface (str_interface (IPv4 w, n)) = Some (IPv4 w, n)"
proof -
  assume "n \<le> 32"
  have "CHR ''/'' \<notin> set (str_ipv4 w)" using str_ipv4_chars [of w] by auto
  moreover have "CHR ''/'' \<notin> set (nat_digits n)" using nat_digits_chars [of n] by auto
  ultimately
  have "split_on (CHR ''/'') (str_ipv4 w @ CHR ''/'' # nat_digits n) = [str_ipv4 w, nat_digits n]"
    by (simp add: split_on_append split_on_no_sep)
  then show ?thesis
    using \<open>n \<le> 32\<close>
    by (simp add: parse_interface_def str_interface_def str_ip_def parse_interface4_def parse_str_ipv4
        parse_ipv4_prefix_def parse_prefix_digits_def)
qed

lemma find_le: "find P xs = Some n \<Longrightarrow> n \<in> set xs"
  by (auto simp: find_Some_iff)

lemma parse_ipv4_prefix_le: "parse_ipv4_prefix m = Some n \<Longrightarrow> n \<le> 32"
  by (auto simp: parse_ipv4_prefix_def parse_prefix_digits_def prefix_of_netmask_def
      split: option.splits if_splits dest!: find_le)

lemma parse_interface4_le: "parse_interface s = Some (IPv4 w, n) \<Longrightarrow> n \<le> 32"
  by (auto simp: parse_interface_def parse_interface4_def parse_interface6_def parse_ipv6_def Let_def
      split: option.splits list.splits if_splits dest: parse_ipv4_prefix_le)

text \<open>The canonical text of an IPv4 address reads back as the same address and prefix, and
  canonicalizing it again changes nothing: two addresses of the inventory are the same interface
  exactly when their canonical texts are equal.\<close>

theorem canonical_ipv4:
  assumes "parse_interface a = Some (IPv4 v, m)" and "parse_interface b = Some (IPv4 w, n)"
  shows "canonical_address (str_interface (IPv4 v, m)) = canonical_address a
         \<and> (canonical_address a = canonical_address b \<longleftrightarrow> v = w \<and> m = n)"
proof -
  have a: "parse_interface (str_interface (IPv4 v, m)) = Some (IPv4 v, m)"
    using parse_interface4_le [OF assms(1)] by (rule parse_str_interface4)
  have b: "parse_interface (str_interface (IPv4 w, n)) = Some (IPv4 w, n)"
    using parse_interface4_le [OF assms(2)] by (rule parse_str_interface4)
  have "str_interface (IPv4 v, m) = str_interface (IPv4 w, n) \<longleftrightarrow> v = w \<and> m = n"
  proof
    assume "str_interface (IPv4 v, m) = str_interface (IPv4 w, n)"
    with a b have "Some (IPv4 v, m) = Some (IPv4 w, n)" by metis
    then show "v = w \<and> m = n" by simp
  qed simp
  with a assms show ?thesis by (simp add: canonical_address_def ip_interface_of_def)
qed

theorem canonical_ipv4_witness:
  "canonical_address ''10.0.0.5/255.255.255.0'' = canonical_address ''10.0.0.5/24''"
proof -
  have "parse_interface ''10.0.0.5/255.255.255.0'' = Some (IPv4 167772165, 24)"
    "parse_interface ''10.0.0.5/24'' = Some (IPv4 167772165, 24)" by code_simp+
  from canonical_ipv4 [OF this] show ?thesis by simp
qed

end
