(* ===== verification/HostApply.thy ===== *)
theory HostApply
  imports Samples IpAddress
begin

text \<open>
  The host stage (netbox_sync/netbox_apply.py): devices, their interfaces and IP addresses, and the
  primary address.  The precheck resolves every host before anything is written; the write phase
  looks the addresses up again and refuses one that was assigned in between.
\<close>

section \<open>Lookups\<close>

text \<open>\<open>candidate.address\<close> as text.\<close>

definition address_text :: "('s, 'r) netbox \<Rightarrow> 's \<Rightarrow> 'r \<Rightarrow> string res" where
  "address_text nb s r = (case nb_attr nb s r ''address'' of
       None \<Rightarrow> Inl (AttributeError ''address'') | Some a \<Rightarrow> Inr (attr_str a))"

definition primary_address_is :: "('s, 'r) netbox \<Rightarrow> 's \<Rightarrow> string \<Rightarrow> 'r \<Rightarrow> bool" where
  "primary_address_is nb s wanted candidate =
     (case nb_attr nb s candidate ''primary_ip4'' of
        None \<Rightarrow> False
      | Some (AVal JNull) \<Rightarrow> False
      | Some a \<Rightarrow> address_ip (attr_str a) = Inr wanted)"

definition resolve_device_in ::
    "('s, 'r) netbox \<Rightarrow> 's \<Rightarrow> discovered_host \<Rightarrow> 'r \<Rightarrow> 'r list \<Rightarrow> 'r option res" where
  "resolve_device_in nb s host site devices =
     res_bind (find_sync_identity_matches (custom_fields_of nb s) devices host) (\<lambda>matches.
     (case matches of
        [] \<Rightarrow>
          let ip_matches = (case h_management_ip host of
                None \<Rightarrow> []
              | Some wanted \<Rightarrow> if wanted = [] then [] else filter (primary_address_is nb s wanted) devices)
          in if length ip_matches > 1 then Inl (HostApplyError ''Management IP conflict: '')
             else if ip_matches \<noteq> []
             then Inl (HostApplyError ''Device adoption candidate exists without sync identity: '')
             else res_bind (res_map (folded_name nb s) devices) (\<lambda>names.
               let name_matches = filter (\<lambda>n. n = casefold (h_normalized_name host)) names
               in if length name_matches > 1 then Inl (HostApplyError ''Device name conflict: '')
                  else if name_matches \<noteq> []
                  then Inl (HostApplyError ''Device adoption candidate exists without sync identity: '')
                  else Inr None)
      | [device] \<Rightarrow>
          if py_eq (object_id (jget (nb_data nb s device) ''site'')) (JInt (nb_id nb s site))
          then Inr (Some device)
          else Inl (HostApplyError ''Device matched by sync_identity but is outside target site: '')
      | _ \<Rightarrow> Inl (HostApplyError ''Duplicate sync identity '')))"

definition resolve_device ::
    "('s, 'r) netbox \<Rightarrow> discovered_host \<Rightarrow> 'r \<Rightarrow> ('s, 'r option) io" where
  "resolve_device nb host site =
     io_bind (nb_all nb ''dcim.devices'') (\<lambda>devices.
       io_read (\<lambda>s. resolve_device_in nb s host site devices))"

type_synonym 'r interface_table = "(string option \<times> 'r) list"

definition load_interface_step ::
    "('s, 'r) netbox \<Rightarrow> 's \<Rightarrow> 'r interface_table \<Rightarrow> 'r \<Rightarrow> 'r interface_table res" where
  "load_interface_step nb s table interface =
     (if dget table (name_of nb s interface) \<noteq> None
      then Inl (HostApplyError ''Duplicate interface '')
      else Inr (dset (name_of nb s interface) interface table))"

definition load_existing_interfaces ::
    "('s, 'r) netbox \<Rightarrow> 'r option \<Rightarrow> ('s, 'r interface_table) io" where
  "load_existing_interfaces nb device =
     (case device of
        None \<Rightarrow> io_return []
      | Some d \<Rightarrow>
          io_bind (io_read (\<lambda>s. Inr (nb_id nb s d))) (\<lambda>i.
          io_bind (nb_filter nb ''dcim.interfaces'' [(''device_id'', JInt i)]) (\<lambda>interfaces.
            io_read (\<lambda>s. res_fold (load_interface_step nb s) [] interfaces))))"

fun same_address :: "('s, 'r) netbox \<Rightarrow> 's \<Rightarrow> string \<Rightarrow> 'r list \<Rightarrow> 'r list res" where
  "same_address nb s canonical [] = Inr []"
| "same_address nb s canonical (r # rs) =
     res_bind (address_text nb s r) (\<lambda>t.
     res_bind (canonical_address t) (\<lambda>c.
     res_bind (same_address nb s canonical rs) (\<lambda>ms.
       Inr (if c = canonical then r # ms else ms))))"

definition find_ip_matches :: "('s, 'r) netbox \<Rightarrow> string \<Rightarrow> ('s, 'r list) io" where
  "find_ip_matches nb address =
     io_bind (io_lift (canonical_address address)) (\<lambda>canonical.
     io_bind (nb_filter nb ''ipam.ip_addresses'' [(''address'', JStr canonical)]) (\<lambda>candidates.
       io_read (\<lambda>s. same_address nb s canonical candidates)))"

definition management_step ::
    "discovered_host \<Rightarrow> (string \<times> string) list \<Rightarrow> string \<times> string \<Rightarrow> (string \<times> string) list res" where
  "management_step host acc pair =
     res_bind (address_ip (snd pair)) (\<lambda>ip.
       if Some ip = h_management_ip host
       then res_bind (canonical_address (snd pair)) (\<lambda>c. Inr (acc @ [(fst pair, c)]))
       else Inr acc)"

definition host_address_pairs :: "discovered_host \<Rightarrow> (string \<times> string) list" where
  "host_address_pairs host =
     concat (map (\<lambda>i. map (\<lambda>a. (hi_name i, a)) (hi_addresses i)) (h_interfaces host))"

definition management_binding :: "discovered_host \<Rightarrow> (string \<times> string) res" where
  "management_binding host =
     res_bind (res_fold (management_step host) [] (host_address_pairs host)) (\<lambda>matches.
       if length matches \<noteq> 1 then Inl (HostApplyError ''Expected exactly one management address for '')
       else Inr (hd matches))"

definition desired_interface_type :: "discovered_host_interface \<Rightarrow> string" where
  "desired_interface_type i =
     (if hi_interface_type i \<in> {Some ''bridge'', Some ''vlan''} then ''virtual'' else ''other'')"

definition host_managed_metadata :: "discovered_host \<Rightarrow> obj \<Rightarrow> (obj \<times> string list) res" where
  "host_managed_metadata host existing =
     res_bind (build_device_custom_fields host existing) (\<lambda>desired.
       Inr (desired, changed_fields MANAGED_DEVICE_CUSTOM_FIELDS existing desired))"

section \<open>Preflight\<close>

record 'r host_context =
  hc_host :: discovered_host
  hc_device :: "'r option"
  hc_management_interface :: string
  hc_management_address :: string
  hc_addresses :: "(string \<times> string) list"
  hc_desired_custom_fields :: obj
  hc_changed_custom_fields :: "string list"

text \<open>Whether an assignment is to a device interface.\<close>

definition assigned_to_interface :: "json \<times> json \<Rightarrow> int \<Rightarrow> bool" where
  "assigned_to_interface a i \<longleftrightarrow> fst a = JStr ''dcim.interface'' \<and> py_eq (snd a) (JInt i)"

definition preflight_address ::
    "('s, 'r) netbox \<Rightarrow> 'r interface_table \<Rightarrow> string \<times> string \<Rightarrow> ('s, string \<times> string) io" where
  "preflight_address nb existing pair =
     io_bind (io_lift (canonical_address (snd pair))) (\<lambda>address.
     io_bind (find_ip_matches nb address) (\<lambda>matches.
     io_bind (io_read (\<lambda>s.
       if length matches > 1 then Inl (HostApplyError ''IP conflict: '')
       else case matches of
           [] \<Rightarrow> Inr ()
         | ip # rest \<Rightarrow>
             (let a = assigned_object nb s ip
              in if a = (JNull, JNull) then Inr ()
                 else case dget existing (Some (fst pair)) of
                     Some i \<Rightarrow> if assigned_to_interface a (nb_id nb s i) then Inr ()
                               else Inl (HostApplyError ''IP is already assigned to '')
                   | None \<Rightarrow> Inl (HostApplyError ''IP is already assigned to ''))))
       (\<lambda>_. io_return (fst pair, address))))"

definition preflight_host ::
    "('s, 'r) netbox \<Rightarrow> 'r \<Rightarrow> discovered_host \<Rightarrow> ('s, 'r host_context) io" where
  "preflight_host nb site host =
     io_bind (resolve_device nb host site) (\<lambda>device.
     io_bind (load_existing_interfaces nb device) (\<lambda>existing.
     io_bind (io_lift (if distinct (map hi_name (h_interfaces host)) then Inr ()
                       else Inl (HostApplyError ''Duplicate discovered interface name on ''))) (\<lambda>_.
     io_bind (io_lift (management_binding host)) (\<lambda>(mgmt_interface, mgmt_address).
     io_bind (io_map (preflight_address nb existing) (host_address_pairs host)) (\<lambda>addresses.
     io_bind (io_read (\<lambda>s. host_managed_metadata host
        (case device of None \<Rightarrow> [] | Some d \<Rightarrow> custom_fields_of nb s d))) (\<lambda>(desired, changed).
       io_return \<lparr>hc_host = host, hc_device = device, hc_management_interface = mgmt_interface,
         hc_management_address = mgmt_address, hc_addresses = addresses,
         hc_desired_custom_fields = desired, hc_changed_custom_fields = changed\<rparr>))))))"

section \<open>Differences\<close>

record 'r host_targets =
  ht_site :: 'r
  ht_role :: 'r
  ht_platform :: 'r
  ht_device_type :: 'r
  ht_cluster :: 'r

definition device_changes ::
    "('s, 'r) netbox \<Rightarrow> 's \<Rightarrow> 'r host_targets \<Rightarrow> 'r \<Rightarrow> obj \<Rightarrow> string list \<Rightarrow> obj" where
  "device_changes nb s tg device desired changed =
     (let data = nb_data nb s device;
          ref = (\<lambda>field target. field_change field (object_id (jget data field)) (JInt (nb_id nb s target)))
      in ref ''site'' (ht_site tg) @ ref ''role'' (ht_role tg) @ ref ''platform'' (ht_platform tg)
         @ ref ''device_type'' (ht_device_type tg) @ ref ''cluster'' (ht_cluster tg)
         @ (if changed \<noteq> [] then [(''custom_fields'', JObj desired)] else []))"

definition interface_changes :: "obj \<Rightarrow> discovered_host_interface \<Rightarrow> obj" where
  "interface_changes data discovered =
     field_change ''type'' (choice_value (jget data ''type'')) (JStr (desired_interface_type discovered))
     @ field_change ''enabled'' (JBool (truthy (jget data ''enabled''))) (JBool (hi_autostart discovered))
     @ (case hi_comments discovered of
          None \<Rightarrow> []
        | Some comments \<Rightarrow>
            let current = (if truthy (jget data ''description'') then jget data ''description'' else JStr [])
            in field_change ''description'' current (JStr comments))"

section \<open>Writes\<close>

definition host_write_device ::
    "('s, 'r) netbox \<Rightarrow> 'r host_targets \<Rightarrow> 'r host_context \<Rightarrow> apply_counts \<Rightarrow> ('s, 'r \<times> apply_counts) io" where
  "host_write_device nb tg context counts =
     (case hc_device context of
        None \<Rightarrow>
          io_bind (io_read (\<lambda>s. Inr
            [(''name'', JStr (h_normalized_name (hc_host context))),
             (''device_type'', JInt (nb_id nb s (ht_device_type tg))),
             (''role'', JInt (nb_id nb s (ht_role tg))),
             (''site'', JInt (nb_id nb s (ht_site tg))),
             (''platform'', JInt (nb_id nb s (ht_platform tg))),
             (''cluster'', JInt (nb_id nb s (ht_cluster tg))),
             (''status'', JStr ''active''),
             (''custom_fields'', JObj (hc_desired_custom_fields context))])) (\<lambda>kvs.
          io_bind (nb_create nb ''dcim.devices'' kvs) (\<lambda>device.
            io_return (device, count_created counts)))
      | Some device \<Rightarrow>
          io_bind (io_read (\<lambda>s. Inr (device_changes nb s tg device
            (hc_desired_custom_fields context) (hc_changed_custom_fields context)))) (\<lambda>changes.
            if changes \<noteq> []
            then io_bind (nb_update nb device changes) (\<lambda>_. io_return (device, count_updated counts))
            else io_return (device, count_skipped counts)))"

definition host_write_interface ::
    "('s, 'r) netbox \<Rightarrow> 'r \<Rightarrow> 'r interface_table \<Rightarrow> (string \<times> 'r) list \<times> apply_counts
       \<Rightarrow> discovered_host_interface \<Rightarrow> ('s, (string \<times> 'r) list \<times> apply_counts) io" where
  "host_write_interface nb device existing acc discovered =
     (case dget existing (Some (hi_name discovered)) of
        None \<Rightarrow>
          io_bind (io_read (\<lambda>s. Inr
            ([(''device'', JInt (nb_id nb s device)),
              (''name'', JStr (hi_name discovered)),
              (''type'', JStr (desired_interface_type discovered)),
              (''enabled'', JBool (hi_autostart discovered))]
             @ (case hi_comments discovered of None \<Rightarrow> [] | Some c \<Rightarrow> [(''description'', JStr c)])))) (\<lambda>kvs.
          io_bind (nb_create nb ''dcim.interfaces'' kvs) (\<lambda>interface.
            io_return (dset (hi_name discovered) interface (fst acc), count_created (snd acc))))
      | Some interface \<Rightarrow>
          io_bind (io_read (\<lambda>s. Inr (interface_changes (nb_data nb s interface) discovered))) (\<lambda>changes.
            if changes \<noteq> []
            then io_bind (nb_update nb interface changes) (\<lambda>_.
              io_return (dset (hi_name discovered) interface (fst acc), count_updated (snd acc)))
            else io_return (dset (hi_name discovered) interface (fst acc), count_skipped (snd acc))))"

definition host_write_address ::
    "('s, 'r) netbox \<Rightarrow> (string \<times> 'r) list \<Rightarrow> (string \<times> 'r) list \<times> apply_counts
       \<Rightarrow> string \<times> string \<Rightarrow> ('s, (string \<times> 'r) list \<times> apply_counts) io" where
  "host_write_address nb interfaces acc pair =
     io_bind (io_lift (lookup_key interfaces (fst pair))) (\<lambda>interface.
     io_bind (find_ip_matches nb (snd pair)) (\<lambda>matches.
     io_bind (io_read (\<lambda>s. Inr (nb_id nb s interface))) (\<lambda>interface_id.
     (case matches of
        [] \<Rightarrow>
          io_bind (nb_create nb ''ipam.ip_addresses''
            [(''address'', JStr (snd pair)),
             (''status'', JStr ''active''),
             (''assigned_object_type'', JStr ''dcim.interface''),
             (''assigned_object_id'', JInt interface_id)]) (\<lambda>ip.
            io_return (dset (snd pair) ip (fst acc), count_created (snd acc)))
      | [ip] \<Rightarrow>
          io_bind (io_read (\<lambda>s. Inr (assigned_object nb s ip))) (\<lambda>a.
            if a = (JNull, JNull)
            then io_bind (nb_update nb ip
              [(''assigned_object_type'', JStr ''dcim.interface''),
               (''assigned_object_id'', JInt interface_id)]) (\<lambda>_.
                io_return (dset (snd pair) ip (fst acc), count_updated (snd acc)))
            else if assigned_to_interface a interface_id
            then io_return (dset (snd pair) ip (fst acc), count_skipped (snd acc))
            else io_raise (HostApplyError ''IP assignment changed after preflight: ''))
      | _ \<Rightarrow> io_raise (HostApplyError ''IP conflict appeared during apply: '')))))"

definition host_set_primary ::
    "('s, 'r) netbox \<Rightarrow> 'r \<Rightarrow> 'r \<Rightarrow> apply_counts \<Rightarrow> ('s, apply_counts) io" where
  "host_set_primary nb device primary_ip counts =
     io_bind (io_read (\<lambda>s. Inr (nb_id nb s device))) (\<lambda>i.
     io_bind (nb_get nb ''dcim.devices'' [(''id'', JInt i)]) (\<lambda>current.
     (case current of
        None \<Rightarrow> io_raise (AttributeError ''serialize'')
      | Some current_device \<Rightarrow>
          io_bind (io_read (\<lambda>s. Inr (object_id (jget (nb_data nb s current_device) ''primary_ip4''),
                                    nb_id nb s primary_ip))) (\<lambda>(current_primary, primary_id).
            if \<not> py_eq current_primary (JInt primary_id)
            then io_bind (nb_update nb current_device [(''primary_ip4'', JInt primary_id)]) (\<lambda>_.
                   io_return (count_updated counts))
            else io_return (count_skipped counts)))))"

definition host_write ::
    "('s, 'r) netbox \<Rightarrow> 'r host_targets \<Rightarrow> apply_counts \<Rightarrow> 'r host_context \<Rightarrow> ('s, apply_counts) io" where
  "host_write nb tg counts context =
     io_bind (host_write_device nb tg context counts) (\<lambda>(device, counts1).
     io_bind (load_existing_interfaces nb (Some device)) (\<lambda>existing.
     io_bind (io_fold (host_write_interface nb device existing) ([], counts1)
                (sort_key hi_name (h_interfaces (hc_host context)))) (\<lambda>(interfaces, counts2).
     io_bind (io_fold (host_write_address nb interfaces) ([], counts2) (hc_addresses context))
       (\<lambda>(ips, counts3).
     io_bind (io_lift (lookup_key ips (hc_management_address context))) (\<lambda>primary_ip.
       host_set_primary nb device primary_ip counts3)))))"

section \<open>The stage\<close>

definition host_targets ::
    "('s, 'r) netbox \<Rightarrow> sync_target \<Rightarrow> ('s, 'r host_targets) io" where
  "host_targets nb config =
     io_bind (nb_required nb HostApplyError ''dcim.sites'' [(''slug'', JStr (t_site_slug config))]) (\<lambda>site.
     io_bind (nb_required nb HostApplyError ''dcim.device_roles''
                [(''slug'', JStr (t_device_role_slug config))]) (\<lambda>role.
     io_bind (nb_required nb HostApplyError ''dcim.platforms''
                [(''slug'', JStr (t_platform_slug config))]) (\<lambda>platform.
     io_bind (nb_required nb HostApplyError ''dcim.device_types''
                [(''slug'', JStr (t_device_type_slug config))]) (\<lambda>device_type.
     io_bind (nb_required nb HostApplyError ''virtualization.cluster_types''
                [(''slug'', JStr (t_cluster_type_slug config))]) (\<lambda>cluster_type.
     io_bind (resolve_cluster nb HostApplyError site cluster_type (t_cluster_name config)) (\<lambda>cluster.
       io_return \<lparr>ht_site = site, ht_role = role, ht_platform = platform,
         ht_device_type = device_type, ht_cluster = cluster\<rparr>))))))"

definition host_precheck ::
    "('s, 'r) netbox \<Rightarrow> discovered_host list \<Rightarrow> sync_target
       \<Rightarrow> ('s, 'r host_targets \<times> 'r host_context list) io" where
  "host_precheck nb hosts config =
     io_bind (host_targets nb config) (\<lambda>tg.
     io_bind (io_map (preflight_host nb (ht_site tg)) hosts) (\<lambda>contexts.
       io_return (tg, contexts)))"

definition apply_hosts ::
    "('s, 'r) netbox \<Rightarrow> discovered_host list \<Rightarrow> sync_target \<Rightarrow> bool \<Rightarrow> ('s, apply_counts option) io" where
  "apply_hosts nb hosts config confirmed =
     io_bind (host_precheck nb hosts config) (\<lambda>(tg, contexts).
       if \<not> confirmed then io_return None
       else io_bind (io_fold (host_write nb tg) no_counts contexts) (\<lambda>counts.
              io_return (Some counts)))"

section \<open>What the stage writes\<close>

definition host_may_create :: "string \<Rightarrow> obj \<Rightarrow> bool" where
  "host_may_create ep kvs \<longleftrightarrow>
     ep = ''dcim.devices'' \<and> map fst kvs = [''name'', ''device_type'', ''role'', ''site'', ''platform'',
        ''cluster'', ''status'', ''custom_fields'']
     \<or> ep = ''dcim.interfaces'' \<and> set (map fst kvs) \<subseteq> {''device'', ''name'', ''type'', ''enabled'', ''description''}
     \<or> ep = ''ipam.ip_addresses'' \<and> map fst kvs = [''address'', ''status'', ''assigned_object_type'', ''assigned_object_id'']"

definition host_may_update :: "obj \<Rightarrow> bool" where
  "host_may_update kvs \<longleftrightarrow>
     set (map fst kvs) \<subseteq> {''site'', ''role'', ''platform'', ''device_type'', ''cluster'', ''custom_fields''}
     \<or> set (map fst kvs) \<subseteq> {''type'', ''enabled'', ''description''}
     \<or> map fst kvs = [''assigned_object_type'', ''assigned_object_id'']
     \<or> map fst kvs = [''primary_ip4'']"

lemma device_changes_keys:
  "set (map fst (device_changes nb s tg d cf ch)) \<subseteq>
     {''site'', ''role'', ''platform'', ''device_type'', ''cluster'', ''custom_fields''}"
  by (auto simp: device_changes_def Let_def split: if_splits)

lemma interface_changes_keys:
  "set (map fst (interface_changes data d)) \<subseteq> {''type'', ''enabled'', ''description''}"
  by (auto simp: interface_changes_def Let_def split: option.splits)

lemma device_changes_ok: "host_may_update (device_changes nb s tg d cf ch)"
  unfolding host_may_update_def by (rule disjI1) (rule device_changes_keys)

lemma interface_changes_ok: "host_may_update (interface_changes data d)"
  unfolding host_may_update_def by (rule disjI2, rule disjI1) (rule interface_changes_keys)

context netbox_reader
begin

lemma find_ip_matches_R: "preserves R (find_ip_matches nb address)"
  unfolding find_ip_matches_def by (intro reader_intros)

lemma load_existing_interfaces_R: "preserves R (load_existing_interfaces nb device)"
  unfolding load_existing_interfaces_def by (intro reader_intros)

lemma resolve_device_R: "preserves R (resolve_device nb host site)"
  unfolding resolve_device_def by (intro reader_intros)

lemma preflight_address_R: "preserves R (preflight_address nb existing pair)"
  unfolding preflight_address_def by (intro reader_intros find_ip_matches_R)

lemma preflight_host_R: "preserves R (preflight_host nb site host)"
  unfolding preflight_host_def
  by (intro reader_intros resolve_device_R load_existing_interfaces_R preflight_address_R)

lemma host_precheck_R: "preserves R (host_precheck nb hosts config)"
  unfolding host_precheck_def host_targets_def
  by (intro reader_intros preflight_host_R required_R resolve_cluster_R)

lemma host_unconfirmed_R: "preserves R (apply_hosts nb hosts config False)"
  unfolding apply_hosts_def by (intro reader_intros host_precheck_R) simp_all

end

context netbox_writer
begin

lemma host_apply_R:
  assumes c: "\<And>ep kvs. host_may_create ep kvs \<Longrightarrow> may_create ep kvs"
    and u: "\<And>kvs. host_may_update kvs \<Longrightarrow> may_update kvs"
  shows "preserves R (apply_hosts nb hosts config confirmed)"
proof -
  have device: "preserves R (host_write_device nb tg ctx counts)" for tg ctx counts
  proof (cases "hc_device ctx")
    case None
    have "preserves R (io_bind (io_read (\<lambda>s. Inr (f s))) (\<lambda>kvs. io_bind (nb_create nb ''dcim.devices'' kvs)
        (\<lambda>device. io_return (device, count_created counts))))"
      if "\<And>s. host_may_create ''dcim.devices'' (f s)" for f
      by (rule preserves_bind_via [where Q = "host_may_create ''dcim.devices''"])
        (auto intro!: reader_intros returns_read create_R c simp: that)
    with None show ?thesis by (simp add: host_write_device_def host_may_create_def)
  next
    case (Some d)
    have "preserves R (io_bind (io_read (\<lambda>s. Inr (device_changes nb s tg d cf ch))) (\<lambda>changes.
        if changes \<noteq> [] then io_bind (nb_update nb d changes) (\<lambda>_. io_return (d, count_updated counts))
        else io_return (d, count_skipped counts)))" for cf ch
      by (rule preserves_bind_via [where Q = host_may_update])
        (auto intro!: reader_intros returns_read update_R u simp: device_changes_ok)
    with Some show ?thesis by (simp add: host_write_device_def)
  qed
  have interface: "preserves R (host_write_interface nb d existing acc di)" for d existing acc di
  proof (cases "dget existing (Some (hi_name di))")
    case None
    have "preserves R (io_bind (io_read (\<lambda>s. Inr (f s))) (\<lambda>kvs. io_bind (nb_create nb ''dcim.interfaces'' kvs)
        (\<lambda>i. io_return (g i))))"
      if "\<And>s. host_may_create ''dcim.interfaces'' (f s)" for f and g :: "'r \<Rightarrow> (string \<times> 'r) list \<times> apply_counts"
      by (rule preserves_bind_via [where Q = "host_may_create ''dcim.interfaces''"])
        (auto intro!: reader_intros returns_read create_R c simp: that)
    with None show ?thesis by (simp add: host_write_interface_def host_may_create_def split: option.splits)
  next
    case (Some i)
    have "preserves R (io_bind (io_read (\<lambda>s. Inr (interface_changes (nb_data nb s i) di))) (\<lambda>changes.
        if changes \<noteq> [] then io_bind (nb_update nb i changes) (\<lambda>_. io_return x) else io_return y))"
      for x y :: "(string \<times> 'r) list \<times> apply_counts"
      by (rule preserves_bind_via [where Q = host_may_update])
        (auto intro!: reader_intros returns_read update_R u simp: interface_changes_ok)
    with Some show ?thesis by (simp add: host_write_interface_def)
  qed
  have address: "preserves R (host_write_address nb ifs acc pair)" for ifs acc pair
    unfolding host_write_address_def
    by (intro reader_intros find_ip_matches_R create_R update_R c u)
      (simp_all add: host_may_create_def host_may_update_def)
  have primary: "preserves R (host_set_primary nb d ip counts)" for d ip counts
    unfolding host_set_primary_def
    by (intro reader_intros update_R u) (simp_all add: host_may_update_def)
  show ?thesis
    unfolding apply_hosts_def host_write_def
    by (intro reader_intros host_precheck_R device interface address primary load_existing_interfaces_R)
qed

end

section \<open>Properties\<close>

text \<open>C21: A host is bound to an existing device only by source identity and only inside the target
  site.  When it is bound to none, no NetBox device carries its identity, its name, or its management
  address as primary address: a look-alike is reported as an error, never adopted.\<close>

theorem resolve_device_sound:
  assumes "resolve_device_in nb s host site devices = Inr found"
  shows "case found of
      Some d \<Rightarrow> d \<in> set devices
        \<and> (\<exists>rank. sync_identity_match_rank (custom_fields_of nb s d) host = Inr rank \<and> rank \<noteq> NO_IDENTITY_MATCH)
        \<and> py_eq (object_id (jget (nb_data nb s d) ''site'')) (JInt (nb_id nb s site))
    | None \<Rightarrow> (\<forall>d \<in> set devices.
        sync_identity_match_rank (custom_fields_of nb s d) host = Inr NO_IDENTITY_MATCH
        \<and> folded_name nb s d \<noteq> Inr (casefold (h_normalized_name host))
        \<and> (\<forall>ip. h_management_ip host = Some ip \<longrightarrow> ip \<noteq> [] \<longrightarrow> \<not> primary_address_is nb s ip d))"
proof -
  from assms obtain ms where ms: "find_sync_identity_matches (custom_fields_of nb s) devices host = Inr ms"
    by (auto simp: resolve_device_in_def res_bind_eq_Inr)
  consider (none) "ms = []" | (one) d where "ms = [d]" | (many) x y zs where "ms = x # y # zs"
    by (metis neq_Nil_conv)
  then show ?thesis
  proof cases
    case none
    let ?ips = "case h_management_ip host of None \<Rightarrow> []
      | Some wanted \<Rightarrow> if wanted = [] then [] else filter (primary_address_is nb s wanted) devices"
    from assms none ms obtain names where f: "found = None" and names: "res_map (folded_name nb s) devices = Inr names"
      and no: "filter (\<lambda>n. n = casefold (h_normalized_name host)) names = []" and ips: "?ips = []"
      by (auto simp: resolve_device_in_def Let_def res_bind_eq_Inr split: if_splits)
    have "folded_name nb s d \<noteq> Inr (casefold (h_normalized_name host))" if "d \<in> set devices" for d
      using res_map_mem_fst [OF names that] no by (auto simp: filter_empty_conv)
    moreover have "\<not> primary_address_is nb s ip d"
      if "d \<in> set devices" "h_management_ip host = Some ip" "ip \<noteq> []" for d ip
      using ips that by (simp add: filter_empty_conv)
    ultimately show ?thesis
      using select_best_Nil [OF ms [unfolded none find_sync_identity_matches_def]] f by simp
  next
    case one
    have f: "found = Some d \<and> py_eq (object_id (jget (nb_data nb s d) ''site'')) (JInt (nb_id nb s site))"
      using assms by (auto simp: resolve_device_in_def ms one split: if_splits)
    from select_best_mem [OF ms [unfolded find_sync_identity_matches_def], of d] one
    show ?thesis using f by simp
  next
    case many
    with assms ms show ?thesis by (simp add: resolve_device_in_def)
  qed
qed

definition sample_device_netbox :: fake_state where
  "sample_device_netbox = sample_netbox\<lparr>fk_records := dset ''dcim.devices''
     [fake_rec [(''id'', JInt 1), (''name'', JStr ''n1''), (''site'', JInt 1),
        (''custom_fields'', JObj [(''sync_identities'', JList
           (case host_source_identity sample_host of Inl e \<Rightarrow> [] | Inr i \<Rightarrow> [JObj (to_record i)]))])]]
     (fk_records sample_netbox)\<rparr>"

theorem resolve_device_sound_witness:
  "\<exists>rank. sync_identity_match_rank (custom_fields_of fake_netbox sample_device_netbox (''dcim.devices'', 0)) sample_host
     = Inr rank \<and> rank \<noteq> NO_IDENTITY_MATCH"
proof -
  have "resolve_device_in fake_netbox sample_device_netbox sample_host (''dcim.sites'', 0) [(''dcim.devices'', 0)]
      = Inr (Some (''dcim.devices'', 0))" by code_simp
  from resolve_device_sound [OF this] show ?thesis by simp
qed

text \<open>C5: In the write phase an address record is taken for an interface only if, read at that moment,
  it is assigned to nothing, and then exactly its assignment is written; one that already belongs to the
  interface is left alone.  Any other assignment stops the stage.\<close>

theorem host_address_not_stolen:
  assumes "host_write_address nb interfaces acc (name, address) s = (Inr result, u)"
  shows "\<exists>interface matches t. dget interfaces name = Some interface
     \<and> find_ip_matches nb address s = (Inr matches, t)
     \<and> (case matches of
          [] \<Rightarrow> (\<exists>ip. nb_create nb ''ipam.ip_addresses'' [(''address'', JStr address), (''status'', JStr ''active''),
                  (''assigned_object_type'', JStr ''dcim.interface''),
                  (''assigned_object_id'', JInt (nb_id nb t interface))] t = (Inr ip, u))
        | [ip] \<Rightarrow>
            assigned_object nb t ip = (JNull, JNull) \<and>
              nb_update nb ip [(''assigned_object_type'', JStr ''dcim.interface''),
                (''assigned_object_id'', JInt (nb_id nb t interface))] t = (Inr (), u)
            \<or> assigned_to_interface (assigned_object nb t ip) (nb_id nb t interface) \<and> u = t
        | _ \<Rightarrow> False)"
proof -
  from assms obtain interface where i: "dget interfaces name = Some interface"
    by (auto simp: host_write_address_def lookup_key_def io_simps split: option.splits)
  from assms i obtain ms t where ms: "find_ip_matches nb address s = (Inr ms, t)"
    by (auto simp: host_write_address_def lookup_key_def io_bind_Inr io_lift_def)
  consider (none) "ms = []" | (one) ip where "ms = [ip]" | (many) x y zs where "ms = x # y # zs"
    by (metis neq_Nil_conv)
  then show ?thesis
  proof cases
    case none
    with assms i ms show ?thesis
      by (intro exI [of _ interface] exI [of _ ms] exI [of _ t])
        (auto simp: host_write_address_def lookup_key_def io_simps split: prod.splits sum.splits)
  next
    case one
    with assms i ms show ?thesis
      by (intro exI [of _ interface] exI [of _ ms] exI [of _ t])
        (auto simp: host_write_address_def lookup_key_def io_simps split: prod.splits sum.splits if_splits)
  next
    case many
    with assms i ms show ?thesis by (simp add: host_write_address_def lookup_key_def io_simps)
  qed
qed

definition sample_free_address :: fake_state where
  "sample_free_address = sample_netbox\<lparr>fk_records :=
     [(''dcim.interfaces'', [fake_rec [(''id'', JInt 1), (''name'', JStr ''vmbr0'')]]),
      (''ipam.ip_addresses'', [fake_rec [(''id'', JInt 9), (''address'', JStr ''10.0.0.7/24''),
         (''assigned_object_type'', JNull), (''assigned_object_id'', JNull)]])]\<rparr>"

theorem host_address_not_stolen_witness:
  "\<exists>result u matches t. host_write_address fake_netbox [(''vmbr0'', (''dcim.interfaces'', 0))] ([], no_counts)
       (''vmbr0'', ''10.0.0.7/24'') sample_free_address = (Inr result, u)
     \<and> find_ip_matches fake_netbox ''10.0.0.7/24'' sample_free_address = (Inr matches, t)"
proof -
  have "succeeded (host_write_address fake_netbox [(''vmbr0'', (''dcim.interfaces'', 0))] ([], no_counts)
       (''vmbr0'', ''10.0.0.7/24'') sample_free_address)" by code_simp
  then obtain result u where run: "host_write_address fake_netbox [(''vmbr0'', (''dcim.interfaces'', 0))] ([], no_counts)
       (''vmbr0'', ''10.0.0.7/24'') sample_free_address = (Inr result, u)" by (rule succeededE)
  from host_address_not_stolen [OF run] run show ?thesis by blast
qed

definition sample_repeated_address :: discovered_host where
  "sample_repeated_address = sample_host\<lparr>h_interfaces :=
     [sample_interface ''vmbr0'' [''10.0.0.2/24'', ''10.0.0.3/24''], sample_interface ''vmbr1'' [''10.0.0.3/24'']]\<rparr>"


end
