(* ===== verification/LxcApply.thy ===== *)
theory LxcApply
  imports Samples
begin

text \<open>
  The container stage (netbox_sync/netbox_lxc_apply.py).  Containers are NetBox virtual machines;
  a problem with any container raises while the contexts are built, before anything is written.
\<close>

section \<open>Desired fields and differences\<close>

definition lxc_status :: "string \<Rightarrow> string res" where
  "lxc_status v =
     (case dget [(''running'', ''active''), (''stopped'', ''offline''), (''paused'', ''paused'')] v of
        None \<Rightarrow> Inl (LXCApplyError ''Unsupported LXC status: '')
      | Some s \<Rightarrow> Inr s)"

definition lxc_disk_mib :: "discovered_container \<Rightarrow> int" where
  "lxc_disk_mib c = disks_mib (g_disks c)"

definition lxc_desired_fields :: "discovered_container \<Rightarrow> int \<Rightarrow> obj \<Rightarrow> obj res" where
  "lxc_desired_fields c cluster_id current_cf =
     res_bind (build_lxc_custom_fields c current_cf) (\<lambda>cf.
     res_bind (lxc_status (g_status c)) (\<lambda>status.
       Inr [(''name'', JStr (g_original_name c)),
            (''cluster'', JInt cluster_id),
            (''status'', JStr status),
            (''vcpus'', JInt (g_vcpus c)),
            (''memory'', JInt (mib (g_memory_bytes c))),
            (''disk'', JInt (lxc_disk_mib c)),
            (''start_on_boot'', JStr (if g_autostart c then ''on'' else ''off'')),
            (''custom_fields'', JObj cf)]))"

definition obj_of :: "json \<Rightarrow> obj" where
  "obj_of v = (case v of JObj d \<Rightarrow> d | _ \<Rightarrow> [])"

definition cluster_ref :: "json \<Rightarrow> json" where
  "cluster_ref v = (case v of JObj d \<Rightarrow> jget d ''id'' | _ \<Rightarrow> v)"

definition LXC_SCALAR_FIELDS :: "string list" where
  "LXC_SCALAR_FIELDS = [''name'', ''status'', ''vcpus'', ''memory'', ''disk'', ''start_on_boot'']"

definition lxc_changes :: "obj \<Rightarrow> obj \<Rightarrow> obj \<Rightarrow> obj" where
  "lxc_changes data current_cf desired =
     concat (map (\<lambda>f. field_change f (jget data f) (jget desired f)) LXC_SCALAR_FIELDS)
     @ field_change ''cluster'' (cluster_ref (jget data ''cluster'')) (jget desired ''cluster'')
     @ (if changed_fields MANAGED_LXC_CUSTOM_FIELDS current_cf (obj_of (jget desired ''custom_fields'')) \<noteq> []
        then [(''custom_fields'', jget desired ''custom_fields'')] else [])"

section \<open>Contexts\<close>

record 'r lxc_context =
  lc_container :: discovered_container
  lc_existing :: "'r option"
  lc_desired :: obj
  lc_changes :: obj

text \<open>\<open>getattr(getattr(vm, 'cluster', None), 'id', None)\<close>: a plain value has no id.\<close>

definition attr_id :: "('s, 'r) netbox \<Rightarrow> 's \<Rightarrow> 'r \<Rightarrow> string \<Rightarrow> int option" where
  "attr_id nb s r name = (case nb_attr nb s r name of Some (ARec i t) \<Rightarrow> i | _ \<Rightarrow> None)"

definition lxc_finish_context ::
    "('s, 'r) netbox \<Rightarrow> 's \<Rightarrow> int \<Rightarrow> discovered_container \<Rightarrow> 'r option \<Rightarrow> 'r lxc_context res" where
  "lxc_finish_context nb s cluster_id c existing =
     (let current_cf = (case existing of None \<Rightarrow> [] | Some r \<Rightarrow> custom_fields_of nb s r)
      in res_bind (lxc_desired_fields c cluster_id current_cf) (\<lambda>desired.
           Inr \<lparr>lc_container = c, lc_existing = existing, lc_desired = desired,
                lc_changes = (case existing of None \<Rightarrow> []
                    | Some r \<Rightarrow> lxc_changes (nb_data nb s r) current_cf desired)\<rparr>))"

definition lxc_context_of ::
    "('s, 'r) netbox \<Rightarrow> 's \<Rightarrow> int \<Rightarrow> 'r list \<Rightarrow> 'r list \<Rightarrow> discovered_container \<Rightarrow> 'r lxc_context res" where
  "lxc_context_of nb s cluster_id all_vms target_vms c =
     res_bind (find_lxc_sync_identity_matches (custom_fields_of nb s) all_vms c) (\<lambda>matches.
     (case matches of
        [] \<Rightarrow>
          res_bind (res_map (folded_name nb s) target_vms) (\<lambda>names.
            if casefold (g_original_name c) \<in> set names
            then Inl (LXCApplyError ''LXC adoption candidate exists without sync identity: '')
            else lxc_finish_context nb s cluster_id c None)
      | [existing] \<Rightarrow>
          if attr_id nb s existing ''cluster'' \<noteq> Some cluster_id
          then Inl (LXCApplyError ''LXC identity exists outside target cluster'')
          else lxc_finish_context nb s cluster_id c (Some existing)
      | _ \<Rightarrow> Inl (LXCApplyError ''Duplicate NetBox LXC identity: '')))"

definition lxc_context_step ::
    "('s, 'r) netbox \<Rightarrow> 's \<Rightarrow> int \<Rightarrow> 'r list \<Rightarrow> 'r list \<Rightarrow> string list \<times> 'r lxc_context list
       \<Rightarrow> discovered_container \<Rightarrow> (string list \<times> 'r lxc_context list) res" where
  "lxc_context_step nb s cluster_id all_vms target_vms acc c =
     (if g_source_id c \<in> set (fst acc) then Inl (LXCApplyError ''Duplicate discovered LXC identity: '')
      else res_bind (lxc_context_of nb s cluster_id all_vms target_vms c) (\<lambda>ctx.
        Inr (fst acc @ [g_source_id c], snd acc @ [ctx])))"

definition lxc_contexts ::
    "('s, 'r) netbox \<Rightarrow> 's \<Rightarrow> 'r \<Rightarrow> 'r list \<Rightarrow> discovered_container list \<Rightarrow> 'r lxc_context list res" where
  "lxc_contexts nb s cluster all_vms containers =
     (let cluster_id = nb_id nb s cluster;
          target_vms = filter (\<lambda>vm. attr_id nb s vm ''cluster'' = Some cluster_id) all_vms
      in res_bind (res_fold (lxc_context_step nb s cluster_id all_vms target_vms) ([], []) containers)
           (\<lambda>acc. Inr (snd acc)))"

section \<open>The stage\<close>

definition lxc_precheck ::
    "('s, 'r) netbox \<Rightarrow> discovered_host list \<Rightarrow> sync_target \<Rightarrow> ('s, 'r lxc_context list) io" where
  "lxc_precheck nb hosts config =
     io_bind (site_cluster nb LXCApplyError (t_site_slug config) (t_cluster_name config)) (\<lambda>(site, cluster).
     io_bind (nb_all nb ''virtualization.virtual_machines'') (\<lambda>all_vms.
       io_read (\<lambda>s. lxc_contexts nb s cluster all_vms (concat (map h_containers hosts)))))"

definition lxc_write_step ::
    "('s, 'r) netbox \<Rightarrow> apply_counts \<Rightarrow> 'r lxc_context \<Rightarrow> ('s, apply_counts) io" where
  "lxc_write_step nb counts ctx =
     (case lc_existing ctx of
        None \<Rightarrow> io_bind (nb_create nb ''virtualization.virtual_machines'' (lc_desired ctx)) (\<lambda>vm.
                 io_return (count_created counts))
      | Some existing \<Rightarrow>
          if lc_changes ctx \<noteq> []
          then io_bind (nb_update nb existing (lc_changes ctx)) (\<lambda>_. io_return (count_updated counts))
          else io_return (count_skipped counts))"

definition apply_lxc_containers ::
    "('s, 'r) netbox \<Rightarrow> discovered_host list \<Rightarrow> sync_target \<Rightarrow> bool \<Rightarrow> ('s, apply_counts option) io" where
  "apply_lxc_containers nb hosts config confirmed =
     io_bind (lxc_precheck nb hosts config) (\<lambda>contexts.
       if \<not> confirmed then io_return None
       else io_bind (io_fold (lxc_write_step nb) no_counts contexts) (\<lambda>counts. io_return (Some counts)))"

section \<open>What the stage writes\<close>

definition LXC_FIELDS :: "string list" where
  "LXC_FIELDS = [''name'', ''cluster'', ''status'', ''vcpus'', ''memory'', ''disk'', ''start_on_boot'',
     ''custom_fields'']"

lemma lxc_desired_keys: "lxc_desired_fields c cid cf = Inr kvs \<Longrightarrow> map fst kvs = LXC_FIELDS"
  by (auto simp: lxc_desired_fields_def res_bind_eq_Inr LXC_FIELDS_def)

lemma keys_field_change: "fst ` set (field_change k c d) \<subseteq> {k}"
  by (simp add: field_change_def)

lemma lxc_changes_keys: "set (map fst (lxc_changes data cf desired)) \<subseteq> set LXC_FIELDS"
proof -
  have "fst ` set (concat (map (\<lambda>f. field_change f (jget data f) (jget desired f)) fs)) \<subseteq> set fs" for fs
    using keys_field_change by (fastforce simp: field_change_def)
  from this [of LXC_SCALAR_FIELDS]
  have scalar: "fst ` set (concat (map (\<lambda>f. field_change f (jget data f) (jget desired f)) LXC_SCALAR_FIELDS))
      \<subseteq> set LXC_FIELDS"
    by (rule subset_trans) (simp add: LXC_SCALAR_FIELDS_def LXC_FIELDS_def)
  have cluster: "fst ` set (field_change ''cluster'' x y) \<subseteq> set LXC_FIELDS" for x y
    by (simp add: field_change_def LXC_FIELDS_def)
  have custom: "fst ` set (if b then [(''custom_fields'', v)] else []) \<subseteq> set LXC_FIELDS" for b and v :: json
    by (cases b) (simp_all add: LXC_FIELDS_def)
  show ?thesis
    unfolding lxc_changes_def set_map set_append image_Un
    by (intro Un_least scalar cluster custom)
qed

definition lxc_context_ok :: "'r lxc_context \<Rightarrow> bool" where
  "lxc_context_ok ctx \<longleftrightarrow> map fst (lc_desired ctx) = LXC_FIELDS \<and> set (map fst (lc_changes ctx)) \<subseteq> set LXC_FIELDS"

lemma lxc_finish_context_Inr:
  assumes "lxc_finish_context nb s cid c existing = Inr ctx"
  shows "lxc_context_ok ctx \<and> lc_container ctx = c \<and> lc_existing ctx = existing"
proof -
  from assms obtain cf desired changes where d: "lxc_desired_fields c cid cf = Inr desired"
    and ctx: "ctx = \<lparr>lc_container = c, lc_existing = existing, lc_desired = desired, lc_changes = changes\<rparr>"
    and ch: "changes = [] \<or> (\<exists>data. changes = lxc_changes data cf desired)"
    by (cases existing) (auto simp: lxc_finish_context_def res_bind_eq_Inr Let_def)
  from ch have "set (map fst changes) \<subseteq> set LXC_FIELDS"
    using lxc_changes_keys by (elim disjE exE) simp_all
  with lxc_desired_keys [OF d] show ?thesis by (simp add: ctx lxc_context_ok_def)
qed

lemma lxc_context_of_cases:
  assumes "lxc_context_of nb s cid all_vms target_vms c = Inr ctx"
  obtains (create) names where "find_lxc_sync_identity_matches (custom_fields_of nb s) all_vms c = Inr []"
      "res_map (folded_name nb s) target_vms = Inr names" "casefold (g_original_name c) \<notin> set names"
      "lxc_finish_context nb s cid c None = Inr ctx"
    | (match) r where "find_lxc_sync_identity_matches (custom_fields_of nb s) all_vms c = Inr [r]"
      "attr_id nb s r ''cluster'' = Some cid" "lxc_finish_context nb s cid c (Some r) = Inr ctx"
proof -
  from assms obtain ms where ms: "find_lxc_sync_identity_matches (custom_fields_of nb s) all_vms c = Inr ms"
    by (auto simp: lxc_context_of_def res_bind_eq_Inr)
  consider "ms = []" | r where "ms = [r]" | x y zs where "ms = x # y # zs" by (metis neq_Nil_conv)
  then show ?thesis
    using assms ms create match
    by cases (auto simp: lxc_context_of_def res_bind_eq_Inr split: if_splits)
qed

lemma lxc_context_of_ok:
  "lxc_context_of nb s cid all_vms target_vms c = Inr ctx \<Longrightarrow> lxc_context_ok ctx \<and> lc_container ctx = c"
  by (erule lxc_context_of_cases) (auto dest: lxc_finish_context_Inr)

lemma lxc_context_step_Inr:
  "lxc_context_step nb s cid all_vms target_vms acc c = Inr acc' \<longleftrightarrow>
     g_source_id c \<notin> set (fst acc) \<and>
     (\<exists>ctx. lxc_context_of nb s cid all_vms target_vms c = Inr ctx \<and>
        acc' = (fst acc @ [g_source_id c], snd acc @ [ctx]))"
  by (auto simp: lxc_context_step_def res_bind_eq_Inr)

text \<open>The loop: one context per container, in order, and no container seen twice.\<close>

lemma lxc_fold_contexts:
  assumes "res_fold (lxc_context_step nb s cid all_vms target_vms) (seen, ctxs) cs = Inr (seen', ctxs')"
    and "distinct seen"
  shows "\<exists>new. ctxs' = ctxs @ new \<and> seen' = seen @ map g_source_id cs \<and> distinct seen' \<and>
           list_all2 (\<lambda>c ctx. lxc_context_of nb s cid all_vms target_vms c = Inr ctx) cs new"
  using assms
proof (induction cs arbitrary: seen ctxs)
  case (Cons c cs)
  from Cons.prems obtain ctx where n: "g_source_id c \<notin> set seen"
    and ctx: "lxc_context_of nb s cid all_vms target_vms c = Inr ctx"
    and rest: "res_fold (lxc_context_step nb s cid all_vms target_vms) (seen @ [g_source_id c], ctxs @ [ctx]) cs
        = Inr (seen', ctxs')"
    by (auto simp only: res_fold.simps res_bind_eq_Inr lxc_context_step_Inr fst_conv snd_conv)
  have "distinct (seen @ [g_source_id c])" using n Cons.prems(2) by simp
  from Cons.IH [OF rest this] obtain new where new: "ctxs' = (ctxs @ [ctx]) @ new"
    "seen' = (seen @ [g_source_id c]) @ map g_source_id cs" "distinct seen'"
    "list_all2 (\<lambda>c ctx. lxc_context_of nb s cid all_vms target_vms c = Inr ctx) cs new"
    by blast
  have "ctxs' = ctxs @ (ctx # new)" "seen' = seen @ map g_source_id (c # cs)"
    "list_all2 (\<lambda>c ctx. lxc_context_of nb s cid all_vms target_vms c = Inr ctx) (c # cs) (ctx # new)"
    using ctx new(1,2,4) by simp_all
  with new(3)
  show ?case by blast
qed simp

lemma lxc_contexts_Inr:
  assumes "lxc_contexts nb s cluster all_vms cs = Inr ctxs"
  shows "distinct (map g_source_id cs) \<and>
    list_all2 (\<lambda>c ctx. lxc_context_of nb s (nb_id nb s cluster) all_vms
      (filter (\<lambda>vm. attr_id nb s vm ''cluster'' = Some (nb_id nb s cluster)) all_vms) c = Inr ctx) cs ctxs"
  using assms by (auto simp: lxc_contexts_def Let_def res_bind_eq_Inr dest!: lxc_fold_contexts)

lemma lxc_contexts_ok: "lxc_contexts nb s cluster all_vms cs = Inr ctxs \<Longrightarrow> \<forall>ctx \<in> set ctxs. lxc_context_ok ctx"
  by (auto dest!: lxc_contexts_Inr simp: list_all2_conv_all_nth in_set_conv_nth) (metis lxc_context_of_ok)

lemma lxc_precheck_returns: "returns (\<lambda>ctxs. \<forall>ctx \<in> set ctxs. lxc_context_ok ctx) (lxc_precheck nb hosts config)"
  unfolding lxc_precheck_def case_prod_beta
  by (rule returns_bind, rule returns_bind, rule returns_read) (rule lxc_contexts_ok)

context netbox_reader
begin

lemma lxc_precheck_R: "preserves R (lxc_precheck nb hosts config)"
  unfolding lxc_precheck_def by (intro reader_intros site_cluster_R)

lemma lxc_unconfirmed_R: "preserves R (apply_lxc_containers nb hosts config False)"
  unfolding apply_lxc_containers_def by (intro reader_intros lxc_precheck_R) simp_all

end

context netbox_writer
begin

lemma lxc_apply_R:
  assumes c: "\<And>kvs. map fst kvs = LXC_FIELDS \<Longrightarrow> may_create ''virtualization.virtual_machines'' kvs"
    and u: "\<And>kvs. set (map fst kvs) \<subseteq> set LXC_FIELDS \<Longrightarrow> may_update kvs"
  shows "preserves R (apply_lxc_containers nb hosts config confirmed)"
proof -
  have step: "preserves R (lxc_write_step nb counts ctx)" if "lxc_context_ok ctx" for counts ctx
    using that unfolding lxc_write_step_def lxc_context_ok_def
    by (intro reader_intros create_R update_R c u) simp_all
  show ?thesis
    unfolding apply_lxc_containers_def
    by (rule preserves_bind_via [OF R_trans lxc_precheck_R lxc_precheck_returns])
      (auto intro!: reader_intros preserves_fold_mem step)
qed

end

section \<open>Properties\<close>

text \<open>When the containers of a run get their contexts, the source named each of them once and the
  contexts follow their order; a container bound to a NetBox machine is bound by identity within the target
  cluster, and one to be created is known to no NetBox machine and shares its name with none of the
  cluster's.\<close>

theorem lxc_contexts_sound:
  assumes "lxc_contexts nb s cluster all_vms cs = Inr ctxs"
  shows "distinct (map g_source_id cs) \<and> map lc_container ctxs = cs
     \<and> (\<forall>ctx \<in> set ctxs. case lc_existing ctx of
          Some r \<Rightarrow> r \<in> set all_vms \<and> attr_id nb s r ''cluster'' = Some (nb_id nb s cluster)
            \<and> (\<exists>rank. lxc_sync_identity_match_rank (custom_fields_of nb s r) (lc_container ctx) = Inr rank
                      \<and> rank \<noteq> NO_IDENTITY_MATCH)
        | None \<Rightarrow> (\<forall>r \<in> set all_vms.
            lxc_sync_identity_match_rank (custom_fields_of nb s r) (lc_container ctx) = Inr NO_IDENTITY_MATCH
            \<and> (attr_id nb s r ''cluster'' = Some (nb_id nb s cluster) \<longrightarrow>
                 folded_name nb s r \<noteq> Inr (casefold (g_original_name (lc_container ctx))))))"
proof -
  let ?cid = "nb_id nb s cluster"
  let ?target = "filter (\<lambda>vm. attr_id nb s vm ''cluster'' = Some ?cid) all_vms"
  from lxc_contexts_Inr [OF assms] have d: "distinct (map g_source_id cs)"
    and all: "list_all2 (\<lambda>c ctx. lxc_context_of nb s ?cid all_vms ?target c = Inr ctx) cs ctxs" by simp_all
  from all have cs: "map lc_container ctxs = cs"
    by (auto simp: list_all2_conv_all_nth intro!: nth_equalityI dest!: lxc_context_of_ok [THEN conjunct2])
  have ctx: "case lc_existing ctx of
          Some r \<Rightarrow> r \<in> set all_vms \<and> attr_id nb s r ''cluster'' = Some ?cid
            \<and> (\<exists>rank. lxc_sync_identity_match_rank (custom_fields_of nb s r) (lc_container ctx) = Inr rank
                      \<and> rank \<noteq> NO_IDENTITY_MATCH)
        | None \<Rightarrow> (\<forall>r \<in> set all_vms.
            lxc_sync_identity_match_rank (custom_fields_of nb s r) (lc_container ctx) = Inr NO_IDENTITY_MATCH
            \<and> (attr_id nb s r ''cluster'' = Some ?cid \<longrightarrow>
                 folded_name nb s r \<noteq> Inr (casefold (g_original_name (lc_container ctx)))))"
    if "lxc_context_of nb s ?cid all_vms ?target c = Inr ctx" for c ctx
    using that
  proof (cases rule: lxc_context_of_cases)
    case (create names)
    from lxc_finish_context_Inr [OF create(4)] have e: "lc_existing ctx = None" "lc_container ctx = c" by simp_all
    have "folded_name nb s r \<noteq> Inr (casefold (g_original_name c))" if "r \<in> set ?target" for r
      using res_map_mem_fst [OF create(2) that] create(3) by auto
    with select_best_Nil [OF create(1) [unfolded find_lxc_sync_identity_matches_def]] e show ?thesis by simp
  next
    case (match r)
    from lxc_finish_context_Inr [OF match(3)] have e: "lc_existing ctx = Some r" "lc_container ctx = c" by simp_all
    with select_best_mem [OF match(1) [unfolded find_lxc_sync_identity_matches_def], of r] match(2)
    show ?thesis by simp
  qed
  have "\<exists>c. lxc_context_of nb s ?cid all_vms ?target c = Inr ctx" if "ctx \<in> set ctxs" for ctx
    using all that by (auto simp: list_all2_conv_all_nth in_set_conv_nth)
  with ctx d cs show ?thesis by blast
qed

theorem lxc_contexts_sound_witness:
  "\<exists>ctxs. lxc_contexts fake_netbox sample_netbox (''virtualization.clusters'', 0)
      [(''virtualization.virtual_machines'', 0)] [sample_container] = Inr ctxs
    \<and> map lc_container ctxs = [sample_container]"
proof -
  have "case lxc_contexts fake_netbox sample_netbox (''virtualization.clusters'', 0)
      [(''virtualization.virtual_machines'', 0)] [sample_container] of Inr c \<Rightarrow> True | Inl e \<Rightarrow> False"
    by code_simp
  then obtain ctxs where run: "lxc_contexts fake_netbox sample_netbox (''virtualization.clusters'', 0)
      [(''virtualization.virtual_machines'', 0)] [sample_container] = Inr ctxs"
    by (auto split: sum.splits)
  from lxc_contexts_sound [OF run] run show ?thesis by simp
qed

end
