(* ===== verification/GuestNetwork.thy ===== *)
theory GuestNetwork
  imports Samples IpAddress
begin

text \<open>
  The guest network logic.  netbox_vm_network_apply.py and netbox_lxc_network_apply.py hold the same
  steps twice, for machines and for containers; here each step is one definition, with the module's
  error class as the parameter \<open>err\<close>, and the two stage theories compose them as their
  modules do.  The line map points to the machine module; the container module's own text is covered by
  the definitions of \<open>LxcNetworkApply\<close>.
\<close>

section \<open>Values\<close>

text \<open>\<open>None\<close> and the empty text are both falsy, and the code only tests for truth.\<close>

definition canonical_mac :: "json \<Rightarrow> string" where
  "canonical_mac v = (if truthy v then py_upper (py_strip (py_str v)) else [])"

definition usable_address :: "string \<Rightarrow> string option" where
  "usable_address text =
     (case ip_interface_of text of
        Inl e \<Rightarrow> None
      | Inr i \<Rightarrow>
          if is_loopback (fst i) \<or> is_link_local (fst i) \<or> is_multicast (fst i) \<or> is_unspecified (fst i)
          then None else Some (str_interface i))"

text \<open>\<open>ip_interface\<close> on a serialized value: an integer is taken as a packed address.\<close>

definition interface_of_json :: "json \<Rightarrow> ip_interface res" where
  "interface_of_json v =
     (let packed = (\<lambda>n. if 0 \<le> n \<and> n < 2 ^ 32 then Inr (IPv4 (word_of_int n), 32)
                        else if 0 \<le> n \<and> n < 2 ^ 128 then Inr (IPv6 (word_of_int n) None, 128)
                        else Inl (ValueError ''does not appear to be an IPv4 or IPv6 interface''))
      in case v of JInt n \<Rightarrow> packed n
                 | JBool b \<Rightarrow> packed (if b then 1 else 0)
                 | _ \<Rightarrow> ip_interface_of (py_str v))"

definition is_ipv4_text :: "string \<Rightarrow> bool" where
  "is_ipv4_text a = (case ip_interface_of a of Inr i \<Rightarrow> ip_version (fst i) = 4 | Inl e \<Rightarrow> False)"

section \<open>Indexes\<close>

record 'r network_index =
  ix_interfaces_by_vm :: "(json \<times> 'r list) list"
  ix_interfaces_by_id :: "(int \<times> 'r) list"
  ix_macs_by_address :: "(string \<times> 'r list) list"
  ix_ips_by_address :: "(string \<times> 'r list) list"
  ix_ips_by_id :: "(int \<times> 'r) list"

definition index_by_id :: "('s, 'r) netbox \<Rightarrow> 's \<Rightarrow> 'r list \<Rightarrow> (int \<times> 'r) list" where
  "index_by_id nb s rs = fold (\<lambda>r d. dset (nb_id nb s r) r d) rs []"

definition index_interfaces_by_vm :: "('s, 'r) netbox \<Rightarrow> 's \<Rightarrow> 'r list \<Rightarrow> (json \<times> 'r list) list" where
  "index_interfaces_by_vm nb s interfaces =
     fold (\<lambda>i d. let vm_id = object_id (jget (nb_data nb s i) ''virtual_machine'')
                 in if vm_id = JNull then d else dappend vm_id i d) interfaces []"

definition index_macs_by_address :: "('s, 'r) netbox \<Rightarrow> 's \<Rightarrow> 'r list \<Rightarrow> (string \<times> 'r list) list" where
  "index_macs_by_address nb s macs =
     fold (\<lambda>m d. let value = canonical_mac (jget (nb_data nb s m) ''mac_address'')
                 in if value = [] then d else dappend value m d) macs []"

definition index_ips_by_address :: "('s, 'r) netbox \<Rightarrow> 's \<Rightarrow> 'r list \<Rightarrow> (string \<times> 'r list) list" where
  "index_ips_by_address nb s ips =
     fold (\<lambda>ip d. let address = jget (nb_data nb s ip) ''address''
                  in if \<not> truthy address then d
                     else case interface_of_json address of
                         Inl e \<Rightarrow> d
                       | Inr i \<Rightarrow> dappend (str_interface i) ip d) ips []"

definition network_index_of ::
    "('s, 'r) netbox \<Rightarrow> 's \<Rightarrow> 'r list \<Rightarrow> 'r list \<Rightarrow> 'r list \<Rightarrow> 'r network_index" where
  "network_index_of nb s interfaces macs ips =
     \<lparr>ix_interfaces_by_vm = index_interfaces_by_vm nb s interfaces,
      ix_interfaces_by_id = index_by_id nb s interfaces,
      ix_macs_by_address = index_macs_by_address nb s macs,
      ix_ips_by_address = index_ips_by_address nb s ips,
      ix_ips_by_id = index_by_id nb s ips\<rparr>"

text \<open>A lookup by a serialized id.\<close>

definition lookup_id :: "(int \<times> 'r) list \<Rightarrow> json \<Rightarrow> 'r option" where
  "lookup_id d v = (case v of JInt i \<Rightarrow> dget d i | JBool b \<Rightarrow> dget d (if b then 1 else 0) | _ \<Rightarrow> None)"

section \<open>Planning one interface\<close>

record 'r nic_context =
  nc_source :: discovered_interface
  nc_existing :: "'r option"
  nc_changes :: obj
  nc_desired_custom_fields :: obj
  nc_mac_value :: string
  nc_existing_mac :: "'r option"
  nc_ips :: "(string \<times> 'r option) list"

definition check_nic_names :: "(string \<Rightarrow> py_exn) \<Rightarrow> discovered_interface list \<Rightarrow> unit res" where
  "check_nic_names err nics =
     (if repeated_keys (group_by (\<lambda>n. casefold (nic_name n)) nics []) \<noteq> []
      then Inl (err ''Duplicate discovered NIC names on '') else Inr ())"

definition interface_match ::
    "('s, 'r) netbox \<Rightarrow> (string \<Rightarrow> py_exn) \<Rightarrow> 's \<Rightarrow> 'r list \<Rightarrow> guest \<Rightarrow> discovered_interface \<Rightarrow> 'r option res" where
  "interface_match nb err s existing g nic =
     res_bind (find_nic_sync_identity_matches (custom_fields_of nb s) existing g nic) (\<lambda>matches.
     (case matches of
        [] \<Rightarrow> res_bind (res_map (folded_name nb s) existing) (\<lambda>names.
               if casefold (nic_name nic) \<in> set names
               then Inl (err ''NIC adoption candidate exists without sync identity: '')
               else Inr None)
      | [r] \<Rightarrow> Inr (Some r)
      | _ \<Rightarrow> Inl (err ''Duplicate NIC identity '')))"

definition desired_interface_changes ::
    "('s, 'r) netbox \<Rightarrow> 's \<Rightarrow> guest \<Rightarrow> discovered_interface \<Rightarrow> 'r \<Rightarrow> (obj \<times> obj) res" where
  "desired_interface_changes nb s g nic existing =
     (let current = custom_fields_of nb s existing
      in res_bind (build_nic_custom_fields g nic current) (\<lambda>desired.
           Inr ((if name_of nb s existing = Some (nic_name nic) then []
                 else [(''name'', JStr (nic_name nic))])
                @ (if jget (nb_data nb s existing) ''enabled'' = JBool True then []
                   else [(''enabled'', JBool True)])
                @ (if changed_fields MANAGED_VM_INTERFACE_CUSTOM_FIELDS current desired \<noteq> []
                   then [(''custom_fields'', JObj desired)] else []),
                desired)))"

definition plan_interface ::
    "('s, 'r) netbox \<Rightarrow> 's \<Rightarrow> guest \<Rightarrow> discovered_interface \<Rightarrow> 'r option \<Rightarrow> (obj \<times> obj) res" where
  "plan_interface nb s g nic existing =
     (case existing of
        None \<Rightarrow> res_bind (build_nic_custom_fields g nic []) (\<lambda>desired. Inr ([], desired))
      | Some r \<Rightarrow> desired_interface_changes nb s g nic r)"

text \<open>A record may be taken for the guest interface \<open>existing\<close>: it is free, or already there.\<close>

definition assignment_allowed :: "('s, 'r) netbox \<Rightarrow> 's \<Rightarrow> 'r option \<Rightarrow> 'r \<Rightarrow> bool" where
  "assignment_allowed nb s existing r =
     (let a = assigned_object nb s r
      in a = (JNull, JNull)
         \<or> (case existing of
              None \<Rightarrow> False
            | Some i \<Rightarrow> fst a = JStr ''virtualization.vminterface'' \<and> py_eq (snd a) (JInt (nb_id nb s i))))"

definition current_primary_mac_id :: "('s, 'r) netbox \<Rightarrow> 's \<Rightarrow> 'r option \<Rightarrow> json" where
  "current_primary_mac_id nb s existing =
     (case existing of None \<Rightarrow> JNull
                     | Some i \<Rightarrow> object_id (jget (nb_data nb s i) ''primary_mac_address''))"

definition plan_mac ::
    "('s, 'r) netbox \<Rightarrow> (string \<Rightarrow> py_exn) \<Rightarrow> 's \<Rightarrow> 'r network_index \<Rightarrow> 'r option \<Rightarrow> string \<Rightarrow> 'r option res" where
  "plan_mac nb err s ix existing mac_value =
     (if mac_value = [] then Inr None
      else let matches = dgetl (ix_macs_by_address ix) mac_value
        in if length matches > 1 then Inl (err ''Duplicate NetBox MAC '')
           else let existing_mac = (case matches of [] \<Rightarrow> None | m # ms \<Rightarrow> Some m)
             in if (case existing_mac of None \<Rightarrow> False | Some m \<Rightarrow> \<not> assignment_allowed nb s existing m)
                then Inl (err ''MAC already assigned to '')
                else let primary = current_primary_mac_id nb s existing
                  in if primary \<noteq> JNull \<and>
                        (case existing_mac of None \<Rightarrow> True | Some m \<Rightarrow> \<not> py_eq primary (JInt (nb_id nb s m)))
                     then Inl (err ''Existing primary MAC conflicts on '')
                     else Inr existing_mac)"

definition plan_ip ::
    "('s, 'r) netbox \<Rightarrow> (string \<Rightarrow> py_exn) \<Rightarrow> 's \<Rightarrow> 'r network_index \<Rightarrow> 'r option \<Rightarrow> string
       \<Rightarrow> (string \<times> 'r option) res" where
  "plan_ip nb err s ix existing address =
     (case dgetl (ix_ips_by_address ix) address of
        [] \<Rightarrow> Inr (address, None)
      | [ip] \<Rightarrow> if assignment_allowed nb s existing ip then Inr (address, Some ip)
               else Inl (err ''IP already assigned to '')
      | _ \<Rightarrow> Inl (err ''Duplicate NetBox IP ''))"

definition plan_nic ::
    "('s, 'r) netbox \<Rightarrow> (string \<Rightarrow> py_exn) \<Rightarrow> 's \<Rightarrow> 'r network_index \<Rightarrow> guest \<Rightarrow> 'r list
       \<Rightarrow> discovered_interface \<Rightarrow> 'r nic_context res" where
  "plan_nic nb err s ix g existing_interfaces nic =
     res_bind (interface_match nb err s existing_interfaces g nic) (\<lambda>existing.
     res_bind (plan_interface nb s g nic existing) (\<lambda>(changes, desired).
     let mac_value = canonical_mac (opt_json (nic_mac_address nic)) in
     res_bind (plan_mac nb err s ix existing mac_value) (\<lambda>existing_mac.
     res_bind (res_map (plan_ip nb err s ix existing)
                 (List.map_filter usable_address (nic_ip_addresses nic))) (\<lambda>ips.
       Inr \<lparr>nc_source = nic, nc_existing = existing, nc_changes = changes,
            nc_desired_custom_fields = desired, nc_mac_value = mac_value,
            nc_existing_mac = existing_mac, nc_ips = ips\<rparr>))))"

definition plan_nics ::
    "('s, 'r) netbox \<Rightarrow> (string \<Rightarrow> py_exn) \<Rightarrow> 's \<Rightarrow> 'r network_index \<Rightarrow> guest \<Rightarrow> 'r
       \<Rightarrow> 'r nic_context list res" where
  "plan_nics nb err s ix g netbox_vm =
     (let nics = g_interfaces (guest_core g);
          existing = dgetl (ix_interfaces_by_vm ix) (JInt (nb_id nb s netbox_vm))
      in res_bind (check_nic_names err nics) (\<lambda>_. res_map (plan_nic nb err s ix g existing) nics))"

text \<open>The only IPv4 address discovered on the guest, if there is exactly one.\<close>

definition unique_ipv4 :: "'r nic_context list \<Rightarrow> string option" where
  "unique_ipv4 nics =
     (case sort (remdups (filter is_ipv4_text (map fst (concat (map nc_ips nics))))) of
        [a] \<Rightarrow> Some a | _ \<Rightarrow> None)"

section \<open>Repeated addresses\<close>

definition nic_macs :: "'r nic_context list \<Rightarrow> string list" where
  "nic_macs nics = filter (\<lambda>m. m \<noteq> []) (map nc_mac_value nics)"

definition nic_addresses :: "'r nic_context list \<Rightarrow> string list" where
  "nic_addresses nics = map fst (concat (map nc_ips nics))"

text \<open>The check over every guest of the run, after all were planned.\<close>

definition check_repeated :: "(string \<Rightarrow> py_exn) \<Rightarrow> 'r nic_context list \<Rightarrow> unit res" where
  "check_repeated err nics =
     (if repeated_keys (group_by (\<lambda>m. m) (nic_macs nics) []) \<noteq> []
      then Inl (err ''Duplicate discovered MACs: '')
      else if repeated_keys (group_by (\<lambda>a. a) (nic_addresses nics) []) \<noteq> []
      then Inl (err ''Duplicate discovered IPs: '')
      else Inr ())"

section \<open>What the precheck announces\<close>

record net_plan_counts =
  np_interface_create :: nat
  np_interface_update :: nat
  np_interface_skip :: nat
  np_mac_create :: nat
  np_mac_match :: nat
  np_ip_create :: nat
  np_ip_match :: nat

definition count_nics :: "('r nic_context \<Rightarrow> bool) \<Rightarrow> 'r nic_context list \<Rightarrow> nat" where
  "count_nics P nics = length (filter P nics)"

definition net_plan_counts :: "'r nic_context list \<Rightarrow> net_plan_counts" where
  "net_plan_counts nics =
     \<lparr>np_interface_create = count_nics (\<lambda>n. nc_existing n = None) nics,
      np_interface_update = count_nics (\<lambda>n. nc_existing n \<noteq> None \<and> nc_changes n \<noteq> []) nics,
      np_interface_skip = count_nics (\<lambda>n. nc_existing n \<noteq> None \<and> nc_changes n = []) nics,
      np_mac_create = count_nics (\<lambda>n. nc_mac_value n \<noteq> [] \<and> nc_existing_mac n = None) nics,
      np_mac_match = count_nics (\<lambda>n. nc_mac_value n \<noteq> [] \<and> nc_existing_mac n \<noteq> None) nics,
      np_ip_create = length (filter (\<lambda>p. snd p = None) (concat (map nc_ips nics))),
      np_ip_match = length (filter (\<lambda>p. snd p \<noteq> None) (concat (map nc_ips nics)))\<rparr>"

section \<open>Writes\<close>

record net_counts =
  ct_interfaces_created :: nat
  ct_interfaces_updated :: nat
  ct_macs_created :: nat
  ct_macs_updated :: nat
  ct_ips_created :: nat
  ct_ips_updated :: nat
  ct_primary_updated :: nat
  ct_skipped :: nat

definition no_net_counts :: net_counts where
  "no_net_counts = \<lparr>ct_interfaces_created = 0, ct_interfaces_updated = 0, ct_macs_created = 0,
     ct_macs_updated = 0, ct_ips_created = 0, ct_ips_updated = 0, ct_primary_updated = 0, ct_skipped = 0\<rparr>"

definition net_skip :: "net_counts \<Rightarrow> net_counts" where
  "net_skip c = c\<lparr>ct_skipped := ct_skipped c + 1\<rparr>"

definition write_nic_interface ::
    "('s, 'r) netbox \<Rightarrow> 'r \<Rightarrow> 'r nic_context \<Rightarrow> net_counts \<Rightarrow> ('s, 'r \<times> net_counts) io" where
  "write_nic_interface nb netbox_vm nc counts =
     (case nc_existing nc of
        None \<Rightarrow>
          io_bind (io_read (\<lambda>s. Inr
            [(''virtual_machine'', JInt (nb_id nb s netbox_vm)),
             (''name'', JStr (nic_name (nc_source nc))),
             (''enabled'', JBool True),
             (''custom_fields'', JObj (nc_desired_custom_fields nc))])) (\<lambda>kvs.
          io_bind (nb_create nb ''virtualization.interfaces'' kvs) (\<lambda>interface.
            io_return (interface, counts\<lparr>ct_interfaces_created := ct_interfaces_created counts + 1\<rparr>)))
      | Some interface \<Rightarrow>
          if nc_changes nc \<noteq> []
          then io_bind (nb_update nb interface (nc_changes nc)) (\<lambda>_.
                 io_return (interface, counts\<lparr>ct_interfaces_updated := ct_interfaces_updated counts + 1\<rparr>))
          else io_return (interface, net_skip counts))"

definition assign_fields :: "int \<Rightarrow> obj" where
  "assign_fields interface_id =
     [(''assigned_object_type'', JStr ''virtualization.vminterface''),
      (''assigned_object_id'', JInt interface_id)]"

definition write_nic_mac_record ::
    "('s, 'r) netbox \<Rightarrow> 'r \<Rightarrow> 'r nic_context \<Rightarrow> net_counts \<Rightarrow> ('s, 'r \<times> net_counts) io" where
  "write_nic_mac_record nb interface nc counts =
     io_bind (io_read (\<lambda>s. Inr (nb_id nb s interface))) (\<lambda>interface_id.
     (case nc_existing_mac nc of
        None \<Rightarrow>
          io_bind (nb_create nb ''dcim.mac_addresses''
            ((''mac_address'', JStr (nc_mac_value nc)) # assign_fields interface_id)) (\<lambda>mac.
            io_return (mac, counts\<lparr>ct_macs_created := ct_macs_created counts + 1\<rparr>))
      | Some mac \<Rightarrow>
          io_bind (io_read (\<lambda>s. Inr (assigned_object nb s mac))) (\<lambda>a.
            if a = (JNull, JNull)
            then io_bind (nb_update nb mac (assign_fields interface_id)) (\<lambda>_.
                   io_return (mac, counts\<lparr>ct_macs_updated := ct_macs_updated counts + 1\<rparr>))
            else io_return (mac, net_skip counts))))"

definition write_nic_mac ::
    "('s, 'r) netbox \<Rightarrow> 'r \<Rightarrow> 'r nic_context \<Rightarrow> net_counts \<Rightarrow> ('s, net_counts) io" where
  "write_nic_mac nb interface nc counts =
     (if nc_mac_value nc = [] then io_return counts
      else io_bind (write_nic_mac_record nb interface nc counts) (\<lambda>(mac, counts1).
           io_bind (io_read (\<lambda>s. Inr (current_primary_mac_id nb s (Some interface), nb_id nb s mac)))
             (\<lambda>(primary, mac_id).
             if \<not> py_eq primary (JInt mac_id)
             then io_bind (nb_update nb interface [(''primary_mac_address'', JInt mac_id)]) (\<lambda>_.
                    io_return (counts1\<lparr>ct_interfaces_updated := ct_interfaces_updated counts1 + 1\<rparr>))
             else io_return (net_skip counts1))))"

definition write_nic_ip ::
    "('s, 'r) netbox \<Rightarrow> 'r \<Rightarrow> (string \<times> 'r) list \<times> net_counts \<Rightarrow> string \<times> 'r option
       \<Rightarrow> ('s, (string \<times> 'r) list \<times> net_counts) io" where
  "write_nic_ip nb interface acc ip_context =
     io_bind (io_read (\<lambda>s. Inr (nb_id nb s interface))) (\<lambda>interface_id.
     (case snd ip_context of
        None \<Rightarrow>
          io_bind (nb_create nb ''ipam.ip_addresses''
            ([(''address'', JStr (fst ip_context)), (''status'', JStr ''active'')] @ assign_fields interface_id))
            (\<lambda>ip. io_return (dset (fst ip_context) ip (fst acc),
               (snd acc)\<lparr>ct_ips_created := ct_ips_created (snd acc) + 1\<rparr>))
      | Some ip \<Rightarrow>
          io_bind (io_read (\<lambda>s. Inr (assigned_object nb s ip))) (\<lambda>a.
            if a = (JNull, JNull)
            then io_bind (nb_update nb ip (assign_fields interface_id)) (\<lambda>_.
                   io_return (dset (fst ip_context) ip (fst acc),
                     (snd acc)\<lparr>ct_ips_updated := ct_ips_updated (snd acc) + 1\<rparr>))
            else io_return (dset (fst ip_context) ip (fst acc), net_skip (snd acc)))))"

definition write_nic ::
    "('s, 'r) netbox \<Rightarrow> 'r \<Rightarrow> (string \<times> 'r) list \<times> net_counts \<Rightarrow> 'r nic_context
       \<Rightarrow> ('s, (string \<times> 'r) list \<times> net_counts) io" where
  "write_nic nb netbox_vm acc nc =
     io_bind (write_nic_interface nb netbox_vm nc (snd acc)) (\<lambda>(interface, counts1).
     io_bind (write_nic_mac nb interface nc counts1) (\<lambda>counts2.
       io_fold (write_nic_ip nb interface) (fst acc, counts2) (nc_ips nc)))"

definition current_primary_ip_id :: "('s, 'r) netbox \<Rightarrow> 's \<Rightarrow> 'r \<Rightarrow> json" where
  "current_primary_ip_id nb s vm = object_id (jget (nb_data nb s vm) ''primary_ip4'')"

definition write_primary ::
    "('s, 'r) netbox \<Rightarrow> 'r \<Rightarrow> string option \<Rightarrow> (string \<times> 'r) list \<times> net_counts \<Rightarrow> ('s, net_counts) io" where
  "write_primary nb netbox_vm candidate acc =
     (case candidate of
        None \<Rightarrow> io_return (snd acc)
      | Some address \<Rightarrow>
          (case dget (fst acc) address of
             None \<Rightarrow> io_return (snd acc)
           | Some ip \<Rightarrow>
               io_bind (io_read (\<lambda>s. Inr (current_primary_ip_id nb s netbox_vm, nb_id nb s ip)))
                 (\<lambda>(primary, ip_id).
                 if \<not> py_eq primary (JInt ip_id)
                 then io_bind (nb_update nb netbox_vm [(''primary_ip4'', JInt ip_id)]) (\<lambda>_.
                        io_return ((snd acc)\<lparr>ct_primary_updated := ct_primary_updated (snd acc) + 1\<rparr>))
                 else io_return (net_skip (snd acc)))))"

section \<open>Loading the site's network\<close>

definition load_network_index :: "('s, 'r) netbox \<Rightarrow> ('s, 'r network_index) io" where
  "load_network_index nb =
     io_bind (nb_all nb ''virtualization.interfaces'') (\<lambda>interfaces.
     io_bind (nb_all nb ''dcim.mac_addresses'') (\<lambda>macs.
     io_bind (nb_all nb ''ipam.ip_addresses'') (\<lambda>ips.
       io_read (\<lambda>s. Inr (network_index_of nb s interfaces macs ips)))))"

section \<open>What a planned interface may touch\<close>

definition net_may_create :: "string \<Rightarrow> obj \<Rightarrow> bool" where
  "net_may_create ep kvs \<longleftrightarrow>
     ep = ''virtualization.interfaces'' \<and> map fst kvs = [''virtual_machine'', ''name'', ''enabled'', ''custom_fields'']
     \<or> ep = ''dcim.mac_addresses'' \<and> map fst kvs = [''mac_address'', ''assigned_object_type'', ''assigned_object_id'']
     \<or> ep = ''ipam.ip_addresses'' \<and> map fst kvs = [''address'', ''status'', ''assigned_object_type'', ''assigned_object_id'']"

definition net_may_update :: "obj \<Rightarrow> bool" where
  "net_may_update kvs \<longleftrightarrow>
     set (map fst kvs) \<subseteq> {''name'', ''enabled'', ''custom_fields''}
     \<or> map fst kvs = [''assigned_object_type'', ''assigned_object_id'']
     \<or> map fst kvs = [''primary_mac_address'']
     \<or> map fst kvs = [''primary_ip4'']"

text \<open>Every record a plan takes over is free or already on the interface the plan found.\<close>

definition nic_justified :: "('s, 'r) netbox \<Rightarrow> 's \<Rightarrow> 'r nic_context \<Rightarrow> bool" where
  "nic_justified nb s nc \<longleftrightarrow>
     (\<forall>m. nc_existing_mac nc = Some m \<longrightarrow> assignment_allowed nb s (nc_existing nc) m)
     \<and> (\<forall>a ip. (a, Some ip) \<in> set (nc_ips nc) \<longrightarrow> assignment_allowed nb s (nc_existing nc) ip)"

lemma plan_mac_Inr:
  assumes "plan_mac nb err s ix existing mac = Inr (Some m)"
  shows "mac \<noteq> [] \<and> dgetl (ix_macs_by_address ix) mac = [m] \<and> assignment_allowed nb s existing m"
proof -
  consider "dgetl (ix_macs_by_address ix) mac = []" | x where "dgetl (ix_macs_by_address ix) mac = [x]"
    | x y zs where "dgetl (ix_macs_by_address ix) mac = x # y # zs" by (metis neq_Nil_conv)
  then show ?thesis
    using assms by cases (auto simp: plan_mac_def Let_def split: if_splits)
qed

lemma plan_mac_None:
  "plan_mac nb err s ix existing mac = Inr None \<Longrightarrow> mac = [] \<or> dgetl (ix_macs_by_address ix) mac = []"
  by (auto simp: plan_mac_def Let_def split: if_splits list.splits)

lemma plan_ip_Inr:
  "plan_ip nb err s ix existing address = Inr (a, r) \<Longrightarrow>
     a = address \<and> (case r of None \<Rightarrow> dgetl (ix_ips_by_address ix) a = []
       | Some ip \<Rightarrow> dgetl (ix_ips_by_address ix) a = [ip] \<and> assignment_allowed nb s existing ip)"
  by (auto simp: plan_ip_def split: list.splits if_splits)

lemma plan_interface_keys:
  "plan_interface nb s g nic existing = Inr (changes, desired) \<Longrightarrow>
     set (map fst changes) \<subseteq> {''name'', ''enabled'', ''custom_fields''}"
  by (cases existing) (auto simp: plan_interface_def desired_interface_changes_def Let_def res_bind_eq_Inr
      split: if_splits)

lemma plan_nic_Inr:
  assumes "plan_nic nb err s ix g existing nic = Inr nc"
  shows "nc_source nc = nic"
    and "interface_match nb err s existing g nic = Inr (nc_existing nc)"
    and "plan_interface nb s g nic (nc_existing nc) = Inr (nc_changes nc, nc_desired_custom_fields nc)"
    and "nc_mac_value nc = canonical_mac (opt_json (nic_mac_address nic))"
    and "plan_mac nb err s ix (nc_existing nc) (nc_mac_value nc) = Inr (nc_existing_mac nc)"
    and "res_map (plan_ip nb err s ix (nc_existing nc))
           (List.map_filter usable_address (nic_ip_addresses nic)) = Inr (nc_ips nc)"
  using assms by (auto simp: plan_nic_def Let_def res_bind_eq_Inr)

lemma plan_nic_justified:
  assumes "plan_nic nb err s ix g existing nic = Inr nc"
  shows "nic_justified nb s nc"
  unfolding nic_justified_def
proof (intro conjI allI impI)
  note p = plan_nic_Inr [OF assms]
  show "assignment_allowed nb s (nc_existing nc) m" if "nc_existing_mac nc = Some m" for m
    using p(5) that plan_mac_Inr by metis
  show "assignment_allowed nb s (nc_existing nc) ip" if "(a, Some ip) \<in> set (nc_ips nc)" for a ip
    using res_map_mem [OF p(6) that] by (auto dest!: plan_ip_Inr)
qed

lemma plan_nic_ok:
  assumes "plan_nic nb err s ix g existing nic = Inr nc"
  shows "net_may_update (nc_changes nc)"
  unfolding net_may_update_def by (rule disjI1) (rule plan_interface_keys [OF plan_nic_Inr(3) [OF assms]])

lemma plan_nics_mem:
  assumes "plan_nics nb err s ix g r = Inr nics" and "nc \<in> set nics"
  shows "\<exists>existing nic. plan_nic nb err s ix g existing nic = Inr nc"
  using assms by (auto simp: plan_nics_def Let_def res_bind_eq_Inr dest!: res_map_mem)

lemma check_repeated_Inr:
  "check_repeated err nics = Inr u \<longleftrightarrow> distinct (nic_macs nics) \<and> distinct (nic_addresses nics)"
  using repeated_keys_Nil [of "\<lambda>m. m" "nic_macs nics"] repeated_keys_Nil [of "\<lambda>a. a" "nic_addresses nics"]
  by (simp add: check_repeated_def)

context netbox_reader
begin

lemma load_network_index_R: "preserves R (load_network_index nb)"
  unfolding load_network_index_def by (intro reader_intros)

end

context netbox_writer
begin

lemma write_nic_R:
  assumes c: "\<And>ep kvs. net_may_create ep kvs \<Longrightarrow> may_create ep kvs"
    and u: "\<And>kvs. net_may_update kvs \<Longrightarrow> may_update kvs"
    and ok: "net_may_update (nc_changes nc)"
  shows "preserves R (write_nic nb vm acc nc)"
proof -
  have interface: "preserves R (write_nic_interface nb vm nc counts)" for counts
  proof (cases "nc_existing nc")
    case None
    have "preserves R (io_bind (io_read (\<lambda>s. Inr (f s))) (\<lambda>kvs. io_bind (nb_create nb ''virtualization.interfaces'' kvs)
        (\<lambda>i. io_return (g i))))"
      if "\<And>s. net_may_create ''virtualization.interfaces'' (f s)" for f and g :: "'r \<Rightarrow> 'r \<times> net_counts"
      by (rule preserves_bind_via [where Q = "net_may_create ''virtualization.interfaces''"])
        (auto intro!: reader_intros returns_read create_R c simp: that)
    with None show ?thesis by (simp add: write_nic_interface_def net_may_create_def)
  next
    case (Some i)
    then show ?thesis
      unfolding write_nic_interface_def by (auto intro!: reader_intros update_R u ok)
  qed
  have upd: "net_may_update (assign_fields i)" "net_may_update [(''primary_mac_address'', v)]" for i v
    by (simp_all add: net_may_update_def assign_fields_def)
  have cre: "net_may_create ''dcim.mac_addresses'' ((''mac_address'', v) # assign_fields i)"
    "net_may_create ''ipam.ip_addresses'' ([(''address'', v), (''status'', w)] @ assign_fields i)" for v w i
    by (simp_all add: net_may_create_def assign_fields_def)
  have mac: "preserves R (write_nic_mac nb i nc counts)" for i counts
    unfolding write_nic_mac_def write_nic_mac_record_def
    by (intro reader_intros update_R create_R u c upd cre)
  have ip: "preserves R (write_nic_ip nb i acc' p)" for i acc' p
    unfolding write_nic_ip_def by (intro reader_intros update_R create_R u c upd cre)
  show ?thesis
    unfolding write_nic_def by (intro reader_intros interface mac ip)
qed

lemma write_primary_R:
  assumes u: "\<And>kvs. net_may_update kvs \<Longrightarrow> may_update kvs"
  shows "preserves R (write_primary nb vm candidate acc)"
  unfolding write_primary_def
  by (intro reader_intros update_R u) (simp_all add: net_may_update_def)

end

section \<open>The addresses a write phase has records for\<close>

lemma write_nic_ip_keys:
  assumes "write_nic_ip nb i acc p s = (Inr acc', t)"
  shows "set (map fst (fst acc')) = insert (fst p) (set (map fst (fst acc)))"
proof -
  from assms obtain ip where "fst acc' = dset (fst p) ip (fst acc)"
    by (cases "snd p") (auto simp: write_nic_ip_def io_bind_Inr io_return_def io_read_def split: if_splits)
  then show ?thesis by (auto simp: keys_dset simp del: set_map)
qed

lemma write_ips_keys:
  "io_fold (write_nic_ip nb i) acc ps s = (Inr acc', t) \<Longrightarrow>
     set (map fst (fst acc')) = set (map fst (fst acc)) \<union> set (map fst ps)"
proof (induction ps arbitrary: acc s)
  case (Cons p ps)
  then obtain acc1 u where one: "write_nic_ip nb i acc p s = (Inr acc1, u)"
    and rest: "io_fold (write_nic_ip nb i) acc1 ps u = (Inr acc', t)"
    unfolding io_fold.simps io_bind_Inr by blast
  show ?case
    unfolding Cons.IH [OF rest] write_nic_ip_keys [OF one] by simp
qed (simp add: io_return_def)

lemma write_nic_keys:
  assumes "write_nic nb vm acc nc s = (Inr acc', t)"
  shows "set (map fst (fst acc')) = set (map fst (fst acc)) \<union> set (map fst (nc_ips nc))"
proof -
  from assms obtain i c2 u where "io_fold (write_nic_ip nb i) (fst acc, c2) (nc_ips nc) u = (Inr acc', t)"
    by (auto simp: write_nic_def io_bind_Inr)
  from write_ips_keys [OF this] show ?thesis by simp
qed

lemma write_nics_keys:
  "io_fold (write_nic nb vm) acc ncs s = (Inr acc', t) \<Longrightarrow>
     set (map fst (fst acc')) = set (map fst (fst acc)) \<union> set (nic_addresses ncs)"
proof (induction ncs arbitrary: acc s)
  case (Cons nc ncs)
  then obtain acc1 u where one: "write_nic nb vm acc nc s = (Inr acc1, u)"
    and rest: "io_fold (write_nic nb vm) acc1 ncs u = (Inr acc', t)"
    unfolding io_fold.simps io_bind_Inr by blast
  show ?case
    unfolding Cons.IH [OF rest] write_nic_keys [OF one] by (simp add: nic_addresses_def Un_assoc)
qed (simp add: io_return_def nic_addresses_def)

lemma unique_ipv4_mem: "unique_ipv4 ncs = Some a \<Longrightarrow> a \<in> set (nic_addresses ncs)"
proof -
  assume "unique_ipv4 ncs = Some a"
  then have "sort (remdups (filter is_ipv4_text (nic_addresses ncs))) = [a]"
    by (auto simp: unique_ipv4_def nic_addresses_def split: list.splits)
  then have "set (filter is_ipv4_text (nic_addresses ncs)) = {a}"
    by (metis list.set(1) list.set(2) set_remdups set_sort)
  then show ?thesis by auto
qed

text \<open>With a candidate that has a record, the machine ends with that record as primary.\<close>

lemma write_primary_Some:
  assumes "write_primary nb vm (Some a) acc s = (Inr c, u)" and "a \<in> set (map fst (fst acc))"
  shows "\<exists>ip. dget (fst acc) a = Some ip \<and>
     (py_eq (current_primary_ip_id nb s vm) (JInt (nb_id nb s ip)) \<and> u = s
      \<or> \<not> py_eq (current_primary_ip_id nb s vm) (JInt (nb_id nb s ip)) \<and>
        nb_update nb vm [(''primary_ip4'', JInt (nb_id nb s ip))] s = (Inr (), u))"
proof -
  from assms(2) obtain ip where "dget (fst acc) a = Some ip"
    by (cases "dget (fst acc) a") (auto simp: dget_None_iff simp del: set_map)
  with assms(1) show ?thesis
    by (auto simp: write_primary_def io_bind_Inr io_read_def io_return_def split: if_splits)
qed

end
