(* ===== verification/VmNetworkApply.thy ===== *)
theory VmNetworkApply
  imports GuestNetwork
begin

text \<open>
  The machine network stage (netbox_sync/netbox_vm_network_apply.py): interfaces, MAC addresses, IP
  addresses and the primary IPv4 of every discovered machine.  Everything is planned, and every conflict
  raised, before the first write.
\<close>

datatype primary_action = PrimarySet | PrimaryMatch | PrimaryPreserve

record 'r vm_net_context =
  vc_vm :: discovered_vm
  vc_netbox_vm :: 'r
  vc_nics :: "'r nic_context list"
  vc_primary :: "(string \<times> primary_action) option"

definition find_vm ::
    "('s, 'r) netbox \<Rightarrow> 's \<Rightarrow> 'r list \<Rightarrow> discovered_vm \<Rightarrow> 'r res" where
  "find_vm nb s target_vms vm =
     res_bind (find_vm_sync_identity_matches (custom_fields_of nb s) target_vms vm) (\<lambda>matches.
       if length matches \<noteq> 1 then Inl (VMNetworkApplyError ''Expected exactly one NetBox VM for '')
       else Inr (hd matches))"

definition primary_ip_belongs_to_vm ::
    "('s, 'r) netbox \<Rightarrow> 's \<Rightarrow> 'r network_index \<Rightarrow> 'r option \<Rightarrow> int \<Rightarrow> bool" where
  "primary_ip_belongs_to_vm nb s ix ip_record vm_id =
     (case ip_record of
        None \<Rightarrow> False
      | Some ip \<Rightarrow>
          fst (assigned_object nb s ip) = JStr ''virtualization.vminterface''
          \<and> (case lookup_id (ix_interfaces_by_id ix) (object_id (snd (assigned_object nb s ip))) of
               None \<Rightarrow> False
             | Some i \<Rightarrow> py_eq (object_id (jget (nb_data nb s i) ''virtual_machine'')) (JInt vm_id)))"

definition plan_primary ::
    "('s, 'r) netbox \<Rightarrow> 's \<Rightarrow> 'r network_index \<Rightarrow> 'r \<Rightarrow> string \<Rightarrow> primary_action res" where
  "plan_primary nb s ix netbox_vm candidate =
     (let current = current_primary_ip_id nb s netbox_vm;
          candidate_id = (case dgetl (ix_ips_by_address ix) candidate of
              [r] \<Rightarrow> JInt (nb_id nb s r) | _ \<Rightarrow> JNull)
      in if current = JNull then Inr PrimarySet
         else if py_eq current candidate_id then Inr PrimaryMatch
         else if primary_ip_belongs_to_vm nb s ix (lookup_id (ix_ips_by_id ix) current) (nb_id nb s netbox_vm)
         then Inr PrimaryPreserve
         else Inl (VMNetworkApplyError ''Existing primary IPv4 conflicts on ''))"

definition vm_net_context_of ::
    "('s, 'r) netbox \<Rightarrow> 's \<Rightarrow> 'r network_index \<Rightarrow> 'r list \<Rightarrow> discovered_vm \<Rightarrow> 'r vm_net_context res" where
  "vm_net_context_of nb s ix target_vms vm =
     res_bind (find_vm nb s target_vms vm) (\<lambda>netbox_vm.
     res_bind (plan_nics nb VMNetworkApplyError s ix (VmGuest vm) netbox_vm) (\<lambda>nics.
     res_bind (case unique_ipv4 nics of
         None \<Rightarrow> Inr None
       | Some candidate \<Rightarrow> res_bind (plan_primary nb s ix netbox_vm candidate) (\<lambda>action.
           Inr (Some (candidate, action)))) (\<lambda>primary.
       Inr \<lparr>vc_vm = vm, vc_netbox_vm = netbox_vm, vc_nics = nics, vc_primary = primary\<rparr>)))"

definition vm_net_contexts ::
    "('s, 'r) netbox \<Rightarrow> 's \<Rightarrow> 'r network_index \<Rightarrow> 'r list \<Rightarrow> discovered_vm list \<Rightarrow> 'r vm_net_context list res" where
  "vm_net_contexts nb s ix target_vms vms =
     res_bind (res_map (vm_net_context_of nb s ix target_vms) vms) (\<lambda>contexts.
     res_bind (check_repeated VMNetworkApplyError (concat (map vc_nics contexts))) (\<lambda>_.
       Inr contexts))"

definition vm_net_precheck ::
    "('s, 'r) netbox \<Rightarrow> discovered_host list \<Rightarrow> sync_target \<Rightarrow> ('s, 'r vm_net_context list) io" where
  "vm_net_precheck nb hosts config =
     io_bind (site_cluster nb VMNetworkApplyError (t_site_slug config) (t_cluster_name config)) (\<lambda>(site, cluster).
     io_bind (io_read (\<lambda>s. Inr (nb_id nb s cluster))) (\<lambda>cluster_id.
     io_bind (nb_filter nb ''virtualization.virtual_machines'' [(''cluster_id'', JInt cluster_id)]) (\<lambda>target_vms.
     io_bind (load_network_index nb) (\<lambda>ix.
       io_read (\<lambda>s. vm_net_contexts nb s ix target_vms (concat (map h_virtual_machines hosts)))))))"

text \<open>The summary the precheck prints.\<close>

record vm_plan_summary =
  vs_counts :: net_plan_counts
  vs_primary_set :: nat
  vs_primary_match :: nat
  vs_primary_preserve :: nat

definition vm_plan_summary_of :: "'r vm_net_context list \<Rightarrow> vm_plan_summary" where
  "vm_plan_summary_of contexts =
     (let primaries = List.map_filter (\<lambda>c. map_option snd (vc_primary c)) contexts
      in \<lparr>vs_counts = net_plan_counts (concat (map vc_nics contexts)),
          vs_primary_set = length (filter (\<lambda>a. a = PrimarySet) primaries),
          vs_primary_match = length (filter (\<lambda>a. a = PrimaryMatch) primaries),
          vs_primary_preserve = length (filter (\<lambda>a. a = PrimaryPreserve) primaries)\<rparr>)"

definition vm_net_write ::
    "('s, 'r) netbox \<Rightarrow> net_counts \<Rightarrow> 'r vm_net_context \<Rightarrow> ('s, net_counts) io" where
  "vm_net_write nb counts ctx =
     io_bind (io_fold (write_nic nb (vc_netbox_vm ctx)) ([], counts) (vc_nics ctx)) (\<lambda>acc.
       write_primary nb (vc_netbox_vm ctx)
         (case vc_primary ctx of
            Some (candidate, action) \<Rightarrow> if action = PrimaryPreserve then None else Some candidate
          | None \<Rightarrow> None) acc)"

definition apply_vm_networks ::
    "('s, 'r) netbox \<Rightarrow> discovered_host list \<Rightarrow> sync_target \<Rightarrow> bool \<Rightarrow> ('s, net_counts option) io" where
  "apply_vm_networks nb hosts config confirmed =
     io_bind (vm_net_precheck nb hosts config) (\<lambda>contexts.
       if \<not> confirmed then io_return None
       else io_bind (io_fold (vm_net_write nb) no_net_counts contexts) (\<lambda>counts. io_return (Some counts)))"

section \<open>What the stage writes\<close>

lemma vm_net_context_of_Inr:
  assumes "vm_net_context_of nb s ix target_vms vm = Inr ctx"
  shows "vc_vm ctx = vm" and "find_vm nb s target_vms vm = Inr (vc_netbox_vm ctx)"
    and "plan_nics nb VMNetworkApplyError s ix (VmGuest vm) (vc_netbox_vm ctx) = Inr (vc_nics ctx)"
    and "case vc_primary ctx of
           None \<Rightarrow> unique_ipv4 (vc_nics ctx) = None
         | Some (candidate, action) \<Rightarrow> unique_ipv4 (vc_nics ctx) = Some candidate
             \<and> plan_primary nb s ix (vc_netbox_vm ctx) candidate = Inr action"
  using assms by (auto simp: vm_net_context_of_def res_bind_eq_Inr split: option.splits)

lemma vm_net_contexts_Inr:
  "vm_net_contexts nb s ix target_vms vms = Inr ctxs \<longleftrightarrow>
     list_all2 (\<lambda>vm ctx. vm_net_context_of nb s ix target_vms vm = Inr ctx) vms ctxs
     \<and> distinct (nic_macs (concat (map vc_nics ctxs))) \<and> distinct (nic_addresses (concat (map vc_nics ctxs)))"
  by (auto simp: vm_net_contexts_def res_bind_eq_Inr res_map_eq_Inr check_repeated_Inr)

lemma vm_net_contexts_mem:
  assumes "vm_net_contexts nb s ix target_vms vms = Inr ctxs" and "ctx \<in> set ctxs"
  shows "\<exists>vm \<in> set vms. vm_net_context_of nb s ix target_vms vm = Inr ctx"
  using assms by (auto simp: vm_net_contexts_Inr list_all2_conv_all_nth in_set_conv_nth) (metis nth_mem)

lemma vm_net_contexts_ok:
  assumes "vm_net_contexts nb s ix target_vms vms = Inr ctxs" and "ctx \<in> set ctxs" and "nc \<in> set (vc_nics ctx)"
  shows "net_may_update (nc_changes nc)" and "nic_justified nb s nc"
proof -
  from vm_net_contexts_mem [OF assms(1,2)] obtain vm where "vm_net_context_of nb s ix target_vms vm = Inr ctx" ..
  from plan_nics_mem [OF vm_net_context_of_Inr(3) [OF this] assms(3)]
  obtain existing nic where "plan_nic nb VMNetworkApplyError s ix (VmGuest vm) existing nic = Inr nc" by blast
  then show "net_may_update (nc_changes nc)" "nic_justified nb s nc"
    by (rule plan_nic_ok, rule plan_nic_justified)
qed

lemma vm_net_precheck_returns:
  "returns (\<lambda>ctxs. \<forall>ctx \<in> set ctxs. \<forall>nc \<in> set (vc_nics ctx). net_may_update (nc_changes nc))
     (vm_net_precheck nb hosts config)"
  unfolding vm_net_precheck_def case_prod_beta
  by (rule returns_bind, rule returns_bind, rule returns_bind, rule returns_bind, rule returns_read)
    (blast dest: vm_net_contexts_ok)

context netbox_reader
begin

lemma vm_net_precheck_R: "preserves R (vm_net_precheck nb hosts config)"
  unfolding vm_net_precheck_def by (intro reader_intros site_cluster_R load_network_index_R)

lemma vm_net_unconfirmed_R: "preserves R (apply_vm_networks nb hosts config False)"
  unfolding apply_vm_networks_def by (intro reader_intros vm_net_precheck_R) simp_all

end

context netbox_writer
begin

lemma vm_net_apply_R:
  assumes c: "\<And>ep kvs. net_may_create ep kvs \<Longrightarrow> may_create ep kvs"
    and u: "\<And>kvs. net_may_update kvs \<Longrightarrow> may_update kvs"
  shows "preserves R (apply_vm_networks nb hosts config confirmed)"
proof -
  have step: "preserves R (vm_net_write nb counts ctx)"
    if "\<forall>nc \<in> set (vc_nics ctx). net_may_update (nc_changes nc)" for counts ctx
    unfolding vm_net_write_def
    by (rule preserves_bind [OF R_trans preserves_fold_mem [OF R_refl R_trans] write_primary_R [OF u]])
      (use that in \<open>auto intro: write_nic_R c u\<close>)
  show ?thesis
    unfolding apply_vm_networks_def
    by (rule preserves_bind_via [OF R_trans vm_net_precheck_R vm_net_precheck_returns])
      (auto intro!: reader_intros preserves_fold_mem step)
qed

end

section \<open>Properties\<close>

text \<open>C4: The network plan of a run steals nothing and names nothing twice: every MAC and IP record it
  takes over is unassigned or already on the interface it plans for; no MAC and no IP address is planned
  for two interfaces; and each machine's contexts belong to the one NetBox machine of its identity.\<close>

theorem vm_net_contexts_sound:
  assumes "vm_net_contexts nb s ix target_vms vms = Inr ctxs"
  shows "map vc_vm ctxs = vms
     \<and> distinct (nic_macs (concat (map vc_nics ctxs)))
     \<and> distinct (nic_addresses (concat (map vc_nics ctxs)))
     \<and> (\<forall>ctx \<in> set ctxs.
          vc_netbox_vm ctx \<in> set target_vms
          \<and> (\<exists>rank. vm_sync_identity_match_rank (custom_fields_of nb s (vc_netbox_vm ctx)) (vc_vm ctx) = Inr rank
                    \<and> rank \<noteq> NO_IDENTITY_MATCH)
          \<and> (\<forall>nc \<in> set (vc_nics ctx). nic_justified nb s nc))"
proof -
  have "map vc_vm ctxs = vms"
    using assms by (auto simp: vm_net_contexts_Inr list_all2_conv_all_nth vm_net_context_of_Inr(1)
        intro!: nth_equalityI)
  moreover have "vc_netbox_vm ctx \<in> set target_vms
      \<and> (\<exists>rank. vm_sync_identity_match_rank (custom_fields_of nb s (vc_netbox_vm ctx)) (vc_vm ctx) = Inr rank
                \<and> rank \<noteq> NO_IDENTITY_MATCH)" if "ctx \<in> set ctxs" for ctx
  proof -
    from vm_net_contexts_mem [OF assms that] obtain vm where v: "vm_net_context_of nb s ix target_vms vm = Inr ctx" ..
    from vm_net_context_of_Inr(2) [OF v] obtain ms where
      "select_best_identity_matches target_vms (\<lambda>c. vm_sync_identity_match_rank (custom_fields_of nb s c) vm) = Inr ms"
      "length ms = 1" "hd ms = vc_netbox_vm ctx"
      by (auto simp: find_vm_def find_vm_sync_identity_matches_def res_bind_eq_Inr split: if_splits)
    moreover from this have "vc_netbox_vm ctx \<in> set ms" by (cases ms) auto
    ultimately show ?thesis using select_best_mem vm_net_context_of_Inr(1) [OF v] by metis
  qed
  ultimately show ?thesis
    using assms vm_net_contexts_ok(2) [OF assms] by (auto simp: vm_net_contexts_Inr)
qed

definition empty_index :: "'r network_index" where
  "empty_index = \<lparr>ix_interfaces_by_vm = [], ix_interfaces_by_id = [], ix_macs_by_address = [],
     ix_ips_by_address = [], ix_ips_by_id = []\<rparr>"

theorem vm_net_contexts_sound_witness:
  "\<exists>ctxs. vm_net_contexts fake_netbox sample_netbox empty_index [(''virtualization.virtual_machines'', 0)]
       [sample_vm] = Inr ctxs
     \<and> map vc_vm ctxs = [sample_vm] \<and> distinct (nic_addresses (concat (map vc_nics ctxs)))"
proof -
  have "case vm_net_contexts fake_netbox sample_netbox empty_index [(''virtualization.virtual_machines'', 0)]
      [sample_vm] of Inr c \<Rightarrow> True | Inl e \<Rightarrow> False" by code_simp
  then obtain ctxs where run: "vm_net_contexts fake_netbox sample_netbox empty_index
      [(''virtualization.virtual_machines'', 0)] [sample_vm] = Inr ctxs" by (auto split: sum.splits)
  from vm_net_contexts_sound [OF run] run show ?thesis by (intro exI [of _ ctxs]) simp
qed

text \<open>The primary IPv4 of a machine.  The plan names an address only when it is the machine's single
  IPv4 address; it will set it only if NetBox has none, keeps it if NetBox's is already that address's
  record, preserves a different one that sits on an interface of the same machine, and refuses any other.\<close>

theorem vm_primary_plan:
  assumes "vm_net_context_of nb s ix target_vms vm = Inr ctx" and "vc_primary ctx = Some (candidate, action)"
  shows "set (filter is_ipv4_text (nic_addresses (vc_nics ctx))) = {candidate}
     \<and> (case action of
          PrimarySet \<Rightarrow> current_primary_ip_id nb s (vc_netbox_vm ctx) = JNull
        | PrimaryMatch \<Rightarrow> (\<exists>r. dgetl (ix_ips_by_address ix) candidate = [r]
            \<and> py_eq (current_primary_ip_id nb s (vc_netbox_vm ctx)) (JInt (nb_id nb s r)))
        | PrimaryPreserve \<Rightarrow> (\<exists>r. lookup_id (ix_ips_by_id ix) (current_primary_ip_id nb s (vc_netbox_vm ctx)) = Some r
            \<and> primary_ip_belongs_to_vm nb s ix (Some r) (nb_id nb s (vc_netbox_vm ctx))))"
proof -
  from vm_net_context_of_Inr(4) [OF assms(1)] assms(2)
  have u: "unique_ipv4 (vc_nics ctx) = Some candidate"
    and p: "plan_primary nb s ix (vc_netbox_vm ctx) candidate = Inr action" by simp_all
  from u have "sort (remdups (filter is_ipv4_text (nic_addresses (vc_nics ctx)))) = [candidate]"
    by (auto simp: unique_ipv4_def nic_addresses_def split: list.splits)
  then have "set (filter is_ipv4_text (nic_addresses (vc_nics ctx))) = {candidate}"
    by (metis list.set(1) list.set(2) set_remdups set_sort)
  moreover have "case action of
          PrimarySet \<Rightarrow> current_primary_ip_id nb s (vc_netbox_vm ctx) = JNull
        | PrimaryMatch \<Rightarrow> (\<exists>r. dgetl (ix_ips_by_address ix) candidate = [r]
            \<and> py_eq (current_primary_ip_id nb s (vc_netbox_vm ctx)) (JInt (nb_id nb s r)))
        | PrimaryPreserve \<Rightarrow> (\<exists>r. lookup_id (ix_ips_by_id ix) (current_primary_ip_id nb s (vc_netbox_vm ctx)) = Some r
            \<and> primary_ip_belongs_to_vm nb s ix (Some r) (nb_id nb s (vc_netbox_vm ctx)))"
    using p by (cases "lookup_id (ix_ips_by_id ix) (current_primary_ip_id nb s (vc_netbox_vm ctx))")
      (auto simp: plan_primary_def Let_def primary_ip_belongs_to_vm_def split: if_splits list.splits)
  ultimately show ?thesis ..
qed

theorem vm_primary_plan_witness:
  "\<exists>ctx. vm_net_context_of fake_netbox sample_netbox empty_index [(''virtualization.virtual_machines'', 0)] sample_vm = Inr ctx
     \<and> vc_primary ctx = Some (''10.0.20.5/24'', PrimarySet)
     \<and> set (filter is_ipv4_text (nic_addresses (vc_nics ctx))) = {''10.0.20.5/24''}"
proof -
  have "case vm_net_context_of fake_netbox sample_netbox empty_index [(''virtualization.virtual_machines'', 0)] sample_vm
      of Inr c \<Rightarrow> vc_primary c = Some (''10.0.20.5/24'', PrimarySet) | Inl e \<Rightarrow> False" by code_simp
  then obtain ctx where run: "vm_net_context_of fake_netbox sample_netbox empty_index
      [(''virtualization.virtual_machines'', 0)] sample_vm = Inr ctx"
    "vc_primary ctx = Some (''10.0.20.5/24'', PrimarySet)" by (auto split: sum.splits)
  from vm_primary_plan [OF run] run show ?thesis by (intro exI [of _ ctx]) simp
qed

end
