(* ===== verification/LxcNetworkApply.thy ===== *)
theory LxcNetworkApply
  imports GuestNetwork
begin

text \<open>
  The container network stage (netbox_sync/netbox_lxc_network_apply.py).  The steps are those of
  \<open>GuestNetwork\<close> with this module's error class and messages; what differs is how the NetBox object is
  found (among all machines, then checked to lie in the target cluster) and that an existing primary
  IPv4 is never looked at while planning.
\<close>

text \<open>The module's own wording of the shared messages.\<close>

definition lxc_network_error :: "string \<Rightarrow> py_exn" where
  "lxc_network_error text = LXCNetworkApplyError
     (if text = ''Duplicate discovered NIC names on '' then ''Duplicate discovered LXC NIC names: ''
      else if text = ''NIC adoption candidate exists without sync identity: ''
      then ''LXC NIC adoption candidate exists without identity: ''
      else if text = ''Duplicate NIC identity '' then ''Duplicate interface identity on ''
      else if text = ''Existing primary MAC conflicts on '' then ''Primary MAC conflict on ''
      else text)"

record 'r lxc_net_context =
  lnc_container :: discovered_container
  lnc_netbox_vm :: 'r
  lnc_nics :: "'r nic_context list"
  lnc_primary_candidate :: "string option"

definition find_lxc_vm ::
    "('s, 'r) netbox \<Rightarrow> 's \<Rightarrow> 'r list \<Rightarrow> discovered_container \<Rightarrow> 'r res" where
  "find_lxc_vm nb s all_vms c =
     res_bind (find_lxc_sync_identity_matches (custom_fields_of nb s) all_vms c) (\<lambda>matches.
       if length matches \<noteq> 1 then Inl (LXCNetworkApplyError ''Expected exactly one NetBox LXC object for '')
       else Inr (hd matches))"

definition lxc_plan_nic ::
    "('s, 'r) netbox \<Rightarrow> 's \<Rightarrow> 'r network_index \<Rightarrow> discovered_container \<Rightarrow> 'r list
       \<Rightarrow> discovered_interface \<Rightarrow> 'r nic_context res" where
  "lxc_plan_nic nb s ix c existing nic = plan_nic nb lxc_network_error s ix (LxcGuest c) existing nic"

definition lxc_net_context_of ::
    "('s, 'r) netbox \<Rightarrow> 's \<Rightarrow> 'r network_index \<Rightarrow> 'r \<Rightarrow> 'r list \<Rightarrow> discovered_container
       \<Rightarrow> 'r lxc_net_context res" where
  "lxc_net_context_of nb s ix cluster all_vms c =
     res_bind (find_lxc_vm nb s all_vms c) (\<lambda>netbox_vm.
       if \<not> py_eq (object_id (jget (nb_data nb s netbox_vm) ''cluster'')) (JInt (nb_id nb s cluster))
       then Inl (LXCNetworkApplyError ''LXC is outside target cluster'')
       else res_bind (check_nic_names lxc_network_error (g_interfaces c)) (\<lambda>_.
            res_bind (res_map (lxc_plan_nic nb s ix c
                (dgetl (ix_interfaces_by_vm ix) (JInt (nb_id nb s netbox_vm)))) (g_interfaces c)) (\<lambda>nics.
              Inr \<lparr>lnc_container = c, lnc_netbox_vm = netbox_vm, lnc_nics = nics,
                   lnc_primary_candidate = unique_ipv4 nics\<rparr>)))"

definition lxc_check_repeated :: "'r nic_context list \<Rightarrow> unit res" where
  "lxc_check_repeated nics = check_repeated lxc_network_error nics"

definition lxc_net_contexts ::
    "('s, 'r) netbox \<Rightarrow> 's \<Rightarrow> 'r network_index \<Rightarrow> 'r \<Rightarrow> 'r list \<Rightarrow> discovered_container list
       \<Rightarrow> 'r lxc_net_context list res" where
  "lxc_net_contexts nb s ix cluster all_vms cs =
     res_bind (res_map (lxc_net_context_of nb s ix cluster all_vms) cs) (\<lambda>contexts.
     res_bind (lxc_check_repeated (concat (map lnc_nics contexts))) (\<lambda>_. Inr contexts))"

definition lxc_net_precheck ::
    "('s, 'r) netbox \<Rightarrow> discovered_host list \<Rightarrow> sync_target \<Rightarrow> ('s, 'r lxc_net_context list) io" where
  "lxc_net_precheck nb hosts config =
     io_bind (site_cluster nb LXCNetworkApplyError (t_site_slug config) (t_cluster_name config)) (\<lambda>(site, cluster).
     io_bind (nb_all nb ''virtualization.virtual_machines'') (\<lambda>all_vms.
     io_bind (load_network_index nb) (\<lambda>ix.
       io_read (\<lambda>s. lxc_net_contexts nb s ix cluster all_vms (concat (map h_containers hosts))))))"

definition lxc_plan_summary :: "'r lxc_net_context list \<Rightarrow> net_plan_counts \<times> nat" where
  "lxc_plan_summary contexts =
     (net_plan_counts (concat (map lnc_nics contexts)),
      length (filter (\<lambda>c. lnc_primary_candidate c \<noteq> None) contexts))"

definition lxc_write_nic ::
    "('s, 'r) netbox \<Rightarrow> 'r \<Rightarrow> (string \<times> 'r) list \<times> net_counts \<Rightarrow> 'r nic_context
       \<Rightarrow> ('s, (string \<times> 'r) list \<times> net_counts) io" where
  "lxc_write_nic nb netbox_vm acc nc =
     io_bind (write_nic_interface nb netbox_vm nc (snd acc)) (\<lambda>(interface, counts1).
     io_bind (write_nic_mac nb interface nc counts1) (\<lambda>counts2.
       io_fold (write_nic_ip nb interface) (fst acc, counts2) (nc_ips nc)))"

definition lxc_net_write ::
    "('s, 'r) netbox \<Rightarrow> net_counts \<Rightarrow> 'r lxc_net_context \<Rightarrow> ('s, net_counts) io" where
  "lxc_net_write nb counts ctx =
     io_bind (io_fold (lxc_write_nic nb (lnc_netbox_vm ctx)) ([], counts) (lnc_nics ctx)) (\<lambda>acc.
       write_primary nb (lnc_netbox_vm ctx) (lnc_primary_candidate ctx) acc)"

definition apply_lxc_networks ::
    "('s, 'r) netbox \<Rightarrow> discovered_host list \<Rightarrow> sync_target \<Rightarrow> bool \<Rightarrow> ('s, net_counts option) io" where
  "apply_lxc_networks nb hosts config confirmed =
     io_bind (lxc_net_precheck nb hosts config) (\<lambda>contexts.
       if \<not> confirmed then io_return None
       else io_bind (io_fold (lxc_net_write nb) no_net_counts contexts) (\<lambda>counts. io_return (Some counts)))"

section \<open>What the stage writes\<close>

lemma lxc_write_nic_eq: "lxc_write_nic = write_nic"
  by (simp add: fun_eq_iff lxc_write_nic_def write_nic_def)

lemma lxc_net_context_of_Inr:
  assumes "lxc_net_context_of nb s ix cluster all_vms c = Inr ctx"
  shows "lnc_container ctx = c" and "find_lxc_vm nb s all_vms c = Inr (lnc_netbox_vm ctx)"
    and "py_eq (object_id (jget (nb_data nb s (lnc_netbox_vm ctx)) ''cluster'')) (JInt (nb_id nb s cluster))"
    and "res_map (plan_nic nb lxc_network_error s ix (LxcGuest c)
           (dgetl (ix_interfaces_by_vm ix) (JInt (nb_id nb s (lnc_netbox_vm ctx))))) (g_interfaces c) = Inr (lnc_nics ctx)"
    and "lnc_primary_candidate ctx = unique_ipv4 (lnc_nics ctx)"
  using assms by (auto simp: lxc_net_context_of_def lxc_plan_nic_def [abs_def] res_bind_eq_Inr split: if_splits)

lemma lxc_net_contexts_Inr:
  "lxc_net_contexts nb s ix cluster all_vms cs = Inr ctxs \<longleftrightarrow>
     list_all2 (\<lambda>c ctx. lxc_net_context_of nb s ix cluster all_vms c = Inr ctx) cs ctxs
     \<and> distinct (nic_macs (concat (map lnc_nics ctxs))) \<and> distinct (nic_addresses (concat (map lnc_nics ctxs)))"
  by (auto simp: lxc_net_contexts_def lxc_check_repeated_def res_bind_eq_Inr res_map_eq_Inr check_repeated_Inr)

lemma lxc_net_contexts_mem:
  assumes "lxc_net_contexts nb s ix cluster all_vms cs = Inr ctxs" and "ctx \<in> set ctxs"
  shows "\<exists>c \<in> set cs. lxc_net_context_of nb s ix cluster all_vms c = Inr ctx"
  using assms by (auto simp: lxc_net_contexts_Inr list_all2_conv_all_nth in_set_conv_nth) (metis nth_mem)

lemma lxc_net_contexts_ok:
  assumes "lxc_net_contexts nb s ix cluster all_vms cs = Inr ctxs" and "ctx \<in> set ctxs" and "nc \<in> set (lnc_nics ctx)"
  shows "net_may_update (nc_changes nc)" and "nic_justified nb s nc"
proof -
  from lxc_net_contexts_mem [OF assms(1,2)] obtain c where "lxc_net_context_of nb s ix cluster all_vms c = Inr ctx" ..
  from res_map_mem [OF lxc_net_context_of_Inr(4) [OF this] assms(3)]
  obtain existing nic where "plan_nic nb lxc_network_error s ix (LxcGuest c) existing nic = Inr nc" by blast
  then show "net_may_update (nc_changes nc)" "nic_justified nb s nc"
    by (rule plan_nic_ok, rule plan_nic_justified)
qed

lemma lxc_net_precheck_returns:
  "returns (\<lambda>ctxs. \<forall>ctx \<in> set ctxs. \<forall>nc \<in> set (lnc_nics ctx). net_may_update (nc_changes nc))
     (lxc_net_precheck nb hosts config)"
  unfolding lxc_net_precheck_def case_prod_beta
  by (rule returns_bind, rule returns_bind, rule returns_bind, rule returns_read)
    (blast dest: lxc_net_contexts_ok)

context netbox_reader
begin

lemma lxc_net_precheck_R: "preserves R (lxc_net_precheck nb hosts config)"
  unfolding lxc_net_precheck_def by (intro reader_intros site_cluster_R load_network_index_R)

lemma lxc_net_unconfirmed_R: "preserves R (apply_lxc_networks nb hosts config False)"
  unfolding apply_lxc_networks_def by (intro reader_intros lxc_net_precheck_R) simp_all

end

context netbox_writer
begin

lemma lxc_net_apply_R:
  assumes c: "\<And>ep kvs. net_may_create ep kvs \<Longrightarrow> may_create ep kvs"
    and u: "\<And>kvs. net_may_update kvs \<Longrightarrow> may_update kvs"
  shows "preserves R (apply_lxc_networks nb hosts config confirmed)"
proof -
  have step: "preserves R (lxc_net_write nb counts ctx)"
    if "\<forall>nc \<in> set (lnc_nics ctx). net_may_update (nc_changes nc)" for counts ctx
    unfolding lxc_net_write_def lxc_write_nic_eq
    by (rule preserves_bind [OF R_trans preserves_fold_mem [OF R_refl R_trans] write_primary_R [OF u]])
      (use that in \<open>auto intro: write_nic_R c u\<close>)
  show ?thesis
    unfolding apply_lxc_networks_def
    by (rule preserves_bind_via [OF R_trans lxc_net_precheck_R lxc_net_precheck_returns])
      (auto intro!: reader_intros preserves_fold_mem step)
qed

end

section \<open>Properties\<close>

definition sample_lxc_vm_record :: obj where
  "sample_lxc_vm_record = [(''id'', JInt 8), (''name'', JStr ''dns''), (''cluster'', JInt 1),
     (''primary_ip4'', JInt 77), (''custom_fields'', JObj [(''sync_identities'', JList
        [JObj [(''schema'', JStr ''v2''), (''type'', JStr ''proxmox''), (''instance'', JStr ''pve-a''),
               (''kind'', JStr ''lxc''), (''external_id'', JStr ''101'')]])])]"

text \<open>The container has a manual interface whose address is its primary one.\<close>

definition sample_manual_primary :: fake_state where
  "sample_manual_primary = \<lparr>fk_records =
     [(''dcim.sites'', [fake_rec [(''id'', JInt 1), (''slug'', JStr ''lab'')]]),
      (''virtualization.clusters'', [fake_rec [(''id'', JInt 1), (''name'', JStr ''PVE''),
         (''scope_type'', JStr ''dcim.site''), (''scope_id'', JInt 1)]]),
      (''virtualization.virtual_machines'', [fake_rec sample_lxc_vm_record]),
      (''virtualization.interfaces'', [fake_rec [(''id'', JInt 30), (''name'', JStr ''manual0''),
         (''virtual_machine'', JInt 8)]]),
      (''ipam.ip_addresses'', [fake_rec [(''id'', JInt 77), (''address'', JStr ''10.9.9.9/24''),
         (''assigned_object_type'', JStr ''virtualization.vminterface''), (''assigned_object_id'', JInt 30)]])],
     fk_mutations = []\<rparr>"

text \<open>The containers' network plan is sound in the same sense as the machines', and every container's
  NetBox machine lies in the target cluster.\<close>

theorem lxc_net_contexts_sound:
  assumes "lxc_net_contexts nb s ix cluster all_vms cs = Inr ctxs"
  shows "map lnc_container ctxs = cs
     \<and> distinct (nic_macs (concat (map lnc_nics ctxs)))
     \<and> distinct (nic_addresses (concat (map lnc_nics ctxs)))
     \<and> (\<forall>ctx \<in> set ctxs.
          lnc_netbox_vm ctx \<in> set all_vms
          \<and> py_eq (object_id (jget (nb_data nb s (lnc_netbox_vm ctx)) ''cluster'')) (JInt (nb_id nb s cluster))
          \<and> (\<exists>rank. lxc_sync_identity_match_rank (custom_fields_of nb s (lnc_netbox_vm ctx)) (lnc_container ctx) = Inr rank
                    \<and> rank \<noteq> NO_IDENTITY_MATCH)
          \<and> (\<forall>nc \<in> set (lnc_nics ctx). nic_justified nb s nc))"
proof -
  have "map lnc_container ctxs = cs"
    using assms by (auto simp: lxc_net_contexts_Inr list_all2_conv_all_nth lxc_net_context_of_Inr(1)
        intro!: nth_equalityI)
  moreover have "lnc_netbox_vm ctx \<in> set all_vms
      \<and> py_eq (object_id (jget (nb_data nb s (lnc_netbox_vm ctx)) ''cluster'')) (JInt (nb_id nb s cluster))
      \<and> (\<exists>rank. lxc_sync_identity_match_rank (custom_fields_of nb s (lnc_netbox_vm ctx)) (lnc_container ctx) = Inr rank
                \<and> rank \<noteq> NO_IDENTITY_MATCH)" if "ctx \<in> set ctxs" for ctx
  proof -
    from lxc_net_contexts_mem [OF assms that] obtain c where
      v: "lxc_net_context_of nb s ix cluster all_vms c = Inr ctx" ..
    from lxc_net_context_of_Inr(2) [OF v] obtain ms where
      "select_best_identity_matches all_vms (\<lambda>r. lxc_sync_identity_match_rank (custom_fields_of nb s r) c) = Inr ms"
      "length ms = 1" "hd ms = lnc_netbox_vm ctx"
      by (auto simp: find_lxc_vm_def find_lxc_sync_identity_matches_def res_bind_eq_Inr split: if_splits)
    moreover from this have "lnc_netbox_vm ctx \<in> set ms" by (cases ms) auto
    ultimately show ?thesis
      using select_best_mem lxc_net_context_of_Inr(1) [OF v] lxc_net_context_of_Inr(3) [OF v] by metis
  qed
  ultimately show ?thesis
    using assms lxc_net_contexts_ok(2) [OF assms] by (auto simp: lxc_net_contexts_Inr)
qed

theorem lxc_net_contexts_sound_witness:
  "\<exists>ctxs. lxc_net_contexts fake_netbox sample_manual_primary
       (network_index_of fake_netbox sample_manual_primary [] [] []) (''virtualization.clusters'', 0)
       [(''virtualization.virtual_machines'', 0)] [sample_container] = Inr ctxs
     \<and> map lnc_container ctxs = [sample_container]"
proof -
  have "case lxc_net_contexts fake_netbox sample_manual_primary
       (network_index_of fake_netbox sample_manual_primary [] [] []) (''virtualization.clusters'', 0)
       [(''virtualization.virtual_machines'', 0)] [sample_container] of Inr c \<Rightarrow> True | Inl e \<Rightarrow> False" by code_simp
  then obtain ctxs where run: "lxc_net_contexts fake_netbox sample_manual_primary
       (network_index_of fake_netbox sample_manual_primary [] [] []) (''virtualization.clusters'', 0)
       [(''virtualization.virtual_machines'', 0)] [sample_container] = Inr ctxs" by (auto split: sum.splits)
  from lxc_net_contexts_sound [OF run] run show ?thesis by (intro exI [of _ ctxs]) simp
qed


definition sample_lxc_context :: "fake_handle lxc_net_context" where
  "sample_lxc_context = \<lparr>lnc_container = sample_container, lnc_netbox_vm = (''virtualization.virtual_machines'', 0),
     lnc_nics = [\<lparr>nc_source = sample_nic, nc_existing = Some (''virtualization.interfaces'', 1), nc_changes = [],
        nc_desired_custom_fields = [], nc_mac_value = [], nc_existing_mac = None,
        nc_ips = [(''10.0.20.5/24'', Some (''ipam.ip_addresses'', 1))]\<rparr>],
     lnc_primary_candidate = Some ''10.0.20.5/24''\<rparr>"

definition sample_two_addresses :: fake_state where
  "sample_two_addresses = sample_manual_primary\<lparr>fk_records := dset ''ipam.ip_addresses''
     [fake_rec [(''id'', JInt 77), (''address'', JStr ''10.9.9.9/24''),
        (''assigned_object_type'', JStr ''virtualization.vminterface''), (''assigned_object_id'', JInt 30)],
      fake_rec [(''id'', JInt 78), (''address'', JStr ''10.0.20.5/24''),
        (''assigned_object_type'', JStr ''virtualization.vminterface''), (''assigned_object_id'', JInt 31)]]
     (fk_records sample_manual_primary)\<rparr>"


end
