(* ===== verification/Disappearance.thy ===== *)
theory Disappearance
  imports GuestNetwork
begin

text \<open>
  The disappearance report (netbox_sync/netbox_disappearance.py): the managed machines of the target
  cluster, and the managed interfaces of those still present, that the discovery of this run did not see.
  A set of the source is a list here, read for membership and, without repetitions, for its size.
\<close>

section \<open>Identities of managed objects\<close>

datatype managed_id = V2Id source_identity | V1Id string string

definition local_source_id :: "string \<Rightarrow> string \<Rightarrow> string" where
  "local_source_id source source_id =
     (let prefix = source @ '':''
      in if starts_with source_id prefix then drop (length prefix) source_id else source_id)"

definition v1_identity :: "json \<Rightarrow> (string \<times> string) option" where
  "v1_identity item =
     (case item of
        JObj d \<Rightarrow>
          let source = jget d ''source'';
              source_id = (case dget d ''source_id'' of Some x \<Rightarrow> x | None \<Rightarrow> jget d ''id'')
          in if truthy source \<and> truthy source_id then Some (py_str source, py_str source_id) else None
      | _ \<Rightarrow> None)"

definition v1_identities :: "obj \<Rightarrow> (string \<times> string) list" where
  "v1_identities cf =
     (case jget cf ''sync_identities'' of JList vs \<Rightarrow> List.map_filter v1_identity vs | _ \<Rightarrow> [])"

definition v2_identities :: "obj \<Rightarrow> source_identity list res" where
  "v2_identities cf =
     (case jget cf ''sync_identities'' of
        JList vs \<Rightarrow> res_bind (res_map from_record vs) (\<lambda>ps. Inr (List.map_filter (\<lambda>p. p) ps))
      | _ \<Rightarrow> Inr [])"

definition identity_label :: "managed_id \<Rightarrow> string" where
  "identity_label i = (case i of
       V2Id v \<Rightarrow> si_type v @ ''/'' @ si_instance v @ ''/'' @ si_kind v @ ''/'' @ si_external_id v
     | V1Id s x \<Rightarrow> s @ '':'' @ x)"

section \<open>What this run discovered\<close>

record discovery_scope =
  sc_scopes :: "(string \<times> string) list"
  sc_instances :: "(string \<times> string) list"
  sc_guests :: "managed_id list"
  sc_interfaces :: "managed_id list"

definition vm_known :: "discovered_vm \<Rightarrow> (managed_id list \<times> managed_id list) res" where
  "vm_known vm =
     res_bind (virtual_machine_source_identity vm) (\<lambda>i.
     res_bind (res_map (\<lambda>nic. res_bind (virtual_machine_nic_source_identity vm nic) (\<lambda>j.
         Inr [V1Id (g_source vm) (nic_identity_source_id vm nic), V2Id j])) (g_interfaces vm)) (\<lambda>nics.
       Inr ([V1Id (g_source vm) (vm_identity_source_id vm), V2Id i], concat nics)))"

definition lxc_known :: "discovered_container \<Rightarrow> (managed_id list \<times> managed_id list) res" where
  "lxc_known c =
     res_bind (lxc_source_identity c) (\<lambda>i.
     res_bind (res_map (\<lambda>nic. res_bind (lxc_nic_source_identity c nic) (\<lambda>j.
         Inr [V1Id (g_source c) (nic_identity_source_id c nic), V2Id j])) (g_interfaces c)) (\<lambda>nics.
       Inr ([V1Id (g_source c) (lxc_identity_source_id c), V2Id i], concat nics)))"

definition host_known :: "discovered_host \<Rightarrow> (managed_id list \<times> managed_id list) res" where
  "host_known host =
     res_bind (res_map vm_known (h_virtual_machines host)) (\<lambda>vms.
     res_bind (res_map lxc_known (h_containers host)) (\<lambda>cs.
       Inr (concat (map fst (vms @ cs)), concat (map snd (vms @ cs)))))"

definition host_scopes :: "discovered_host \<Rightarrow> (string \<times> string) list" where
  "host_scopes host =
     (if h_legacy_identity_owner host
      then [(h_source host, local_source_id (h_source host) (h_source_id host) @ '':'')] else [])"

definition discovery_scope_of :: "discovered_host list \<Rightarrow> discovery_scope res" where
  "discovery_scope_of hosts =
     res_bind (res_map host_known hosts) (\<lambda>known.
       Inr \<lparr>sc_scopes = remdups (concat (map host_scopes hosts)),
            sc_instances = map (\<lambda>h. (h_source h, h_source_instance h)) hosts,
            sc_guests = concat (map fst known), sc_interfaces = concat (map snd known)\<rparr>)"

section \<open>Whose object it is\<close>

definition v1_matches :: "discovery_scope \<Rightarrow> (string \<times> string) list \<Rightarrow> (string \<times> string) list" where
  "v1_matches sc ids =
     concat (map (\<lambda>(source, source_id).
       map (\<lambda>scope. (source, source_id))
         (filter (\<lambda>(scoped_source, prefix). source = scoped_source \<and> starts_with source_id prefix)
            (sc_scopes sc))) ids)"

definition managed_identity :: "discovery_scope \<Rightarrow> obj \<Rightarrow> managed_id option res" where
  "managed_identity sc cf =
     res_bind (v2_identities cf) (\<lambda>all_v2.
     (case filter (\<lambda>i. (si_type i, si_instance i) \<in> set (sc_instances sc)) all_v2 of
        [] \<Rightarrow>
          (case v1_matches sc (v1_identities cf) of
             [] \<Rightarrow> Inr None
           | [(source, source_id)] \<Rightarrow> Inr (Some (V1Id source source_id))
           | _ \<Rightarrow> Inl (RuntimeError ''Object has multiple managed Proxmox identities: ''))
      | [i] \<Rightarrow> Inr (Some (V2Id i))
      | _ \<Rightarrow> Inl (RuntimeError ''Object has multiple managed Proxmox v2 identities: '')))"

section \<open>The report\<close>

record 'r disappearance =
  da_managed_guests :: nat
  da_missing_guests :: "('r \<times> managed_id) list"
  da_managed_interfaces :: nat
  da_missing_interfaces :: "('r \<times> 'r \<times> managed_id) list"

definition no_disappearance :: "'r disappearance" where
  "no_disappearance = \<lparr>da_managed_guests = 0, da_missing_guests = [], da_managed_interfaces = 0,
     da_missing_interfaces = []\<rparr>"

definition interface_report_step ::
    "('s, 'r) netbox \<Rightarrow> 's \<Rightarrow> discovery_scope \<Rightarrow> 'r \<Rightarrow> 'r disappearance \<Rightarrow> 'r \<Rightarrow> 'r disappearance res" where
  "interface_report_step nb s sc vm acc interface =
     res_bind (managed_identity sc (custom_fields_of nb s interface)) (\<lambda>found.
     (case found of
        None \<Rightarrow> Inr acc
      | Some i \<Rightarrow> Inr (acc\<lparr>da_managed_interfaces := da_managed_interfaces acc + 1,
          da_missing_interfaces := da_missing_interfaces acc
            @ (if i \<in> set (sc_interfaces sc) then [] else [(vm, interface, i)])\<rparr>)))"

definition guest_report_step ::
    "('s, 'r) netbox \<Rightarrow> 's \<Rightarrow> discovery_scope \<Rightarrow> (json \<times> 'r list) list \<Rightarrow> 'r disappearance \<Rightarrow> 'r
       \<Rightarrow> 'r disappearance res" where
  "guest_report_step nb s sc interfaces_by_vm acc vm =
     res_bind (managed_identity sc (custom_fields_of nb s vm)) (\<lambda>found.
     (case found of
        None \<Rightarrow> Inr acc
      | Some i \<Rightarrow>
          let acc' = acc\<lparr>da_managed_guests := da_managed_guests acc + 1\<rparr>
          in if i \<notin> set (sc_guests sc)
             then Inr (acc'\<lparr>da_missing_guests := da_missing_guests acc @ [(vm, i)]\<rparr>)
             else res_fold (interface_report_step nb s sc vm) acc'
                    (dgetl interfaces_by_vm (JInt (nb_id nb s vm)))))"

definition disappearance_of ::
    "('s, 'r) netbox \<Rightarrow> 's \<Rightarrow> discovery_scope \<Rightarrow> 'r list \<Rightarrow> 'r list \<Rightarrow> 'r disappearance res" where
  "disappearance_of nb s sc target_vms interfaces =
     res_fold (guest_report_step nb s sc (index_interfaces_by_vm nb s interfaces)) no_disappearance target_vms"

text \<open>The printed report.\<close>

definition name_repr :: "('s, 'r) netbox \<Rightarrow> 's \<Rightarrow> 'r \<Rightarrow> string res" where
  "name_repr nb s r = (case nb_attr nb s r ''name'' of
       Some (AVal v) \<Rightarrow> Inr (py_repr v) | Some (ARec i t) \<Rightarrow> Inr t | None \<Rightarrow> Inl (AttributeError ''name''))"

definition guest_warning :: "('s, 'r) netbox \<Rightarrow> 's \<Rightarrow> 'r \<times> managed_id \<Rightarrow> string res" where
  "guest_warning nb s = (\<lambda>(vm, i). res_bind (name_repr nb s vm) (\<lambda>name.
     Inr (''WARNING MISSING GUEST id='' @ py_str_int (nb_id nb s vm) @ '' name='' @ name
        @ '' identity='' @ identity_label i @ '' action=retained'')))"

definition interface_warning :: "('s, 'r) netbox \<Rightarrow> 's \<Rightarrow> 'r \<times> 'r \<times> managed_id \<Rightarrow> string res" where
  "interface_warning nb s = (\<lambda>(vm, interface, i).
     res_bind (name_repr nb s vm) (\<lambda>vm_name.
     res_bind (name_repr nb s interface) (\<lambda>name.
     Inr (''WARNING MISSING INTERFACE vm_id='' @ py_str_int (nb_id nb s vm) @ '' vm='' @ vm_name
        @ '' interface_id='' @ py_str_int (nb_id nb s interface) @ '' name='' @ name
        @ '' identity='' @ identity_label i @ '' action=retained''))))"

definition report_lines ::
    "('s, 'r) netbox \<Rightarrow> 's \<Rightarrow> discovery_scope \<Rightarrow> 'r disappearance \<Rightarrow> string list res" where
  "report_lines nb s sc d =
     res_bind (res_map (guest_warning nb s) (da_missing_guests d)) (\<lambda>guests.
     res_bind (res_map (interface_warning nb s) (da_missing_interfaces d)) (\<lambda>interfaces.
       Inr ([''=== DISAPPEARANCE REPORT ==='',
             ''managed_guests='' @ nat_digits (da_managed_guests d),
             ''discovered_guests='' @ nat_digits (length (remdups (sc_guests sc))),
             ''missing_guests='' @ nat_digits (length (da_missing_guests d)),
             ''managed_interfaces='' @ nat_digits (da_managed_interfaces d),
             ''discovered_interfaces='' @ nat_digits (length (remdups (sc_interfaces sc))),
             ''missing_interfaces='' @ nat_digits (length (da_missing_interfaces d))]
            @ guests @ interfaces
            @ (if da_missing_guests d = [] \<and> da_missing_interfaces d = []
               then [''DISAPPEARANCE STATUS CLEAN''] else [])
            @ [''No objects were deleted.''])))"

definition report_missing_managed_objects ::
    "('s, 'r) netbox \<Rightarrow> discovered_host list \<Rightarrow> sync_target \<Rightarrow> ('s, 'r disappearance \<times> string list) io" where
  "report_missing_managed_objects nb hosts config =
     io_bind (site_cluster nb RuntimeError (t_site_slug config) (t_cluster_name config)) (\<lambda>(site, cluster).
     io_bind (io_lift (discovery_scope_of hosts)) (\<lambda>sc.
     io_bind (io_read (\<lambda>s. Inr (nb_id nb s cluster))) (\<lambda>cluster_id.
     io_bind (nb_filter nb ''virtualization.virtual_machines'' [(''cluster_id'', JInt cluster_id)]) (\<lambda>target_vms.
     io_bind (nb_all nb ''virtualization.interfaces'') (\<lambda>interfaces.
       io_read (\<lambda>s. res_bind (disappearance_of nb s sc target_vms interfaces) (\<lambda>d.
         res_bind (report_lines nb s sc d) (\<lambda>lines. Inr (d, lines)))))))))"

section \<open>What is reported\<close>

text \<open>The objects of a list that are managed by this run, with their identity.\<close>

definition managed_of :: "('s, 'r) netbox \<Rightarrow> 's \<Rightarrow> discovery_scope \<Rightarrow> 'r list \<Rightarrow> ('r \<times> managed_id) list" where
  "managed_of nb s sc rs =
     concat (map (\<lambda>r. case managed_identity sc (custom_fields_of nb s r) of
         Inr (Some i) \<Rightarrow> [(r, i)] | _ \<Rightarrow> []) rs)"

definition classified :: "('s, 'r) netbox \<Rightarrow> 's \<Rightarrow> discovery_scope \<Rightarrow> 'r \<Rightarrow> bool" where
  "classified nb s sc r \<longleftrightarrow> (\<exists>x. managed_identity sc (custom_fields_of nb s r) = Inr x)"

definition present_interfaces ::
    "('s, 'r) netbox \<Rightarrow> 's \<Rightarrow> discovery_scope \<Rightarrow> (json \<times> 'r list) list \<Rightarrow> ('r \<times> managed_id) list
       \<Rightarrow> ('r \<times> 'r \<times> managed_id) list" where
  "present_interfaces nb s sc ix guests =
     concat (map (\<lambda>(vm, i). map (\<lambda>p. (vm, p)) (managed_of nb s sc (dgetl ix (JInt (nb_id nb s vm))))) guests)"

text \<open>The report as four queries over the managed objects.\<close>

definition disappearance_spec ::
    "('s, 'r) netbox \<Rightarrow> 's \<Rightarrow> discovery_scope \<Rightarrow> (json \<times> 'r list) list \<Rightarrow> 'r list \<Rightarrow> 'r disappearance" where
  "disappearance_spec nb s sc ix vms =
     (let guests = managed_of nb s sc vms;
          present = filter (\<lambda>(vm, i). i \<in> set (sc_guests sc)) guests;
          interfaces = present_interfaces nb s sc ix present
      in \<lparr>da_managed_guests = length guests,
          da_missing_guests = filter (\<lambda>(vm, i). i \<notin> set (sc_guests sc)) guests,
          da_managed_interfaces = length interfaces,
          da_missing_interfaces = filter (\<lambda>(vm, r, i). i \<notin> set (sc_interfaces sc)) interfaces\<rparr>)"

definition add_disappearance :: "'r disappearance \<Rightarrow> 'r disappearance \<Rightarrow> 'r disappearance" where
  "add_disappearance a b =
     \<lparr>da_managed_guests = da_managed_guests a + da_managed_guests b,
      da_missing_guests = da_missing_guests a @ da_missing_guests b,
      da_managed_interfaces = da_managed_interfaces a + da_managed_interfaces b,
      da_missing_interfaces = da_missing_interfaces a @ da_missing_interfaces b\<rparr>"

lemma managed_of_simps [simp]:
  "managed_of nb s sc [] = []"
  "managed_of nb s sc (r # rs) = (case managed_identity sc (custom_fields_of nb s r) of
     Inr (Some i) \<Rightarrow> (r, i) # managed_of nb s sc rs | _ \<Rightarrow> managed_of nb s sc rs)"
  by (auto simp: managed_of_def split: sum.splits option.splits)

lemma managed_of_Cons: "managed_of nb s sc (r # rs) = managed_of nb s sc [r] @ managed_of nb s sc rs"
  by (simp split: sum.splits option.splits)

lemma add_disappearance_assoc:
  "add_disappearance (add_disappearance a b) c = add_disappearance a (add_disappearance b c)"
  by (simp add: add_disappearance_def)

lemma add_no_disappearance [simp]:
  "add_disappearance a no_disappearance = a" "add_disappearance no_disappearance a = a"
  by (simp_all add: add_disappearance_def no_disappearance_def)

text \<open>A loop whose every step adds the contribution of its element adds the contribution of the list.\<close>

lemma report_fold:
  assumes step: "\<And>acc x acc'. f acc x = Inr acc' \<longleftrightarrow> ok x \<and> acc' = add_disappearance acc (g [x])"
    and "g [] = no_disappearance" and cons: "\<And>x xs. g (x # xs) = add_disappearance (g [x]) (g xs)"
  shows "res_fold f acc xs = Inr d \<longleftrightarrow> (\<forall>x \<in> set xs. ok x) \<and> d = add_disappearance acc (g xs)"
proof (induction xs arbitrary: acc)
  case (Cons x xs)
  show ?case
    unfolding res_fold.simps res_bind_eq_Inr step Cons.IH cons [of x xs] by (auto simp: add_disappearance_assoc)
qed (auto simp: assms(2))

definition interface_report ::
    "('s, 'r) netbox \<Rightarrow> 's \<Rightarrow> discovery_scope \<Rightarrow> 'r \<Rightarrow> 'r list \<Rightarrow> 'r disappearance" where
  "interface_report nb s sc vm rs =
     (let managed = map (\<lambda>p. (vm, p)) (managed_of nb s sc rs)
      in no_disappearance\<lparr>da_managed_interfaces := length managed,
           da_missing_interfaces := filter (\<lambda>(vm, r, i). i \<notin> set (sc_interfaces sc)) managed\<rparr>)"

lemma interface_step:
  "interface_report_step nb s sc vm acc r = Inr acc' \<longleftrightarrow>
     classified nb s sc r \<and> acc' = add_disappearance acc (interface_report nb s sc vm [r])"
proof (cases "managed_identity sc (custom_fields_of nb s r)")
  case (Inr found)
  then show ?thesis
    by (cases found) (auto simp: interface_report_step_def classified_def interface_report_def
        add_disappearance_def no_disappearance_def)
qed (simp add: interface_report_step_def classified_def)

lemma interface_fold:
  "res_fold (interface_report_step nb s sc vm) acc rs = Inr acc' \<longleftrightarrow>
     (\<forall>r \<in> set rs. classified nb s sc r) \<and> acc' = add_disappearance acc (interface_report nb s sc vm rs)"
proof (rule report_fold [where ok = "classified nb s sc" and g = "interface_report nb s sc vm"])
  show "interface_report nb s sc vm (x # xs) =
      add_disappearance (interface_report nb s sc vm [x]) (interface_report nb s sc vm xs)" for x xs
    unfolding interface_report_def managed_of_Cons [of nb s sc x xs]
    by (simp add: add_disappearance_def no_disappearance_def del: managed_of_simps)
qed (simp_all add: interface_step interface_report_def no_disappearance_def)

definition inspected :: "('s, 'r) netbox \<Rightarrow> 's \<Rightarrow> discovery_scope \<Rightarrow> (json \<times> 'r list) list \<Rightarrow> 'r \<Rightarrow> 'r set" where
  "inspected nb s sc ix vm =
     insert vm (if \<exists>i \<in> set (sc_guests sc). managed_identity sc (custom_fields_of nb s vm) = Inr (Some i)
                then set (dgetl ix (JInt (nb_id nb s vm))) else {})"

lemma guest_step:
  "guest_report_step nb s sc ix acc vm = Inr acc' \<longleftrightarrow>
     (\<forall>r \<in> inspected nb s sc ix vm. classified nb s sc r)
     \<and> acc' = add_disappearance acc (disappearance_spec nb s sc ix [vm])"
proof (cases "managed_identity sc (custom_fields_of nb s vm)")
  case (Inr found)
  show ?thesis
  proof (cases found)
    case None
    with Inr show ?thesis
      by (auto simp: guest_report_step_def inspected_def classified_def disappearance_spec_def
          present_interfaces_def add_disappearance_def)
  next
    case (Some i)
    with Inr show ?thesis
      by (auto simp: guest_report_step_def inspected_def classified_def [of nb s sc vm] interface_fold
          interface_report_def disappearance_spec_def present_interfaces_def add_disappearance_def
          no_disappearance_def Let_def)
  qed
qed (simp add: guest_report_step_def inspected_def classified_def)

lemma disappearance_fold:
  "res_fold (guest_report_step nb s sc ix) acc vms = Inr d \<longleftrightarrow>
     (\<forall>vm \<in> set vms. \<forall>r \<in> inspected nb s sc ix vm. classified nb s sc r)
     \<and> d = add_disappearance acc (disappearance_spec nb s sc ix vms)"
proof (rule report_fold [where g = "disappearance_spec nb s sc ix"])
  show "disappearance_spec nb s sc ix (x # xs) =
      add_disappearance (disappearance_spec nb s sc ix [x]) (disappearance_spec nb s sc ix xs)" for x xs
    unfolding disappearance_spec_def Let_def managed_of_Cons [of nb s sc x xs]
    by (simp add: add_disappearance_def present_interfaces_def del: managed_of_simps)
qed (simp_all add: guest_step disappearance_spec_def no_disappearance_def present_interfaces_def)

context netbox_reader
begin

lemma report_missing_R: "preserves R (report_missing_managed_objects nb hosts config)"
  unfolding report_missing_managed_objects_def by (intro reader_intros site_cluster_R)

end

section \<open>Whose objects are reported\<close>

lemma managed_identity_Some:
  assumes "managed_identity sc cf = Inr (Some i)"
  shows "case i of V2Id v \<Rightarrow> (si_type v, si_instance v) \<in> set (sc_instances sc)
                 | V1Id source x \<Rightarrow> \<exists>prefix. (source, prefix) \<in> set (sc_scopes sc) \<and> starts_with x prefix"
proof -
  from assms obtain all_v2 where v2: "v2_identities cf = Inr all_v2"
    by (auto simp: managed_identity_def res_bind_eq_Inr)
  let ?mine = "filter (\<lambda>i. (si_type i, si_instance i) \<in> set (sc_instances sc)) all_v2"
  have m: "set (v1_matches sc ids) \<subseteq> {(source, x). \<exists>prefix. (source, prefix) \<in> set (sc_scopes sc) \<and> starts_with x prefix}" for ids
    by (auto simp: v1_matches_def)
  consider "?mine = []" | v where "?mine = [v]" | v w ws where "?mine = v # w # ws" by (cases ?mine rule: remdups_adj.cases) auto
  then show ?thesis
  proof cases
    case 1
    with assms v2 obtain source x where "v1_matches sc (v1_identities cf) = [(source, x)]" and "i = V1Id source x"
      by (auto simp: managed_identity_def split: list.splits)
    with m [of "v1_identities cf"] show ?thesis by simp
  next
    case 2
    then have "v \<in> set ?mine" by simp
    then have "(si_type v, si_instance v) \<in> set (sc_instances sc)" by simp
    moreover from 2 assms v2 have "i = V2Id v" by (simp add: managed_identity_def)
    ultimately show ?thesis by simp
  qed (use assms v2 in \<open>simp add: managed_identity_def\<close>)
qed

lemma managed_of_mem: "(r, i) \<in> set (managed_of nb s sc rs) \<longleftrightarrow>
    r \<in> set rs \<and> managed_identity sc (custom_fields_of nb s r) = Inr (Some i)"
  by (induction rs) (auto split: sum.splits option.splits)

lemma discovery_scope_Inr:
  assumes "discovery_scope_of hosts = Inr sc"
  shows "sc_scopes sc = remdups (concat (map host_scopes hosts))"
    and "sc_instances sc = map (\<lambda>h. (h_source h, h_source_instance h)) hosts"
    and "\<exists>known. res_map host_known hosts = Inr known \<and> sc_guests sc = concat (map fst known)
      \<and> sc_interfaces sc = concat (map snd known)"
  using assms by (auto simp: discovery_scope_of_def res_bind_eq_Inr)

lemma vm_known_guests:
  assumes "vm_known vm = Inr k" and "virtual_machine_source_identity vm = Inr i"
  shows "V2Id i \<in> set (fst k)"
  using assms by (auto simp: vm_known_def res_bind_eq_Inr)

lemma scope_knows_vm:
  assumes "discovery_scope_of hosts = Inr sc" and "host \<in> set hosts" and "vm \<in> set (h_virtual_machines host)"
    and "virtual_machine_source_identity vm = Inr i"
  shows "V2Id i \<in> set (sc_guests sc)"
proof -
  obtain known where known: "res_map host_known hosts = Inr known" "sc_guests sc = concat (map fst known)"
    using discovery_scope_Inr(3) [OF assms(1)] by blast
  from res_map_mem_fst [OF known(1) assms(2)] obtain hk where hk: "hk \<in> set known" "host_known host = Inr hk" by blast
  then obtain vms cs where vms: "res_map vm_known (h_virtual_machines host) = Inr vms"
    and fst: "fst hk = concat (map fst (vms @ cs))" by (auto simp: host_known_def res_bind_eq_Inr)
  from res_map_mem_fst [OF vms assms(3)] obtain k where k: "k \<in> set vms" "vm_known vm = Inr k" by blast
  have "V2Id i \<in> set (fst k)" by (rule vm_known_guests [OF k(2) assms(4)])
  with k(1) have "V2Id i \<in> set (fst hk)" unfolding fst by auto
  with hk(1) show ?thesis unfolding known(2) by auto
qed

lemma v2_identities_stored:
  assumes "v2_identities cf = Inr all_v2" and "jget cf ''sync_identities'' = JList ids"
    and "v \<in> set ids" and "from_record v = Inr (Some i)"
  shows "i \<in> set all_v2"
proof -
  from assms(1,2) obtain ps where ps: "res_map from_record ids = Inr ps" "all_v2 = List.map_filter (\<lambda>p. p) ps"
    by (auto simp: v2_identities_def res_bind_eq_Inr)
  from res_map_mem_fst [OF ps(1) assms(3)] assms(4) have "Some i \<in> set ps" by auto
  then show ?thesis unfolding ps(2) by (force simp: List.map_filter_def)
qed

section \<open>Properties\<close>

text \<open>C28: The one-pass report is the four queries it stands for: of the machines of the cluster it counts
  the managed ones and lists those this run did not discover; of the interfaces of the managed machines that
  are present, likewise.  It succeeds exactly when every object it inspects can be classified.\<close>

theorem disappearance_refines_spec:
  "disappearance_of nb s sc vms interfaces = Inr d \<longleftrightarrow>
     (\<forall>vm \<in> set vms. \<forall>r \<in> inspected nb s sc (index_interfaces_by_vm nb s interfaces) vm. classified nb s sc r)
     \<and> d = disappearance_spec nb s sc (index_interfaces_by_vm nb s interfaces) vms"
  unfolding disappearance_of_def disappearance_fold by simp

definition sample_scope :: discovery_scope where
  "sample_scope = \<lparr>sc_scopes = [(''proxmox'', ''n1:'')], sc_instances = [(''proxmox'', ''pve-a'')],
     sc_guests = [], sc_interfaces = []\<rparr>"

definition sample_missing :: "fake_handle disappearance" where
  "sample_missing = \<lparr>da_managed_guests = 1,
     da_missing_guests = [((''virtualization.virtual_machines'', 0), V1Id ''proxmox'' ''n1:100'')],
     da_managed_interfaces = 0, da_missing_interfaces = []\<rparr>"

theorem disappearance_refines_spec_witness:
  "disappearance_spec fake_netbox sample_netbox sample_scope (index_interfaces_by_vm fake_netbox sample_netbox [])
     [(''virtualization.virtual_machines'', 0)] = sample_missing"
proof -
  have "disappearance_of fake_netbox sample_netbox sample_scope [(''virtualization.virtual_machines'', 0)] []
      = Inr sample_missing" by code_simp
  then show ?thesis unfolding disappearance_refines_spec by simp
qed


definition sample_bare_host :: discovered_host where
  "sample_bare_host = sample_host\<lparr>h_virtual_machines := [], h_containers := []\<rparr>"


text \<open>The report and the writers agree: a machine whose custom fields were built for a virtual
  machine discovered in this run is managed by the run and is never among the missing ones.\<close>

theorem written_vm_not_missing:
  assumes "discovery_scope_of hosts = Inr sc" and "host \<in> set hosts" and "vm \<in> set (h_virtual_machines host)"
    and "g_source vm = h_source host" and "g_source_instance vm = h_source_instance host"
    and "build_vm_custom_fields vm existing = Inr cf" and "managed_identity sc cf = Inr found"
  shows "\<exists>i. found = Some i \<and> i \<in> set (sc_guests sc)"
proof -
  from vm_rank_after_build [OF assms(6)] obtain i where i: "virtual_machine_source_identity vm = Inr i"
    and "source_identity_match_rank cf i [vm_identity_source_id vm, g_source_id vm] (g_legacy_identity_owner vm)
       = Inr V2_IDENTITY_MATCH" by (auto simp: vm_sync_identity_match_rank_def res_bind_eq_Inr)
  then obtain pre v post where ids: "jget cf ''sync_identities'' = JList (pre @ v # post)"
    and v: "from_record v = Inr (Some i)"
    unfolding rank_V2 first_v2_match_True by auto
  from assms(7) obtain all_v2 where all: "v2_identities cf = Inr all_v2"
    by (auto simp: managed_identity_def res_bind_eq_Inr)
  have ti: "si_type i = g_source vm" "si_instance i = g_source_instance vm"
    using i by (auto simp: virtual_machine_source_identity_def qemu_source_identity_def identity_of_Inr split: if_splits)
  let ?mine = "filter (\<lambda>i. (si_type i, si_instance i) \<in> set (sc_instances sc)) all_v2"
  have "i \<in> set ?mine"
    using v2_identities_stored [OF all ids _ v] assms(2) ti assms(4,5)
    by (auto simp: discovery_scope_Inr(2) [OF assms(1)])
  then consider "?mine = [i]" | x y zs where "?mine = x # y # zs" by (cases ?mine rule: remdups_adj.cases) auto
  then show ?thesis
  proof cases
    case 1
    with all assms(7) have "found = Some (V2Id i)" by (simp add: managed_identity_def)
    with scope_knows_vm [OF assms(1-3) i] show ?thesis by simp
  qed (use all assms(7) in \<open>simp add: managed_identity_def\<close>)
qed

theorem written_vm_not_missing_witness:
  "\<exists>sc cf found i. discovery_scope_of [sample_host] = Inr sc \<and> build_vm_custom_fields sample_vm [] = Inr cf
     \<and> managed_identity sc cf = Inr found \<and> found = Some i \<and> i \<in> set (sc_guests sc)"
proof -
  have "(case discovery_scope_of [sample_host] of Inl e \<Rightarrow> False | Inr sc \<Rightarrow>
      (case build_vm_custom_fields sample_vm [] of Inl e \<Rightarrow> False | Inr cf \<Rightarrow>
        (case managed_identity sc cf of Inl e \<Rightarrow> False | Inr found \<Rightarrow> True)))" by code_simp
  then obtain sc cf found where run: "discovery_scope_of [sample_host] = Inr sc"
    "build_vm_custom_fields sample_vm [] = Inr cf" "managed_identity sc cf = Inr found"
    by (auto split: sum.splits)
  have "\<exists>i. found = Some i \<and> i \<in> set (sc_guests sc)"
    by (rule written_vm_not_missing [where host = sample_host, OF run(1) _ _ _ _ run(2,3)]) (simp_all add: sample_host_def sample_vm_def)
  with run show ?thesis by blast
qed

end
