(* ===== verification/FullApply.thy ===== *)
theory FullApply
  imports VmApply HostApply LxcApply VmNetworkApply LxcNetworkApply Disappearance
begin

text \<open>
  The full synchronisation (netbox_sync/netbox_full_apply.py): all five stages run unconfirmed, then the
  disappearance report, and only then, when confirmed, all five again with writes.
\<close>

type_synonym 's stage = "discovered_host list \<Rightarrow> sync_target \<Rightarrow> bool \<Rightarrow> ('s, unit) io"

definition stage_of :: "(discovered_host list \<Rightarrow> sync_target \<Rightarrow> bool \<Rightarrow> ('s, 'a) io) \<Rightarrow> 's stage" where
  "stage_of f = (\<lambda>hosts config confirmed. io_bind (f hosts config confirmed) (\<lambda>_. io_return ()))"

definition STAGES :: "('s, 'r) netbox \<Rightarrow> (string \<times> 's stage) list" where
  "STAGES nb =
     [(''HOST'', stage_of (apply_hosts nb)),
      (''QEMU VM'', stage_of (apply_virtual_machines nb)),
      (''QEMU NETWORK'', stage_of (apply_vm_networks nb)),
      (''LXC'', stage_of (apply_lxc_containers nb)),
      (''LXC NETWORK'', stage_of (apply_lxc_networks nb))]"

definition run_stage :: "string \<times> 's stage \<Rightarrow> discovered_host list \<Rightarrow> sync_target \<Rightarrow> bool \<Rightarrow> ('s, unit) io" where
  "run_stage st hosts config confirmed = snd st hosts config confirmed"

definition run_stages :: "('s, 'r) netbox \<Rightarrow> discovered_host list \<Rightarrow> sync_target \<Rightarrow> bool \<Rightarrow> ('s, unit) io" where
  "run_stages nb hosts config confirmed =
     io_fold (\<lambda>_ st. run_stage st hosts config confirmed) () (STAGES nb)"

definition apply_full_sync :: "('s, 'r) netbox \<Rightarrow> discovered_host list \<Rightarrow> sync_target \<Rightarrow> bool \<Rightarrow> ('s, unit) io" where
  "apply_full_sync nb hosts config confirmed =
     io_bind (run_stages nb hosts config False) (\<lambda>_.
     io_bind (report_missing_managed_objects nb hosts config) (\<lambda>_.
       if \<not> confirmed then io_return () else run_stages nb hosts config True))"

section \<open>What a run may touch\<close>

definition full_may_create :: "string \<Rightarrow> obj \<Rightarrow> bool" where
  "full_may_create ep kvs \<longleftrightarrow> host_may_create ep kvs \<or> net_may_create ep kvs
     \<or> ep = ''virtualization.virtual_machines'' \<and> map fst kvs = VM_FIELDS"

definition full_may_update :: "obj \<Rightarrow> bool" where
  "full_may_update kvs \<longleftrightarrow> host_may_update kvs \<or> net_may_update kvs \<or> set (map fst kvs) \<subseteq> set VM_FIELDS"

lemma LXC_FIELDS_eq: "LXC_FIELDS = VM_FIELDS"
  by (simp add: LXC_FIELDS_def VM_FIELDS_def)

context netbox_reader
begin

lemma stages_unconfirmed_R: "preserves R (run_stages nb hosts config False)"
  unfolding run_stages_def STAGES_def io_fold.simps run_stage_def snd_conv stage_of_def
  by (intro reader_intros host_unconfirmed_R vm_unconfirmed_R vm_net_unconfirmed_R lxc_unconfirmed_R
      lxc_net_unconfirmed_R)

lemma full_unconfirmed_R: "preserves R (apply_full_sync nb hosts config False)"
  unfolding apply_full_sync_def
  by (intro reader_intros stages_unconfirmed_R report_missing_R) simp_all

end

context netbox_writer
begin

lemma stages_R:
  assumes c: "\<And>ep kvs. full_may_create ep kvs \<Longrightarrow> may_create ep kvs"
    and u: "\<And>kvs. full_may_update kvs \<Longrightarrow> may_update kvs"
  shows "preserves R (run_stages nb hosts config confirmed)"
proof -
  have c': "host_may_create ep kvs \<Longrightarrow> may_create ep kvs" "net_may_create ep kvs \<Longrightarrow> may_create ep kvs"
    "map fst kvs = VM_FIELDS \<Longrightarrow> may_create ''virtualization.virtual_machines'' kvs" for ep kvs
    by (auto intro: c simp: full_may_create_def)
  have u': "host_may_update kvs \<Longrightarrow> may_update kvs" "net_may_update kvs \<Longrightarrow> may_update kvs"
    "set (map fst kvs) \<subseteq> set VM_FIELDS \<Longrightarrow> may_update kvs" for kvs
    by (auto intro: u simp: full_may_update_def)
  show ?thesis
    unfolding run_stages_def STAGES_def io_fold.simps run_stage_def snd_conv stage_of_def
    by (intro reader_intros host_apply_R [OF c'(1) u'(1)] vm_apply_R [OF c'(3) u'(3)]
        vm_net_apply_R [OF c'(2) u'(2)] lxc_apply_R [unfolded LXC_FIELDS_eq, OF c'(3) u'(3)]
        lxc_net_apply_R [OF c'(2) u'(2)])
qed

lemma full_apply_R:
  assumes "\<And>ep kvs. full_may_create ep kvs \<Longrightarrow> may_create ep kvs"
    and "\<And>kvs. full_may_update kvs \<Longrightarrow> may_update kvs"
  shows "preserves R (apply_full_sync nb hosts config confirmed)"
  unfolding apply_full_sync_def
  by (intro reader_intros stages_unconfirmed_R report_missing_R stages_R assms)

end

section \<open>Properties\<close>

text \<open>C2: The gate of the full synchronisation.  Its unconfirmed run only reads.  If that run raises -
  any stage's precheck or the report - the confirmed run raises the same exception in the same state,
  without a write; otherwise the confirmed run is the write phase of the five stages started where the
  prechecks ended: every precheck of every stage comes before the first write.\<close>

theorem full_sync_gate:
  assumes "netbox_reader nb R" and "apply_full_sync nb hosts config False s = (r, t)"
  shows "R s t \<and> apply_full_sync nb hosts config True s =
           (case r of Inl e \<Rightarrow> (Inl e, t) | Inr _ \<Rightarrow> run_stages nb hosts config True t)"
proof
  show "R s t"
    using preservesD [OF netbox_reader.full_unconfirmed_R [OF assms(1)], of s hosts config] assms(2) by simp
  show "apply_full_sync nb hosts config True s =
      (case r of Inl e \<Rightarrow> (Inl e, t) | Inr _ \<Rightarrow> run_stages nb hosts config True t)"
    using assms(2) by (auto simp: apply_full_sync_def io_bind_def io_return_def split: prod.splits sum.splits)
qed

definition sample_hosts :: "discovered_host list" where
  "sample_hosts = [sample_bare_host\<lparr>h_virtual_machines := [sample_vm\<lparr>g_interfaces := []\<rparr>]\<rparr>]"

lemma sample_full_precheck: "fst (apply_full_sync fake_netbox sample_hosts sample_target False sample_netbox) = Inr ()"
  by code_simp

theorem full_sync_gate_witness:
  "apply_full_sync fake_netbox sample_hosts sample_target True sample_netbox
     = run_stages fake_netbox sample_hosts sample_target True sample_netbox"
proof -
  obtain t where run: "apply_full_sync fake_netbox sample_hosts sample_target False sample_netbox = (Inr (), t)"
    using sample_full_precheck by (cases "apply_full_sync fake_netbox sample_hosts sample_target False sample_netbox") auto
  from full_sync_gate [OF fake_reads.netbox_reader_axioms run] show ?thesis by auto
qed



section \<open>New guests\<close>

text \<open>A client whose reads change nothing.\<close>

lemma pure_read:
  assumes "preserves (=) m" shows "m s = (r, t) \<longleftrightarrow> fst (m s) = r \<and> t = s"
  using preservesD [OF assms, of s] by (cases "m s") auto

lemma stage_of_Inr: "stage_of f hosts config confirmed s = (Inr u, t) \<longleftrightarrow>
    (\<exists>x. f hosts config confirmed s = (Inr x, t))"
  by (auto simp: stage_of_def io_bind_Inr io_return_def)

lemma full_sync_passed:
  assumes reader: "netbox_reader nb (=)" and "fst (apply_full_sync nb hosts config False s) = Inr ()"
  shows "\<exists>x. apply_virtual_machines nb hosts config False s = (Inr x, s)"
    and "\<exists>x. apply_vm_networks nb hosts config False s = (Inr x, s)"
    and "\<exists>x. apply_lxc_containers nb hosts config False s = (Inr x, s)"
    and "\<exists>x. apply_lxc_networks nb hosts config False s = (Inr x, s)"
proof -
  note pure = pure_read [OF netbox_reader.host_unconfirmed_R [OF reader]]
    pure_read [OF netbox_reader.vm_unconfirmed_R [OF reader]]
    pure_read [OF netbox_reader.vm_net_unconfirmed_R [OF reader]]
    pure_read [OF netbox_reader.lxc_unconfirmed_R [OF reader]]
    pure_read [OF netbox_reader.lxc_net_unconfirmed_R [OF reader]]
  from assms(2) obtain t where "apply_full_sync nb hosts config False s = (Inr (), t)"
    by (cases "apply_full_sync nb hosts config False s") auto
  then obtain u where "run_stages nb hosts config False s = (Inr (), u)"
    unfolding apply_full_sync_def io_bind_Inr by auto
  then show "\<exists>x. apply_virtual_machines nb hosts config False s = (Inr x, s)"
    "\<exists>x. apply_vm_networks nb hosts config False s = (Inr x, s)"
    "\<exists>x. apply_lxc_containers nb hosts config False s = (Inr x, s)"
    "\<exists>x. apply_lxc_networks nb hosts config False s = (Inr x, s)"
    unfolding run_stages_def STAGES_def io_fold.simps run_stage_def snd_conv io_bind_Inr stage_of_Inr pure
    by auto
qed

lemma find_vm_Inr:
  assumes "find_vm nb s vms vm = Inr r"
  shows "r \<in> set vms \<and> (\<exists>rank. vm_sync_identity_match_rank (custom_fields_of nb s r) vm = Inr rank
           \<and> rank \<noteq> NO_IDENTITY_MATCH)"
proof -
  from assms obtain ms where ms: "find_vm_sync_identity_matches (custom_fields_of nb s) vms vm = Inr ms"
    and r: "length ms = 1" "r = hd ms" by (auto simp: find_vm_def res_bind_eq_Inr split: if_splits)
  from r have "r \<in> set ms" by (cases ms) simp_all
  from select_best_mem [OF ms [unfolded find_vm_sync_identity_matches_def] this] show ?thesis .
qed

lemma find_lxc_vm_Inr:
  assumes "find_lxc_vm nb s vms c = Inr r"
  shows "r \<in> set vms \<and> (\<exists>rank. lxc_sync_identity_match_rank (custom_fields_of nb s r) c = Inr rank
           \<and> rank \<noteq> NO_IDENTITY_MATCH)"
proof -
  from assms obtain ms where ms: "find_lxc_sync_identity_matches (custom_fields_of nb s) vms c = Inr ms"
    and r: "length ms = 1" "r = hd ms" by (auto simp: find_lxc_vm_def res_bind_eq_Inr split: if_splits)
  from r have "r \<in> set ms" by (cases ms) simp_all
  from select_best_mem [OF ms [unfolded find_lxc_sync_identity_matches_def] this] show ?thesis .
qed

lemma vm_net_passed:
  assumes reader: "netbox_reader nb (=)" and "apply_vm_networks nb hosts config False s = (Inr x, s)"
    and "vm \<in> set (concat (map h_virtual_machines hosts))"
  shows "\<exists>cid rs r rank. fst (nb_filter nb ''virtualization.virtual_machines'' [(''cluster_id'', JInt cid)] s) = Inr rs
     \<and> r \<in> set rs \<and> vm_sync_identity_match_rank (custom_fields_of nb s r) vm = Inr rank \<and> rank \<noteq> NO_IDENTITY_MATCH"
proof -
  note pure = pure_read [OF netbox_reader.site_cluster_R [OF reader]] pure_read [OF netbox_reader.filter_R [OF reader]]
    pure_read [OF netbox_reader.load_network_index_R [OF reader]]
  from assms(2) obtain cid target_vms ix ctxs where
    target: "fst (nb_filter nb ''virtualization.virtual_machines'' [(''cluster_id'', JInt cid)] s) = Inr target_vms"
    and ctxs: "vm_net_contexts nb s ix target_vms (concat (map h_virtual_machines hosts)) = Inr ctxs"
    unfolding apply_vm_networks_def vm_net_precheck_def case_prod_beta io_bind_Inr io_read_def pure by auto
  from ctxs have "res_map (vm_net_context_of nb s ix target_vms) (concat (map h_virtual_machines hosts)) = Inr ctxs"
    by (auto simp: vm_net_contexts_def res_bind_eq_Inr)
  from res_map_mem_fst [OF this assms(3)] obtain ctx where "vm_net_context_of nb s ix target_vms vm = Inr ctx" by blast
  from find_vm_Inr [OF vm_net_context_of_Inr(2) [OF this]] target show ?thesis by blast
qed

lemma lxc_net_passed:
  assumes reader: "netbox_reader nb (=)" and "apply_lxc_networks nb hosts config False s = (Inr x, s)"
    and "c \<in> set (concat (map h_containers hosts))"
  shows "\<exists>rs r rank. fst (nb_all nb ''virtualization.virtual_machines'' s) = Inr rs
     \<and> r \<in> set rs \<and> lxc_sync_identity_match_rank (custom_fields_of nb s r) c = Inr rank \<and> rank \<noteq> NO_IDENTITY_MATCH"
proof -
  note pure = pure_read [OF netbox_reader.site_cluster_R [OF reader]] pure_read [OF netbox_reader.all_R [OF reader]]
    pure_read [OF netbox_reader.load_network_index_R [OF reader]]
  from assms(2) obtain all_vms ix cluster ctxs where
    all: "fst (nb_all nb ''virtualization.virtual_machines'' s) = Inr all_vms"
    and ctxs: "lxc_net_contexts nb s ix cluster all_vms (concat (map h_containers hosts)) = Inr ctxs"
    unfolding apply_lxc_networks_def lxc_net_precheck_def case_prod_beta io_bind_Inr io_read_def pure by auto
  from ctxs have "res_map (lxc_net_context_of nb s ix cluster all_vms) (concat (map h_containers hosts)) = Inr ctxs"
    by (auto simp: lxc_net_contexts_def res_bind_eq_Inr)
  from res_map_mem_fst [OF this assms(3)] obtain ctx where "lxc_net_context_of nb s ix cluster all_vms c = Inr ctx"
    by blast
  from find_lxc_vm_Inr [OF lxc_net_context_of_Inr(2) [OF this]] all show ?thesis by blast
qed

lemma lxc_contexts_new:
  assumes "lxc_contexts nb s cluster all_vms cs = Inr ctxs" and "ctx \<in> set ctxs" and "lc_existing ctx = None"
  shows "lc_container ctx \<in> set cs
     \<and> (\<forall>r \<in> set all_vms. lxc_sync_identity_match_rank (custom_fields_of nb s r) (lc_container ctx) = Inr NO_IDENTITY_MATCH)"
proof -
  let ?target = "filter (\<lambda>vm. attr_id nb s vm ''cluster'' = Some (nb_id nb s cluster)) all_vms"
  obtain c where c: "c \<in> set cs" "lxc_context_of nb s (nb_id nb s cluster) all_vms ?target c = Inr ctx"
    using lxc_contexts_Inr [OF assms(1)] assms(2) by (auto simp: list_all2_conv_all_nth in_set_conv_nth) (metis nth_mem)
  from c(2) show ?thesis
  proof (cases rule: lxc_context_of_cases)
    case (create names)
    with lxc_finish_context_Inr [OF create(4)] c(1) select_best_Nil show ?thesis
      unfolding find_lxc_sync_identity_matches_def by fastforce
  next
    case (match r)
    with lxc_finish_context_Inr [OF match(3)] assms(3) show ?thesis by simp
  qed
qed

lemma vm_precheck_matched:
  assumes reader: "netbox_reader nb (=)"
    and filtered: "\<forall>ep fs rs all. fst (nb_filter nb ep fs s) = Inr rs \<longrightarrow> fst (nb_all nb ep s) = Inr all \<longrightarrow> set rs \<subseteq> set all"
    and stage: "apply_virtual_machines nb hosts config False s = (Inr x, s)"
    and network: "apply_vm_networks nb hosts config False s = (Inr y, s)"
  shows "\<exists>cluster contexts. vm_precheck nb hosts config s = (Inr (cluster, contexts), s)
    \<and> (\<forall>c \<in> set contexts. \<exists>vm r cf ch changes. c = VmMatch vm r cf ch changes)"
proof -
  note pure = pure_read [OF netbox_reader.vm_precheck_R [OF reader]] pure_read [OF netbox_reader.all_R [OF reader]]
  obtain cluster contexts where vm: "vm_precheck nb hosts config s = (Inr (cluster, contexts), s)"
    using stage unfolding apply_virtual_machines_def io_bind_Inr pure by auto
  from vm_precheck_Inr [OF vm] obtain s1 s2 cid all_vms target_vms where
    reads: "nb_all nb ''virtualization.virtual_machines'' s1 = (Inr all_vms, s2)"
      "nb_filter nb ''virtualization.virtual_machines'' [(''cluster_id'', JInt cid)] s2 = (Inr target_vms, s)"
    and pre: "res_map (preflight_vm nb s all_vms target_vms cluster)
      (sort_key (\<lambda>vm. (g_node_source_id vm, g_vmid vm)) (concat (map h_virtual_machines hosts))) = Inr contexts"
    and just: "\<forall>c \<in> set contexts. vm_justified nb s all_vms target_vms cluster c"
    by blast
  have all: "fst (nb_all nb ''virtualization.virtual_machines'' s) = Inr all_vms"
    using reads pure_read [OF netbox_reader.filter_R [OF reader]] pure by auto
  have "\<exists>vm r cf ch changes. c = VmMatch vm r cf ch changes" if c: "c \<in> set contexts" for c
  proof (cases c)
    case (VmBlocked vm reason cands)
    with just c show ?thesis by (auto simp: vm_justified_def)
  next
    case (VmCreate vm cf ch)
    from res_map_mem [OF pre c] obtain vm' where "vm' \<in> set (concat (map h_virtual_machines hosts))"
      "preflight_vm nb s all_vms target_vms cluster vm' = Inr c" by auto
    with preflight_vm_of_context [of nb s all_vms target_vms cluster vm' c] VmCreate
    have mem: "vm \<in> set (concat (map h_virtual_machines hosts))" by (simp add: vm_of_context_def)
    from vm_net_passed [OF reader network mem] filtered all obtain r rank where "r \<in> set all_vms"
      "vm_sync_identity_match_rank (custom_fields_of nb s r) vm = Inr rank" "rank \<noteq> NO_IDENTITY_MATCH" by blast
    with just c VmCreate show ?thesis by (fastforce simp: vm_justified_def)
  qed simp
  with vm show ?thesis by blast
qed


lemma fake_filter_all:
  "fst (nb_filter fake_netbox ep fs s) = Inr rs \<Longrightarrow> fst (nb_all fake_netbox ep s) = Inr all \<Longrightarrow> set rs \<subseteq> set all"
  by (auto simp: fake_netbox_def fake_filter_def io_read_def)


end
