(* ===== verification/JsonText.thy ===== *)
theory JsonText
  imports PyIO
begin

text \<open>
  The canonical JSON text of the standard library as the program asks for it:
  \<open>json.dumps(value, sort_keys=True, separators=(',', ':'), ensure_ascii=True)\<close>.  \<open>dumps\<close> sorts the keys
  of every dictionary (\<open>sorted_keys\<close>) and prints (\<open>print_json\<close>).  The text determines the value: a float
  token is told from an integer by its point or exponent (\<open>printable\<close>), and every other token by its
  first character.
\<close>

section \<open>Printing\<close>

definition json_char :: "char \<Rightarrow> string" where
  "json_char c =
     (if c = CHR 0x22 then [CHR 0x5C, CHR 0x22]
      else if c = CHR 0x5C then [CHR 0x5C, CHR 0x5C]
      else if c = CHR 0x0A then [CHR 0x5C, CHR ''n'']
      else if c = CHR 0x0D then [CHR 0x5C, CHR ''r'']
      else if c = CHR 0x09 then [CHR 0x5C, CHR ''t'']
      else if c = CHR 0x0C then [CHR 0x5C, CHR ''f'']
      else if c = CHR 0x08 then [CHR 0x5C, CHR ''b'']
      else if 32 \<le> (of_char c :: nat) \<and> (of_char c :: nat) \<le> 126 then [c]
      else [CHR 0x5C, CHR ''u'', CHR ''0'', CHR ''0'', hex_digit (of_char c div 16), hex_digit (of_char c)])"

definition json_str :: "string \<Rightarrow> string" where
  "json_str s = CHR 0x22 # concat (map json_char s) @ [CHR 0x22]"

fun print_json :: "json \<Rightarrow> string" where
  "print_json JNull = ''null''"
| "print_json (JBool b) = (if b then ''true'' else ''false'')"
| "print_json (JInt i) = py_str_int i"
| "print_json (JFloat t r) = t"
| "print_json (JStr s) = json_str s"
| "print_json (JList xs) = ''['' @ join '','' (map print_json xs) @ '']''"
| "print_json (JObj kvs) = ''{'' @ join '','' (map (\<lambda>(k, v). json_str k @ '':'' @ print_json v) kvs) @ ''}''"

fun sorted_keys :: "json \<Rightarrow> json" where
  "sorted_keys (JList xs) = JList (map sorted_keys xs)"
| "sorted_keys (JObj kvs) = JObj (sort_key fst (map (\<lambda>(k, v). (k, sorted_keys v)) kvs))"
| "sorted_keys v = v"

definition dumps :: "json \<Rightarrow> string" where
  "dumps v = print_json (sorted_keys v)"

section \<open>The text determines the value\<close>

definition num_char :: "char \<Rightarrow> bool" where
  "num_char c \<longleftrightarrow> c \<in> set ''0123456789+-.e''"

text \<open>Python prints a finite float with a point or an exponent, an integer without.  Two floats with the
  same text are the same float; the value kept beside the text plays no part in the output.\<close>

definition float_text :: "string \<Rightarrow> bool" where
  "float_text t \<longleftrightarrow> t \<noteq> [] \<and> list_all num_char t \<and> list_ex (\<lambda>c. c = CHR ''.'' \<or> c = CHR ''e'') t"

fun printable :: "json \<Rightarrow> bool" where
  "printable (JFloat t r) \<longleftrightarrow> float_text t \<and> float_of_text t = Some (FloatNum r)"
| "printable (JList xs) \<longleftrightarrow> (\<forall>v \<in> set xs. printable v)"
| "printable (JObj kvs) \<longleftrightarrow> (\<forall>kv \<in> set kvs. printable (snd kv))"
| "printable _ \<longleftrightarrow> True"

definition ends_token :: "string \<Rightarrow> bool" where
  "ends_token r \<longleftrightarrow> (case r of [] \<Rightarrow> True | c # cs \<Rightarrow> \<not> num_char c)"

lemma hex_digit_inj: "m < 16 \<Longrightarrow> n < 16 \<Longrightarrow> hex_digit m = hex_digit n \<Longrightarrow> m = n"
  by (simp add: hex_digit_def nth_eq_iff_index_eq)

text \<open>One character's escape is never a proper prefix of another's, nor starts with the closing quote.\<close>

lemma json_char_hd: "json_char c \<noteq> [] \<and> hd (json_char c) \<noteq> CHR 0x22"
  by (simp add: json_char_def)

lemma json_char_prefix:
  assumes "json_char c @ r = json_char d @ s"
  shows "c = d \<and> r = s"
proof -
  have u: "c = d" if "hex_digit (of_char c div 16) = hex_digit (of_char d div 16)"
    "hex_digit (of_char c) = hex_digit (of_char d)"
  proof -
    have b: "(of_char x :: nat) < 256" for x by (rule nat_of_char_less_256)
    from that hex_digit_inj [of "of_char c div 16" "of_char d div 16"] b [of c] b [of d]
    have "(of_char c div 16 :: nat) = of_char d div 16" by (simp add: less_mult_imp_div_less)
    moreover have "(of_char c mod 16 :: nat) = of_char d mod 16"
      using that(2) hex_digit_inj [of "of_char c mod 16" "of_char d mod 16"] by (simp add: hex_digit_def)
    ultimately have "(of_char c :: nat) = of_char d" by (metis div_mult_mod_eq)
    then show ?thesis by simp
  qed
  from assms show ?thesis
    by (auto simp: json_char_def split: if_splits intro: u)
qed

lemma json_chars_prefix:
  "concat (map json_char s) @ CHR 0x22 # r = concat (map json_char t) @ CHR 0x22 # r' \<Longrightarrow> s = t \<and> r = r'"
proof (induction s arbitrary: t)
  case Nil
  show ?case
  proof (cases t)
    case (Cons d t')
    with Nil json_char_hd [of d] show ?thesis by (cases "json_char d") auto
  qed (use Nil in simp)
next
  case (Cons c s)
  show ?case
  proof (cases t)
    case Nil
    with Cons.prems json_char_hd [of c] show ?thesis by (cases "json_char c") auto
  next
    case (Cons d t')
    with Cons.prems have "json_char c @ concat (map json_char s) @ CHR 0x22 # r
        = json_char d @ concat (map json_char t') @ CHR 0x22 # r'" by simp
    from json_char_prefix [OF this] Cons.IH Cons show ?thesis by auto
  qed
qed

lemma json_str_prefix: "json_str s @ r = json_str t @ r' \<Longrightarrow> s = t \<and> r = r'"
  by (auto simp: json_str_def dest: json_chars_prefix)

lemma num_prefix:
  assumes "list_all num_char x" "list_all num_char y" "ends_token r" "ends_token r'" "x @ r = y @ r'"
  shows "x = y \<and> r = r'"
proof -
  have "takeWhile num_char (x @ r) = x" "takeWhile num_char (y @ r') = y"
    using assms(1-4) by (auto simp: takeWhile_append list_all_iff ends_token_def takeWhile_eq_Nil_iff split: list.splits)
  with assms(5) show ?thesis by auto
qed

lemma nat_digits_num: "list_all (\<lambda>c. c \<in> set ''0123456789'') (nat_digits n) \<and> nat_digits n \<noteq> []"
proof (induction n rule: nat_digits.induct)
  case (1 n)
  have "''0123456789'' ! d \<in> set ''0123456789''" if "d < 10" for d by (rule nth_mem) (use that in simp)
  with 1 show ?case by (subst (1 2) nat_digits.simps) auto
qed

lemma py_str_int_num: "list_all (\<lambda>c. c \<in> set ''-0123456789'') (py_str_int i) \<and> py_str_int i \<noteq> []"
  using nat_digits_num [of "nat (- i)"] nat_digits_num [of "nat i"]
  by (auto simp: py_str_int_def list_all_iff)

lemma py_str_int_inject [simp]: "py_str_int i = py_str_int j \<longleftrightarrow> i = j"
proof -
  have "nat_digits n \<noteq> CHR ''-'' # cs" for n cs
    using nat_digits_num [of n] by auto
  then show ?thesis by (auto simp: py_str_int_def eq_commute [of "CHR ''-'' # _"])
qed

lemma num_char_digits: "c \<in> set ''-0123456789'' \<Longrightarrow> num_char c \<and> c \<noteq> CHR ''.'' \<and> c \<noteq> CHR ''e''"
  by (auto simp: num_char_def)

lemma int_not_float:
  assumes "float_text t" "ends_token r" "ends_token r'" "t @ r = py_str_int i @ r'"
  shows False
proof -
  have n: "list_all num_char (py_str_int i)"
    using py_str_int_num [of i] num_char_digits by (auto simp: list_all_iff)
  from num_prefix [OF _ n assms(2-4)] assms(1) have "t = py_str_int i" by (auto simp: float_text_def)
  with assms(1) py_str_int_num [of i] num_char_digits show False
    by (auto simp: float_text_def list_all_iff list_ex_iff)
qed

text \<open>The first character names the kind of value.\<close>

datatype token_kind = KNull | KBool bool | KNum | KStr | KList | KObj

definition token_kind_of :: "json \<Rightarrow> token_kind" where
  "token_kind_of v = (case v of JNull \<Rightarrow> KNull | JBool b \<Rightarrow> KBool b | JInt i \<Rightarrow> KNum | JFloat t r \<Rightarrow> KNum
     | JStr s \<Rightarrow> KStr | JList xs \<Rightarrow> KList | JObj kvs \<Rightarrow> KObj)"

definition kind_of_char :: "char \<Rightarrow> token_kind" where
  "kind_of_char c =
     (if c = CHR ''n'' then KNull else if c = CHR ''t'' then KBool True else if c = CHR ''f'' then KBool False
      else if c = CHR 0x22 then KStr else if c = CHR ''['' then KList else if c = CHR ''{'' then KObj else KNum)"

lemma num_kind: "num_char c \<Longrightarrow> kind_of_char c = KNum \<and> c \<noteq> CHR '']''"
  by (auto simp: num_char_def kind_of_char_def)

lemma print_json_hd:
  assumes "printable v"
  shows "\<exists>c cs. print_json v = c # cs \<and> kind_of_char c = token_kind_of v \<and> c \<noteq> CHR '']''"
proof (cases v)
  case (JInt i)
  then show ?thesis using py_str_int_num [of i] num_char_digits num_kind
    by (cases "py_str_int i") (auto simp: token_kind_of_def)
next
  case (JFloat t r)
  with assms show ?thesis using num_kind by (cases t) (auto simp: token_kind_of_def float_text_def)
qed (auto simp: token_kind_of_def kind_of_char_def json_str_def)

lemma join_Cons: "join sep (x # xs) = x @ concat (map ((@) sep) xs)"
  by (induction xs arbitrary: x) auto

text \<open>Sequences of tokens, each introduced by a comma and the whole closed by a bracket.\<close>

lemma sequence_prefix:
  assumes elem: "\<And>x y r r'. x \<in> set xs \<Longrightarrow> P y \<Longrightarrow> ends_token r \<Longrightarrow> ends_token r' \<Longrightarrow> f x @ r = f y @ r' \<Longrightarrow> x = y \<and> r = r'"
    and "\<forall>y \<in> set ys. P y" and "\<not> num_char close" "close \<noteq> CHR '',''"
    and "concat (map (\<lambda>x. CHR '','' # f x) xs) @ close # r = concat (map (\<lambda>y. CHR '','' # f y) ys) @ close # r'"
  shows "xs = ys \<and> r = r'"
  using assms
proof (induction xs arbitrary: ys)
  case Nil
  then show ?case by (cases ys) auto
next
  case (Cons x xs)
  then obtain y ys' where ys: "ys = y # ys'" by (cases ys) auto
  let ?r = "concat (map (\<lambda>x. CHR '','' # f x) xs) @ close # r"
  let ?r' = "concat (map (\<lambda>x. CHR '','' # f x) ys') @ close # r'"
  have ends: "ends_token ?r" "ends_token ?r'"
    using Cons.prems(3) by (cases xs; cases ys'; simp add: ends_token_def num_char_def)+
  have "f x @ ?r = f y @ ?r'" using Cons.prems(5) ys by simp
  from Cons.prems(1) [OF _ _ ends this] Cons.prems(2) ys have xy: "x = y" "?r = ?r'" by auto
  have "xs = ys' \<and> r = r'"
    using Cons.prems(1,2) ys by (intro Cons.IH [OF _ _ Cons.prems(3,4) xy(2)]) auto
  with xy ys show ?case by simp
qed

lemma joined_prefix:
  assumes elem: "\<And>x y r r'. x \<in> set xs \<Longrightarrow> P y \<Longrightarrow> ends_token r \<Longrightarrow> ends_token r' \<Longrightarrow> f x @ r = f y @ r' \<Longrightarrow> x = y \<and> r = r'"
    and nonempty: "\<And>y. y \<in> set xs \<or> P y \<Longrightarrow> \<exists>c cs. f y = c # cs \<and> c \<noteq> close"
    and ys: "\<forall>y \<in> set ys. P y" and close: "\<not> num_char close" "close \<noteq> CHR '',''"
    and eq: "join '','' (map f xs) @ close # r = join '','' (map f ys) @ close # r'"
  shows "xs = ys \<and> r = r'"
proof (cases xs)
  case Nil
  show ?thesis
  proof (cases ys)
    case (Cons y ys')
    with ys nonempty [of y] obtain c cs where "f y = c # cs" "c \<noteq> close" by auto
    with Cons Nil eq show ?thesis by (auto simp: join_Cons)
  qed (use Nil eq in simp)
next
  case (Cons x xs')
  show ?thesis
  proof (cases ys)
    case Nil
    with Cons nonempty [of x] obtain c cs where "f x = c # cs" "c \<noteq> close" by auto
    with Cons Nil eq show ?thesis by (auto simp: join_Cons)
  next
    case (Cons y ys')
    have joined: "join '','' (map f (z # zs)) = f z @ concat (map (\<lambda>x. CHR '','' # f x) zs)" for z zs
      by (simp add: join_Cons comp_def)
    from eq have "f x @ concat (map (\<lambda>x. CHR '','' # f x) xs') @ close # r
        = f y @ concat (map (\<lambda>x. CHR '','' # f x) ys') @ close # r'"
      unfolding \<open>xs = x # xs'\<close> Cons joined by (simp only: append_assoc)
    then have tokens: "concat (map (\<lambda>x. CHR '','' # f x) xs) @ close # r
        = concat (map (\<lambda>y. CHR '','' # f y) ys) @ close # r'"
      unfolding \<open>xs = x # xs'\<close> Cons by simp
    show ?thesis by (rule sequence_prefix [OF elem ys close tokens])
  qed
qed

lemma print_json_kind:
  assumes "printable v" "printable w" "print_json v @ r = print_json w @ r'"
  shows "token_kind_of v = token_kind_of w"
  using print_json_hd [OF assms(1)] print_json_hd [OF assms(2)] assms(3) by auto

definition json_field :: "string \<times> json \<Rightarrow> string" where
  "json_field kv = json_str (fst kv) @ CHR '':'' # print_json (snd kv)"

lemma print_json_obj: "print_json (JObj kvs) = CHR ''{'' # join '','' (map json_field kvs) @ ''}''"
  by (simp add: json_field_def case_prod_beta cong: map_cong)

lemma number_prefix:
  assumes "printable v" "printable w" "token_kind_of v = KNum" "token_kind_of w = KNum" "ends_token r" "ends_token r'"
    and "print_json v @ r = print_json w @ r'"
  shows "v = w \<and> r = r'"
proof -
  have num: "list_all num_char (print_json x)" if "printable x" "token_kind_of x = KNum" for x
    using that py_str_int_num num_char_digits
    by (cases x) (auto simp: token_kind_of_def float_text_def list_all_iff)
  from num_prefix [OF num num assms(5,6,7)] assms have same: "print_json v = print_json w" "r = r'" by auto
  from assms(3,4) same assms(1,2,5-7) int_not_float have "v = w"
    by (cases v; cases w) (auto simp: token_kind_of_def dest: int_not_float [OF _ assms(5,6)] sym)
  with same show ?thesis by simp
qed

lemma print_json_prefix:
  "printable v \<Longrightarrow> printable w \<Longrightarrow> ends_token r \<Longrightarrow> ends_token r' \<Longrightarrow> print_json v @ r = print_json w @ r' \<Longrightarrow>
     v = w \<and> r = r'"
proof (induction v arbitrary: w r r')
  case (JList xs)
  from print_json_kind [OF JList.prems(1,2,5)] obtain ys where w: "w = JList ys" by (cases w) (auto simp: token_kind_of_def)
  have "xs = ys \<and> r = r'"
  proof (rule joined_prefix [where f = print_json and P = printable and close = "CHR '']''"])
    show "x = y \<and> r1 = r2" if "x \<in> set xs" "printable y" "ends_token r1" "ends_token r2"
      "print_json x @ r1 = print_json y @ r2" for x y r1 r2
      using JList.IH [OF that(1) _ that(2-5)] JList.prems(1) that(1) by simp
    show "\<exists>c cs. print_json y = c # cs \<and> c \<noteq> CHR '']''" if "y \<in> set xs \<or> printable y" for y
      using print_json_hd [of y] that JList.prems(1) by auto
    show "\<forall>y \<in> set ys. printable y" using JList.prems(2) w by simp
    show "join '','' (map print_json xs) @ CHR '']'' # r = join '','' (map print_json ys) @ CHR '']'' # r'"
      using JList.prems(5) w by simp
  qed (simp_all add: num_char_def)
  with w show ?case by simp
next
  case (JObj kvs)
  from print_json_kind [OF JObj.prems(1,2,5)] obtain kws where w: "w = JObj kws" by (cases w) (auto simp: token_kind_of_def)
  have "kvs = kws \<and> r = r'"
  proof (rule joined_prefix [where f = json_field and P = "\<lambda>kv. printable (snd kv)" and close = "CHR ''}''"])
    show "x = y \<and> r1 = r2" if x: "x \<in> set kvs" "printable (snd y)" "ends_token r1" "ends_token r2"
      and eq: "json_field x @ r1 = json_field y @ r2" for x y r1 r2
    proof -
      have "json_str (fst x) @ CHR '':'' # print_json (snd x) @ r1 = json_str (fst y) @ CHR '':'' # print_json (snd y) @ r2"
        using eq by (simp add: json_field_def)
      from json_str_prefix [OF this] have k: "fst x = fst y" and v: "print_json (snd x) @ r1 = print_json (snd y) @ r2"
        by simp_all
      have "snd x = snd y \<and> r1 = r2"
        by (rule JObj.IH [OF x(1) _ _ x(2-4) v]) (use JObj.prems(1) x(1) in \<open>auto simp: snds.simps\<close>)
      with k show ?thesis by (simp add: prod_eq_iff)
    qed
    show "\<exists>c cs. json_field y = c # cs \<and> c \<noteq> CHR ''}''" for y by (simp add: json_field_def json_str_def)
    show "\<forall>y \<in> set kws. printable (snd y)" using JObj.prems(2) w by simp
    show "join '','' (map json_field kvs) @ CHR ''}'' # r = join '','' (map json_field kws) @ CHR ''}'' # r'"
      using JObj.prems(5) w by (simp only: print_json_obj) simp
  qed (simp_all add: num_char_def)
  with w show ?case by simp
next
  case (JStr s)
  with print_json_kind [OF JStr.prems(1,2,5)] show ?case
    by (cases w) (auto simp: token_kind_of_def dest: json_str_prefix)
next
  case (JInt i)
  with print_json_kind [OF JInt.prems(1,2,5)] number_prefix [OF JInt.prems(1,2)] show ?case by (simp add: token_kind_of_def)
next
  case (JFloat t q)
  with print_json_kind [OF JFloat.prems(1,2,5)] number_prefix [OF JFloat.prems(1,2)] show ?case by (simp add: token_kind_of_def)
next
  case JNull
  with print_json_kind [OF JNull.prems(1,2,5)] show ?case by (cases w) (auto simp: token_kind_of_def)
next
  case (JBool b)
  with print_json_kind [OF JBool.prems(1,2,5)] show ?case by (cases w) (auto simp: token_kind_of_def)
qed

lemma printable_sorted_keys: "printable v \<Longrightarrow> printable (sorted_keys v)"
proof (induction v)
  case (JObj kvs)
  have "printable (sorted_keys (snd kv))" if "kv \<in> set kvs" for kv
    using JObj.IH [OF that, of "snd kv"] JObj.prems that by (auto simp: snds.simps)
  then show ?case by auto
qed auto

lemma dumps_inject:
  assumes "printable v" "printable w" "dumps v = dumps w"
  shows "sorted_keys v = sorted_keys w"
  using print_json_prefix [OF printable_sorted_keys printable_sorted_keys, OF assms(1,2), of "[]" "[]"] assms(3)
  by (simp add: dumps_def ends_token_def)

end
