(* ===== verification/SourceConfig.thy ===== *)
theory SourceConfig
  imports NetboxApi
begin

text \<open>
  The configuration of one source (netbox_sync/source_config.py): the validating constructors and the
  configuration read from the legacy environment variables.  An environment is a dictionary of texts.
  Patterns are compared with \<open>fullmatch\<close>, so they are predicates on the whole text.
\<close>

section \<open>Patterns\<close>

definition is_lower_alnum :: "char \<Rightarrow> bool" where
  "is_lower_alnum c \<longleftrightarrow> (CHR ''a'' \<le> c \<and> c \<le> CHR ''z'') \<or> (CHR ''0'' \<le> c \<and> c \<le> CHR ''9'')"

definition source_instance_ok :: "string \<Rightarrow> bool" where
  "source_instance_ok t =
     (case t of [] \<Rightarrow> False
      | c # cs \<Rightarrow> is_lower_alnum c \<and> 1 \<le> length cs \<and> length cs \<le> 62
          \<and> list_all (\<lambda>x. is_lower_alnum x \<or> x \<in> set ''._-'') cs)"

definition source_type_ok :: "string \<Rightarrow> bool" where
  "source_type_ok t =
     (case t of [] \<Rightarrow> False
      | c # cs \<Rightarrow> CHR ''a'' \<le> c \<and> c \<le> CHR ''z'' \<and> 1 \<le> length cs \<and> length cs \<le> 31
          \<and> list_all (\<lambda>x. is_lower_alnum x \<or> x \<in> set ''_-'') cs)"

section \<open>Constructors\<close>

definition require_text :: "string \<Rightarrow> string \<Rightarrow> unit res" where
  "require_text v field_name =
     (if py_strip v = [] then Inl (ValueError (field_name @ '' must be a non-empty string'')) else Inr ())"

definition require_texts :: "(string \<times> string) list \<Rightarrow> unit res" where
  "require_texts kvs = res_fold (\<lambda>_ (k, v). require_text v k) () kvs"

definition make_target ::
    "string \<Rightarrow> string \<Rightarrow> string \<Rightarrow> string \<Rightarrow> string \<Rightarrow> string \<Rightarrow> sync_target res" where
  "make_target site role platform device_type cluster_type cluster_name =
     res_bind (require_texts [(''site_slug'', site), (''device_role_slug'', role), (''platform_slug'', platform),
         (''device_type_slug'', device_type), (''cluster_type_slug'', cluster_type),
         (''cluster_name'', cluster_name)]) (\<lambda>_.
       Inr \<lparr>t_site_slug = site, t_cluster_type_slug = cluster_type, t_cluster_name = cluster_name,
            t_device_role_slug = role, t_platform_slug = platform, t_device_type_slug = device_type\<rparr>)"

record secret_reference =
  sr_provider :: string
  sr_key :: string

definition make_secret_reference :: "string \<Rightarrow> string \<Rightarrow> secret_reference res" where
  "make_secret_reference provider key =
     res_bind (require_texts [(''provider'', provider), (''key'', key)]) (\<lambda>_.
       Inr \<lparr>sr_provider = provider, sr_key = key\<rparr>)"

record source_credentials =
  cr_username :: string
  cr_token_id :: secret_reference
  cr_token_secret :: secret_reference

definition make_credentials :: "string \<Rightarrow> secret_reference \<Rightarrow> secret_reference \<Rightarrow> source_credentials res" where
  "make_credentials username token_id token_secret =
     res_bind (require_text username ''username'') (\<lambda>_.
       Inr \<lparr>cr_username = username, cr_token_id = token_id, cr_token_secret = token_secret\<rparr>)"

definition credentials_for_password :: "string \<Rightarrow> secret_reference \<Rightarrow> source_credentials res" where
  "credentials_for_password username r = make_credentials username r r"

record source_config =
  sc_id :: string
  sc_source_instance :: string
  sc_name :: string
  sc_source_type :: string
  sc_address :: string
  sc_enabled :: bool
  sc_sync_enabled :: bool
  sc_sync_interval_seconds :: int
  sc_verify_ssl :: bool
  sc_target :: sync_target
  sc_credentials :: source_credentials
  sc_legacy_identity_owner :: bool
  sc_settings :: obj

definition make_source_config :: "source_config \<Rightarrow> source_config res" where
  "make_source_config c =
     res_bind (require_texts [(''id'', sc_id c), (''name'', sc_name c), (''address'', sc_address c)]) (\<lambda>_.
       if \<not> source_instance_ok (sc_source_instance c)
       then Inl (ValueError ''source_instance must match ^[a-z0-9][a-z0-9._-]{1,62}$'')
       else if \<not> source_type_ok (sc_source_type c)
       then Inl (ValueError ''source_type must match ^[a-z][a-z0-9_-]{1,31}$'')
       else if sc_sync_interval_seconds c \<le> 0
       then Inl (ValueError ''sync_interval_seconds must be a positive integer'')
       else Inr c)"

section \<open>The legacy environment\<close>

type_synonym environ = "(string \<times> string) list"

definition env_get :: "environ \<Rightarrow> string \<Rightarrow> string \<Rightarrow> string" where
  "env_get environ variable dflt = (case dget environ variable of None \<Rightarrow> dflt | Some v \<Rightarrow> v)"

definition required_environment :: "environ \<Rightarrow> string \<Rightarrow> string res" where
  "required_environment environ variable =
     (let value = py_strip (env_get environ variable [])
      in if value = [] then Inl (ValueError (variable @ '' must be configured'')) else Inr value)"

definition environment_flag :: "environ \<Rightarrow> string \<Rightarrow> string \<Rightarrow> bool" where
  "environment_flag environ variable dflt =
     (map py_lower_char (py_strip (env_get environ variable dflt)) = ''true'')"

definition legacy_secret_reference :: "environ \<Rightarrow> string \<Rightarrow> secret_reference res" where
  "legacy_secret_reference environ variable =
     (let file_path = py_strip (env_get environ (variable @ ''_FILE'') [])
      in if file_path \<noteq> [] then make_secret_reference ''file'' file_path
         else if py_strip (env_get environ variable []) \<noteq> [] then make_secret_reference ''environment'' variable
         else Inl (ValueError (variable @ '' or '' @ variable @ ''_FILE must be configured'')))"

definition or_default :: "string \<Rightarrow> string \<Rightarrow> string" where
  "or_default v d = (if v = [] then d else v)"

definition legacy_target :: "environ \<Rightarrow> sync_target res" where
  "legacy_target environ =
     res_bind (required_environment environ ''NB_SITE_SLUG'') (\<lambda>site.
     res_bind (required_environment environ ''NB_DEVICE_ROLE_SLUG'') (\<lambda>role.
     res_bind (required_environment environ ''NB_PLATFORM_SLUG'') (\<lambda>platform.
     res_bind (required_environment environ ''NB_DEVICE_TYPE_SLUG'') (\<lambda>device_type.
     res_bind (required_environment environ ''NB_CLUSTER_TYPE_SLUG'') (\<lambda>cluster_type.
     res_bind (required_environment environ ''NB_CLUSTER_NAME'') (\<lambda>cluster_name.
       make_target site role platform device_type cluster_type cluster_name))))))"

definition legacy_credentials :: "environ \<Rightarrow> source_credentials res" where
  "legacy_credentials environ =
     res_bind (required_environment environ ''PVE_API_USER'') (\<lambda>username.
     res_bind (legacy_secret_reference environ ''PVE_API_TOKEN'') (\<lambda>token_id.
     res_bind (legacy_secret_reference environ ''PVE_API_SECRET'') (\<lambda>token_secret.
       make_credentials username token_id token_secret)))"

definition from_legacy_environment :: "environ \<Rightarrow> source_config res" where
  "from_legacy_environment environ =
     res_bind (required_environment environ ''SOURCE_INSTANCE'') (\<lambda>source_instance.
     res_bind (case int_of_text (env_get environ ''SOURCE_SYNC_INTERVAL_SECONDS'' ''600'') of
         None \<Rightarrow> Inl (ValueError ''SOURCE_SYNC_INTERVAL_SECONDS must be an integer'')
       | Some i \<Rightarrow> Inr i) (\<lambda>interval.
     res_bind (required_environment environ ''PVE_API_HOST'') (\<lambda>address.
     res_bind (legacy_target environ) (\<lambda>target.
     res_bind (legacy_credentials environ) (\<lambda>credentials.
       make_source_config
         \<lparr>sc_id = or_default (py_strip (env_get environ ''SOURCE_ID'' [])) source_instance,
          sc_source_instance = source_instance,
          sc_name = or_default (py_strip (env_get environ ''SOURCE_NAME'' [])) source_instance,
          sc_source_type = ''proxmox'', sc_address = address,
          sc_enabled = environment_flag environ ''SOURCE_ENABLED'' ''true'',
          sc_sync_enabled = environment_flag environ ''SOURCE_SYNC_ENABLED'' ''true'',
          sc_sync_interval_seconds = interval,
          sc_verify_ssl = environment_flag environ ''PVE_API_VERIFY_SSL'' ''false'',
          sc_target = target, sc_credentials = credentials,
          sc_legacy_identity_owner = environment_flag environ ''SOURCE_LEGACY_IDENTITY_OWNER'' ''true'',
          sc_settings = []\<rparr>)))))"

section \<open>Every configuration that exists is valid\<close>

definition text_ok :: "string \<Rightarrow> bool" where
  "text_ok t \<longleftrightarrow> py_strip t \<noteq> []"

definition target_ok :: "sync_target \<Rightarrow> bool" where
  "target_ok t \<longleftrightarrow> list_all text_ok [t_site_slug t, t_device_role_slug t, t_platform_slug t,
     t_device_type_slug t, t_cluster_type_slug t, t_cluster_name t]"

definition secret_ok :: "secret_reference \<Rightarrow> bool" where
  "secret_ok r \<longleftrightarrow> text_ok (sr_provider r) \<and> text_ok (sr_key r)"

definition config_ok :: "source_config \<Rightarrow> bool" where
  "config_ok c \<longleftrightarrow> text_ok (sc_id c) \<and> text_ok (sc_name c) \<and> text_ok (sc_address c)
     \<and> source_instance_ok (sc_source_instance c) \<and> source_type_ok (sc_source_type c)
     \<and> 0 < sc_sync_interval_seconds c"

lemma require_text_Inr: "require_text v k = Inr u \<longleftrightarrow> text_ok v"
  by (simp add: require_text_def text_ok_def)

lemma require_texts_Inr: "require_texts kvs = Inr u \<longleftrightarrow> list_all (\<lambda>kv. text_ok (snd kv)) kvs"
proof (induction kvs)
  case (Cons kv kvs)
  then show ?case by (cases kv) (simp add: require_texts_def res_bind_eq_Inr require_text_Inr)
qed (simp add: require_texts_def)

lemma make_target_Inr: "make_target a b c d e f = Inr t \<Longrightarrow> target_ok t"
  by (auto simp: make_target_def res_bind_eq_Inr require_texts_Inr target_ok_def)

lemma make_secret_reference_Inr: "make_secret_reference p k = Inr r \<longleftrightarrow>
    secret_ok r \<and> r = \<lparr>sr_provider = p, sr_key = k\<rparr>"
  by (auto simp: make_secret_reference_def res_bind_eq_Inr require_texts_Inr secret_ok_def)

lemma make_source_config_Inr: "make_source_config c = Inr d \<longleftrightarrow> config_ok c \<and> d = c"
  by (auto simp: make_source_config_def res_bind_eq_Inr require_texts_Inr config_ok_def)

lemma source_instance_ok_length: "source_instance_ok t \<Longrightarrow> 2 \<le> length t \<and> length t \<le> 63"
  by (cases t) (auto simp: source_instance_ok_def)

text \<open>A legacy reference names a file path or an environment variable; it never carries the value.\<close>

lemma legacy_secret_reference_Inr:
  "legacy_secret_reference environ v = Inr r \<Longrightarrow> secret_ok r \<and>
     (sr_provider r = ''file'' \<and> sr_key r = py_strip (env_get environ (v @ ''_FILE'') [])
      \<or> sr_provider r = ''environment'' \<and> sr_key r = v)"
  by (auto simp: legacy_secret_reference_def make_secret_reference_Inr Let_def split: if_splits)

lemma legacy_credentials_Inr:
  "legacy_credentials environ = Inr c \<Longrightarrow>
     legacy_secret_reference environ ''PVE_API_TOKEN'' = Inr (cr_token_id c)
     \<and> legacy_secret_reference environ ''PVE_API_SECRET'' = Inr (cr_token_secret c)"
  by (auto simp: legacy_credentials_def make_credentials_def res_bind_eq_Inr)

lemma legacy_target_Inr: "legacy_target environ = Inr t \<Longrightarrow> target_ok t"
  unfolding legacy_target_def by (simp only: res_bind_eq_Inr) (blast dest: make_target_Inr)

lemma env_get_dset: "env_get (dset k v environ) k' d = (if k = k' then v else env_get environ k' d)"
  by (simp add: env_get_def)

lemma required_environment_dset: "k \<noteq> x \<Longrightarrow> required_environment (dset k v environ) x = required_environment environ x"
  by (simp add: required_environment_def env_get_dset)

lemma environment_flag_dset: "k \<noteq> x \<Longrightarrow> environment_flag (dset k v environ) x d = environment_flag environ x d"
  by (simp add: environment_flag_def env_get_dset)

lemma legacy_secret_reference_dset:
  "py_strip v \<noteq> [] \<Longrightarrow> py_strip w \<noteq> [] \<Longrightarrow> k \<noteq> x @ ''_FILE'' \<Longrightarrow>
     legacy_secret_reference (dset k v environ) x = legacy_secret_reference (dset k w environ) x"
  by (simp add: legacy_secret_reference_def env_get_dset)

lemma legacy_target_dset:
  "hd k = CHR ''P'' \<Longrightarrow> legacy_target (dset k v environ) = legacy_target environ"
  unfolding legacy_target_def by (subst required_environment_dset, force)+ (rule refl)

section \<open>Properties\<close>

text \<open>C35: Every source the legacy environment yields is complete: its texts are not blank, its instance and
  type match their patterns, its interval is positive, every slug of its target is given, and its
  credentials name a secret file or an environment variable.\<close>

theorem legacy_environment_config:
  assumes "from_legacy_environment environ = Inr c"
  shows "config_ok c \<and> target_ok (sc_target c) \<and> sc_source_type c = ''proxmox''
     \<and> secret_ok (cr_token_id (sc_credentials c)) \<and> secret_ok (cr_token_secret (sc_credentials c))
     \<and> sr_provider (cr_token_secret (sc_credentials c)) \<in> {''file'', ''environment''}"
proof -
  from assms obtain t cs where t: "legacy_target environ = Inr t" and cs: "legacy_credentials environ = Inr cs"
    and c: "config_ok c" "sc_target c = t" "sc_credentials c = cs" "sc_source_type c = ''proxmox''"
    by (auto simp: from_legacy_environment_def res_bind_eq_Inr make_source_config_Inr)
  from legacy_credentials_Inr [OF cs] legacy_secret_reference_Inr legacy_target_Inr [OF t] c show ?thesis by blast
qed

definition legacy_sample :: environ where
  "legacy_sample = [(''SOURCE_INSTANCE'', ''pve-a''), (''PVE_API_HOST'', ''pve.lab''), (''NB_SITE_SLUG'', ''lab''),
     (''NB_DEVICE_ROLE_SLUG'', ''hypervisor''), (''NB_PLATFORM_SLUG'', ''proxmox''),
     (''NB_DEVICE_TYPE_SLUG'', ''generic''), (''NB_CLUSTER_TYPE_SLUG'', ''proxmox-ve''),
     (''NB_CLUSTER_NAME'', '' PVE ''), (''PVE_API_USER'', ''sync@pve''), (''PVE_API_TOKEN_FILE'', ''/run/token''),
     (''PVE_API_SECRET'', ''hunter2'')]"

theorem legacy_environment_config_witness:
  "case from_legacy_environment legacy_sample of Inl e \<Rightarrow> False
   | Inr c \<Rightarrow> config_ok c \<and> target_ok (sc_target c) \<and> cr_token_secret (sc_credentials c) = \<lparr>sr_provider = ''environment'', sr_key = ''PVE_API_SECRET''\<rparr>"
proof -
  have "case from_legacy_environment legacy_sample of Inl e \<Rightarrow> False
   | Inr c \<Rightarrow> cr_token_secret (sc_credentials c) = \<lparr>sr_provider = ''environment'', sr_key = ''PVE_API_SECRET''\<rparr>" by code_simp
  then show ?thesis using legacy_environment_config [of legacy_sample] by (auto split: sum.splits)
qed

text \<open>No secret value enters a configuration.  Two environments that differ in the value of a secret
  alone, both not blank, yield the same configuration or the same error.\<close>

theorem legacy_environment_hides_secrets:
  assumes "variable = ''PVE_API_TOKEN'' \<or> variable = ''PVE_API_SECRET''"
    and "py_strip v \<noteq> []" and "py_strip w \<noteq> []"
  shows "from_legacy_environment (dset variable v environ) = from_legacy_environment (dset variable w environ)"
proof -
  have h: "hd variable = CHR ''P''" using assms(1) by auto
  have k: "variable \<noteq> x" if "x \<in> {''PVE_API_USER'', ''PVE_API_HOST'', ''SOURCE_INSTANCE'',
      ''SOURCE_SYNC_INTERVAL_SECONDS'', ''SOURCE_ID'', ''SOURCE_NAME'', ''SOURCE_ENABLED'', ''SOURCE_SYNC_ENABLED'',
      ''PVE_API_VERIFY_SSL'', ''SOURCE_LEGACY_IDENTITY_OWNER'', ''PVE_API_TOKEN_FILE'', ''PVE_API_SECRET_FILE''}" for x
    using assms(1) that by auto
  have "legacy_credentials (dset variable v environ) = legacy_credentials (dset variable w environ)"
    unfolding legacy_credentials_def
    using legacy_secret_reference_dset [OF assms(2,3), of variable "''PVE_API_TOKEN''" environ]
      legacy_secret_reference_dset [OF assms(2,3), of variable "''PVE_API_SECRET''" environ]
    by (simp add: required_environment_dset k)
  then show ?thesis
    unfolding from_legacy_environment_def
    by (simp add: required_environment_dset environment_flag_dset env_get_dset legacy_target_dset k h)
qed

theorem legacy_environment_hides_secrets_witness:
  "from_legacy_environment (dset ''PVE_API_SECRET'' ''other'' legacy_sample)
     = from_legacy_environment (dset ''PVE_API_SECRET'' ''hunter2'' legacy_sample)"
  by (rule legacy_environment_hides_secrets) (simp, code_simp+)

end
