(* ===== verification/DiscoveryReview.thy ===== *)
theory DiscoveryReview
  imports IpAddress PlanningNetbox SourceConfig
begin

text \<open>
  The read-only review of a Proxmox inventory (netbox_sync/application/discovery_review.py): every discovered
  host and guest is classified against the records of NetBox by its v2 identity, its name and, for hosts,
  its management address.  A record's name is a text or null, never a related record.
\<close>

datatype review_classification = MANAGED | REVIEW_REQUIRED | WOULD_CREATE | IGNORED | UNSUPPORTED | CONFLICT | NO_CHANGE

record review_item =
  ri_object_kind :: string
  ri_name :: string
  ri_external_id :: string
  ri_classification :: review_classification
  ri_reason_code :: string
  ri_reason :: string
  ri_future_action :: string
  ri_matched_object_id :: json
  ri_matched_object_name :: json

record discovery_review =
  rv_source_instance :: string
  rv_source_type :: string
  rv_site_slug :: string
  rv_cluster_name :: string
  rv_items :: "review_item list"

definition review_identities :: "('s, 'r) netbox \<Rightarrow> 's \<Rightarrow> 'r \<Rightarrow> json list" where
  "review_identities nb s r =
     (case jget (nb_data nb s r) ''custom_fields'' of
        JObj d \<Rightarrow> (case jget d ''sync_identities'' of JList xs \<Rightarrow> xs | _ \<Rightarrow> [])
      | _ \<Rightarrow> [])"

definition review_object_id :: "json \<Rightarrow> json" where
  "review_object_id v = (case v of
       JInt i \<Rightarrow> v | JBool b \<Rightarrow> v | JStr t \<Rightarrow> v | JObj d \<Rightarrow> jget d ''id'' | _ \<Rightarrow> JNull)"

text \<open>A related address record prints as its address.\<close>

definition ip_value :: "attr option \<Rightarrow> string option" where
  "ip_value a =
     (case a of
        None \<Rightarrow> None
      | Some (AVal JNull) \<Rightarrow> None
      | Some v \<Rightarrow>
          let raw = (case v of AVal (JObj d) \<Rightarrow> py_str (jget d ''address'') | _ \<Rightarrow> attr_str v)
          in (case address_ip raw of Inl e \<Rightarrow> None | Inr ip \<Rightarrow> Some ip))"

definition attr_json :: "attr option \<Rightarrow> json" where
  "attr_json a = (case a of None \<Rightarrow> JNull | Some (AVal v) \<Rightarrow> v | Some (ARec i t) \<Rightarrow> JStr t)"

definition review_name :: "('s, 'r) netbox \<Rightarrow> 's \<Rightarrow> 'r \<Rightarrow> string" where
  "review_name nb s r =
     (case nb_attr nb s r ''name'' of
        Some a \<Rightarrow> attr_str a
      | None \<Rightarrow> (case dget (nb_data nb s r) ''name'' of None \<Rightarrow> [] | Some v \<Rightarrow> py_str v))"

definition unmatched_item ::
    "string \<Rightarrow> string \<Rightarrow> string \<Rightarrow> review_classification \<Rightarrow> string \<Rightarrow> string \<Rightarrow> string \<Rightarrow> review_item" where
  "unmatched_item kind name external_id classification code reason action =
     \<lparr>ri_object_kind = kind, ri_name = name, ri_external_id = external_id,
      ri_classification = classification, ri_reason_code = code, ri_reason = reason,
      ri_future_action = action, ri_matched_object_id = JNull, ri_matched_object_name = JNull\<rparr>"

definition matched_item ::
    "('s, 'r) netbox \<Rightarrow> 's \<Rightarrow> 'r \<Rightarrow> review_item \<Rightarrow> review_item" where
  "matched_item nb s r item =
     item\<lparr>ri_matched_object_id := JInt (nb_id nb s r), ri_matched_object_name := attr_json (nb_attr nb s r ''name'')\<rparr>"

definition managed_records :: "('s, 'r) netbox \<Rightarrow> 's \<Rightarrow> source_identity \<Rightarrow> 'r list \<Rightarrow> 'r list" where
  "managed_records nb s i records =
     filter (\<lambda>r. list_ex (py_eq (JObj (to_record i))) (review_identities nb s r)) records"

definition generic_item ::
    "('s, 'r) netbox \<Rightarrow> 's \<Rightarrow> string \<Rightarrow> string \<Rightarrow> source_identity \<Rightarrow> 'r list \<Rightarrow> 'r list \<Rightarrow> review_item" where
  "generic_item nb s original_name kind i all_records target_records =
     (let managed = managed_records nb s i all_records;
          target_ids = map (nb_id nb s) target_records;
          names = filter (\<lambda>r. casefold (review_name nb s r) = casefold original_name) target_records
      in if length managed = 1 \<and> nb_id nb s (hd managed) \<in> set target_ids
         then matched_item nb s (hd managed)
           (unmatched_item kind original_name (si_external_id i) MANAGED ''IDENTITY_MATCH''
              ''Stable source identity matches an existing NetBox object.'' ''none'')
         else if managed \<noteq> []
         then unmatched_item kind original_name (si_external_id i) CONFLICT ''IDENTITY_SCOPE_CONFLICT''
                ''The stable identity is duplicated or outside the configured target.'' ''review''
         else if names \<noteq> []
         then unmatched_item kind original_name (si_external_id i) REVIEW_REQUIRED ''NAME_ONLY_CANDIDATE''
                ''A name match exists but names are not identity evidence.'' ''review''
         else unmatched_item kind original_name (si_external_id i) WOULD_CREATE ''NO_IDENTITY_MATCH''
                ''No existing object has this stable source identity.'' ''create'')"

definition proxmox_host_item ::
    "('s, 'r) netbox \<Rightarrow> 's \<Rightarrow> discovered_host \<Rightarrow> 'r list \<Rightarrow> 'r list \<Rightarrow> review_item res" where
  "proxmox_host_item nb s host devices target_devices =
     res_bind (host_source_identity host) (\<lambda>i.
     let item = generic_item nb s (h_original_name host) ''host'' i devices target_devices
     in (case h_management_ip host of
           None \<Rightarrow> Inr item
         | Some wanted \<Rightarrow>
             if ri_classification item \<noteq> WOULD_CREATE \<or> wanted = [] then Inr item
             else let matches = filter (\<lambda>r. ip_value (nb_attr nb s r ''primary_ip4'') = Some wanted) devices
               in if matches = [] then Inr item
                  else if length matches \<noteq> 1 \<or> nb_id nb s (hd matches) \<notin> set (map (nb_id nb s) target_devices)
                  then Inr (unmatched_item ''host'' (h_original_name host) (si_external_id i) CONFLICT
                    ''MANAGEMENT_IP_CONFLICT''
                    ''Management IP evidence is ambiguous or outside the configured target.'' ''review'')
                  else Inr (matched_item nb s (hd matches)
                    (unmatched_item ''host'' (h_original_name host) (si_external_id i) REVIEW_REQUIRED
                      ''MANAGEMENT_IP_CANDIDATE''
                      ''Management IP matches, but network evidence alone does not establish ownership.'' ''review''))))"

definition review_host ::
    "('s, 'r) netbox \<Rightarrow> 's \<Rightarrow> 'r list \<Rightarrow> 'r list \<Rightarrow> 'r list \<Rightarrow> 'r list \<Rightarrow> discovered_host \<Rightarrow> review_item list res" where
  "review_host nb s devices target_devices vms target_vms host =
     res_bind (proxmox_host_item nb s host devices target_devices) (\<lambda>host_item.
     res_bind (res_map (\<lambda>vm. res_bind (virtual_machine_source_identity vm) (\<lambda>i.
         Inr (generic_item nb s (g_original_name vm) ''qemu'' i vms target_vms))) (h_virtual_machines host)) (\<lambda>vm_items.
     res_bind (res_map (\<lambda>ct. res_bind (lxc_source_identity ct) (\<lambda>i.
         Inr (generic_item nb s (g_original_name ct) ''lxc'' i vms target_vms))) (h_containers host)) (\<lambda>ct_items.
       Inr (host_item # vm_items @ ct_items))))"

definition review_target_cluster :: "('s, 'r) netbox \<Rightarrow> 's \<Rightarrow> 'r \<Rightarrow> 'r \<Rightarrow> 'r \<Rightarrow> bool" where
  "review_target_cluster nb s site cluster_type cluster \<longleftrightarrow>
     py_eq (review_object_id (jget (nb_data nb s cluster) ''type'')) (JInt (nb_id nb s cluster_type))
     \<and> jget (nb_data nb s cluster) ''scope_type'' = JStr ''dcim.site''
     \<and> py_eq (jget (nb_data nb s cluster) ''scope_id'') (JInt (nb_id nb s site))"

definition build_proxmox_review ::
    "('s, 'r) netbox \<Rightarrow> discovered_host list \<Rightarrow> source_config \<Rightarrow> ('s, discovery_review) io" where
  "build_proxmox_review nb hosts config =
     io_bind (nb_get nb ''dcim.sites'' [(''slug'', JStr (t_site_slug (sc_target config)))]) (\<lambda>found_site.
     io_bind (nb_get nb ''virtualization.cluster_types''
        [(''slug'', JStr (t_cluster_type_slug (sc_target config)))]) (\<lambda>found_type.
     (case (found_site, found_type) of
        (Some site, Some cluster_type) \<Rightarrow>
          io_bind (nb_filter nb ''virtualization.clusters''
             [(''name'', JStr (t_cluster_name (sc_target config)))]) (\<lambda>named.
          io_bind (io_read (\<lambda>s. Inr (filter (review_target_cluster nb s site cluster_type) named))) (\<lambda>clusters.
          if length clusters \<noteq> 1 then io_raise (ValueError ''Proxmox review target cluster is ambiguous'')
          else
          io_bind (nb_all nb ''dcim.devices'') (\<lambda>devices.
          io_bind (nb_all nb ''virtualization.virtual_machines'') (\<lambda>vms.
          io_read (\<lambda>s.
            let in_cluster = (\<lambda>r. py_eq (review_object_id (jget (nb_data nb s r) ''cluster'')) (JInt (nb_id nb s (hd clusters))));
                target_devices = filter (\<lambda>r. py_eq (review_object_id (jget (nb_data nb s r) ''site'')) (JInt (nb_id nb s site))
                  \<and> in_cluster r) devices
            in res_bind (res_map (review_host nb s devices target_devices vms (filter in_cluster vms)) hosts) (\<lambda>items.
                 Inr \<lparr>rv_source_instance = sc_source_instance config, rv_source_type = sc_source_type config,
                   rv_site_slug = t_site_slug (sc_target config), rv_cluster_name = t_cluster_name (sc_target config),
                   rv_items = concat items\<rparr>))))))
      | _ \<Rightarrow> io_raise (ValueError ''Proxmox review target is incomplete''))))"

section \<open>What a classification means\<close>

lemma generic_item_spec:
  "(case managed_records nb s i rs of
      [] \<Rightarrow> ri_classification (generic_item nb s name kind i rs ts) \<in> {REVIEW_REQUIRED, WOULD_CREATE}
        \<and> ri_matched_object_id (generic_item nb s name kind i rs ts) = JNull
    | r # rest \<Rightarrow>
        if rest = [] \<and> nb_id nb s r \<in> set (map (nb_id nb s) ts)
        then ri_classification (generic_item nb s name kind i rs ts) = MANAGED
          \<and> ri_matched_object_id (generic_item nb s name kind i rs ts) = JInt (nb_id nb s r)
        else ri_classification (generic_item nb s name kind i rs ts) = CONFLICT
          \<and> ri_matched_object_id (generic_item nb s name kind i rs ts) = JNull)"
  by (simp add: generic_item_def Let_def matched_item_def unmatched_item_def split: list.split)

context netbox_reader
begin

lemma proxmox_review_R: "preserves R (build_proxmox_review nb hosts config)"
  unfolding build_proxmox_review_def
  by (intro reader_intros; (simp split: prod.split option.split)?; intro impI allI conjI reader_intros)

end

end
