(* ===== verification/Scheduling.thy ===== *)
theory Scheduling
  imports SourceConfig
begin

text \<open>
  The scheduling policy (netbox_sync/application/scheduling.py).  An instant is a number of microseconds,
  as precise as \<open>datetime\<close>; adding an interval raises \<open>OverflowError\<close> beyond year 9999
  (\<open>MAX_INSTANT\<close>) as \<open>datetime\<close> does.
\<close>

definition MIN_SYNC_INTERVAL :: int where "MIN_SYNC_INTERVAL = 60"
definition MAX_SYNC_INTERVAL :: int where "MAX_SYNC_INTERVAL = 86400"

text \<open>\<open>int(value)\<close> of a JSON value; \<open>None\<close> where it raises \<open>TypeError\<close> or \<open>ValueError\<close>.\<close>

definition int_of_json :: "json \<Rightarrow> int option" where
  "int_of_json v = (case v of
       JInt i \<Rightarrow> Some i
     | JBool b \<Rightarrow> Some (if b then 1 else 0)
     | JFloat t r \<Rightarrow> Some (truncate_rat r)
     | JStr s \<Rightarrow> int_of_text s
     | _ \<Rightarrow> None)"

definition stale_threshold :: "json \<Rightarrow> int" where
  "stale_threshold v =
     (case int_of_json v of
        None \<Rightarrow> 7200
      | Some parsed \<Rightarrow> if 300 \<le> parsed \<and> parsed \<le> 604800 then parsed else 7200)"

datatype scheduler_state = Disabled | Waiting | Due | Running | Delayed

datatype evaluation_status = EvaluationOk | EvaluationFailed

record schedule_decision =
  sd_source_instance :: "string option"
  sd_state :: "scheduler_state option"
  sd_last_scheduled_run_at :: "int option"
  sd_next_expected_at :: "int option"
  sd_evaluation_status :: evaluation_status
  sd_error_code :: "string option"

definition eligible :: "schedule_decision \<Rightarrow> bool" where
  "eligible d \<longleftrightarrow> sd_evaluation_status d = EvaluationOk
     \<and> (sd_state d = Some Due \<or> sd_state d = Some Delayed)"

definition decision_failed :: "string option \<Rightarrow> schedule_decision" where
  "decision_failed instance =
     \<lparr>sd_source_instance = instance, sd_state = None, sd_last_scheduled_run_at = None,
      sd_next_expected_at = None, sd_evaluation_status = EvaluationFailed,
      sd_error_code = Some ''SCHEDULE_EVALUATION_FAILED''\<rparr>"

definition decision_ok :: "source_config \<Rightarrow> scheduler_state \<Rightarrow> int option \<Rightarrow> int option \<Rightarrow> schedule_decision" where
  "decision_ok source state reference next_expected =
     \<lparr>sd_source_instance = Some (sc_source_instance source), sd_state = Some state,
      sd_last_scheduled_run_at = reference, sd_next_expected_at = next_expected,
      sd_evaluation_status = EvaluationOk, sd_error_code = None\<rparr>"

definition validate_interval :: "json \<Rightarrow> bool \<Rightarrow> int res" where
  "validate_interval v current =
     (let maximum = (if current then 2147483647 else MAX_SYNC_INTERVAL);
          minimum = (if current then 1 else MIN_SYNC_INTERVAL)
      in case v of
           JInt i \<Rightarrow> if minimum \<le> i \<and> i \<le> maximum then Inr i
                     else Inl (ValueError ''invalid synchronization interval'')
         | _ \<Rightarrow> Inl (ValueError ''invalid synchronization interval''))"

section \<open>The cadence\<close>

definition seconds :: "int \<Rightarrow> int" where
  "seconds n = n * 1000000"

text \<open>Microseconds from 0001-01-01 to the last instant of 9999; a \<open>timedelta\<close> has below 10^9 days.\<close>

definition MAX_INSTANT :: int where "MAX_INSTANT = 315537897599999999"

definition add_seconds :: "int \<Rightarrow> int \<Rightarrow> int res" where
  "add_seconds instant n =
     (if n div 86400 > 999999999 then Inl (OverflowError ''days='')
      else if instant + seconds n > MAX_INSTANT then Inl (OverflowError ''date value out of range'')
      else Inr (instant + seconds n))"

definition evaluate_schedule ::
    "source_config \<Rightarrow> int option \<Rightarrow> int option \<Rightarrow> int \<Rightarrow> int \<Rightarrow> schedule_decision res" where
  "evaluate_schedule source latest_scheduled latest_running now stale_seconds =
     (if \<not> sc_enabled source \<or> \<not> sc_sync_enabled source
      then Inr (decision_ok source Disabled latest_scheduled None)
      else res_bind (case latest_scheduled of
               None \<Rightarrow> Inr now
             | Some reference \<Rightarrow> add_seconds reference (sc_sync_interval_seconds source)) (\<lambda>next_expected.
        if (case latest_running of None \<Rightarrow> False | Some started \<Rightarrow> now - started \<le> seconds stale_seconds)
        then Inr (decision_ok source Running latest_scheduled (Some next_expected))
        else Inr (decision_ok source
          (if now < next_expected then Waiting
           else case latest_scheduled of
               None \<Rightarrow> Due
             | Some reference \<Rightarrow>
                 if now = next_expected then Due
                 else if now - reference > seconds (max (sc_sync_interval_seconds source * 2) 1800)
                 then Delayed else Due)
          latest_scheduled (Some next_expected))))"

section \<open>When a source runs\<close>

lemma eligible_decision_ok [simp]: "eligible (decision_ok source st r n) \<longleftrightarrow> st = Due \<or> st = Delayed"
  by (auto simp: eligible_def decision_ok_def)

lemma eligible_decision_failed [simp]: "\<not> eligible (decision_failed i)"
  by (simp add: eligible_def decision_failed_def)

definition in_progress :: "int option \<Rightarrow> int \<Rightarrow> int \<Rightarrow> bool" where
  "in_progress latest_running now stale_seconds =
     (case latest_running of None \<Rightarrow> False | Some started \<Rightarrow> now \<le> started + seconds stale_seconds)"

lemma evaluate_schedule_eligible:
  assumes "evaluate_schedule source latest running now stale = Inr d"
  shows "eligible d \<longleftrightarrow> sc_enabled source \<and> sc_sync_enabled source
     \<and> \<not> in_progress running now stale
     \<and> (case latest of None \<Rightarrow> True | Some r \<Rightarrow> r + seconds (sc_sync_interval_seconds source) \<le> now)"
  using assms
  by (cases latest; cases running)
    (auto simp: evaluate_schedule_def in_progress_def add_seconds_def res_bind_eq_Inr split: if_splits)

lemma stale_threshold_bounds: "300 \<le> stale_threshold v \<and> stale_threshold v \<le> 604800"
  by (simp add: stale_threshold_def split: option.split)

lemma validate_interval_Inr: "validate_interval v current = Inr n \<longleftrightarrow> v = JInt n \<and>
    (if current then 1 \<le> n \<and> n \<le> 2147483647 else 60 \<le> n \<and> n \<le> 86400)"
  by (cases v) (auto simp: validate_interval_def Let_def MIN_SYNC_INTERVAL_def MAX_SYNC_INTERVAL_def)

section \<open>Properties\<close>

text \<open>C34: A desired interval that passes validation keeps the policy away from the end of the calendar.
  Whatever the environment says the stale threshold is, a source with such an interval, last started in
  years 1 to 9998, is always decided: with the next start one interval after the last, running only while
  the running run is younger than a week, waiting exactly before that start, and delayed only once half an
  hour and two intervals have passed.\<close>

theorem schedule_bounds:
  assumes "validate_interval v False = Inr (sc_sync_interval_seconds source)"
    and "0 \<le> reference" and "reference \<le> MAX_INSTANT - seconds 31622400"
    and "sc_enabled source" and "sc_sync_enabled source"
  shows "\<exists>d. evaluate_schedule source (Some reference) running now (stale_threshold threshold) = Inr d
    \<and> sd_evaluation_status d = EvaluationOk
    \<and> sd_next_expected_at d = Some (reference + seconds (sc_sync_interval_seconds source))
    \<and> (sd_state d = Some Running \<longrightarrow> (\<exists>r. running = Some r \<and> now - r \<le> seconds 604800))
    \<and> (sd_state d = Some Waiting \<longrightarrow> now < reference + seconds (sc_sync_interval_seconds source))
    \<and> (sd_state d = Some Delayed \<longrightarrow> reference + seconds 1800 < now
          \<and> reference + 2 * seconds (sc_sync_interval_seconds source) < now)
    \<and> (sd_state d = Some Due \<longrightarrow> reference + seconds (sc_sync_interval_seconds source) \<le> now
          \<and> now \<le> reference + seconds 172800)"
proof -
  let ?n = "sc_sync_interval_seconds source"
  from assms(1) have n: "60 \<le> ?n" "?n \<le> 86400" by (simp_all add: validate_interval_Inr)
  with assms(3) have next_start: "add_seconds reference ?n = Inr (reference + seconds ?n)"
    by (simp add: add_seconds_def seconds_def MAX_INSTANT_def)
  note stale = stale_threshold_bounds [of threshold]
  show ?thesis
  proof (cases "case running of None \<Rightarrow> False | Some started \<Rightarrow> now - started \<le> seconds (stale_threshold threshold)")
    case True
    with stale show ?thesis
      using assms(4,5) next_start
      by (auto simp: evaluate_schedule_def decision_ok_def seconds_def split: option.splits)
  next
    case False
    with n show ?thesis
      using assms(4,5) next_start by (auto simp: evaluate_schedule_def decision_ok_def seconds_def)
  qed
qed

definition sample_source :: source_config where
  "sample_source = \<lparr>sc_id = ''s1'', sc_source_instance = ''pve-a'', sc_name = ''A'', sc_source_type = ''proxmox'',
     sc_address = ''pve.lab'', sc_enabled = True, sc_sync_enabled = True, sc_sync_interval_seconds = 600,
     sc_verify_ssl = True, sc_target = \<lparr>t_site_slug = ''lab'', t_cluster_type_slug = ''proxmox-ve'',
       t_cluster_name = ''PVE'', t_device_role_slug = ''hypervisor'', t_platform_slug = ''proxmox'',
       t_device_type_slug = ''generic''\<rparr>,
     sc_credentials = \<lparr>cr_username = ''sync'', cr_token_id = \<lparr>sr_provider = ''file'', sr_key = ''id''\<rparr>,
       cr_token_secret = \<lparr>sr_provider = ''file'', sr_key = ''secret''\<rparr>\<rparr>,
     sc_legacy_identity_owner = True, sc_settings = []\<rparr>"

theorem schedule_bounds_witness:
  "\<exists>d. evaluate_schedule sample_source (Some 0) (Some 0) (seconds 7201) (stale_threshold (JStr ''300'')) = Inr d
     \<and> sd_next_expected_at d = Some (seconds 600) \<and> sd_state d = Some Delayed"
proof -
  have "evaluate_schedule sample_source (Some 0) (Some 0) (seconds 7201) (stale_threshold (JStr ''300''))
      = Inr (decision_ok sample_source Delayed (Some 0) (Some (seconds 600)))" by code_simp
  moreover have "validate_interval (JInt 600) False = Inr (sc_sync_interval_seconds sample_source)"
    "sc_enabled sample_source" "sc_sync_enabled sample_source" by code_simp+
  moreover have "(0::int) \<le> MAX_INSTANT - seconds 31622400" by (simp add: MAX_INSTANT_def seconds_def)
  ultimately show ?thesis
    using schedule_bounds [of "JInt 600" sample_source 0 "Some 0" "seconds 7201" "JStr ''300''"]
    by (auto simp: decision_ok_def)
qed

end
