(* ===== verification/SyncPlan.thy ===== *)
theory SyncPlan
  imports JsonText DiscoveryReview Scheduling
begin

text \<open>
  The canonical synchronisation plan (netbox_sync/application/sync_plan.py).  \<open>H\<close> is the hexadecimal
  SHA-256 digest of a text; nothing is assumed of it.  A tuple of the source becomes a JSON list where it is
  serialised, as \<open>json.dumps\<close> does.
\<close>

definition PLAN_SCHEMA_VERSION :: int where "PLAN_SCHEMA_VERSION = 1"
definition PLANNER_VERSION :: string where "PLANNER_VERSION = ''web-5a-1''"

datatype sync_action =
    Act_CREATE | Act_UPDATE | Act_NO_CHANGE | Act_REVIEW_REQUIRED | Act_BLOCKED | Act_IGNORED
  | Act_UNSUPPORTED | Act_RETAIN_ONLY

definition action_value :: "sync_action \<Rightarrow> string" where
  "action_value a = (case a of
       Act_CREATE \<Rightarrow> ''CREATE'' | Act_UPDATE \<Rightarrow> ''UPDATE'' | Act_NO_CHANGE \<Rightarrow> ''NO_CHANGE''
     | Act_REVIEW_REQUIRED \<Rightarrow> ''REVIEW_REQUIRED'' | Act_BLOCKED \<Rightarrow> ''BLOCKED'' | Act_IGNORED \<Rightarrow> ''IGNORED''
     | Act_UNSUPPORTED \<Rightarrow> ''UNSUPPORTED'' | Act_RETAIN_ONLY \<Rightarrow> ''RETAIN_ONLY'')"

record sync_plan_item =
  it_object_kind :: string
  it_external_id :: string
  it_name :: string
  it_action :: sync_action
  it_reason_code :: string
  it_reason :: string
  it_matched_object_id :: json
  it_before :: obj
  it_after :: obj

record sync_plan =
  sy_source_instance :: string
  sy_source_id :: string
  sy_source_type :: string
  sy_source_fingerprint :: string
  sy_target_fingerprint :: string
  sy_provider_fingerprint :: string
  sy_netbox_fingerprint :: string
  sy_items :: "sync_plan_item list"
  sy_schema_version :: int
  sy_planner_version :: string

definition apply_allowed :: "sync_plan \<Rightarrow> bool" where
  "apply_allowed p \<longleftrightarrow> \<not> list_ex (\<lambda>i. it_action i = Act_BLOCKED) (sy_items p)"

section \<open>The canonical text and its digest\<close>

definition pairs_json :: "obj \<Rightarrow> json" where
  "pairs_json kvs = JList (map (\<lambda>(k, v). JList [JStr k, v]) kvs)"

definition item_json :: "sync_plan_item \<Rightarrow> json" where
  "item_json i = JObj
     [(''object_kind'', JStr (it_object_kind i)), (''external_id'', JStr (it_external_id i)),
      (''name'', JStr (it_name i)), (''action'', JStr (action_value (it_action i))),
      (''reason_code'', JStr (it_reason_code i)), (''reason'', JStr (it_reason i)),
      (''matched_object_id'', it_matched_object_id i), (''before'', pairs_json (it_before i)),
      (''after'', pairs_json (it_after i))]"

definition item_key :: "sync_plan_item \<Rightarrow> string \<times> string \<times> string \<times> string" where
  "item_key i = (it_object_kind i, it_external_id i, action_value (it_action i), it_reason_code i)"

definition canonical_dict :: "sync_plan \<Rightarrow> json" where
  "canonical_dict p = JObj
     [(''source_instance'', JStr (sy_source_instance p)), (''source_id'', JStr (sy_source_id p)),
      (''source_type'', JStr (sy_source_type p)),
      (''source_fingerprint'', JStr (sy_source_fingerprint p)),
      (''target_fingerprint'', JStr (sy_target_fingerprint p)),
      (''provider_fingerprint'', JStr (sy_provider_fingerprint p)),
      (''netbox_fingerprint'', JStr (sy_netbox_fingerprint p)),
      (''items'', JList (map item_json (sort_key item_key (sy_items p)))),
      (''schema_version'', JInt (sy_schema_version p)), (''planner_version'', JStr (sy_planner_version p)),
      (''apply_allowed'', JBool (apply_allowed p))]"

definition canonical_json :: "sync_plan \<Rightarrow> string" where
  "canonical_json p = dumps (canonical_dict p)"

definition plan_digest :: "(string \<Rightarrow> string) \<Rightarrow> sync_plan \<Rightarrow> string" where
  "plan_digest H p = H (canonical_json p)"

definition stable_fingerprint :: "(string \<Rightarrow> string) \<Rightarrow> json \<Rightarrow> string" where
  "stable_fingerprint H v = H (dumps v)"

definition reference_json :: "secret_reference \<Rightarrow> json" where
  "reference_json r = JList [JStr (sr_provider r), JStr (sr_key r)]"

definition source_json :: "source_config \<Rightarrow> json" where
  "source_json c = JObj
     [(''id'', JStr (sc_id c)), (''source_instance'', JStr (sc_source_instance c)), (''name'', JStr (sc_name c)),
      (''source_type'', JStr (sc_source_type c)), (''address'', JStr (sc_address c)),
      (''enabled'', JBool (sc_enabled c)), (''sync_enabled'', JBool (sc_sync_enabled c)),
      (''sync_interval_seconds'', JInt (sc_sync_interval_seconds c)),
      (''verify_ssl'', JBool (sc_verify_ssl c)),
      (''legacy_identity_owner'', JBool (sc_legacy_identity_owner c)),
      (''settings'', JObj (sc_settings c)),
      (''credential_binding'', JObj
         [(''username'', JStr (cr_username (sc_credentials c))),
          (''token_id'', reference_json (cr_token_id (sc_credentials c))),
          (''token_secret'', reference_json (cr_token_secret (sc_credentials c)))])]"

definition safe_source_fingerprint :: "(string \<Rightarrow> string) \<Rightarrow> source_config \<Rightarrow> string" where
  "safe_source_fingerprint H c = stable_fingerprint H (source_json c)"

definition target_json :: "sync_target \<Rightarrow> json" where
  "target_json t = JObj
     [(''site_slug'', JStr (t_site_slug t)), (''device_role_slug'', JStr (t_device_role_slug t)),
      (''platform_slug'', JStr (t_platform_slug t)), (''device_type_slug'', JStr (t_device_type_slug t)),
      (''cluster_type_slug'', JStr (t_cluster_type_slug t)), (''cluster_name'', JStr (t_cluster_name t))]"

definition target_fingerprint :: "(string \<Rightarrow> string) \<Rightarrow> source_config \<Rightarrow> string" where
  "target_fingerprint H c = stable_fingerprint H (target_json (sc_target c))"

section \<open>The plan of a review\<close>

definition action_map :: "review_classification \<Rightarrow> sync_action" where
  "action_map c = (case c of
       MANAGED \<Rightarrow> Act_NO_CHANGE | NO_CHANGE \<Rightarrow> Act_NO_CHANGE | WOULD_CREATE \<Rightarrow> Act_CREATE
     | REVIEW_REQUIRED \<Rightarrow> Act_REVIEW_REQUIRED | CONFLICT \<Rightarrow> Act_BLOCKED | IGNORED \<Rightarrow> Act_IGNORED
     | UNSUPPORTED \<Rightarrow> Act_UNSUPPORTED)"

definition plan_item_of :: "review_item \<Rightarrow> sync_plan_item" where
  "plan_item_of r =
     \<lparr>it_object_kind = ri_object_kind r, it_external_id = ri_external_id r, it_name = ri_name r,
      it_action = action_map (ri_classification r), it_reason_code = ri_reason_code r, it_reason = ri_reason r,
      it_matched_object_id = ri_matched_object_id r,
      it_before = (if ri_matched_object_id r = JNull then []
                   else [(''id'', ri_matched_object_id r), (''name'', ri_matched_object_name r)]),
      it_after = (if ri_future_action r = ''create'' \<or> ri_future_action r = ''update''
                  then [(''name'', JStr (ri_name r))] else [])\<rparr>"

definition retain_item :: "source_config \<Rightarrow> sync_plan_item" where
  "retain_item config =
     \<lparr>it_object_kind = ''source'', it_external_id = sc_source_instance config, it_name = sc_name config,
      it_action = Act_RETAIN_ONLY, it_reason_code = ''DISAPPEARANCE_RETAIN_ONLY'',
      it_reason = ''Managed objects absent from discovery are reported and retained; none are deleted.'',
      it_matched_object_id = JNull, it_before = [], it_after = []\<rparr>"

definition py_tuple_repr :: "string list \<Rightarrow> string" where
  "py_tuple_repr xs = (case xs of [x] \<Rightarrow> ''('' @ x @ '',)'' | _ \<Rightarrow> ''('' @ join '', '' xs @ '')'')"

definition netbox_entry_repr :: "sync_plan_item \<Rightarrow> string" where
  "netbox_entry_repr i = py_tuple_repr
     [py_repr_str (it_object_kind i), py_repr (it_matched_object_id i),
      py_tuple_repr (map (\<lambda>(k, v). py_tuple_repr [py_repr_str k, py_repr v]) (it_before i))]"

definition netbox_entry :: "sync_plan_item \<Rightarrow> json" where
  "netbox_entry i = JList [JStr (it_object_kind i), it_matched_object_id i, pairs_json (it_before i)]"

definition plan_from_review ::
    "(string \<Rightarrow> string) \<Rightarrow> discovery_review \<Rightarrow> source_config \<Rightarrow> sync_plan" where
  "plan_from_review H review config =
     (let items = map plan_item_of (rv_items review) @ [retain_item config];
          provider = sort (map (\<lambda>i. (it_object_kind i, it_external_id i, it_name i)) items);
          netbox = sort_key netbox_entry_repr (filter (\<lambda>i. it_matched_object_id i \<noteq> JNull) items)
      in \<lparr>sy_source_instance = sc_source_instance config, sy_source_id = sc_id config,
          sy_source_type = sc_source_type config,
          sy_source_fingerprint = safe_source_fingerprint H config,
          sy_target_fingerprint = target_fingerprint H config,
          sy_provider_fingerprint = stable_fingerprint H
            (JList (map (\<lambda>(k, e, n). JList [JStr k, JStr e, JStr n]) provider)),
          sy_netbox_fingerprint = stable_fingerprint H (JList (map netbox_entry netbox)),
          sy_items = items, sy_schema_version = PLAN_SCHEMA_VERSION, sy_planner_version = PLANNER_VERSION\<rparr>)"

section \<open>The plan of a recorded run\<close>

text \<open>Iterating over a null or a number raises \<open>TypeError\<close>; the elements of a text and of a dictionary are
  texts, never dictionaries.\<close>

definition iterated_dicts :: "json \<Rightarrow> obj list res" where
  "iterated_dicts v = (case v of
       JList xs \<Rightarrow> Inr (List.map_filter (\<lambda>x. case x of JObj d \<Rightarrow> Some d | _ \<Rightarrow> None) xs)
     | JStr s \<Rightarrow> Inr []
     | JObj d \<Rightarrow> Inr []
     | _ \<Rightarrow> Inl (TypeError ''object is not iterable''))"

definition mutation_identity :: "planned_mutation \<Rightarrow> obj res" where
  "mutation_identity m =
     res_bind (case jget (dupdate (pm_before m) (pm_after m)) ''custom_fields'' of
         JObj cf \<Rightarrow> (case dget cf ''sync_identities'' of None \<Rightarrow> Inr [] | Some v \<Rightarrow> iterated_dicts v)
       | _ \<Rightarrow> Inr []) (\<lambda>identities.
     Inr (case find (\<lambda>d. truthy (jget d ''external_id'') \<or> truthy (jget d ''source_id'')) identities of
            None \<Rightarrow> [] | Some d \<Rightarrow> d))"

definition mutation_item :: "planned_mutation \<Rightarrow> sync_plan_item res" where
  "mutation_item m =
     res_bind (mutation_identity m) (\<lambda>d.
     let external_id = (if truthy (jget d ''external_id'') then py_str (jget d ''external_id'')
           else if truthy (jget d ''source_id'') then py_str (jget d ''source_id'')
           else py_str (pm_object_id m))
     in Inr \<lparr>it_object_kind = pm_endpoint m, it_external_id = external_id,
       it_name = py_str (case dget (pm_after m) ''name'' of None \<Rightarrow> pm_object_id m | Some v \<Rightarrow> v),
       it_action = (if pm_operation m = PlanCreate then Act_CREATE else Act_UPDATE),
       it_reason_code = ''GUARDED_EXECUTOR_ACTION'',
       it_reason = ''Existing guarded executor would perform this managed-field mutation.'',
       it_matched_object_id = (if pm_operation m = PlanCreate then JNull else pm_object_id m),
       it_before = sort_key fst (pm_before m), it_after = sort_key fst (pm_after m)\<rparr>)"

definition review_endpoints :: "(string \<times> string) list" where
  "review_endpoints =
     [(''host'', ''dcim.devices''), (''qemu'', ''virtualization.virtual_machines''),
      (''lxc'', ''virtualization.virtual_machines''), (''vm'', ''virtualization.virtual_machines'')]"

definition kept_actions :: "sync_action list" where
  "kept_actions = [Act_REVIEW_REQUIRED, Act_BLOCKED, Act_IGNORED, Act_UNSUPPORTED, Act_RETAIN_ONLY]"

definition mutated :: "sync_plan_item list \<Rightarrow> sync_plan_item \<Rightarrow> bool" where
  "mutated items i \<longleftrightarrow> list_ex (\<lambda>j. it_action j = Act_UPDATE
     \<and> dget review_endpoints (it_object_kind i) = Some (it_object_kind j)
     \<and> py_eq (it_matched_object_id i) (it_matched_object_id j)) items"

definition plan_from_mutations ::
    "(string \<Rightarrow> string) \<Rightarrow> discovery_review \<Rightarrow> source_config \<Rightarrow> planned_mutation list \<Rightarrow> sync_plan res" where
  "plan_from_mutations H review config mutations =
     (let review_plan = plan_from_review H review config in
      res_bind (res_map mutation_item mutations) (\<lambda>changes.
      let items = filter (\<lambda>i. it_action i \<in> set kept_actions) (sy_items review_plan) @ changes;
          unchanged = filter (\<lambda>i. it_action i = Act_NO_CHANGE \<and> \<not> mutated items i) (sy_items review_plan)
      in Inr (review_plan
           \<lparr>sy_netbox_fingerprint := stable_fingerprint H (JList (map (\<lambda>m.
               JList [JStr (pm_endpoint m), pm_object_id m, JObj (pm_before m)]) mutations)),
            sy_items := sort_key item_key (items @ unchanged)\<rparr>)))"

section \<open>What the digest binds\<close>

lemma dget_sort_key: "distinct (map fst d) \<Longrightarrow> dget (sort_key fst d) k = dget d k"
proof -
  assume d: "distinct (map fst d)"
  then have "distinct (map fst (sort_key fst d))"
    by (metis mset_eq_imp_distinct_iff mset_map mset_sort)
  with d show ?thesis unfolding dget_def by (metis map_of_eq_Some_iff not_None_eq set_sort)
qed

definition sorted_fields :: "obj \<Rightarrow> obj" where
  "sorted_fields d = map (\<lambda>(k, v). (k, sorted_keys v)) d"

lemma dget_sorted_fields: "dget (sorted_fields d) k = map_option sorted_keys (dget d k)"
  by (induction d) (auto simp: sorted_fields_def)

lemma keys_sorted_fields: "map fst (sorted_fields d) = map fst d"
  by (simp add: sorted_fields_def comp_def case_prod_beta)

lemma sorted_keys_obj: "sorted_keys (JObj d) = JObj (sort_key fst (sorted_fields d))"
  by (simp add: sorted_fields_def)

lemma sorted_keys_fields:
  assumes "distinct (map fst kvs)" "distinct (map fst kws)" "sorted_keys (JObj kvs) = sorted_keys (JObj kws)"
  shows "map_option sorted_keys (dget kvs k) = map_option sorted_keys (dget kws k)"
proof -
  have f: "dget (sort_key fst (sorted_fields d)) k = map_option sorted_keys (dget d k)" if "distinct (map fst d)" for d
    using that by (subst dget_sort_key) (simp_all only: keys_sorted_fields dget_sorted_fields)
  from assms(3) have "sort_key fst (sorted_fields kvs) = sort_key fst (sorted_fields kws)"
    unfolding sorted_keys_obj by simp
  then show ?thesis using f [OF assms(1)] f [OF assms(2)] by (simp only:)
qed

text \<open>An item up to the order of keys inside its field contents.\<close>

definition item_content :: "sync_plan_item \<Rightarrow> sync_plan_item" where
  "item_content i = i\<lparr>it_matched_object_id := sorted_keys (it_matched_object_id i),
     it_before := map (map_prod id sorted_keys) (it_before i), it_after := map (map_prod id sorted_keys) (it_after i)\<rparr>"

definition plan_content :: "sync_plan \<Rightarrow> sync_plan" where
  "plan_content p = p\<lparr>sy_items := map item_content (sort_key item_key (sy_items p))\<rparr>"

definition item_printable :: "sync_plan_item \<Rightarrow> bool" where
  "item_printable i \<longleftrightarrow> printable (it_matched_object_id i)
     \<and> (\<forall>kv \<in> set (it_before i @ it_after i). printable (snd kv))"

lemma action_value_inject [simp]: "action_value a = action_value b \<longleftrightarrow> a = b"
  by (cases a; cases b; simp add: action_value_def)

lemma pairs_json_content:
  "sorted_keys (pairs_json kvs) = sorted_keys (pairs_json kws) \<Longrightarrow>
     map (map_prod id sorted_keys) kvs = map (map_prod id sorted_keys) kws"
proof (induction kvs arbitrary: kws)
  case Nil
  then show ?case by (simp add: pairs_json_def)
next
  case (Cons kv kvs)
  then obtain kw kws' where kws: "kws = kw # kws'" by (cases kws) (simp_all add: pairs_json_def)
  obtain k v where kv: "kv = (k, v)" by (cases kv)
  obtain k' w where kw: "kw = (k', w)" by (cases kw)
  from Cons.prems kws kv kw have "k = k'" "sorted_keys v = sorted_keys w"
    "sorted_keys (pairs_json kvs) = sorted_keys (pairs_json kws')" by (simp_all add: pairs_json_def)
  with Cons.IH kws kv kw show ?case by simp
qed

lemma item_json_content:
  assumes "sorted_keys (item_json i) = sorted_keys (item_json j)"
  shows "item_content i = item_content j"
proof -
  note f = sorted_keys_fields [OF _ _ assms [unfolded item_json_def]]
  have "it_object_kind i = it_object_kind j" using f [of "''object_kind''"] by simp
  moreover have "it_external_id i = it_external_id j" using f [of "''external_id''"] by simp
  moreover have "it_name i = it_name j" using f [of "''name''"] by simp
  moreover have "it_action i = it_action j" using f [of "''action''"] by simp
  moreover have "it_reason_code i = it_reason_code j" using f [of "''reason_code''"] by simp
  moreover have "it_reason i = it_reason j" using f [of "''reason''"] by simp
  moreover have "sorted_keys (it_matched_object_id i) = sorted_keys (it_matched_object_id j)"
    using f [of "''matched_object_id''"] by simp
  moreover have "map (map_prod id sorted_keys) (it_before i) = map (map_prod id sorted_keys) (it_before j)"
    by (rule pairs_json_content) (use f [of "''before''"] in simp)
  moreover have "map (map_prod id sorted_keys) (it_after i) = map (map_prod id sorted_keys) (it_after j)"
    by (rule pairs_json_content) (use f [of "''after''"] in simp)
  ultimately show ?thesis by (simp add: item_content_def)
qed

lemma canonical_dict_content:
  assumes "sorted_keys (canonical_dict p) = sorted_keys (canonical_dict q)"
  shows "plan_content p = plan_content q \<and> apply_allowed p = apply_allowed q"
proof -
  note f = sorted_keys_fields [OF _ _ assms [unfolded canonical_dict_def]]
  have "sy_source_instance p = sy_source_instance q" using f [of "''source_instance''"] by simp
  moreover have "sy_source_id p = sy_source_id q" using f [of "''source_id''"] by simp
  moreover have "sy_source_type p = sy_source_type q" using f [of "''source_type''"] by simp
  moreover have "sy_source_fingerprint p = sy_source_fingerprint q" using f [of "''source_fingerprint''"] by simp
  moreover have "sy_target_fingerprint p = sy_target_fingerprint q" using f [of "''target_fingerprint''"] by simp
  moreover have "sy_provider_fingerprint p = sy_provider_fingerprint q" using f [of "''provider_fingerprint''"] by simp
  moreover have "sy_netbox_fingerprint p = sy_netbox_fingerprint q" using f [of "''netbox_fingerprint''"] by simp
  moreover have "sy_schema_version p = sy_schema_version q" using f [of "''schema_version''"] by simp
  moreover have "sy_planner_version p = sy_planner_version q" using f [of "''planner_version''"] by simp
  moreover have "apply_allowed p = apply_allowed q" using f [of "''apply_allowed''"] by simp
  moreover have "map item_content (sort_key item_key (sy_items p)) = map item_content (sort_key item_key (sy_items q))"
  proof -
    have "map (sorted_keys \<circ> item_json) (sort_key item_key (sy_items p))
        = map (sorted_keys \<circ> item_json) (sort_key item_key (sy_items q))"
      using f [of "''items''"] by simp
    then have "list_all2 (\<lambda>i j. sorted_keys (item_json i) = sorted_keys (item_json j))
        (sort_key item_key (sy_items p)) (sort_key item_key (sy_items q))"
      unfolding list.rel_eq [symmetric] list.rel_map comp_def .
    then have "list_all2 (\<lambda>i j. item_content i = item_content j)
        (sort_key item_key (sy_items p)) (sort_key item_key (sy_items q))"
      by (rule list.rel_mono_strong) (rule item_json_content)
    then show ?thesis unfolding list.rel_eq [symmetric] list.rel_map .
  qed
  ultimately show ?thesis by (simp add: plan_content_def)
qed

lemma printable_pairs_json: "printable (pairs_json d) \<longleftrightarrow> (\<forall>kv \<in> set d. printable (snd kv))"
  by (simp add: pairs_json_def case_prod_beta)

lemma printable_item_json: "item_printable i \<Longrightarrow> printable (item_json i)"
  by (simp add: item_printable_def item_json_def printable_pairs_json)

lemma printable_canonical_dict: "\<forall>i \<in> set (sy_items p). item_printable i \<Longrightarrow> printable (canonical_dict p)"
  by (auto simp: canonical_dict_def printable_item_json)

section \<open>Properties\<close>

text \<open>C12: The digest an operator confirms binds the whole plan.  Two plans with the same digest have the
  same source, fingerprints, versions and permission to apply and the same items with the same field
  contents, up to the order of the items and of the keys inside a content - or the two canonical texts are
  a collision of the hash.\<close>

theorem digest_binds_plan:
  assumes "plan_digest H p = plan_digest H q"
    and "\<forall>i \<in> set (sy_items p @ sy_items q). item_printable i"
  shows "(plan_content p = plan_content q \<and> apply_allowed p = apply_allowed q)
    \<or> (canonical_json p \<noteq> canonical_json q \<and> H (canonical_json p) = H (canonical_json q))"
proof (cases "canonical_json p = canonical_json q")
  case True
  have "printable (canonical_dict p)" "printable (canonical_dict q)"
    using assms(2) by (simp_all add: printable_canonical_dict)
  from canonical_dict_content [OF dumps_inject [OF this True [unfolded canonical_json_def]]] show ?thesis ..
next
  case False
  with assms(1) show ?thesis by (simp add: plan_digest_def)
qed

definition sample_plan_item :: sync_plan_item where
  "sample_plan_item = \<lparr>it_object_kind = ''dcim.devices'', it_external_id = ''n1'', it_name = ''n1'',
     it_action = Act_UPDATE, it_reason_code = ''GUARDED_EXECUTOR_ACTION'', it_reason = ''r'',
     it_matched_object_id = JInt 7, it_before = [(''vcpus'', JFloat ''1.0'' 1)], it_after = [(''vcpus'', JFloat ''2.0'' 2)]\<rparr>"

definition sample_plan :: "sync_plan_item list \<Rightarrow> sync_plan" where
  "sample_plan items = \<lparr>sy_source_instance = ''pve-a'', sy_source_id = ''s1'', sy_source_type = ''proxmox'',
     sy_source_fingerprint = ''f'', sy_target_fingerprint = ''t'', sy_provider_fingerprint = ''p'',
     sy_netbox_fingerprint = ''n'', sy_items = items, sy_schema_version = 1, sy_planner_version = PLANNER_VERSION\<rparr>"

theorem digest_binds_plan_witness:
  "plan_content (sample_plan [retain_item sample_source, sample_plan_item])
     = plan_content (sample_plan [sample_plan_item, retain_item sample_source])"
proof -
  let ?p = "sample_plan [retain_item sample_source, sample_plan_item]"
  let ?q = "sample_plan [sample_plan_item, retain_item sample_source]"
  have order: "sort_key item_key [retain_item sample_source, sample_plan_item]
      = sort_key item_key [sample_plan_item, retain_item sample_source]" by code_simp
  have allowed: "apply_allowed ?p = apply_allowed ?q" by (auto simp: apply_allowed_def sample_plan_def)
  have same: "canonical_json ?p = canonical_json ?q"
    unfolding canonical_json_def canonical_dict_def allowed by (simp only: sample_plan_def sync_plan.select_convs order)
  have "item_printable sample_plan_item" "item_printable (retain_item sample_source)"
    unfolding item_printable_def by code_simp+
  with digest_binds_plan [of "\<lambda>t. t" ?p ?q] same show ?thesis
    by (auto simp: plan_digest_def sample_plan_def)
qed

end
