(* ===== verification/RunHistory.thy ===== *)
theory RunHistory
  imports Scheduling
begin

text \<open>
  The run history (netbox_sync/run_history.py).  The table sync_runs is the list of its rows; the SQL
  statements of the repository act on it as PostgreSQL runs them: INSERT refuses a used primary key, UPDATE
  and SELECT work on the rows their WHERE clause names.  Run ids are the numbers of UUIDs, which PostgreSQL
  orders numerically; instants are microseconds.  The clock and uuid4 are arguments.
\<close>

section \<open>Closed vocabularies\<close>

datatype run_status = RUNNING | SUCCEEDED | FAILED_BEFORE_WRITE | PARTIALLY_APPLIED | OUTCOME_UNCERTAIN
  | BLOCKED | LOCKED | FAILED

datatype run_trigger = MANUAL | SCHEDULED

definition run_trigger_of :: "string \<Rightarrow> run_trigger res" where
  "run_trigger_of v =
     (if v = ''manual'' then Inr MANUAL else if v = ''scheduled'' then Inr SCHEDULED
      else Inl (ValueError ''is not a valid RunTrigger''))"

definition ERROR_STATUS :: "(string \<times> run_status) list" where
  "ERROR_STATUS = [(''APPLY_LOCKED'', LOCKED), (''PLAN_BLOCKED'', BLOCKED),
     (''FAILED_BEFORE_WRITE'', FAILED_BEFORE_WRITE), (''PARTIALLY_APPLIED'', PARTIALLY_APPLIED),
     (''OUTCOME_UNCERTAIN'', OUTCOME_UNCERTAIN)]"

definition SAFE_ERROR_MESSAGES :: "(string \<times> string) list" where
  "SAFE_ERROR_MESSAGES =
     [(''APPLY_LOCKED'', ''Another synchronization is already running.''),
      (''PLAN_BLOCKED'', ''The synchronization plan contains blocking conditions.''),
      (''PLAN_STALE'', ''The synchronization plan is no longer current.''),
      (''CONFIRMATION_EXPIRED'', ''The synchronization confirmation expired.''),
      (''CONFIRMATION_INVALID'', ''The synchronization confirmation is invalid.''),
      (''CONFIRMATION_SOURCE_MISMATCH'', ''The confirmation does not match this source.''),
      (''FAILED_BEFORE_WRITE'', ''Synchronization failed before any changes were written.''),
      (''PARTIALLY_APPLIED'', ''Synchronization stopped after some changes were written.''),
      (''OUTCOME_UNCERTAIN'', ''The final NetBox state may be uncertain.''),
      (''APPLY_FAILED'', ''Synchronization failed.'')]"

text \<open>An error code is what \<open>getattr(exc, 'code', None)\<close> yields: \<open>None\<close> when there is none.\<close>

definition terminal_status :: "string option \<Rightarrow> run_status" where
  "terminal_status code =
     (case code of None \<Rightarrow> FAILED
      | Some c \<Rightarrow> (case dget ERROR_STATUS c of None \<Rightarrow> FAILED | Some st \<Rightarrow> st))"

definition safe_error_code :: "string option \<Rightarrow> string" where
  "safe_error_code code =
     (case code of None \<Rightarrow> ''APPLY_FAILED''
      | Some c \<Rightarrow> if dget SAFE_ERROR_MESSAGES c = None then ''APPLY_FAILED'' else c)"

definition safe_error_message :: "string \<Rightarrow> string" where
  "safe_error_message code =
     (case dget SAFE_ERROR_MESSAGES code of None \<Rightarrow> ''Synchronization failed.'' | Some m \<Rightarrow> m)"

section \<open>Counts\<close>

record action_counts =
  ac_create :: int
  ac_update :: int
  ac_no_change :: int
  ac_review_required :: int
  ac_blocked :: int
  ac_ignored :: int
  ac_unsupported :: int
  ac_retain_only :: int

definition no_actions :: action_counts where
  "no_actions = \<lparr>ac_create = 0, ac_update = 0, ac_no_change = 0, ac_review_required = 0, ac_blocked = 0,
     ac_ignored = 0, ac_unsupported = 0, ac_retain_only = 0\<rparr>"

text \<open>An item is represented by the text of its action; texts outside ACTION_NAMES are not counted.\<close>

definition count_action :: "action_counts \<Rightarrow> string \<Rightarrow> action_counts" where
  "count_action c action =
     (if action = ''CREATE'' then c\<lparr>ac_create := ac_create c + 1\<rparr>
      else if action = ''UPDATE'' then c\<lparr>ac_update := ac_update c + 1\<rparr>
      else if action = ''NO_CHANGE'' then c\<lparr>ac_no_change := ac_no_change c + 1\<rparr>
      else if action = ''REVIEW_REQUIRED'' then c\<lparr>ac_review_required := ac_review_required c + 1\<rparr>
      else if action = ''BLOCKED'' then c\<lparr>ac_blocked := ac_blocked c + 1\<rparr>
      else if action = ''IGNORED'' then c\<lparr>ac_ignored := ac_ignored c + 1\<rparr>
      else if action = ''UNSUPPORTED'' then c\<lparr>ac_unsupported := ac_unsupported c + 1\<rparr>
      else if action = ''RETAIN_ONLY'' then c\<lparr>ac_retain_only := ac_retain_only c + 1\<rparr>
      else c)"

definition counts_from_items :: "string list \<Rightarrow> action_counts" where
  "counts_from_items actions = foldl count_action no_actions actions"

definition count_values :: "action_counts \<Rightarrow> int list" where
  "count_values c = [ac_create c, ac_update c, ac_no_change c, ac_review_required c, ac_blocked c, ac_ignored c,
     ac_unsupported c, ac_retain_only c]"

section \<open>Rows\<close>

record sync_run =
  sr_run_id :: int
  sr_source_instance :: string
  sr_source_type :: string
  sr_trigger :: run_trigger
  sr_started_at :: int
  sr_finished_at :: "int option"
  sr_duration_ms :: "int option"
  sr_status :: run_status
  sr_plan_digest :: "string option"
  sr_planner_version :: "string option"
  sr_counts :: action_counts
  sr_error_code :: "string option"
  sr_error_message_safe :: "string option"
  sr_created_by :: string

type_synonym run_table = "sync_run list"

definition digest_ok :: "string \<Rightarrow> bool" where
  "digest_ok d \<longleftrightarrow> length d = 64
     \<and> list_all (\<lambda>c. (CHR ''a'' \<le> c \<and> c \<le> CHR ''f'') \<or> (CHR ''0'' \<le> c \<and> c \<le> CHR ''9'')) d"

definition validate_source :: "string \<Rightarrow> string \<Rightarrow> unit res" where
  "validate_source source_instance source_type =
     (if \<not> source_instance_ok source_instance then Inl (ValueError ''invalid source_instance'')
      else if source_type \<noteq> ''proxmox'' \<and> source_type \<noteq> ''esxi'' then Inl (ValueError ''invalid source_type'')
      else Inr ())"

definition validate_plan :: "string option \<Rightarrow> string option \<Rightarrow> unit res" where
  "validate_plan plan_digest planner_version =
     (if (case plan_digest of None \<Rightarrow> False | Some d \<Rightarrow> \<not> digest_ok d)
      then Inl (ValueError ''invalid plan_digest'')
      else if (case planner_version of None \<Rightarrow> False | Some v \<Rightarrow> 128 < length v)
      then Inl (ValueError ''invalid planner_version'')
      else Inr ())"

section \<open>Operations\<close>

definition insert_run :: "sync_run \<Rightarrow> (run_table, sync_run) io" where
  "insert_run r = (\<lambda>rows.
     if sr_run_id r \<in> set (map sr_run_id rows) then (Inl (CodedError ''psycopg'' ''UniqueViolation''), rows)
     else (Inr r, rows @ [r]))"

definition start_run ::
    "int \<Rightarrow> int \<Rightarrow> string \<Rightarrow> string \<Rightarrow> string \<Rightarrow> string \<Rightarrow> string option \<Rightarrow> string option
       \<Rightarrow> (run_table, sync_run) io" where
  "start_run identifier started source_instance source_type trigger created_by plan_digest planner_version =
     io_bind (io_lift (validate_source source_instance source_type)) (\<lambda>_.
     io_bind (io_lift (run_trigger_of trigger)) (\<lambda>tr.
     if created_by = [] \<or> 128 < length created_by then io_raise (ValueError ''invalid created_by'')
     else io_bind (io_lift (validate_plan plan_digest planner_version)) (\<lambda>_.
       insert_run \<lparr>sr_run_id = identifier, sr_source_instance = source_instance, sr_source_type = source_type,
         sr_trigger = tr, sr_started_at = started, sr_finished_at = None, sr_duration_ms = None,
         sr_status = RUNNING, sr_plan_digest = plan_digest, sr_planner_version = planner_version,
         sr_counts = no_actions, sr_error_code = None, sr_error_message_safe = None,
         sr_created_by = created_by\<rparr>)))"

definition finish_row ::
    "int \<Rightarrow> run_status \<Rightarrow> action_counts \<Rightarrow> string option \<Rightarrow> string option \<Rightarrow> string option \<Rightarrow> string option
       \<Rightarrow> sync_run \<Rightarrow> sync_run" where
  "finish_row finished status counts plan_digest planner_version error_code error_message_safe r =
     r\<lparr>sr_finished_at := Some finished,
       sr_duration_ms := Some (max 0 ((finished - sr_started_at r) div 1000)),
       sr_status := status,
       sr_plan_digest := (case plan_digest of None \<Rightarrow> sr_plan_digest r | Some d \<Rightarrow> Some d),
       sr_planner_version := (case planner_version of None \<Rightarrow> sr_planner_version r | Some v \<Rightarrow> Some v),
       sr_counts := counts, sr_error_code := error_code, sr_error_message_safe := error_message_safe\<rparr>"

definition update_running :: "int \<Rightarrow> (sync_run \<Rightarrow> sync_run) \<Rightarrow> (run_table, sync_run) io" where
  "update_running identifier f = (\<lambda>rows.
     let hit = (\<lambda>r. sr_run_id r = identifier \<and> sr_status r = RUNNING)
     in (case filter hit rows of
           [] \<Rightarrow> (Inl (ValueError ''run is missing or already terminal''), rows)
         | r # _ \<Rightarrow> (Inr (f r), map (\<lambda>r. if hit r then f r else r) rows)))"

definition validate_error :: "string option \<Rightarrow> string option \<Rightarrow> unit res" where
  "validate_error error_code error_message_safe =
     (case error_code of
        Some code \<Rightarrow>
          if dget SAFE_ERROR_MESSAGES code = None then Inl (ValueError ''invalid error_code'')
          else if error_message_safe \<noteq> Some (safe_error_message code)
          then Inl (ValueError ''invalid safe error message'')
          else Inr ()
      | None \<Rightarrow> if error_message_safe \<noteq> None
                then Inl (ValueError ''safe error message requires an error code'') else Inr ())"

definition finish_run ::
    "int \<Rightarrow> int \<Rightarrow> run_status \<Rightarrow> action_counts option \<Rightarrow> string option \<Rightarrow> string option \<Rightarrow> string option
       \<Rightarrow> string option \<Rightarrow> (run_table, sync_run) io" where
  "finish_run identifier finished status counts plan_digest planner_version error_code error_message_safe =
     (if status = RUNNING then io_raise (ValueError ''terminal status required'')
      else
        let totals = (case counts of None \<Rightarrow> no_actions | Some c \<Rightarrow> c) in
        if list_ex (\<lambda>v. v < 0) (count_values totals)
        then io_raise (ValueError ''counts must be non-negative integers'')
        else io_bind (io_lift (validate_plan plan_digest planner_version)) (\<lambda>_.
             io_bind (io_lift (validate_error error_code error_message_safe)) (\<lambda>_.
               update_running identifier (finish_row finished status totals plan_digest planner_version
                 error_code error_message_safe))))"

definition get_run :: "int \<Rightarrow> (run_table, sync_run option) io" where
  "get_run identifier = io_read (\<lambda>rows. Inr (find (\<lambda>r. sr_run_id r = identifier) rows))"

definition run_key :: "sync_run \<Rightarrow> int \<times> int" where
  "run_key r = (sr_started_at r, sr_run_id r)"

definition newest_first :: "run_table \<Rightarrow> run_table" where
  "newest_first rows = rev (sort_key run_key rows)"

record run_filter =
  rf_source_instance :: "string option"
  rf_source_type :: "string option"
  rf_trigger :: "run_trigger option"
  rf_status :: "run_status option"

definition filter_matches :: "run_filter \<Rightarrow> sync_run \<Rightarrow> bool" where
  "filter_matches f r \<longleftrightarrow>
     (case rf_source_instance f of None \<Rightarrow> True | Some i \<Rightarrow> sr_source_instance r = i)
     \<and> (case rf_source_type f of None \<Rightarrow> True | Some t \<Rightarrow> sr_source_type r = t)
     \<and> (case rf_trigger f of None \<Rightarrow> True | Some t \<Rightarrow> sr_trigger r = t)
     \<and> (case rf_status f of None \<Rightarrow> True | Some st \<Rightarrow> sr_status r = st)"

text \<open>The row comparison with the cursor's subquery; an unknown cursor yields NULL, hence no row.\<close>

definition before_cursor :: "run_table \<Rightarrow> int option \<Rightarrow> sync_run \<Rightarrow> bool" where
  "before_cursor rows cursor r =
     (case cursor of None \<Rightarrow> True
      | Some c \<Rightarrow> (case find (\<lambda>x. sr_run_id x = c) rows of
            None \<Rightarrow> False | Some x \<Rightarrow> run_key r < run_key x))"

definition list_runs :: "run_filter \<Rightarrow> int \<Rightarrow> int option \<Rightarrow> (run_table, sync_run list) io" where
  "list_runs f limit cursor =
     (if \<not> (1 \<le> limit \<and> limit \<le> 200) then io_raise (ValueError ''limit must be between 1 and 200'')
      else if (case rf_source_instance f of None \<Rightarrow> False | Some i \<Rightarrow> \<not> source_instance_ok i)
      then io_raise (ValueError ''invalid source_instance'')
      else if (case rf_source_type f of None \<Rightarrow> False | Some t \<Rightarrow> t \<noteq> ''proxmox'' \<and> t \<noteq> ''esxi'')
      then io_raise (ValueError ''invalid source_type'')
      else io_read (\<lambda>rows. Inr (take (nat limit)
             (filter (\<lambda>r. filter_matches f r \<and> before_cursor rows cursor r) (newest_first rows)))))"

text \<open>DISTINCT ON (source_instance), ordered by instance and then newest first.\<close>

fun distinct_on :: "('a \<Rightarrow> 'b) \<Rightarrow> 'a list \<Rightarrow> 'a list" where
  "distinct_on key [] = []"
| "distinct_on key (x # xs) = x # distinct_on key (filter (\<lambda>y. key y \<noteq> key x) xs)"

definition latest_by_source :: "run_trigger option \<Rightarrow> run_status option \<Rightarrow> (run_table, sync_run list) io" where
  "latest_by_source trigger status = io_read (\<lambda>rows.
     Inr (sort_key sr_source_instance (distinct_on sr_source_instance
       (filter (filter_matches \<lparr>rf_source_instance = None, rf_source_type = None, rf_trigger = trigger,
                                rf_status = status\<rparr>) (newest_first rows)))))"

definition stale_running :: "int \<Rightarrow> int \<Rightarrow> (run_table, sync_run list) io" where
  "stale_running started_before limit =
     (if \<not> (1 \<le> limit \<and> limit \<le> 100) then io_raise (ValueError ''valid stale boundary and limit required'')
      else io_read (\<lambda>rows. Inr (take (nat limit)
        (filter (\<lambda>r. sr_status r = RUNNING \<and> sr_started_at r < started_before) (sort_key run_key rows)))))"

section \<open>Runs of the repository\<close>

inductive run_step :: "run_table \<Rightarrow> run_table \<Rightarrow> bool" where
  start: "run_step rows (snd (start_run i now inst ty tr by d v rows))"
| finish: "run_step rows (snd (finish_run i now st cs d v ec em rows))"

text \<open>The CHECK constraints of the table (migrations/versions/0002_sync_run_history.py).\<close>

definition row_ok :: "sync_run \<Rightarrow> bool" where
  "row_ok r \<longleftrightarrow> sr_source_type r \<in> {''proxmox'', ''esxi''} \<and> source_instance_ok (sr_source_instance r)
     \<and> (\<forall>d. sr_plan_digest r = Some d \<longrightarrow> digest_ok d)
     \<and> (\<forall>v. sr_planner_version r = Some v \<longrightarrow> length v \<le> 128)
     \<and> (\<forall>c. sr_error_code r = Some c \<longrightarrow> c \<in> set (map fst SAFE_ERROR_MESSAGES))
     \<and> (\<forall>m. sr_error_message_safe r = Some m \<longrightarrow> length m \<le> 256)
     \<and> sr_created_by r \<noteq> [] \<and> length (sr_created_by r) \<le> 128
     \<and> (sr_status r = RUNNING \<longleftrightarrow> sr_finished_at r = None) \<and> (sr_status r = RUNNING \<longleftrightarrow> sr_duration_ms r = None)
     \<and> (\<forall>d. sr_duration_ms r = Some d \<longrightarrow> 0 \<le> d)
     \<and> list_all (\<lambda>v. 0 \<le> v) (count_values (sr_counts r))"

definition table_ok :: "run_table \<Rightarrow> bool" where
  "table_ok rows \<longleftrightarrow> distinct (map sr_run_id rows) \<and> (\<forall>r \<in> set rows. row_ok r)"

lemma validate_plan_Inr: "validate_plan d v = Inr u \<longleftrightarrow>
    (\<forall>x. d = Some x \<longrightarrow> digest_ok x) \<and> (\<forall>x. v = Some x \<longrightarrow> length x \<le> 128)"
  by (auto simp: validate_plan_def split: option.splits)

lemma safe_messages_short: "list_all (\<lambda>(c, m). length m \<le> 256) SAFE_ERROR_MESSAGES"
  by code_simp

lemma validate_error_Inr: "validate_error ec em = Inr u \<Longrightarrow>
    (\<forall>c. ec = Some c \<longrightarrow> c \<in> set (map fst SAFE_ERROR_MESSAGES)) \<and> (\<forall>m. em = Some m \<longrightarrow> length m \<le> 256)"
  using safe_messages_short
  by (auto simp: validate_error_def safe_error_message_def list_all_iff dget_None_iff
      split: option.splits if_splits dest!: dget_Some_mem simp del: set_map)

lemma start_run_cases:
  obtains (raised) e where "start_run i now inst ty tr by d v rows = (Inl e, rows)"
  | (inserted) r where "start_run i now inst ty tr by d v rows = (Inr r, rows @ [r])"
      "i \<notin> set (map sr_run_id rows)" "sr_run_id r = i" "row_ok r" "sr_status r = RUNNING"
proof -
  obtain x t where run: "start_run i now inst ty tr by d v rows = (x, t)" by (cases "start_run i now inst ty tr by d v rows")
  show ?thesis
  proof (cases x)
    case (Inl e)
    with run have "t = rows"
      by (auto simp: start_run_def io_bind_Inl io_lift_def io_raise_def insert_run_def split: if_splits)
    with run Inl show ?thesis by (simp add: raised)
  next
    case (Inr r)
    with run show ?thesis
      by (intro inserted [of r]) (auto simp: start_run_def io_bind_Inr io_lift_def io_raise_def insert_run_def
          validate_source_def validate_plan_Inr row_ok_def no_actions_def count_values_def split: if_splits)
  qed
qed

lemma finish_run_cases:
  obtains (raised) e where "finish_run i now st cs d v ec em rows = (Inl e, rows)"
  | (updated) f r where "finish_run i now st cs d v ec em rows = (Inr (f r), map (\<lambda>r. if sr_run_id r = i \<and> sr_status r = RUNNING then f r else r) rows)"
      "r \<in> set rows" "sr_run_id r = i" "sr_status r = RUNNING"
      "\<And>r. sr_run_id (f r) = sr_run_id r \<and> sr_started_at (f r) = sr_started_at r
         \<and> sr_source_instance (f r) = sr_source_instance r \<and> sr_trigger (f r) = sr_trigger r
         \<and> sr_status (f r) = st \<and> sr_counts (f r) = (case cs of None \<Rightarrow> no_actions | Some c \<Rightarrow> c)"
      "st \<noteq> RUNNING" "\<And>r. row_ok r \<Longrightarrow> row_ok (f r)"
proof -
  let ?totals = "case cs of None \<Rightarrow> no_actions | Some c \<Rightarrow> c"
  let ?f = "finish_row now st ?totals d v ec em"
  obtain x t where run: "finish_run i now st cs d v ec em rows = (x, t)"
    by (cases "finish_run i now st cs d v ec em rows")
  show ?thesis
  proof (cases x)
    case (Inl e)
    with run have "t = rows"
      by (auto simp: finish_run_def io_bind_Inl io_lift_def io_raise_def update_running_def Let_def
          split: if_splits list.splits)
    with run Inl show ?thesis by (simp add: raised)
  next
    case (Inr y)
    with run have st: "st \<noteq> RUNNING" and counts: "list_all (\<lambda>v. 0 \<le> v) (count_values ?totals)"
      and plan: "validate_plan d v = Inr ()" and err: "validate_error ec em = Inr ()"
      and upd: "update_running i ?f rows = (Inr y, t)"
      by (auto simp: finish_run_def io_bind_Inr io_lift_def io_raise_def Let_def list_all_iff list_ex_iff not_less
          split: if_splits)
    from upd obtain r rs where hit: "filter (\<lambda>r. sr_run_id r = i \<and> sr_status r = RUNNING) rows = r # rs"
      and y: "y = ?f r" and t: "t = map (\<lambda>r. if sr_run_id r = i \<and> sr_status r = RUNNING then ?f r else r) rows"
      by (auto simp: update_running_def Let_def split: list.splits)
    from hit have r: "r \<in> set rows" "sr_run_id r = i" "sr_status r = RUNNING"
      using filter_eq_ConsD [OF hit] by auto
    have ok: "row_ok (?f r)" if "row_ok r" for r
      using that st counts validate_error_Inr [OF err] plan
      by (auto simp: row_ok_def finish_row_def validate_plan_Inr simp del: set_map split: option.splits)
    show ?thesis
      by (rule updated [of ?f r]) (use run Inr y t r st ok in \<open>auto simp: finish_row_def\<close>)
  qed
qed

lemma run_step_ok: "run_step rows rows' \<Longrightarrow> table_ok rows \<Longrightarrow> table_ok rows'"
proof (induction rule: run_step.induct)
  case (start rows i now inst ty tr "by" d v)
  then show ?case by (cases rule: start_run_cases [of i now inst ty tr "by" d v rows]) (auto simp: table_ok_def)
next
  case (finish rows i now st cs d v ec em)
  show ?case
  proof (cases rule: finish_run_cases [of i now st cs d v ec em rows])
    case (updated f r)
    have "map sr_run_id (map (\<lambda>r. if sr_run_id r = i \<and> sr_status r = RUNNING then f r else r) rows) = map sr_run_id rows"
      using updated(5) by simp
    with finish updated(1,7) show ?thesis by (auto simp: table_ok_def simp del: map_map)
  qed (use finish in simp)
qed

text \<open>What later steps may do to a row.\<close>

definition row_kept :: "sync_run \<Rightarrow> sync_run \<Rightarrow> bool" where
  "row_kept r r' \<longleftrightarrow> sr_run_id r' = sr_run_id r \<and> sr_started_at r' = sr_started_at r
     \<and> sr_source_instance r' = sr_source_instance r \<and> sr_trigger r' = sr_trigger r
     \<and> (sr_status r \<noteq> RUNNING \<longrightarrow> r' = r)"

lemma run_step_kept: "run_step rows rows' \<Longrightarrow> r \<in> set rows \<Longrightarrow> \<exists>r' \<in> set rows'. row_kept r r'"
proof (induction rule: run_step.induct)
  case (start rows i now inst ty tr "by" d v)
  then show ?case
    by (cases rule: start_run_cases [of i now inst ty tr "by" d v rows]) (auto simp: row_kept_def)
next
  case (finish rows i now st cs d v ec em)
  show ?case
  proof (cases rule: finish_run_cases [of i now st cs d v ec em rows])
    case (updated f q)
    let ?r = "if sr_run_id r = i \<and> sr_status r = RUNNING then f r else r"
    have "row_kept r ?r" using updated(5) [of r] by (auto simp: row_kept_def)
    moreover have "?r \<in> set (map (\<lambda>r. if sr_run_id r = i \<and> sr_status r = RUNNING then f r else r) rows)"
      using finish unfolding set_map by (rule imageI)
    ultimately show ?thesis unfolding updated(1) snd_conv by blast
  qed (use finish in \<open>auto simp: row_kept_def\<close>)
qed

lemma row_kept_trans: "row_kept a b \<Longrightarrow> row_kept b c \<Longrightarrow> row_kept a c"
  by (auto simp: row_kept_def)

lemma sorted_desc_filter:
  assumes "sorted_wrt (\<lambda>x y. k y < k x) xs" and "n < length xs"
  shows "filter (\<lambda>x. k x < (k (xs ! n) :: 'k :: linorder)) xs = drop (Suc n) xs"
proof -
  have "\<not> k x < k (xs ! n)" if "x \<in> set (take (Suc n) xs)" for x
    using that assms by (force simp: in_set_conv_nth sorted_wrt_iff_nth_less less_Suc_eq)
  then have "filter (\<lambda>x. k x < k (xs ! n)) (take (Suc n) xs) = []" by (simp add: filter_empty_conv)
  moreover have "k x < k (xs ! n)" if "x \<in> set (drop (Suc n) xs)" for x
    using that assms by (auto simp: in_set_conv_nth sorted_wrt_iff_nth_less)
  then have "filter (\<lambda>x. k x < k (xs ! n)) (drop (Suc n) xs) = drop (Suc n) xs" by simp
  ultimately show ?thesis by (metis append_take_drop_id filter_append append_Nil)
qed

lemma newest_first_desc:
  assumes "distinct (map sr_run_id rows)"
  shows "sorted_wrt (\<lambda>x y. run_key y < run_key x) (newest_first rows)"
proof -
  have "distinct (map run_key rows)"
    using assms by (auto simp: distinct_map inj_on_def run_key_def)
  moreover have "mset (map run_key (sort_key run_key rows)) = mset (map run_key rows)" by simp
  ultimately have "distinct (map run_key (sort_key run_key rows))"
    by (metis mset_eq_imp_distinct_iff)
  then have "sorted_wrt (<) (map run_key (sort_key run_key rows))"
    by (simp add: strict_sorted_iff)
  then show ?thesis by (simp add: newest_first_def sorted_wrt_rev sorted_wrt_map)
qed

section \<open>Properties\<close>

text \<open>In every history the repository can produce, run ids are unique and every row meets the table's
  CHECK constraints: what the Python code validates is enough, and the database never has to refuse a row for
  another reason than a reused id.\<close>

theorem history_constraints:
  assumes "run_step\<^sup>*\<^sup>* [] rows"
  shows "table_ok rows"
  using assms by (induction rule: rtranclp_induct) (auto simp: table_ok_def [of "[]"] dest: run_step_ok)

definition sample_run :: run_table where
  "sample_run = snd (start_run 7 1000000 ''pve-a'' ''proxmox'' ''manual'' ''web/manual'' None None [])"

theorem history_constraints_witness: "table_ok sample_run \<and> map sr_run_id sample_run = [7]"
proof
  show "table_ok sample_run"
    unfolding sample_run_def by (rule history_constraints) (blast intro: run_step.start)
  show "map sr_run_id sample_run = [7]" by code_simp
qed

text \<open>C26: History is append-only.  Whatever happens later, a row keeps its id, its start, its source and
  its trigger, and once it is terminal it never changes again and is never deleted.\<close>

theorem history_immutable:
  assumes "run_step\<^sup>*\<^sup>* rows rows'" and "r \<in> set rows"
  shows "\<exists>r' \<in> set rows'. row_kept r r'"
  using assms(1)
proof (induction rule: rtranclp_induct)
  case base
  with assms(2) show ?case by (auto simp: row_kept_def)
next
  case (step y z)
  then obtain q where q: "q \<in> set y" "row_kept r q" by blast
  from run_step_kept [OF step(2) q(1)] obtain w where "w \<in> set z" "row_kept q w" by blast
  with row_kept_trans [OF q(2)] show ?case by blast
qed

theorem history_immutable_witness:
  "\<exists>r' \<in> set (snd (finish_run 7 2000000 SUCCEEDED None None None None None sample_run)). row_kept (hd sample_run) r'"
proof (rule history_immutable)
  show "run_step\<^sup>*\<^sup>* sample_run (snd (finish_run 7 2000000 SUCCEEDED None None None None None sample_run))"
    by (rule r_into_rtranclp) (rule run_step.finish)
  have "sample_run \<noteq> []" by code_simp
  then show "hd sample_run \<in> set sample_run" by simp
qed

text \<open>A failure can always be recorded, once.  For a run that is in progress, finishing it with the
  status, code and message derived from any error code succeeds, leaves it with a terminal status other than
  success, and a second attempt to finish it is refused.\<close>

theorem failure_recorded_once:
  assumes "table_ok rows" and "r \<in> set rows" and "sr_status r = RUNNING"
  shows "\<exists>r' rows'. finish_run (sr_run_id r) now (terminal_status code) None None None
             (Some (safe_error_code code)) (Some (safe_error_message (safe_error_code code))) rows = (Inr r', rows')
           \<and> sr_status r' \<noteq> RUNNING \<and> sr_status r' \<noteq> SUCCEEDED \<and> sr_error_code r' = Some (safe_error_code code)
           \<and> finish_run (sr_run_id r) now' status counts None None None None rows'
               = (Inl (if status = RUNNING then ValueError ''terminal status required''
                       else if list_ex (\<lambda>v. v < 0) (count_values (case counts of None \<Rightarrow> no_actions | Some c \<Rightarrow> c))
                       then ValueError ''counts must be non-negative integers''
                       else ValueError ''run is missing or already terminal''), rows')"
proof -
  have st: "terminal_status code \<noteq> RUNNING" "terminal_status code \<noteq> SUCCEEDED"
    by (auto simp: terminal_status_def ERROR_STATUS_def dget_def split: option.splits if_splits)
  have err: "validate_error (Some (safe_error_code code)) (Some (safe_error_message (safe_error_code code))) = Inr ()"
    by (cases code) (auto simp: validate_error_def safe_error_code_def SAFE_ERROR_MESSAGES_def dget_def)
  let ?hit = "\<lambda>q. sr_run_id q = sr_run_id r \<and> sr_status q = RUNNING"
  let ?f = "finish_row now (terminal_status code) no_actions None None (Some (safe_error_code code))
     (Some (safe_error_message (safe_error_code code)))"
  let ?rows' = "map (\<lambda>q. if ?hit q then ?f q else q) rows"
  obtain q qs where q: "filter ?hit rows = q # qs"
    using assms(2,3) by (metis (mono_tags, lifting) filter_empty_conv list.exhaust)
  have none: "\<not> list_ex (\<lambda>v. v < 0) (count_values no_actions)" by code_simp
  have fin: "finish_run (sr_run_id r) now (terminal_status code) None None None (Some (safe_error_code code))
      (Some (safe_error_message (safe_error_code code))) rows = (Inr (?f q), ?rows')"
    using st(1) err q none by (simp add: finish_run_def validate_plan_def io_bind_def io_lift_def update_running_def Let_def)
  have "filter ?hit ?rows' = []"
    using st(1) by (auto simp: filter_empty_conv finish_row_def)
  then have "update_running (sr_run_id r) g ?rows' = (Inl (ValueError ''run is missing or already terminal''), ?rows')" for g
    by (simp add: update_running_def)
  then have "finish_run (sr_run_id r) now' status counts None None None None ?rows'
      = (Inl (if status = RUNNING then ValueError ''terminal status required''
              else if list_ex (\<lambda>v. v < 0) (count_values (case counts of None \<Rightarrow> no_actions | Some c \<Rightarrow> c))
              then ValueError ''counts must be non-negative integers''
              else ValueError ''run is missing or already terminal''), ?rows')"
    by (simp add: finish_run_def validate_plan_def validate_error_def io_bind_def io_lift_def io_raise_def Let_def)
  with fin st show ?thesis by (intro exI [of _ "?f q"] exI [of _ ?rows']) (simp add: finish_row_def)
qed

lemma sample_run_ok: "table_ok sample_run"
  unfolding sample_run_def by (rule run_step_ok [OF run_step.start]) (simp add: table_ok_def)

theorem failure_recorded_once_witness:
  "\<exists>r' rows'. finish_run 7 2000000 (terminal_status (Some ''APPLY_LOCKED'')) None None None
      (Some (safe_error_code (Some ''APPLY_LOCKED''))) (Some (safe_error_message (safe_error_code (Some ''APPLY_LOCKED''))))
      sample_run = (Inr r', rows') \<and> sr_status r' \<noteq> RUNNING \<and> sr_status r' \<noteq> SUCCEEDED"
proof -
  have run: "sample_run \<noteq> []" "sr_run_id (hd sample_run) = 7" "sr_status (hd sample_run) = RUNNING" by code_simp+
  then have "hd sample_run \<in> set sample_run" by simp
  from failure_recorded_once [OF sample_run_ok this run(3), of 2000000 "Some ''APPLY_LOCKED''" 0 FAILED None] run(2)
  show ?thesis by (elim exE conjE) (intro exI conjI; simp)
qed

text \<open>Paging through the history neither repeats nor skips a run: the page that follows a page,
  asked for with its last run as cursor, continues the newest-first list of matching runs.\<close>

theorem history_paging:
  assumes "table_ok rows" and "fst (list_runs f n None rows) = Inr page" and "page \<noteq> []"
    and "fst (list_runs f m (Some (sr_run_id (last page))) rows) = Inr page'"
  shows "page @ page' = take (length page + nat m) (filter (filter_matches f) (newest_first rows))"
proof -
  let ?all = "filter (filter_matches f) (newest_first rows)"
  have d: "distinct (map sr_run_id rows)" using assms(1) by (simp add: table_ok_def)
  have page: "page = take (nat n) ?all"
    using assms(2) by (auto simp: list_runs_def io_raise_def io_read_def before_cursor_def split: if_splits option.splits)
  let ?k = "length page - 1"
  have suc: "Suc ?k = length page" using assms(3) by (cases page) simp_all
  have k3: "page = take (Suc ?k) ?all" unfolding suc using page by (metis append_eq_conv_conj append_take_drop_id)
  have k1: "?k < length ?all" using suc page by (metis Suc_le_lessD length_take min.cobounded1)
  have "last page = page ! ?k" using assms(3) by (rule last_conv_nth)
  also have "\<dots> = ?all ! ?k" using page suc by (metis lessI nth_take length_take min_less_iff_conj)
  finally have k2: "last page = ?all ! ?k" .
  note k = k1 k2 k3
  have desc: "sorted_wrt (\<lambda>x y. run_key y < run_key x) ?all"
    by (rule sorted_wrt_filter) (rule newest_first_desc [OF d])
  have "last page \<in> set rows"
    using k(1) unfolding k(2) by (metis (no_types, lifting) filter_is_subset newest_first_def nth_mem set_rev set_sort subsetD)
  then have find: "find (\<lambda>x. sr_run_id x = sr_run_id (last page)) rows = Some (last page)"
    using d by (induction rows) auto
  have "page' = take (nat m) (filter (\<lambda>r. filter_matches f r \<and> run_key r < run_key (last page)) (newest_first rows))"
    using assms(4) find by (auto simp: list_runs_def io_raise_def io_read_def before_cursor_def split: if_splits option.splits)
  also have "filter (\<lambda>r. filter_matches f r \<and> run_key r < run_key (last page)) (newest_first rows)
      = filter (\<lambda>r. run_key r < run_key (?all ! ?k)) ?all"
    unfolding k(2) filter_filter by (rule filter_cong) auto
  also have "\<dots> = drop (Suc ?k) ?all" by (rule sorted_desc_filter [OF desc k(1)])
  finally have "page @ page' = take (Suc ?k) ?all @ take (nat m) (drop (Suc ?k) ?all)" using k(3) by simp
  also have "\<dots> = take (Suc ?k + nat m) ?all" by (rule take_add [symmetric])
  finally show ?thesis unfolding suc .
qed

definition sample_two_runs :: run_table where
  "sample_two_runs = snd (start_run 8 5000000 ''pve-a'' ''proxmox'' ''scheduled'' ''system/scheduler'' None None sample_run)"

definition any_run :: run_filter where
  "any_run = \<lparr>rf_source_instance = None, rf_source_type = None, rf_trigger = None, rf_status = None\<rparr>"

theorem history_paging_witness:
  "\<exists>page page'. fst (list_runs any_run 1 None sample_two_runs) = Inr page \<and> map sr_run_id page = [8]
     \<and> fst (list_runs any_run 1 (Some 8) sample_two_runs) = Inr page' \<and> map sr_run_id page' = [7]
     \<and> page @ page' = take 2 (filter (filter_matches any_run) (newest_first sample_two_runs))"
proof -
  have "case fst (list_runs any_run 1 None sample_two_runs) of Inl e \<Rightarrow> False | Inr p \<Rightarrow> map sr_run_id p = [8]"
    by code_simp
  then obtain page where page: "fst (list_runs any_run 1 None sample_two_runs) = Inr page" "map sr_run_id page = [8]"
    by (auto split: sum.splits)
  have "case fst (list_runs any_run 1 (Some 8) sample_two_runs) of Inl e \<Rightarrow> False | Inr p \<Rightarrow> map sr_run_id p = [7]"
    by code_simp
  then obtain page' where page': "fst (list_runs any_run 1 (Some 8) sample_two_runs) = Inr page'" "map sr_run_id page' = [7]"
    by (auto split: sum.splits)
  have len: "length page = 1" "page \<noteq> []" "sr_run_id (last page) = 8" using page(2) by (cases page; simp)+
  have ok: "table_ok sample_two_runs"
    unfolding sample_two_runs_def by (rule run_step_ok [OF run_step.start sample_run_ok])
  have "page @ page' = take (length page + nat 1) (filter (filter_matches any_run) (newest_first sample_two_runs))"
    by (rule history_paging [OF ok page(1) len(2)]) (simp add: len(3) page'(1))
  with page page' len(1) show ?thesis by (intro exI conjI) (simp_all add: numeral_2_eq_2)
qed

end
