(* ===== verification/Orchestrator.thy ===== *)
theory Orchestrator
  imports RunHistory
begin

text \<open>
  The sequential orchestration of several sources (netbox_sync/orchestrator.py).  The run repository and the
  executor are arguments, as they are of \<open>run_sources\<close>; a repository is the record of the operations the
  orchestrator and the scheduler call on it, acting on the state of the world.  The clock cannot fail.
\<close>

record 's run_repository =
  rp_start :: "string \<Rightarrow> string \<Rightarrow> string \<Rightarrow> string \<Rightarrow> ('s, sync_run) io"
  rp_finish :: "int \<Rightarrow> run_status \<Rightarrow> action_counts option \<Rightarrow> string option \<Rightarrow> string option
     \<Rightarrow> string option \<Rightarrow> string option \<Rightarrow> ('s, sync_run) io"
  rp_latest :: "run_trigger option \<Rightarrow> run_status option \<Rightarrow> ('s, sync_run list) io"

type_synonym 's clock = "'s \<Rightarrow> int \<times> 's"

definition now :: "'s clock \<Rightarrow> ('s, int) io" where
  "now clock = (\<lambda>s. case clock s of (i, t) \<Rightarrow> (Inr i, t))"

section \<open>Exceptions seen from outside\<close>

definition is_exception :: "py_exn \<Rightarrow> bool" where
  "is_exception e \<longleftrightarrow> e \<noteq> SystemExit \<and> e \<noteq> KeyboardInterrupt"

definition exception_or_exit :: "py_exn \<Rightarrow> bool" where
  "exception_or_exit e \<longleftrightarrow> e \<noteq> KeyboardInterrupt"

text \<open>\<open>getattr(exc, 'code', None)\<close>; the code of a \<open>SystemExit\<close> is a number, never an allowlisted text.\<close>

definition exn_code :: "py_exn \<Rightarrow> string option" where
  "exn_code e = (case e of CodedError cls code \<Rightarrow> Some code | _ \<Rightarrow> None)"

definition exn_type_name :: "py_exn \<Rightarrow> string" where
  "exn_type_name e = (case e of
       ValueError m \<Rightarrow> ''ValueError'' | TypeError m \<Rightarrow> ''TypeError'' | KeyError m \<Rightarrow> ''KeyError''
     | AttributeError m \<Rightarrow> ''AttributeError'' | AssertionError m \<Rightarrow> ''AssertionError''
     | RuntimeError m \<Rightarrow> ''RuntimeError'' | OverflowError m \<Rightarrow> ''OverflowError''
     | HostApplyError m \<Rightarrow> ''HostApplyError'' | VMApplyError m \<Rightarrow> ''VMApplyError''
     | VMNetworkApplyError m \<Rightarrow> ''VMNetworkApplyError'' | LXCApplyError m \<Rightarrow> ''LXCApplyError''
     | LXCNetworkApplyError m \<Rightarrow> ''LXCNetworkApplyError'' | RequestError m \<Rightarrow> ''RequestError''
     | CodedError cls code \<Rightarrow> cls | SystemExit \<Rightarrow> ''SystemExit'' | KeyboardInterrupt \<Rightarrow> ''KeyboardInterrupt'')"

section \<open>Results\<close>

datatype history_status = NOT_REQUESTED | RECORDED | START_FAILED | FINALIZE_FAILED

definition HISTORY_UNAVAILABLE :: string where
  "HISTORY_UNAVAILABLE = ''RUN_HISTORY_UNAVAILABLE''"

record source_run_result =
  sx_source_id :: string
  sx_source_instance :: string
  sx_source_type :: string
  sx_success :: bool
  sx_started_at :: int
  sx_finished_at :: int
  sx_error_type :: "string option"
  sx_error_summary :: "string option"
  sx_history_status :: history_status
  sx_history_error_code :: "string option"

definition multi_total :: "source_run_result list \<Rightarrow> nat" where
  "multi_total results = length results"

definition multi_succeeded :: "source_run_result list \<Rightarrow> nat" where
  "multi_succeeded results = length (filter sx_success results)"

definition multi_failed :: "source_run_result list \<Rightarrow> int" where
  "multi_failed results = int (multi_total results) - int (multi_succeeded results)"

definition multi_skipped :: "source_run_result list \<Rightarrow> nat" where
  "multi_skipped results = 0"

definition multi_history_failures :: "source_run_result list \<Rightarrow> nat" where
  "multi_history_failures results = length (filter (\<lambda>r. sx_history_error_code r \<noteq> None) results)"

text \<open>What the orchestrator reads of an executor's return value; \<open>None\<close> and a plan without these
  attributes read as empty.\<close>

record execution =
  ex_items :: "string list"
  ex_digest :: "string option"
  ex_planner_version :: "string option"

section \<open>One source\<close>

definition history_code :: "history_status \<Rightarrow> string option" where
  "history_code h = (if h = FINALIZE_FAILED then Some HISTORY_UNAVAILABLE else None)"

definition source_result ::
    "source_config \<Rightarrow> bool \<Rightarrow> int \<Rightarrow> int \<Rightarrow> string option \<Rightarrow> string option \<Rightarrow> history_status
       \<Rightarrow> string option \<Rightarrow> source_run_result" where
  "source_result source success started finished error_type summary history code =
     \<lparr>sx_source_id = sc_id source, sx_source_instance = sc_source_instance source,
      sx_source_type = sc_source_type source, sx_success = success, sx_started_at = started,
      sx_finished_at = finished, sx_error_type = error_type, sx_error_summary = summary,
      sx_history_status = history, sx_history_error_code = code\<rparr>"

definition start_history ::
    "'s run_repository option \<Rightarrow> source_config \<Rightarrow> ('s, py_exn + sync_run option) io" where
  "start_history repo source =
     (case repo of
        None \<Rightarrow> io_return (Inr None)
      | Some rp \<Rightarrow> io_attempt is_exception
          (io_bind (rp_start rp (sc_source_instance source) (sc_source_type source) ''scheduled'' ''system/scheduler'')
             (\<lambda>run. io_return (Some run))))"

definition finish_history ::
    "'s run_repository option \<Rightarrow> sync_run option \<Rightarrow> ('s run_repository \<Rightarrow> sync_run \<Rightarrow> ('s, sync_run) io)
       \<Rightarrow> ('s, history_status) io" where
  "finish_history repo run finish =
     (case (repo, run) of
        (Some rp, Some r) \<Rightarrow>
          io_bind (io_attempt is_exception (finish rp r)) (\<lambda>outcome.
            io_return (case outcome of Inl e \<Rightarrow> FINALIZE_FAILED | Inr x \<Rightarrow> RECORDED))
      | _ \<Rightarrow> io_return NOT_REQUESTED)"

definition finish_failed :: "py_exn \<Rightarrow> 's run_repository \<Rightarrow> sync_run \<Rightarrow> ('s, sync_run) io" where
  "finish_failed e rp r =
     (let code = safe_error_code (exn_code e)
      in rp_finish rp (sr_run_id r) (terminal_status (Some code)) None None None (Some code)
           (Some (safe_error_message code)))"

definition finish_succeeded :: "execution \<Rightarrow> 's run_repository \<Rightarrow> sync_run \<Rightarrow> ('s, sync_run) io" where
  "finish_succeeded x rp r =
     rp_finish rp (sr_run_id r) SUCCEEDED (Some (counts_from_items (ex_items x))) (ex_digest x)
       (ex_planner_version x) None None"

definition run_source ::
    "'s clock \<Rightarrow> 's run_repository option \<Rightarrow> (source_config \<Rightarrow> ('s, execution) io) \<Rightarrow> source_config
       \<Rightarrow> ('s, source_run_result) io" where
  "run_source clock repo execute source =
     io_bind (now clock) (\<lambda>started.
     io_bind (start_history repo source) (\<lambda>recorded.
     (case recorded of
        Inl e \<Rightarrow> io_bind (now clock) (\<lambda>finished.
          io_return (source_result source False started finished (Some ''HistoryPersistenceError'')
            (Some ''source execution skipped because run history is unavailable'') START_FAILED
            (Some HISTORY_UNAVAILABLE)))
      | Inr run \<Rightarrow>
          io_bind (io_attempt exception_or_exit (execute source)) (\<lambda>outcome.
          (case outcome of
             Inl e \<Rightarrow>
               io_bind (finish_history repo run (finish_failed e)) (\<lambda>history.
               io_bind (now clock) (\<lambda>finished.
                 io_return (source_result source False started finished (Some (exn_type_name e))
                   (Some ''source execution failed'') history (history_code history))))
           | Inr x \<Rightarrow>
               io_bind (finish_history repo run (finish_succeeded x)) (\<lambda>history.
               io_bind (now clock) (\<lambda>finished.
                 io_return (source_result source True started finished None None history
                   (history_code history)))))))))"

definition run_sources ::
    "'s clock \<Rightarrow> 's run_repository option \<Rightarrow> (source_config \<Rightarrow> ('s, execution) io) \<Rightarrow> source_config list
       \<Rightarrow> ('s, source_run_result list) io" where
  "run_sources clock repo execute sources =
     io_map (run_source clock repo execute) (sort_key sc_id sources)"

section \<open>Isolation\<close>

text \<open>The only ways out of a step: its value, or an interrupt raised by an operation it calls.\<close>

definition raises_only :: "(py_exn \<Rightarrow> bool) \<Rightarrow> ('s, 'a) io \<Rightarrow> bool" where
  "raises_only P m \<longleftrightarrow> (\<forall>s e t. m s = (Inl e, t) \<longrightarrow> P e)"

lemma raises_only_return: "raises_only P (io_return x)"
  by (simp add: raises_only_def io_return_def)

lemma raises_only_now: "raises_only P (now clock)"
  by (auto simp: raises_only_def now_def split: prod.splits)

lemma raises_only_bind: "raises_only P m \<Longrightarrow> (\<And>x. raises_only P (f x)) \<Longrightarrow> raises_only P (io_bind m f)"
  unfolding raises_only_def io_bind_Inl by blast

lemma raises_only_attempt: "raises_only Q m \<Longrightarrow> (\<And>e. Q e \<Longrightarrow> \<not> C e \<Longrightarrow> P e) \<Longrightarrow> raises_only P (io_attempt C m)"
  by (auto simp: raises_only_def io_attempt_def split: prod.splits sum.splits if_splits)

lemma raises_only_case_sum:
  "(\<And>x. raises_only P (f x)) \<Longrightarrow> (\<And>y. raises_only P (g y)) \<Longrightarrow> raises_only P (case z of Inl x \<Rightarrow> f x | Inr y \<Rightarrow> g y)"
  by (cases z) simp_all

lemma raises_only_map: "(\<And>x. x \<in> set xs \<Longrightarrow> raises_only P (f x)) \<Longrightarrow> raises_only P (io_map f xs)"
  by (induction xs) (auto intro!: raises_only_return raises_only_bind)

lemmas raises_only_intros = raises_only_return raises_only_now raises_only_bind raises_only_case_sum

definition repository_calm :: "'s run_repository \<Rightarrow> bool" where
  "repository_calm rp \<longleftrightarrow> (\<forall>a b c d. raises_only is_exception (rp_start rp a b c d))
     \<and> (\<forall>a b c d e f g. raises_only is_exception (rp_finish rp a b c d e f g))"

lemma finish_history_calm:
  assumes "\<And>rp r. repo = Some rp \<Longrightarrow> raises_only is_exception (finish rp r)"
  shows "raises_only (\<lambda>e. False) (finish_history repo run finish)"
  using assms unfolding finish_history_def
  by (auto split: option.splits intro!: raises_only_intros raises_only_attempt)

lemma start_history_calm:
  assumes "\<And>rp. repo = Some rp \<Longrightarrow> repository_calm rp"
  shows "raises_only (\<lambda>e. False) (start_history repo source)"
proof (cases repo)
  case (Some rp)
  with assms have "raises_only is_exception (rp_start rp (sc_source_instance source) (sc_source_type source)
      ''scheduled'' ''system/scheduler'')" by (simp add: repository_calm_def)
  then show ?thesis unfolding Some start_history_def
    by (auto intro!: raises_only_attempt [where Q = is_exception] raises_only_intros)
qed (simp add: start_history_def raises_only_return)

lemma run_source_calm:
  assumes "\<And>rp. repo = Some rp \<Longrightarrow> repository_calm rp" and "raises_only exception_or_exit (execute source)"
  shows "raises_only (\<lambda>e. False) (run_source clock repo execute source)"
proof -
  have "raises_only (\<lambda>e. False) (finish_history repo run (finish_failed e))"
    "raises_only (\<lambda>e. False) (finish_history repo run (finish_succeeded x))" for run e x
    using assms(1) by (auto intro!: finish_history_calm simp: finish_failed_def finish_succeeded_def repository_calm_def Let_def)
  moreover have "raises_only (\<lambda>e. False) (io_attempt exception_or_exit (execute source))"
    by (rule raises_only_attempt [OF assms(2)]) simp
  ultimately show ?thesis
    unfolding run_source_def by (intro raises_only_intros start_history_calm assms(1))
qed

lemma io_map_returns:
  assumes "io_map f xs s = (Inr ys, t)" and "\<And>x s y t. f x s = (Inr y, t) \<Longrightarrow> P x y"
  shows "list_all2 P xs ys"
  using assms(1)
proof (induction xs arbitrary: ys s)
  case (Cons x xs)
  from Cons.prems obtain y u zs where "f x s = (Inr y, u)" and "io_map f xs u = (Inr zs, t)" and "ys = y # zs"
    by (auto simp: io_bind_Inr io_return_def)
  with Cons.IH assms(2) show ?case by auto
qed (simp add: io_return_def)

definition result_for :: "source_config \<Rightarrow> source_run_result \<Rightarrow> bool" where
  "result_for source r \<longleftrightarrow> sx_source_id r = sc_id source \<and> sx_source_instance r = sc_source_instance source
     \<and> (sx_success r \<longleftrightarrow> sx_error_type r = None)
     \<and> (sx_history_error_code r = None \<longleftrightarrow> sx_history_status r = NOT_REQUESTED \<or> sx_history_status r = RECORDED)
     \<and> (sx_history_status r = START_FAILED \<longrightarrow> \<not> sx_success r)"

lemma returns_case_sum:
  "(\<And>x. returns P (f x)) \<Longrightarrow> (\<And>y. returns P (g y)) \<Longrightarrow> returns P (case z of Inl x \<Rightarrow> f x | Inr y \<Rightarrow> g y)"
  by (cases z) simp_all

lemma finish_history_returns: "returns (\<lambda>h. h \<noteq> START_FAILED) (finish_history repo run finish)"
  unfolding finish_history_def
  by (auto split: option.splits sum.splits intro!: returns_return returns_bind)

lemma source_end_returns:
  assumes "success \<longleftrightarrow> error_type = None"
  shows "returns (result_for source) (io_bind (finish_history repo run finish) (\<lambda>history.
     io_bind (now clock) (\<lambda>finished. io_return (source_result source success started finished error_type summary
       history (history_code history)))))"
proof (rule returns_bind_via [OF finish_history_returns], rule returns_bind, rule returns_return)
  show "result_for source (source_result source success started finished error_type summary history (history_code history))"
    if "history \<noteq> START_FAILED" for history finished
    using that assms by (cases history) (auto simp: result_for_def source_result_def history_code_def)
qed

lemma run_source_returns: "returns (result_for source) (run_source clock repo execute source)"
  unfolding run_source_def
proof (rule returns_bind, rule returns_bind, rule returns_case_sum, rule returns_bind, rule returns_return)
  show "result_for source (source_result source False started finished (Some ''HistoryPersistenceError'')
      (Some ''source execution skipped because run history is unavailable'') START_FAILED (Some HISTORY_UNAVAILABLE))"
    for started finished by (simp add: result_for_def source_result_def)
qed (rule returns_bind, rule returns_case_sum, (rule source_end_returns, simp)+)

section \<open>A repository and its clock\<close>

text \<open>The scheduled starts a table records, in the order they were recorded.\<close>

definition scheduled_starts :: "run_table \<Rightarrow> (string \<times> int) list" where
  "scheduled_starts rows =
     map (\<lambda>r. (sr_source_instance r, sr_started_at r)) (filter (\<lambda>r. sr_trigger r = SCHEDULED) rows)"

locale run_store =
  fixes rp :: "'s run_repository" and clock :: "'s clock" and rows :: "'s \<Rightarrow> run_table" and time :: "'s \<Rightarrow> int"
  assumes clock_law: "clock s = (i, t) \<Longrightarrow> time s \<le> i \<and> i \<le> time t \<and> rows t = rows s"
    and start_law: "rp_start rp inst ty tr by s = (x, t) \<Longrightarrow> time s \<le> time t \<and>
        (case x of Inl e \<Rightarrow> rows t = rows s
         | Inr r \<Rightarrow> rows t = rows s @ [r] \<and> sr_source_instance r = inst \<and> run_trigger_of tr = Inr (sr_trigger r)
             \<and> time s \<le> sr_started_at r \<and> sr_started_at r \<le> time t)"
    and finish_law: "rp_finish rp i st cs d v ec em s = (x, t) \<Longrightarrow>
        time s \<le> time t \<and> scheduled_starts (rows t) = scheduled_starts (rows s)"
    and latest_law: "rp_latest rp wanted status s = (y, t) \<Longrightarrow> time s \<le> time t \<and> rows t = rows s \<and>
        (\<forall>rs. y = Inr rs \<longrightarrow> fst (latest_by_source wanted status (rows s)) = Inr rs)"
begin

text \<open>Time passes and no scheduled run is recorded.\<close>

definition quiet :: "'s \<Rightarrow> 's \<Rightarrow> bool" where
  "quiet s t \<longleftrightarrow> time s \<le> time t \<and> scheduled_starts (rows t) = scheduled_starts (rows s)"

lemma quiet_refl: "reflp quiet" and quiet_trans: "transp quiet"
  by (auto simp: quiet_def reflp_def transp_def)

lemma quiet_now: "preserves quiet (now clock)"
  by (auto simp: preserves_def now_def quiet_def split: prod.splits dest: clock_law)

lemma quiet_finish: "preserves quiet (rp_finish rp i st cs d v ec em)"
  unfolding preserves_def
proof
  fix s
  show "quiet s (snd (rp_finish rp i st cs d v ec em s))"
    by (cases "rp_finish rp i st cs d v ec em s") (auto simp: quiet_def dest: finish_law)
qed

lemma quiet_finish_history:
  "preserves quiet (finish_history (Some rp) run (finish_failed e))"
  "preserves quiet (finish_history (Some rp) run (finish_succeeded x))"
  unfolding finish_history_def finish_failed_def finish_succeeded_def Let_def
  by (cases run; auto intro!: preserves_intros quiet_refl quiet_trans quiet_finish)+

text \<open>What one source adds: nothing, or one scheduled start between the times before and after.\<close>

lemma run_source_starts:
  assumes ex: "preserves quiet (execute source)"
  shows "time s \<le> time (snd (run_source clock (Some rp) execute source s)) \<and>
    (\<exists>new. scheduled_starts (rows (snd (run_source clock (Some rp) execute source s))) = scheduled_starts (rows s) @ new
      \<and> (new = [] \<or> (\<exists>i. new = [(sc_source_instance source, i)] \<and> time s \<le> i
            \<and> i \<le> time (snd (run_source clock (Some rp) execute source s)))))"
proof -
  define k where "k recorded = (case recorded of
        Inl e \<Rightarrow> io_bind (now clock) (\<lambda>finished.
          io_return (source_result source False (fst (clock s)) finished (Some ''HistoryPersistenceError'')
            (Some ''source execution skipped because run history is unavailable'') START_FAILED
            (Some HISTORY_UNAVAILABLE)))
      | Inr run \<Rightarrow>
          io_bind (io_attempt exception_or_exit (execute source)) (\<lambda>outcome.
          (case outcome of
             Inl e \<Rightarrow>
               io_bind (finish_history (Some rp) run (finish_failed e)) (\<lambda>history.
               io_bind (now clock) (\<lambda>finished.
                 io_return (source_result source False (fst (clock s)) finished (Some (exn_type_name e))
                   (Some ''source execution failed'') history (history_code history))))
           | Inr x \<Rightarrow>
               io_bind (finish_history (Some rp) run (finish_succeeded x)) (\<lambda>history.
               io_bind (now clock) (\<lambda>finished.
                 io_return (source_result source True (fst (clock s)) finished None None history
                   (history_code history)))))))" for recorded :: "py_exn + sync_run option"
  have k: "preserves quiet (k recorded)" for recorded
    unfolding k_def by (intro preserves_intros quiet_refl quiet_trans quiet_now quiet_finish_history ex)
  obtain i u where u: "clock s = (i, u)" by (cases "clock s")
  obtain x v where v: "rp_start rp (sc_source_instance source) (sc_source_type source) ''scheduled'' ''system/scheduler'' u
      = (x, v)" by (cases "rp_start rp (sc_source_instance source) (sc_source_type source) ''scheduled'' ''system/scheduler'' u")
  have uv: "time s \<le> time u" "scheduled_starts (rows u) = scheduled_starts (rows s)" "time u \<le> time v"
    using clock_law [OF u] start_law [OF v] by auto
  show ?thesis
  proof (cases x)
    case (Inl e)
    with start_law [OF v] have sv: "scheduled_starts (rows v) = scheduled_starts (rows u)" by simp
    have run: "snd (run_source clock (Some rp) execute source s) =
        (if is_exception e then snd (k (Inl e) v) else v)"
      using u v Inl by (simp add: run_source_def k_def io_bind_def now_def start_history_def io_attempt_def)
    have "quiet v (snd (run_source clock (Some rp) execute source s))"
      using preservesD [OF k, of v "Inl e"] reflpD [OF quiet_refl, of v] run by (cases "is_exception e") simp_all
    with uv sv show ?thesis by (auto simp: quiet_def)
  next
    case (Inr r)
    with start_law [OF v] have r: "rows v = rows u @ [r]" "sr_source_instance r = sc_source_instance source"
      "sr_trigger r = SCHEDULED" "time u \<le> sr_started_at r" "sr_started_at r \<le> time v"
      by (auto simp: run_trigger_of_def)
    then have sv: "scheduled_starts (rows v) = scheduled_starts (rows s) @ [(sc_source_instance source, sr_started_at r)]"
      using uv(2) by (simp add: scheduled_starts_def)
    have run: "snd (run_source clock (Some rp) execute source s) = snd (k (Inr (Some r)) v)"
      using u v Inr by (simp add: run_source_def k_def io_bind_def now_def start_history_def io_attempt_def io_return_def)
    have "quiet v (snd (run_source clock (Some rp) execute source s))"
      unfolding run by (rule preservesD [OF k])
    with uv sv r show ?thesis by (auto simp: quiet_def)
  qed
qed

end

section \<open>The repository of the run history\<close>

text \<open>The world a repository acts on: its table, the clock, the time that passes between two readings, and
  the next uuid4.\<close>

record world =
  w_rows :: run_table
  w_clock :: int
  w_elapse :: "nat list"
  w_uuid :: int

definition world_clock :: "world clock" where
  "world_clock s =
     (let d = (case w_elapse s of [] \<Rightarrow> 0 | n # ns \<Rightarrow> n);
          i = w_clock s + int d
      in (i, s\<lparr>w_clock := i, w_elapse := tl (w_elapse s)\<rparr>))"

definition on_rows :: "(run_table, 'a) io \<Rightarrow> (world, 'a) io" where
  "on_rows m = (\<lambda>s. case m (w_rows s) of (x, rows) \<Rightarrow> (x, s\<lparr>w_rows := rows\<rparr>))"

definition history_repository :: "world run_repository" where
  "history_repository =
     \<lparr>rp_start = (\<lambda>inst ty tr by. io_bind (now world_clock) (\<lambda>started.
        io_bind (\<lambda>s. (Inr (w_uuid s), s\<lparr>w_uuid := w_uuid s + 1\<rparr>)) (\<lambda>identifier.
          on_rows (start_run identifier started inst ty tr by None None)))),
      rp_finish = (\<lambda>i st cs d v ec em. io_bind (now world_clock) (\<lambda>finished.
        on_rows (finish_run i finished st cs d v ec em))),
      rp_latest = (\<lambda>tr st. on_rows (latest_by_source tr st))\<rparr>"

lemma scheduled_starts_finish:
  "scheduled_starts (snd (finish_run i f st cs d v ec em rows)) = scheduled_starts rows"
proof (cases rule: finish_run_cases [of i f st cs d v ec em rows])
  case (updated g r)
  have "filter (\<lambda>r. sr_trigger r = SCHEDULED) (map (\<lambda>r. if sr_run_id r = i \<and> sr_status r = RUNNING then g r else r) rows)
      = map (\<lambda>r. if sr_run_id r = i \<and> sr_status r = RUNNING then g r else r) (filter (\<lambda>r. sr_trigger r = SCHEDULED) rows)"
    using updated(5) by (induction rows) auto
  with updated(1,5) show ?thesis by (simp add: scheduled_starts_def)
qed simp

lemma start_run_rows:
  "start_run i started inst ty tr by d v rows = (x, rows') \<Longrightarrow>
     case x of Inl e \<Rightarrow> rows' = rows
     | Inr r \<Rightarrow> rows' = rows @ [r] \<and> sr_source_instance r = inst \<and> run_trigger_of tr = Inr (sr_trigger r) \<and> sr_started_at r = started"
  by (cases x) (auto simp: start_run_def io_bind_Inl io_bind_Inr io_lift_def io_raise_def insert_run_def split: if_splits)

lemma latest_by_source_rows: "snd (latest_by_source tr st rows) = rows"
  by (simp add: latest_by_source_def io_read_def)

interpretation history: run_store history_repository world_clock w_rows w_clock
proof
  show "w_clock s \<le> i \<and> i \<le> w_clock t \<and> w_rows t = w_rows s" if "world_clock s = (i, t)" for s i t
    using that by (auto simp: world_clock_def Let_def split: list.splits)
next
  fix inst ty tr "by" s x t
  assume run: "rp_start history_repository inst ty tr by s = (x, t)"
  obtain i u where u: "world_clock s = (i, u)" by (cases "world_clock s")
  then have iu: "w_clock s \<le> i" "w_clock u = i" "w_rows u = w_rows s"
    by (auto simp: world_clock_def Let_def split: list.splits)
  obtain y rows where y: "start_run (w_uuid u) i inst ty tr by None None (w_rows u) = (y, rows)"
    by (cases "start_run (w_uuid u) i inst ty tr by None None (w_rows u)")
  have "x = y" "t = u\<lparr>w_uuid := w_uuid u + 1, w_rows := rows\<rparr>"
    using run u y by (auto simp: history_repository_def io_bind_def now_def on_rows_def split: prod.splits)
  with start_run_rows [OF y] iu
  show "w_clock s \<le> w_clock t \<and> (case x of Inl e \<Rightarrow> w_rows t = w_rows s
      | Inr r \<Rightarrow> w_rows t = w_rows s @ [r] \<and> sr_source_instance r = inst \<and> run_trigger_of tr = Inr (sr_trigger r)
          \<and> w_clock s \<le> sr_started_at r \<and> sr_started_at r \<le> w_clock t)"
    by (cases x) auto
next
  fix i st cs d v ec em s x t
  assume run: "rp_finish history_repository i st cs d v ec em s = (x, t)"
  obtain j u where u: "world_clock s = (j, u)" by (cases "world_clock s")
  then have ju: "w_clock s \<le> w_clock u" "w_rows u = w_rows s"
    by (auto simp: world_clock_def Let_def split: list.splits)
  have "t = u\<lparr>w_rows := snd (finish_run i j st cs d v ec em (w_rows u))\<rparr>"
    using run u by (auto simp: history_repository_def io_bind_def now_def on_rows_def split: prod.splits)
  with ju show "w_clock s \<le> w_clock t \<and> scheduled_starts (w_rows t) = scheduled_starts (w_rows s)"
    by (simp add: scheduled_starts_finish)
next
  fix wanted status s y t
  assume "rp_latest history_repository wanted status s = (y, t)"
  then show "w_clock s \<le> w_clock t \<and> w_rows t = w_rows s \<and>
      (\<forall>rs. y = Inr rs \<longrightarrow> fst (latest_by_source wanted status (w_rows s)) = Inr rs)"
    using latest_by_source_rows [of wanted status "w_rows s"]
    by (auto simp: history_repository_def on_rows_def split: prod.splits)
qed

lemma history_repository_calm: "repository_calm history_repository"
proof -
  have rows: "raises_only is_exception m \<Longrightarrow> raises_only is_exception (on_rows m)" for m :: "(run_table, 'a) io"
    by (auto simp: raises_only_def on_rows_def split: prod.splits)
  have "raises_only is_exception (start_run i n inst ty tr by d v)" for i n inst ty tr "by" d v
    unfolding raises_only_def start_run_def
    by (auto simp: io_bind_Inl io_lift_def io_raise_def insert_run_def is_exception_def validate_source_def
        run_trigger_of_def validate_plan_def split: if_splits)
  moreover have "raises_only is_exception (finish_run i n st cs d v ec em)" for i n st cs d v ec em
    unfolding raises_only_def finish_run_def Let_def
    by (auto simp: io_bind_Inl io_lift_def io_raise_def update_running_def is_exception_def validate_plan_def
        validate_error_def Let_def split: if_splits option.splits list.splits)
  moreover have "raises_only is_exception (\<lambda>s. (Inr (w_uuid s), s\<lparr>w_uuid := w_uuid s + 1\<rparr>))"
    by (simp add: raises_only_def)
  ultimately show ?thesis
    by (auto simp: repository_calm_def history_repository_def intro!: raises_only_intros rows)
qed

section \<open>Properties\<close>

text \<open>C30: One source cannot take another down.  Whatever the executor of a source raises short of an
  interrupt, and whatever the history refuses, a run over several sources returns: one result per source, in
  the order of their ids, successful exactly when the source's executor returned, and never without a record
  when a record was asked for and could not be started.\<close>

theorem sources_isolated:
  assumes "repository_calm rp" and "\<forall>source \<in> set sources. raises_only exception_or_exit (execute source)"
  shows "\<exists>results t. run_sources clock (Some rp) execute sources s = (Inr results, t)
           \<and> list_all2 result_for (sort_key sc_id sources) results
           \<and> int (multi_succeeded results) + multi_failed results = int (length sources)"
proof -
  obtain x t where run: "run_sources clock (Some rp) execute sources s = (x, t)"
    by (cases "run_sources clock (Some rp) execute sources s")
  have "raises_only (\<lambda>e. False) (run_sources clock (Some rp) execute sources)"
    unfolding run_sources_def using assms by (intro raises_only_map run_source_calm) auto
  with run obtain results where x: "x = Inr results" by (cases x) (auto simp: raises_only_def)
  have "list_all2 result_for (sort_key sc_id sources) results"
    using run [unfolded run_sources_def x] by (rule io_map_returns) (rule returnsD [OF run_source_returns])
  moreover from list_all2_lengthD [OF this] have "length results = length sources" by simp
  ultimately show ?thesis using run x by (auto simp: multi_failed_def multi_total_def)
qed

definition sample_world :: world where
  "sample_world = \<lparr>w_rows = [], w_clock = 0, w_elapse = [5, 5, 5], w_uuid = 1\<rparr>"

definition failing_executor :: "source_config \<Rightarrow> (world, execution) io" where
  "failing_executor source = io_raise (CodedError ''ApplyWorkerError'' ''APPLY_LOCKED'')"

theorem sources_isolated_witness:
  "\<exists>results t. run_sources world_clock (Some history_repository) failing_executor
        [sample_source\<lparr>sc_id := ''s2''\<rparr>, sample_source] sample_world = (Inr results, t)
     \<and> map sx_source_id results = [''s1'', ''s2''] \<and> multi_failed results + int (multi_succeeded results) = 2"
proof -
  have ex: "\<forall>source \<in> set [sample_source\<lparr>sc_id := ''s2''\<rparr>, sample_source].
      raises_only exception_or_exit (failing_executor source)"
    by (auto simp: failing_executor_def raises_only_def io_raise_def exception_or_exit_def)
  have order: "map sc_id (sort_key sc_id [sample_source\<lparr>sc_id := ''s2''\<rparr>, sample_source]) = [''s1'', ''s2'']"
    by code_simp
  have ids: "list_all2 result_for cs rs \<Longrightarrow> map sx_source_id rs = map sc_id cs" for cs rs
    by (induction rule: list_all2_induct) (auto simp: result_for_def)
  from sources_isolated [OF history_repository_calm ex, of world_clock sample_world] obtain results t where
    run: "run_sources world_clock (Some history_repository) failing_executor
        [sample_source\<lparr>sc_id := ''s2''\<rparr>, sample_source] sample_world = (Inr results, t)"
    and all: "list_all2 result_for (sort_key sc_id [sample_source\<lparr>sc_id := ''s2''\<rparr>, sample_source]) results"
    and total: "int (multi_succeeded results) + multi_failed results = 2" by auto
  from ids [OF all] order have "map sx_source_id results = [''s1'', ''s2'']" by simp
  with total run show ?thesis by (intro exI conjI) (assumption | simp)+
qed

end
