(* ===== verification/RuntimePlan.thy ===== *)
theory RuntimePlan
  imports FullApply SyncPlan RunHistory Orchestrator
begin

text \<open>
  The plan of a run (netbox_sync/application/runtime_plan.py) and the child process that computes and applies it
  (\<open>execute_child\<close> and \<open>child_main\<close> of netbox_sync/apply_worker.py).  For a Proxmox source the plan is what the
  full synchronisation logs on the planning facade.  The ESXi provider is an argument: its review, its
  run on the facade and its run on NetBox (\<open>esxi_provider\<close>).  Discovery reads the provider's API and is
  an argument too.
\<close>

record ('s, 'r) esxi_provider =
  ep_review :: "discovered_host list \<Rightarrow> source_config \<Rightarrow> ('s, discovery_review) io"
  ep_planned :: "discovered_host list \<Rightarrow> source_config \<Rightarrow> bool \<Rightarrow> (('s, 'r) planning, unit) io"
  ep_run :: "discovered_host list \<Rightarrow> source_config \<Rightarrow> bool \<Rightarrow> ('s, unit) io"

definition ApplyWorkerError :: "string \<Rightarrow> py_exn" where
  "ApplyWorkerError code = CodedError ''ApplyWorkerError'' code"

section \<open>The plan\<close>

definition review_of ::
    "('s, 'r) netbox \<Rightarrow> ('s, 'r) esxi_provider \<Rightarrow> discovered_host list \<Rightarrow> source_config \<Rightarrow> ('s, discovery_review) io" where
  "review_of nb esxi hosts config =
     (if sc_source_type config = ''proxmox'' then build_proxmox_review nb hosts config
      else ep_review esxi hosts config)"

text \<open>Run a program on a fresh facade over the client and hand what it logged to the rest.\<close>

definition with_planning :: "(('s, 'r) planning, 'a) io \<Rightarrow> (planned_mutation list \<Rightarrow> 'b res) \<Rightarrow> ('s, 'b) io" where
  "with_planning m f = (\<lambda>s. case m (start_planning s) of
       (Inl e, t) \<Rightarrow> (Inl e, pl_base t)
     | (Inr x, t) \<Rightarrow> (f (pl_mutations t), pl_base t))"

definition planned_run ::
    "('s, 'r) netbox \<Rightarrow> ('s, 'r) esxi_provider \<Rightarrow> discovered_host list \<Rightarrow> source_config \<Rightarrow> (('s, 'r) planning, unit) io" where
  "planned_run nb esxi hosts config =
     (if sc_source_type config = ''proxmox'' then apply_full_sync (planning_netbox nb) hosts (sc_target config) True
      else ep_planned esxi hosts config True)"

definition build_runtime_plan ::
    "(string \<Rightarrow> string) \<Rightarrow> ('s, 'r) netbox \<Rightarrow> ('s, 'r) esxi_provider \<Rightarrow> discovered_host list \<Rightarrow> source_config
       \<Rightarrow> ('s, sync_plan) io" where
  "build_runtime_plan H nb esxi hosts config =
     io_bind (review_of nb esxi hosts config) (\<lambda>review.
     let review_plan = plan_from_review H review config
     in if \<not> apply_allowed review_plan then io_return review_plan
        else with_planning (planned_run nb esxi hosts config) (plan_from_mutations H review config))"

section \<open>The child\<close>

definition counts_json :: "action_counts \<Rightarrow> json" where
  "counts_json c = JObj
     [(''create'', JInt (ac_create c)), (''update'', JInt (ac_update c)), (''no_change'', JInt (ac_no_change c)),
      (''review_required'', JInt (ac_review_required c)), (''blocked'', JInt (ac_blocked c)),
      (''ignored'', JInt (ac_ignored c)), (''unsupported'', JInt (ac_unsupported c)),
      (''retain_only'', JInt (ac_retain_only c))]"

definition plan_json :: "(string \<Rightarrow> string) \<Rightarrow> sync_plan \<Rightarrow> json" where
  "plan_json H p = (case canonical_dict p of
       JObj d \<Rightarrow> JObj (dset ''digest'' (JStr (plan_digest H p)) d) | v \<Rightarrow> v)"

definition applied_json :: "(string \<Rightarrow> string) \<Rightarrow> sync_plan \<Rightarrow> json" where
  "applied_json H p = JObj
     [(''status'', JStr ''SUCCEEDED''), (''plan_digest'', JStr (plan_digest H p)),
      (''planner_version'', JStr (sy_planner_version p)),
      (''action_counts'', counts_json (counts_from_items (map (\<lambda>i. action_value (it_action i)) (sy_items p))))]"

text \<open>\<open>except Exception as exc: raise ApplyWorkerError(code) from exc\<close>.\<close>

definition io_recode :: "string \<Rightarrow> ('s, 'a) io \<Rightarrow> ('s, 'a) io" where
  "io_recode code m = io_try m (\<lambda>e. io_raise (if is_exception e then ApplyWorkerError code else e))"

definition provider_run ::
    "('s, 'r) netbox \<Rightarrow> ('s, 'r) esxi_provider \<Rightarrow> discovered_host list \<Rightarrow> source_config \<Rightarrow> bool \<Rightarrow> ('s, unit) io" where
  "provider_run nb esxi hosts config confirmed =
     (if sc_source_type config = ''proxmox'' then apply_full_sync nb hosts (sc_target config) confirmed
      else ep_run esxi hosts config confirmed)"

definition execute_child ::
    "(string \<Rightarrow> string) \<Rightarrow> ('s, 'r) netbox \<Rightarrow> ('s, 'r) esxi_provider \<Rightarrow> ('s, source_config \<times> discovered_host list) io
       \<Rightarrow> string \<Rightarrow> json \<Rightarrow> ('s, json) io" where
  "execute_child H nb esxi discover operation expected_digest =
     io_bind discover (\<lambda>(config, hosts).
     io_bind (build_runtime_plan H nb esxi hosts config) (\<lambda>plan.
       if operation = ''plan'' then io_return (plan_json H plan)
       else if \<not> apply_allowed plan \<or> JStr (plan_digest H plan) \<noteq> expected_digest
       then io_raise (ApplyWorkerError ''PLAN_STALE'')
       else io_bind (io_recode ''FAILED_BEFORE_WRITE'' (provider_run nb esxi hosts config False)) (\<lambda>_.
            io_bind (io_recode ''OUTCOME_UNCERTAIN'' (provider_run nb esxi hosts config True)) (\<lambda>_.
              io_return (applied_json H plan)))))"

definition child_main :: "('s, json) io \<Rightarrow> ('s, json) io" where
  "child_main m = (\<lambda>s. case m s of
       (Inr v, t) \<Rightarrow> (Inr (JObj [(''result'', v)]), t)
     | (Inl e, t) \<Rightarrow>
         (if \<not> is_exception e then (Inl e, t)
          else (Inr (JObj [(''error'', JStr (case e of
                 CodedError cls code \<Rightarrow> if cls = ''ApplyWorkerError'' then code else ''APPLY_FAILED''
               | _ \<Rightarrow> ''APPLY_FAILED''))]), t)))"

section \<open>Planning only reads\<close>

lemma with_planning_R:
  assumes "preserves (plan_rel R okc oku) m"
  shows "preserves R (with_planning m f)"
  unfolding preserves_def
proof
  fix s
  from preservesD [OF assms, of "start_planning s"] plan_rel_base
  show "R s (snd (with_planning m f s))"
    by (fastforce simp: with_planning_def start_planning_def split: prod.split sum.split)
qed

definition esxi_reads :: "('s \<Rightarrow> 's \<Rightarrow> bool) \<Rightarrow> ('s, 'r) esxi_provider \<Rightarrow> bool" where
  "esxi_reads R esxi \<longleftrightarrow> (\<forall>hosts config. preserves R (ep_review esxi hosts config)
     \<and> preserves (plan_rel R (\<lambda>_ _. True) (\<lambda>_. True)) (ep_planned esxi hosts config True)
     \<and> preserves R (ep_run esxi hosts config False))"

context netbox_reader
begin

lemma full_planned_R: "preserves (plan_rel R full_may_create full_may_update) (apply_full_sync (planning_netbox nb) hosts config True)"
  by (rule netbox_writer.full_apply_R [OF planning_writer [OF netbox_reader_axioms]])

lemma runtime_plan_R:
  assumes "esxi_reads R esxi"
  shows "preserves R (build_runtime_plan H nb esxi hosts config)"
proof -
  have "preserves R (review_of nb esxi hosts config)"
    using assms by (simp add: review_of_def esxi_reads_def proxmox_review_R)
  moreover have "preserves R (with_planning (planned_run nb esxi hosts config) f)" for f :: "planned_mutation list \<Rightarrow> sync_plan res"
  proof (cases "sc_source_type config = ''proxmox''")
    case True
    then show ?thesis unfolding planned_run_def by (simp add: with_planning_R [OF full_planned_R])
  next
    case False
    with assms show ?thesis unfolding planned_run_def esxi_reads_def by (auto intro: with_planning_R)
  qed
  ultimately show ?thesis
    unfolding build_runtime_plan_def Let_def by (auto intro!: reader_intros)
qed

lemma provider_precheck_R:
  assumes "esxi_reads R esxi"
  shows "preserves R (provider_run nb esxi hosts config False)"
  using assms by (simp add: provider_run_def esxi_reads_def full_unconfirmed_R)

end

lemma io_recode_run:
  "io_recode code m s = (case m s of (Inl e, t) \<Rightarrow> (Inl (if is_exception e then ApplyWorkerError code else e), t)
     | (Inr x, t) \<Rightarrow> (Inr x, t))"
  by (simp add: io_recode_def io_try_def io_raise_def)

lemma execute_child_writes:
  assumes reads: "netbox_reader nb R" "preserves R discover" "esxi_reads R esxi"
    and run: "execute_child H nb esxi discover operation expected s = (r, t)" and changed: "\<not> R s t"
  shows "operation \<noteq> ''plan'' \<and> (\<exists>config hosts plan u v w.
      discover s = (Inr (config, hosts), u) \<and> build_runtime_plan H nb esxi hosts config u = (Inr plan, v)
      \<and> apply_allowed plan \<and> expected = JStr (plan_digest H plan)
      \<and> provider_run nb esxi hosts config False v = (Inr (), w) \<and> R s w
      \<and> (r = Inr (applied_json H plan) \<or> r = Inl (ApplyWorkerError ''OUTCOME_UNCERTAIN'')
         \<or> (\<exists>e. r = Inl e \<and> \<not> is_exception e)))"
proof -
  have trans: "R a b \<Longrightarrow> R b c \<Longrightarrow> R a c" for a b c
    using netbox_reader.R_trans [OF reads(1)] by (rule transpD)
  obtain x u where x: "discover s = (x, u)" by (cases "discover s")
  have su: "R s u" using preservesD [OF reads(2), of s] x by simp
  show ?thesis
  proof (cases x)
    case (Inl e)
    with x run changed su show ?thesis by (simp add: execute_child_def io_bind_def)
  next
    case (Inr ch)
    then obtain config hosts where ch: "x = Inr (config, hosts)" by (cases ch) simp
    obtain y v where y: "build_runtime_plan H nb esxi hosts config u = (y, v)"
      by (cases "build_runtime_plan H nb esxi hosts config u")
    have "R u v" using preservesD [OF netbox_reader.runtime_plan_R [OF reads(1,3)], of u H hosts config] y by simp
    with trans su have sv: "R s v" by blast
    show ?thesis
    proof (cases y)
      case (Inl e)
      with x ch y run changed sv show ?thesis by (simp add: execute_child_def io_bind_def)
    next
      case (Inr plan)
      obtain z w where z: "provider_run nb esxi hosts config False v = (z, w)"
        by (cases "provider_run nb esxi hosts config False v")
      have "R v w" using preservesD [OF netbox_reader.provider_precheck_R [OF reads(1,3)], of v hosts config] z by simp
      with trans sv have sw: "R s w" by blast
      have op: "operation \<noteq> ''plan''" and ok: "apply_allowed plan" "expected = JStr (plan_digest H plan)"
        using x ch y Inr run changed sv
        by (auto simp: execute_child_def io_bind_def io_return_def io_raise_def split: if_splits)
      have rest: "execute_child H nb esxi discover operation expected s =
          (case io_recode ''FAILED_BEFORE_WRITE'' (provider_run nb esxi hosts config False) v of
             (Inl e, t) \<Rightarrow> (Inl e, t)
           | (Inr _, t) \<Rightarrow> (case io_recode ''OUTCOME_UNCERTAIN'' (provider_run nb esxi hosts config True) t of
                (Inl e, t) \<Rightarrow> (Inl e, t) | (Inr _, t) \<Rightarrow> (Inr (applied_json H plan), t)))"
        using x ch y Inr op ok by (simp add: execute_child_def io_bind_def io_return_def)
      show ?thesis
      proof (cases z)
        case (Inl e)
        with rest z run changed sw show ?thesis by (simp add: io_recode_run)
      next
        case (Inr i)
        obtain a b where a: "provider_run nb esxi hosts config True w = (a, b)"
          by (cases "provider_run nb esxi hosts config True w")
        have "r = (case a of Inl e \<Rightarrow> Inl (if is_exception e then ApplyWorkerError ''OUTCOME_UNCERTAIN'' else e)
            | Inr _ \<Rightarrow> Inr (applied_json H plan))"
          using rest z Inr a run by (cases a) (simp_all add: io_recode_run)
        then have "r = Inr (applied_json H plan) \<or> r = Inl (ApplyWorkerError ''OUTCOME_UNCERTAIN'')
            \<or> (\<exists>e. r = Inl e \<and> \<not> is_exception e)" by (cases a) auto
        moreover have "z = Inr ()" using Inr by simp
        ultimately show ?thesis using op ok x ch y \<open>y = Inr plan\<close> z sw by blast
      qed
    qed
  qed
qed

section \<open>Properties\<close>

text \<open>C3: The child writes only what was confirmed, and says so.  Discovery and the ESXi provider's review,
  planning and unconfirmed run being read-only, a child that leaves NetBox changed was asked to apply,
  had just computed a plan that is not blocked and has the confirmed digest, had passed every precheck,
  and answers with success or \<open>OUTCOME_UNCERTAIN\<close> (or was interrupted): \<open>PLAN_STALE\<close> and
  \<open>FAILED_BEFORE_WRITE\<close> are never said of a run that wrote.\<close>

theorem child_write_gate:
  assumes reads: "netbox_reader nb R" "preserves R discover" "esxi_reads R esxi"
    and run: "execute_child H nb esxi discover operation expected s = (r, t)" and changed: "\<not> R s t"
  shows "operation \<noteq> ''plan'' \<and> (\<exists>config hosts plan u v w.
      discover s = (Inr (config, hosts), u) \<and> build_runtime_plan H nb esxi hosts config u = (Inr plan, v)
      \<and> apply_allowed plan \<and> expected = JStr (plan_digest H plan)
      \<and> provider_run nb esxi hosts config False v = (Inr (), w) \<and> R s w
      \<and> (r = Inr (applied_json H plan) \<or> r = Inl (ApplyWorkerError ''OUTCOME_UNCERTAIN'')
         \<or> (\<exists>e. r = Inl e \<and> \<not> is_exception e)))"
  by (rule execute_child_writes [OF reads run changed])

definition sample_esxi :: "(fake_state, fake_handle) esxi_provider" where
  "sample_esxi =
     \<lparr>ep_review = (\<lambda>hosts config. io_return \<lparr>rv_source_instance = sc_source_instance config,
         rv_source_type = sc_source_type config, rv_site_slug = ''lab'', rv_cluster_name = ''PVE'', rv_items = []\<rparr>),
      ep_planned = (\<lambda>hosts config confirmed. io_return ()),
      ep_run = (\<lambda>hosts config confirmed.
        if confirmed then io_bind (nb_create fake_netbox ''dcim.sites'' [(''slug'', JStr ''two'')]) (\<lambda>_. io_return ())
        else io_return ())\<rparr>"

definition sample_esxi_source :: source_config where
  "sample_esxi_source = sample_source\<lparr>sc_source_type := ''esxi''\<rparr>"

theorem child_write_gate_witness:
  "\<exists>plan v. build_runtime_plan (\<lambda>t. ''digest'') fake_netbox sample_esxi [] sample_esxi_source sample_netbox = (Inr plan, v)
     \<and> apply_allowed plan \<and> JStr ''digest'' = JStr (plan_digest (\<lambda>t. ''digest'') plan)"
proof -
  let ?discover = "io_return (sample_esxi_source, []) :: (fake_state, source_config \<times> discovered_host list) io"
  let ?run = "execute_child (\<lambda>t. ''digest'') fake_netbox sample_esxi ?discover ''apply'' (JStr ''digest'') sample_netbox"
  have "snd ?run \<noteq> sample_netbox" by code_simp
  moreover have "esxi_reads (=) sample_esxi"
    by (simp add: esxi_reads_def sample_esxi_def preserves_def io_return_def plan_rel_def)
  moreover have "preserves (=) ?discover" by (simp add: preserves_def io_return_def)
  moreover obtain r t where "?run = (r, t)" by (cases ?run)
  ultimately show ?thesis
    using child_write_gate [OF fake_reads.netbox_reader_axioms, of ?discover sample_esxi "\<lambda>t. ''digest''" "''apply''"
        "JStr ''digest''" sample_netbox r t] by (auto simp: io_return_def)
qed

lemma mutation_item_spec:
  assumes "mutation_item m = Inr i"
  shows "it_object_kind i = pm_endpoint m \<and> set (it_after i) = set (pm_after m)
    \<and> it_action i = (if pm_operation m = PlanCreate then Act_CREATE else Act_UPDATE)"
  using assms by (auto simp: mutation_item_def res_bind_eq_Inr Let_def)

lemma plan_from_mutations_items:
  assumes "plan_from_mutations H review config ms = Inr plan" and "i \<in> set (sy_items plan)"
    and "it_action i = Act_CREATE \<or> it_action i = Act_UPDATE"
  shows "\<exists>m \<in> set ms. mutation_item m = Inr i"
proof -
  from assms(1) obtain changes where map: "res_map mutation_item ms = Inr changes"
    by (cases "res_map mutation_item ms") (auto simp: plan_from_mutations_def Let_def)
  then have changes: "list_all2 (\<lambda>m i. mutation_item m = Inr i) ms changes" by (simp add: res_map_eq_Inr)
  have "set (sy_items plan) \<subseteq> {i. it_action i \<in> set kept_actions} \<union> set changes \<union> {i. it_action i = Act_NO_CHANGE}"
    using assms(1) by (auto simp: plan_from_mutations_def Let_def map)
  with assms(2,3) have "i \<in> set changes" by (auto simp: kept_actions_def)
  then obtain n where n: "n < length changes" "changes ! n = i" by (auto simp: in_set_conv_nth)
  then have "mutation_item (ms ! n) = Inr i" "ms ! n \<in> set ms"
    using list_all2_nthD2 [OF changes, of n] list_all2_lengthD [OF changes] by simp_all
  then show ?thesis by blast
qed


text \<open>A site that only has its target: what a first run finds.\<close>

definition empty_site_netbox :: fake_state where
  "empty_site_netbox = \<lparr>fk_records =
     [(''dcim.sites'', [fake_rec [(''id'', JInt 1), (''slug'', JStr ''lab'')]]),
      (''dcim.device_roles'', [fake_rec [(''id'', JInt 2), (''slug'', JStr ''hypervisor'')]]),
      (''dcim.platforms'', [fake_rec [(''id'', JInt 3), (''slug'', JStr ''proxmox'')]]),
      (''dcim.device_types'', [fake_rec [(''id'', JInt 4), (''slug'', JStr ''generic'')]]),
      (''virtualization.cluster_types'', [fake_rec [(''id'', JInt 1), (''slug'', JStr ''proxmox-ve'')]]),
      (''virtualization.clusters'', [fake_rec [(''id'', JInt 1), (''name'', JStr ''PVE''), (''type'', JInt 1),
         (''scope_type'', JStr ''dcim.site''), (''scope_id'', JInt 1)]])],
     fk_mutations = []\<rparr>"


end
