(* ===== verification/Confirmation.thy ===== *)
theory Confirmation
  imports PyIO
begin

text \<open>
  The store of confirmation capabilities (netbox_sync/application/confirmation.py).  A token is the text
  \<open>secrets.token_hex\<close> returned, the clock a number of microseconds, and SHA-256 a parameter \<open>H\<close>:
  the store keeps only \<open>H token\<close>.  Each operation holds the lock for one read and write of the
  entries, so several threads are an interleaving of whole operations (\<open>confirm_run\<close>); they read the
  clock outside the lock, so the instants of a run need not increase.
\<close>

record confirmation_claims =
  cl_source_instance :: string
  cl_source_id :: string
  cl_plan_digest :: string
  cl_planner_version :: string
  cl_source_fingerprint :: string
  cl_target_fingerprint :: string

definition ConfirmationError :: "string \<Rightarrow> py_exn" where
  "ConfirmationError code = CodedError ''ConfirmationError'' code"

record confirmation_store =
  cs_ttl :: int
  cs_maximum :: nat
  cs_entries :: "(string \<times> confirmation_claims \<times> int) list"

definition new_store :: "int \<Rightarrow> nat \<Rightarrow> confirmation_store" where
  "new_store ttl maximum = \<lparr>cs_ttl = ttl, cs_maximum = maximum, cs_entries = []\<rparr>"

definition issue ::
    "(string \<Rightarrow> string) \<Rightarrow> string \<Rightarrow> int \<Rightarrow> confirmation_claims \<Rightarrow> (confirmation_store, string) io" where
  "issue H token now claims = (\<lambda>s.
     let entries = filter (\<lambda>(key, c, expires). now < expires) (cs_entries s)
     in if cs_maximum s \<le> length entries
        then (Inl (ConfirmationError ''CONFIRMATION_CAPACITY_EXCEEDED''), s\<lparr>cs_entries := entries\<rparr>)
        else (Inr token, s\<lparr>cs_entries := dset (H token) (claims, now + cs_ttl s) entries\<rparr>))"

text \<open>\<open>token.encode('ascii')\<close> raises \<open>UnicodeEncodeError\<close>, a \<open>ValueError\<close>, on any other character.\<close>

definition token_format :: "string \<Rightarrow> unit res" where
  "token_format token =
     (if length token \<noteq> 64 then Inl (ConfirmationError ''CONFIRMATION_INVALID'')
      else if list_ex (\<lambda>c. 128 \<le> (of_char c :: nat)) token then Inl (ValueError ''UnicodeEncodeError'')
      else Inr ())"

definition check_entry :: "string \<Rightarrow> int \<Rightarrow> confirmation_claims \<times> int \<Rightarrow> confirmation_claims res" where
  "check_entry source_instance now entry =
     (case entry of (claims, expires) \<Rightarrow>
        if expires \<le> now then Inl (ConfirmationError ''CONFIRMATION_EXPIRED'')
        else if cl_source_instance claims \<noteq> source_instance
        then Inl (ConfirmationError ''CONFIRMATION_SOURCE_MISMATCH'')
        else Inr claims)"

definition consume ::
    "(string \<Rightarrow> string) \<Rightarrow> string \<Rightarrow> string \<Rightarrow> int \<Rightarrow> (confirmation_store, confirmation_claims) io" where
  "consume H token source_instance now =
     io_bind (io_lift (token_format token)) (\<lambda>_ s.
       (case dget (cs_entries s) (H token) of
          None \<Rightarrow> (Inl (ConfirmationError ''CONFIRMATION_INVALID''), s)
        | Some entry \<Rightarrow> (check_entry source_instance now entry,
                         s\<lparr>cs_entries := AList.delete (H token) (cs_entries s)\<rparr>)))"

section \<open>Histories of the store\<close>

datatype confirm_event =
    Issue string confirmation_claims int
  | Consume string string int

datatype confirm_outcome = Issued | Confirmed confirmation_claims | Refused py_exn

definition confirm_step ::
    "(string \<Rightarrow> string) \<Rightarrow> confirm_event \<Rightarrow> confirmation_store \<Rightarrow> confirm_outcome \<times> confirmation_store" where
  "confirm_step H ev s = (case ev of
       Issue token claims now \<Rightarrow> (case issue H token now claims s of
           (Inl e, t) \<Rightarrow> (Refused e, t) | (Inr x, t) \<Rightarrow> (Issued, t))
     | Consume token source_instance now \<Rightarrow> (case consume H token source_instance now s of
           (Inl e, t) \<Rightarrow> (Refused e, t) | (Inr claims, t) \<Rightarrow> (Confirmed claims, t)))"

fun confirm_run ::
    "(string \<Rightarrow> string) \<Rightarrow> confirm_event list \<Rightarrow> confirmation_store \<Rightarrow> confirm_outcome list \<times> confirmation_store" where
  "confirm_run H [] s = ([], s)"
| "confirm_run H (ev # evs) s =
     (case confirm_step H ev s of (out, t) \<Rightarrow>
        (case confirm_run H evs t of (outs, u) \<Rightarrow> (out # outs, u)))"

text \<open>An attempt on a key: a well-formed token with that hash, whatever else is wrong with the request.\<close>

definition attempts :: "(string \<Rightarrow> string) \<Rightarrow> string \<Rightarrow> confirm_event \<Rightarrow> bool" where
  "attempts H key ev = (case ev of
       Consume token source_instance now \<Rightarrow> token_format token = Inr () \<and> H token = key
     | Issue token claims now \<Rightarrow> False)"

text \<open>The events that put an entry into the store, still unspent after the given history.\<close>

definition granted ::
    "(string \<Rightarrow> string) \<Rightarrow> int \<Rightarrow> confirm_event list \<Rightarrow> confirm_outcome list \<Rightarrow> string \<Rightarrow> confirmation_claims \<Rightarrow> int
       \<Rightarrow> nat \<Rightarrow> bool" where
  "granted H ttl evs outs key claims expires i \<longleftrightarrow> i < length evs \<and> outs ! i = Issued
     \<and> (\<exists>token now. evs ! i = Issue token claims now \<and> H token = key \<and> expires = now + ttl)
     \<and> (\<forall>k. i < k \<longrightarrow> k < length evs \<longrightarrow> \<not> attempts H key (evs ! k))"

lemma confirm_run_snoc:
  "confirm_run H (evs @ [ev]) s =
     (case confirm_run H evs s of (outs, t) \<Rightarrow> (case confirm_step H ev t of (out, u) \<Rightarrow> (outs @ [out], u)))"
  by (induction evs arbitrary: s) (auto split: prod.splits)

lemma confirm_run_length: "confirm_run H evs s = (outs, t) \<Longrightarrow> length outs = length evs"
  by (induction evs arbitrary: s outs t) (auto split: prod.splits)

lemma consume_cases:
  assumes "consume H token source_instance now s = (x, t)"
  obtains (malformed) e where "token_format token \<noteq> Inr ()" "x = Inl e" "t = s"
  | (missing) "token_format token = Inr ()" "dget (cs_entries s) (H token) = None"
      "x = Inl (ConfirmationError ''CONFIRMATION_INVALID'')" "t = s"
  | (found) entry where "token_format token = Inr ()" "dget (cs_entries s) (H token) = Some entry"
      "x = check_entry source_instance now entry" "t = s\<lparr>cs_entries := AList.delete (H token) (cs_entries s)\<rparr>"
  using assms
  by (cases "token_format token"; cases "dget (cs_entries s) (H token)")
    (auto simp: consume_def io_simps)

lemma set_dset: "x \<in> set (dset k v d) \<Longrightarrow> x = (k, v) \<or> x \<in> set d"
  by (induction d) (auto split: if_splits)

lemma step_ttl: "confirm_step H ev s = (out, t) \<Longrightarrow> cs_ttl t = cs_ttl s \<and> cs_maximum t = cs_maximum s"
  by (cases ev) (auto simp: confirm_step_def issue_def Let_def elim!: consume_cases
      split: if_splits prod.splits sum.splits)

lemma run_ttl: "confirm_run H evs s = (outs, t) \<Longrightarrow> cs_ttl t = cs_ttl s \<and> cs_maximum t = cs_maximum s"
  by (induction evs arbitrary: s outs t) (auto dest: step_ttl split: prod.splits)

text \<open>What one step does to the entries: an issue adds its own, an attempt removes its key.\<close>

lemma step_entry:
  assumes "confirm_step H ev s = (out, t)" and "(key, claims, expires) \<in> set (cs_entries t)"
  shows "(key, claims, expires) \<in> set (cs_entries s) \<and> \<not> attempts H key ev
    \<or> (\<exists>token now. ev = Issue token claims now \<and> out = Issued \<and> H token = key \<and> expires = now + cs_ttl s)"
proof (cases ev)
  case (Issue token c now)
  with assms show ?thesis
    by (auto simp: confirm_step_def issue_def attempts_def Let_def split: if_splits dest!: set_dset)
next
  case (Consume token source_instance now)
  then obtain x where x: "consume H token source_instance now s = (x, t)"
    using assms(1) by (auto simp: confirm_step_def split: prod.splits sum.splits)
  then show ?thesis
  proof (cases rule: consume_cases)
    case missing
    with assms(2) Consume show ?thesis by (auto simp: attempts_def dget_None_iff rev_image_eqI)
  next
    case (found entry)
    with assms(2) Consume show ?thesis by (auto simp: attempts_def AList.delete_eq)
  qed (use assms(2) Consume in \<open>auto simp: attempts_def\<close>)
qed

lemma run_entry:
  assumes "confirm_run H evs (new_store ttl maximum) = (outs, s)" and "(key, claims, expires) \<in> set (cs_entries s)"
  shows "\<exists>i. granted H ttl evs outs key claims expires i"
  using assms
proof (induction evs arbitrary: outs s key claims expires rule: rev_induct)
  case Nil
  then have "cs_entries s = []" by (auto simp: new_store_def)
  with Nil.prems(2) show ?case by simp
next
  case (snoc ev evs)
  obtain os t out where run: "confirm_run H evs (new_store ttl maximum) = (os, t)"
    and step: "confirm_step H ev t = (out, s)" and outs: "outs = os @ [out]"
    using snoc.prems(1) by (auto simp: confirm_run_snoc split: prod.splits)
  have len: "length os = length evs" using run by (rule confirm_run_length)
  have ttl: "cs_ttl t = ttl" using run_ttl [OF run] by (simp add: new_store_def)
  from step_entry [OF step snoc.prems(2)] show ?case
  proof
    assume "(key, claims, expires) \<in> set (cs_entries t) \<and> \<not> attempts H key ev"
    with snoc.IH [OF run] obtain i where "granted H ttl evs os key claims expires i" "\<not> attempts H key ev" by blast
    then have "granted H ttl (evs @ [ev]) outs key claims expires i"
      by (auto simp: granted_def outs len nth_append)
    then show ?thesis ..
  next
    assume "\<exists>token now. ev = Issue token claims now \<and> out = Issued \<and> H token = key \<and> expires = now + cs_ttl t"
    then have "granted H ttl (evs @ [ev]) outs key claims expires (length evs)"
      by (auto simp: granted_def outs len ttl nth_append)
    then show ?thesis ..
  qed
qed

lemma run_capacity:
  "confirm_run H evs (new_store ttl maximum) = (outs, s) \<Longrightarrow> length (cs_entries s) \<le> maximum"
proof (induction evs arbitrary: outs s rule: rev_induct)
  case (snoc ev evs)
  obtain os t out where run: "confirm_run H evs (new_store ttl maximum) = (os, t)"
    and step: "confirm_step H ev t = (out, s)"
    using snoc.prems by (auto simp: confirm_run_snoc split: prod.splits)
  have m: "cs_maximum t = maximum" using run_ttl [OF run] by (simp add: new_store_def)
  have dset: "length (dset k v d) \<le> Suc (length d)" for k :: string and v :: "confirmation_claims \<times> int" and d
    by (induction d) auto
  show ?case
  proof (cases ev)
    case (Issue token c now)
    let ?live = "filter (\<lambda>(key, c, expires). now < expires) (cs_entries t)"
    have live: "length ?live \<le> maximum" using snoc.IH [OF run] length_filter_le order_trans by blast
    show ?thesis
    proof (cases "maximum \<le> length ?live")
      case True
      with Issue step m live show ?thesis by (auto simp: confirm_step_def issue_def Let_def)
    next
      case False
      then have "cs_entries s = dset (H token) (c, now + cs_ttl t) ?live"
        using Issue step m by (auto simp: confirm_step_def issue_def Let_def)
      with False dset [of "H token" "(c, now + cs_ttl t)" ?live] show ?thesis by simp
    qed
  next
    case (Consume token source_instance now)
    then obtain x where x: "consume H token source_instance now t = (x, s)"
      using step by (auto simp: confirm_step_def split: prod.splits sum.splits)
    then show ?thesis
      using snoc.IH [OF run] by (cases rule: consume_cases) (auto intro: order_trans [OF length_delete_le])
  qed
qed (simp add: new_store_def)

section \<open>Properties\<close>

text \<open>C11: A capability works once.  In any interleaving of requests, a confirmation is answered with claims
  only if an earlier issue granted exactly these claims under a token with the same hash, for this source
  and not longer than the lifetime ago, and no well-formed attempt, successful or not, used the key in
  between; and the store never holds more entries than its maximum.\<close>

theorem confirmation_single_use:
  assumes run: "confirm_run H evs (new_store ttl maximum) = (outs, s)" and j: "j < length evs"
    and ev: "evs ! j = Consume token source_instance now" and out: "outs ! j = Confirmed claims"
  shows "length (cs_entries s) \<le> maximum \<and> cl_source_instance claims = source_instance \<and>
    (\<exists>i t token'. i < j \<and> evs ! i = Issue token' claims t \<and> outs ! i = Issued \<and> H token' = H token
       \<and> now < t + ttl \<and> (\<forall>k. i < k \<longrightarrow> k < j \<longrightarrow> \<not> attempts H (H token) (evs ! k)))"
proof -
  have evs: "evs = take j evs @ evs ! j # drop (Suc j) evs" using j by (rule id_take_nth_drop)
  have append: "confirm_run H (xs @ ys) s0 = (case confirm_run H xs s0 of (os, t) \<Rightarrow>
      (case confirm_run H ys t of (os', u) \<Rightarrow> (os @ os', u)))" for xs ys s0
    by (induction xs arbitrary: s0) (auto split: prod.splits)
  obtain os t where pre: "confirm_run H (take j evs) (new_store ttl maximum) = (os, t)"
    by (cases "confirm_run H (take j evs) (new_store ttl maximum)")
  obtain o' u where step: "confirm_step H (evs ! j) t = (o', u)" by (cases "confirm_step H (evs ! j) t")
  obtain os' where outs: "outs = os @ o' # os'"
    using run append [of "take j evs" "evs ! j # drop (Suc j) evs" "new_store ttl maximum"] evs pre step
    by (auto split: prod.splits)
  have len: "length os = j" using confirm_run_length [OF pre] j by simp
  then have "outs ! j = o'" using outs by (simp add: nth_append)
  with out have "o' = Confirmed claims" by simp
  with step ev have x: "consume H token source_instance now t = (Inr claims, u)"
    by (auto simp: confirm_step_def split: prod.splits sum.splits)
  from x obtain expires where expires: "(H token, claims, expires) \<in> set (cs_entries t)" "now < expires"
    "cl_source_instance claims = source_instance"
    by (cases rule: consume_cases)
      (auto simp: check_entry_def dest: dget_Some_mem split: prod.splits if_splits)
  from run_entry [OF pre expires(1)] obtain i where g: "granted H ttl (take j evs) os (H token) claims expires i" ..
  then obtain token' t' where i: "i < j" "evs ! i = Issue token' claims t'" "outs ! i = Issued" "H token' = H token"
    "expires = t' + ttl" using len outs by (auto simp: granted_def nth_append)
  moreover have "\<not> attempts H (H token) (evs ! k)" if "i < k" "k < j" for k
    using g that j by (auto simp: granted_def)
  ultimately show ?thesis using run_capacity [OF run] expires by auto
qed

definition sample_claims :: confirmation_claims where
  "sample_claims = \<lparr>cl_source_instance = ''pve-a'', cl_source_id = ''s1'', cl_plan_digest = ''d'',
     cl_planner_version = ''web-5a-1'', cl_source_fingerprint = ''f'', cl_target_fingerprint = ''t''\<rparr>"

definition sample_token :: string where
  "sample_token = replicate 64 (CHR ''a'')"

theorem confirmation_single_use_witness:
  "snd (confirm_run (\<lambda>t. t) [Issue sample_token sample_claims 0, Consume sample_token ''pve-a'' 5,
       Consume sample_token ''pve-a'' 6] (new_store 300 1)) = new_store 300 1
     \<and> cl_source_instance sample_claims = ''pve-a''"
proof -
  let ?evs = "[Issue sample_token sample_claims 0, Consume sample_token ''pve-a'' 5, Consume sample_token ''pve-a'' 6]"
  have run: "confirm_run (\<lambda>t. t) ?evs (new_store 300 1) =
      ([Issued, Confirmed sample_claims, Refused (ConfirmationError ''CONFIRMATION_INVALID'')], new_store 300 1)"
    by code_simp
  from confirmation_single_use [OF run, of 1 sample_token "''pve-a''" 5 sample_claims] run show ?thesis by simp
qed

end
