(* ===== verification/ApplyWorker.thy ===== *)
theory ApplyWorker
  imports RuntimePlan Confirmation
begin

text \<open>
  The supervisor of confirmed manual runs (\<open>ApplySupervisor\<close> of netbox_sync/apply_worker.py).  It owns the
  confirmation store; everything else it touches is an operation of its environment: the registry of sources,
  the secrets, the lock file, the child process, the run history, the clock and the random token.  An
  \<open>OSError\<close> and a \<open>SecretResolutionError\<close> are exceptions named by their class.
\<close>

record child_request =
  cq_source :: source_config
  cq_secrets :: obj
  cq_operation :: string
  cq_expected_digest :: json

datatype child_exit = TimedOut | Exited int int "json option"

record 'w supervisor =
  su_schema_version :: "('w, int) io"
  su_lookup :: "string \<Rightarrow> ('w, source_config option) io"
  su_secrets :: "source_config \<Rightarrow> ('w, obj) io"
  su_spawn :: "child_request \<Rightarrow> ('w, child_exit) io"
  su_open_lock :: "('w, nat) io"
  su_flock :: "nat \<Rightarrow> ('w, unit) io"
  su_close :: "nat \<Rightarrow> ('w, unit) io"
  su_runs :: "'w run_repository option"
  su_clock :: "'w clock"
  su_token :: "'w \<Rightarrow> string \<times> 'w"
  su_hash :: "string \<Rightarrow> string"

record 'w supervisor_state =
  st_store :: confirmation_store
  st_world :: 'w

definition in_world :: "('w, 'a) io \<Rightarrow> ('w supervisor_state, 'a) io" where
  "in_world m = (\<lambda>s. case m (st_world s) of (x, w) \<Rightarrow> (x, s\<lparr>st_world := w\<rparr>))"

definition in_store :: "(confirmation_store, 'a) io \<Rightarrow> ('w supervisor_state, 'a) io" where
  "in_store m = (\<lambda>s. case m (st_store s) of (x, c) \<Rightarrow> (x, s\<lparr>st_store := c\<rparr>))"

text \<open>\<open>finally\<close>: the cleanup runs either way, and an exception of its own replaces the outcome.\<close>

definition io_finally :: "('s, 'a) io \<Rightarrow> ('s, unit) io \<Rightarrow> ('s, 'a) io" where
  "io_finally m c = (\<lambda>s. case m s of (x, t) \<Rightarrow> (case c t of (Inl e, u) \<Rightarrow> (Inl e, u) | (Inr _, u) \<Rightarrow> (x, u)))"

definition is_os_error :: "py_exn \<Rightarrow> bool" where
  "is_os_error e = (case e of CodedError cls code \<Rightarrow> cls = ''OSError'' | _ \<Rightarrow> False)"

definition is_secret_error :: "py_exn \<Rightarrow> bool" where
  "is_secret_error e = (case e of CodedError cls code \<Rightarrow> cls = ''SecretResolutionError'' | _ \<Rightarrow> False)"

definition worker_code :: "py_exn \<Rightarrow> string option" where
  "worker_code e = (case e of CodedError cls code \<Rightarrow> if cls = ''ApplyWorkerError'' then Some code else None | _ \<Rightarrow> None)"

section \<open>The steps of a request\<close>

definition registered_source :: "'w supervisor \<Rightarrow> string \<Rightarrow> ('w, source_config) io" where
  "registered_source su inst =
     io_bind (io_try
        (io_bind (su_schema_version su) (\<lambda>v.
           if v \<noteq> 1 then io_raise (ApplyWorkerError ''REGISTRY_UNAVAILABLE'') else su_lookup su inst))
        (\<lambda>e. io_raise (if worker_code e \<noteq> None \<or> \<not> is_exception e then e
                       else ApplyWorkerError ''REGISTRY_UNAVAILABLE''))) (\<lambda>found.
     (case found of
        None \<Rightarrow> io_raise (ApplyWorkerError ''SOURCE_NOT_FOUND'')
      | Some config \<Rightarrow> if \<not> sc_enabled config then io_raise (ApplyWorkerError ''SOURCE_DISABLED'')
                       else io_return config))"

definition child_payload :: "'w supervisor \<Rightarrow> source_config \<Rightarrow> string \<Rightarrow> json \<Rightarrow> ('w, child_request) io" where
  "child_payload su config operation expected =
     io_bind (io_try (su_secrets su config)
        (\<lambda>e. io_raise (if is_secret_error e \<or> is_os_error e then ApplyWorkerError ''CREDENTIAL_UNAVAILABLE'' else e)))
     (\<lambda>secrets. io_return \<lparr>cq_source = config, cq_secrets = secrets, cq_operation = operation,
        cq_expected_digest = expected\<rparr>)"

definition broken_child :: "string \<Rightarrow> py_exn" where
  "broken_child operation =
     ApplyWorkerError (if operation = ''plan'' then ''FAILED_BEFORE_WRITE'' else ''OUTCOME_UNCERTAIN'')"

definition CHILD_CODES :: "string list" where
  "CHILD_CODES = [''PLAN_STALE'', ''PLAN_BLOCKED'', ''FAILED_BEFORE_WRITE'', ''OUTCOME_UNCERTAIN'', ''APPLY_FAILED'',
     ''SOURCE_UNSUPPORTED'']"

definition MAX_RESPONSE :: int where "MAX_RESPONSE = 8 * 1024 * 1024"

text \<open>\<open>error in allowed\<close> raises \<open>TypeError\<close> for a list or a dictionary, which is not hashable.\<close>

definition child_response :: "string \<Rightarrow> json option \<Rightarrow> obj res" where
  "child_response operation output =
     (case output of
        Some (JObj response) \<Rightarrow>
          if \<not> set (map fst response) \<subseteq> {''result'', ''error''} then Inl (broken_child operation)
          else if truthy (jget response ''error'') then
            (case jget response ''error'' of
               JList xs \<Rightarrow> Inl (TypeError ''unhashable type'')
             | JObj d \<Rightarrow> Inl (TypeError ''unhashable type'')
             | JStr code \<Rightarrow> Inl (ApplyWorkerError (if code \<in> set CHILD_CODES then code else ''APPLY_FAILED''))
             | _ \<Rightarrow> Inl (ApplyWorkerError ''APPLY_FAILED''))
          else (case jget response ''result'' of
             JObj d \<Rightarrow> Inr d
           | _ \<Rightarrow> Inl (ApplyWorkerError ''APPLY_FAILED''))
      | _ \<Rightarrow> Inl (broken_child operation))"

definition child_verdict :: "string \<Rightarrow> child_exit \<Rightarrow> obj res" where
  "child_verdict operation ended =
     (case ended of
        TimedOut \<Rightarrow> Inl (broken_child operation)
      | Exited code bytes output \<Rightarrow>
          if code \<noteq> 0 \<or> bytes > MAX_RESPONSE then Inl (broken_child operation)
          else child_response operation output)"

definition run_child :: "'w supervisor \<Rightarrow> child_request \<Rightarrow> ('w, obj) io" where
  "run_child su request =
     io_bind (su_spawn su request) (\<lambda>ended. io_lift (child_verdict (cq_operation request) ended))"

definition required_key :: "obj \<Rightarrow> string \<Rightarrow> json res" where
  "required_key d k = (case dget d k of None \<Rightarrow> Inl (KeyError k) | Some v \<Rightarrow> Inr v)"

definition text_of :: "json \<Rightarrow> string res" where
  "text_of v = (case v of JStr t \<Rightarrow> Inr t | _ \<Rightarrow> Inl (TypeError ''expected a text''))"

section \<open>Prepare\<close>

text \<open>The plan's version and fingerprints are texts, as the child writes them.\<close>

definition prepare_plan :: "'w supervisor \<Rightarrow> string \<Rightarrow> string \<Rightarrow> ('w, confirmation_claims) io" where
  "prepare_plan su inst digest =
     io_bind (registered_source su inst) (\<lambda>config.
     io_bind (child_payload su config ''plan'' JNull) (\<lambda>request.
     io_bind (run_child su request) (\<lambda>plan.
     io_lift (res_bind (required_key plan ''apply_allowed'') (\<lambda>allowed.
       if \<not> truthy allowed then Inl (ApplyWorkerError ''PLAN_BLOCKED'')
       else res_bind (required_key plan ''digest'') (\<lambda>current.
       if current \<noteq> JStr digest then Inl (ApplyWorkerError ''PLAN_STALE'')
       else res_bind (res_bind (required_key plan ''planner_version'') text_of) (\<lambda>version.
       res_bind (res_bind (required_key plan ''source_fingerprint'') text_of) (\<lambda>source.
       res_bind (res_bind (required_key plan ''target_fingerprint'') text_of) (\<lambda>target.
         Inr \<lparr>cl_source_instance = inst, cl_source_id = sc_id config, cl_plan_digest = digest,
           cl_planner_version = version, cl_source_fingerprint = source, cl_target_fingerprint = target\<rparr>)))))))))"

definition prepare :: "'w supervisor \<Rightarrow> string \<Rightarrow> string \<Rightarrow> ('w supervisor_state, json) io" where
  "prepare su inst digest =
     io_bind (in_world (prepare_plan su inst digest)) (\<lambda>claims.
     io_bind (in_world (\<lambda>w. case su_token su w of (t, v) \<Rightarrow> (Inr t, v))) (\<lambda>token.
     io_bind (in_world (now (su_clock su))) (\<lambda>instant.
     io_bind (in_store (issue (su_hash su) token instant claims)) (\<lambda>issued.
       io_return (JObj [(''confirmation_token'', JStr issued), (''expires_in_seconds'', JInt 300)])))))"

section \<open>Apply\<close>

text \<open>\<open>ActionCounts(**counts)\<close>: an unknown key is a \<open>TypeError\<close>; the values are integers, as the child writes them.\<close>

definition COUNT_KEYS :: "string list" where
  "COUNT_KEYS = [''create'', ''update'', ''no_change'', ''review_required'', ''blocked'', ''ignored'', ''unsupported'',
     ''retain_only'']"

definition count_at :: "obj \<Rightarrow> string \<Rightarrow> int res" where
  "count_at d k = (case dget d k of None \<Rightarrow> Inr 0 | Some (JInt i) \<Rightarrow> Inr i
     | _ \<Rightarrow> Inl (ValueError ''counts must be non-negative integers''))"

definition counts_of :: "json \<Rightarrow> action_counts res" where
  "counts_of v = (case v of
       JObj d \<Rightarrow>
         if \<not> set (map fst d) \<subseteq> set COUNT_KEYS then Inl (TypeError ''unexpected keyword argument'')
         else res_bind (res_map (count_at d) COUNT_KEYS) (\<lambda>cs.
           Inr \<lparr>ac_create = cs ! 0, ac_update = cs ! 1, ac_no_change = cs ! 2, ac_review_required = cs ! 3,
             ac_blocked = cs ! 4, ac_ignored = cs ! 5, ac_unsupported = cs ! 6, ac_retain_only = cs ! 7\<rparr>)
     | _ \<Rightarrow> Inl (TypeError ''argument after ** must be a mapping''))"

text \<open>\<open>str\<close> of a UUID: 32 hexadecimal digits in groups of 8, 4, 4, 4 and 12.\<close>

definition uuid_text :: "int \<Rightarrow> string" where
  "uuid_text i =
     (let h = map (\<lambda>k. ''0123456789abcdef'' ! (nat i div 16 ^ k mod 16)) (rev [0..<32])
      in take 8 h @ ''-'' @ take 4 (drop 8 h) @ ''-'' @ take 4 (drop 12 h) @ ''-'' @ take 4 (drop 16 h) @ ''-'' @ drop 20 h)"

text \<open>The local variables of \<open>apply\<close> that its handlers read: the claims it consumed and whether it handed
  over to the child.\<close>

record 'w apply_frame =
  fr_state :: "'w supervisor_state"
  fr_claims :: "confirmation_claims option"
  fr_started :: bool

definition in_state :: "('w supervisor_state, 'a) io \<Rightarrow> ('w apply_frame, 'a) io" where
  "in_state m = (\<lambda>f. case m (fr_state f) of (x, s) \<Rightarrow> (x, f\<lparr>fr_state := s\<rparr>))"

abbreviation on_world :: "('w, 'a) io \<Rightarrow> ('w apply_frame, 'a) io" where
  "on_world m \<equiv> in_state (in_world m)"

text \<open>The store reads its clock after taking the entry; nothing but the clock moves in between, so the
  reading comes first here.\<close>

definition worker_error_of :: "py_exn \<Rightarrow> py_exn" where
  "worker_error_of e = (case e of
       CodedError cls code \<Rightarrow> if cls = ''ConfirmationError'' then ApplyWorkerError code else e
     | _ \<Rightarrow> e)"

definition consume_claims :: "'w supervisor \<Rightarrow> string \<Rightarrow> string \<Rightarrow> ('w apply_frame, confirmation_claims) io" where
  "consume_claims su inst token =
     io_bind (on_world (now (su_clock su))) (\<lambda>instant.
     io_bind (io_try (in_state (in_store (consume (su_hash su) token inst instant)))
        (\<lambda>e. io_raise (worker_error_of e))) (\<lambda>claims f. (Inr claims, f\<lparr>fr_claims := Some claims\<rparr>)))"

definition open_lock :: "'w supervisor \<Rightarrow> ('w, nat) io" where
  "open_lock su =
     io_try (su_open_lock su) (\<lambda>e. io_raise (if is_os_error e then ApplyWorkerError ''FAILED_BEFORE_WRITE'' else e))"

definition locked_source :: "'w supervisor \<Rightarrow> string \<Rightarrow> confirmation_claims \<Rightarrow> nat \<Rightarrow> ('w, source_config) io" where
  "locked_source su inst claims fd =
     io_bind (io_try (su_flock su fd) (\<lambda>e. io_raise (if is_os_error e then ApplyWorkerError ''APPLY_LOCKED'' else e))) (\<lambda>_.
     io_bind (registered_source su inst) (\<lambda>config.
       if sc_id config \<noteq> cl_source_id claims then io_raise (ApplyWorkerError ''PLAN_STALE'')
       else io_return config))"

definition apply_child :: "'w supervisor \<Rightarrow> source_config \<Rightarrow> confirmation_claims \<Rightarrow> ('w, obj) io" where
  "apply_child su config claims =
     io_bind (child_payload su config ''apply'' (JStr (cl_plan_digest claims))) (\<lambda>request.
     io_bind (run_child su request) (\<lambda>result.
       if jget result ''plan_digest'' \<noteq> JStr (cl_plan_digest claims)
       then io_raise (ApplyWorkerError ''OUTCOME_UNCERTAIN'') else io_return result))"

definition apply_locked :: "'w supervisor \<Rightarrow> string \<Rightarrow> confirmation_claims \<Rightarrow> ('w apply_frame, obj) io" where
  "apply_locked su inst claims =
     io_bind (on_world (open_lock su)) (\<lambda>fd.
       io_finally
         (io_bind (on_world (locked_source su inst claims fd)) (\<lambda>config.
          io_bind (\<lambda>f. (Inr (), f\<lparr>fr_started := True\<rparr>)) (\<lambda>_.
            on_world (apply_child su config claims))))
         (on_world (su_close su fd)))"

definition optional_text :: "json \<Rightarrow> string option res" where
  "optional_text v = (case v of JNull \<Rightarrow> Inr None | JStr t \<Rightarrow> Inr (Some t) | _ \<Rightarrow> Inl (ValueError ''invalid planner_version''))"

definition record_success ::
    "'w supervisor \<Rightarrow> sync_run option \<Rightarrow> confirmation_claims \<Rightarrow> obj \<Rightarrow> ('w, json) io" where
  "record_success su run claims result =
     (let rest = filter (\<lambda>(k, v). k \<noteq> ''action_counts'') result;
          answer = filter (\<lambda>(k, v). k \<noteq> ''planner_version'') rest
      in io_bind (io_lift (counts_of (case dget result ''action_counts'' of None \<Rightarrow> JObj [] | Some c \<Rightarrow> c))) (\<lambda>counts.
         (case (su_runs su, run) of
            (Some rp, Some r) \<Rightarrow>
              io_bind (io_lift (optional_text (jget rest ''planner_version''))) (\<lambda>version.
              io_bind (rp_finish rp (sr_run_id r) SUCCEEDED (Some counts) (Some (cl_plan_digest claims)) version None None)
                (\<lambda>_. io_return (JObj (dset ''run_id'' (JStr (uuid_text (sr_run_id r))) answer))))
          | _ \<Rightarrow> io_return (JObj answer))))"

definition apply_body :: "'w supervisor \<Rightarrow> string \<Rightarrow> string \<Rightarrow> sync_run option \<Rightarrow> ('w apply_frame, json) io" where
  "apply_body su inst token run =
     io_bind (consume_claims su inst token) (\<lambda>claims.
     io_bind (apply_locked su inst claims) (\<lambda>result.
       on_world (record_success su run claims result)))"

definition record_failure ::
    "'w supervisor \<Rightarrow> sync_run option \<Rightarrow> confirmation_claims option \<Rightarrow> string \<Rightarrow> ('w, unit) io" where
  "record_failure su run claims code =
     (case (su_runs su, run) of
        (Some rp, Some r) \<Rightarrow>
          io_bind (rp_finish rp (sr_run_id r) (terminal_status (Some code)) None (map_option cl_plan_digest claims)
            (map_option cl_planner_version claims) (Some code) (Some (safe_error_message code))) (\<lambda>_. io_return ())
      | _ \<Rightarrow> io_return ())"

definition failure_code :: "bool \<Rightarrow> string" where
  "failure_code started = (if started then ''OUTCOME_UNCERTAIN'' else ''APPLY_FAILED'')"

definition apply_failed :: "'w supervisor \<Rightarrow> sync_run option \<Rightarrow> py_exn \<Rightarrow> ('w apply_frame, json) io" where
  "apply_failed su run e = (\<lambda>f.
     if \<not> is_exception e then (Inl e, f)
     else (case worker_code e of
         Some code \<Rightarrow> io_bind (on_world (record_failure su run (fr_claims f) (safe_error_code (Some code))))
                        (\<lambda>_. io_raise e) f
       | None \<Rightarrow> io_bind (on_world (record_failure su run (fr_claims f) (failure_code (fr_started f))))
                        (\<lambda>_. io_raise (ApplyWorkerError (failure_code (fr_started f)))) f))"

definition start_manual :: "'w supervisor \<Rightarrow> string \<Rightarrow> string \<Rightarrow> ('w, sync_run option) io" where
  "start_manual su inst source_type =
     (case su_runs su of
        None \<Rightarrow> io_return None
      | Some rp \<Rightarrow> io_bind (rp_start rp inst source_type ''manual'' ''web/manual'') (\<lambda>r. io_return (Some r)))"

definition with_frame :: "('w apply_frame, 'a) io \<Rightarrow> ('w supervisor_state, 'a) io" where
  "with_frame m = (\<lambda>s. case m \<lparr>fr_state = s, fr_claims = None, fr_started = False\<rparr> of (x, f) \<Rightarrow> (x, fr_state f))"

definition supervisor_apply :: "'w supervisor \<Rightarrow> string \<Rightarrow> string \<Rightarrow> ('w supervisor_state, json) io" where
  "supervisor_apply su inst token =
     io_bind (in_world (registered_source su inst)) (\<lambda>config.
     io_bind (in_world (start_manual su inst (sc_source_type config))) (\<lambda>run.
       with_frame (io_try (apply_body su inst token run) (apply_failed su run))))"

section \<open>Requests\<close>

datatype worker_request = HealthRequest | PrepareRequest string string | ApplyRequest string string

definition handle_request :: "'w supervisor \<Rightarrow> worker_request \<Rightarrow> ('w supervisor_state, json) io" where
  "handle_request su request = (case request of
       HealthRequest \<Rightarrow> io_return (JObj [(''status'', JStr ''ok'')])
     | PrepareRequest inst digest \<Rightarrow> prepare su inst digest
     | ApplyRequest inst token \<Rightarrow> supervisor_apply su inst token)"

definition text_field :: "obj \<Rightarrow> string \<Rightarrow> string res" where
  "text_field d k = (case dget d k of
       None \<Rightarrow> Inr [] | Some (JStr t) \<Rightarrow> Inr t | _ \<Rightarrow> Inl (TypeError ''expected string or bytes-like object''))"

definition REQUEST_INVALID :: py_exn where "REQUEST_INVALID = ApplyWorkerError ''REQUEST_INVALID''"

definition parse_request :: "json \<Rightarrow> worker_request res" where
  "parse_request request =
     (if request = JObj [(''operation'', JStr ''health'')] then Inr HealthRequest
      else (case request of
         JObj d \<Rightarrow>
           let operation = jget d ''operation'';
               last = (if operation = JStr ''prepare'' then ''plan_digest'' else ''confirmation_token'')
           in if set (map fst d) \<noteq> {''operation'', ''source_instance'', last}
                 \<or> (operation \<noteq> JStr ''prepare'' \<and> operation \<noteq> JStr ''apply'') then Inl REQUEST_INVALID
              else res_bind (text_field d ''source_instance'') (\<lambda>inst.
                if \<not> source_instance_ok inst then Inl REQUEST_INVALID
                else res_bind (text_field d last) (\<lambda>secret.
                  if \<not> digest_ok secret then Inl REQUEST_INVALID
                  else Inr (if operation = JStr ''prepare'' then PrepareRequest inst secret
                            else ApplyRequest inst secret)))
       | _ \<Rightarrow> Inl REQUEST_INVALID))"

text \<open>One connection of \<open>serve\<close>: the request's JSON value, if the bytes are short enough and are JSON; an
  interrupt ends the worker.\<close>

definition worker_response :: "json res \<Rightarrow> json res" where
  "worker_response outcome = (case outcome of
       Inr result \<Rightarrow> Inr (JObj [(''ok'', JBool True), (''result'', result)])
     | Inl e \<Rightarrow> if \<not> is_exception e then Inl e
        else Inr (JObj [(''ok'', JBool False), (''error'', JStr (case worker_code e of
               Some code \<Rightarrow> code | None \<Rightarrow> ''WORKER_INTERNAL_ERROR''))]))"

definition serve_connection ::
    "'w supervisor \<Rightarrow> nat \<Rightarrow> nat \<Rightarrow> json option \<Rightarrow> ('w supervisor_state, json) io" where
  "serve_connection su allowed_uid peer_uid received = (\<lambda>s.
     case (if peer_uid \<noteq> allowed_uid then io_raise (ApplyWorkerError ''PEER_FORBIDDEN'')
           else (case received of
              None \<Rightarrow> io_raise REQUEST_INVALID
            | Some request \<Rightarrow> io_bind (io_lift (parse_request request)) (handle_request su))) s of
       (outcome, t) \<Rightarrow> (worker_response outcome, t))"

section \<open>Where a change comes from\<close>

text \<open>\<open>changes R m s\<close>: the effect leaves \<open>R\<close>.  In a sequence whose first part keeps \<open>R\<close>, the change is in
  the rest; where the rest keeps \<open>R\<close>, in the first part.\<close>

definition changes :: "('s \<Rightarrow> 's \<Rightarrow> bool) \<Rightarrow> ('s, 'a) io \<Rightarrow> 's \<Rightarrow> bool" where
  "changes R m s \<longleftrightarrow> \<not> R s (snd (m s))"

lemma changes_not_preserves: "preserves R m \<Longrightarrow> \<not> changes R m s"
  by (simp add: changes_def preserves_def)

lemma changes_bindE:
  assumes "changes R (io_bind m f) s" and "transp R" "preserves R m"
  obtains x t where "m s = (Inr x, t)" "R s t" "changes R (f x) t" "io_bind m f s = f x t"
proof -
  obtain r t where m: "m s = (r, t)" by (cases "m s")
  have st: "R s t" using preservesD [OF assms(3), of s] m by simp
  show thesis
  proof (cases r)
    case (Inl e)
    with m st assms(1) show ?thesis by (simp add: changes_def io_bind_def)
  next
    case (Inr x)
    have "changes R (f x) t"
      using assms(1) m Inr st transpD [OF assms(2)] unfolding changes_def by (auto simp: io_bind_def)
    with m Inr st show ?thesis by (intro that [of x t]) (simp_all add: io_bind_def)
  qed
qed

lemma snd_bind: "R s (snd (m s)) \<Longrightarrow> transp R \<Longrightarrow> (\<And>x. preserves R (f x)) \<Longrightarrow> R s (snd (io_bind m f s))"
  by (cases "m s"; cases "fst (m s)") (auto simp: io_bind_def intro: transpD preservesD)

lemma snd_try: "R s (snd (m s)) \<Longrightarrow> transp R \<Longrightarrow> (\<And>e. preserves R (h e)) \<Longrightarrow> R s (snd (io_try m h s))"
  by (cases "m s"; cases "fst (m s)") (auto simp: io_try_def intro: transpD preservesD)

lemma snd_finally: "R s (snd (m s)) \<Longrightarrow> transp R \<Longrightarrow> preserves R c \<Longrightarrow> R s (snd (io_finally m c s))"
  by (cases "m s") (auto simp: io_finally_def split: prod.split sum.split intro: transpD dest!: preservesD [of R c "snd (m s)"])

lemma changes_bind_first:
  "changes R (io_bind m f) s \<Longrightarrow> transp R \<Longrightarrow> (\<And>x. preserves R (f x)) \<Longrightarrow> changes R m s"
  unfolding changes_def using snd_bind [of R s m f] by blast

lemma changes_try_first:
  "changes R (io_try m h) s \<Longrightarrow> transp R \<Longrightarrow> (\<And>e. preserves R (h e)) \<Longrightarrow> changes R m s"
  unfolding changes_def using snd_try [of R s m h] by blast

lemma changes_finally_first:
  "changes R (io_finally m c) s \<Longrightarrow> transp R \<Longrightarrow> preserves R c \<Longrightarrow> changes R m s"
  unfolding changes_def using snd_finally [of R s m c] by blast

lemma preserves_finally: "transp R \<Longrightarrow> preserves R m \<Longrightarrow> preserves R c \<Longrightarrow> preserves R (io_finally m c)"
  unfolding preserves_def [of R m] preserves_def [of R "io_finally m c"] by (blast intro: snd_finally)

section \<open>What the supervisor does itself\<close>

text \<open>\<open>supervisor_keeps R su\<close>: everything but the child keeps \<open>R\<close>, and the history and the lock file do not
  raise the worker's own exception.\<close>

definition plain :: "('w, 'a) io \<Rightarrow> bool" where
  "plain m \<longleftrightarrow> (\<forall>w e v. m w = (Inl e, v) \<longrightarrow> worker_code e = None)"

definition history_keeps :: "('w \<Rightarrow> 'w \<Rightarrow> bool) \<Rightarrow> 'w run_repository \<Rightarrow> bool" where
  "history_keeps R rp \<longleftrightarrow> (\<forall>inst ty tr by. preserves R (rp_start rp inst ty tr by))
     \<and> (\<forall>i st cs d v ec em. preserves R (rp_finish rp i st cs d v ec em) \<and> plain (rp_finish rp i st cs d v ec em))"

definition supervisor_keeps :: "('w \<Rightarrow> 'w \<Rightarrow> bool) \<Rightarrow> 'w supervisor \<Rightarrow> bool" where
  "supervisor_keeps R su \<longleftrightarrow> reflp R \<and> transp R
     \<and> preserves R (su_schema_version su) \<and> (\<forall>inst. preserves R (su_lookup su inst))
     \<and> (\<forall>config. preserves R (su_secrets su config)) \<and> preserves R (su_open_lock su)
     \<and> (\<forall>fd. preserves R (su_flock su fd)) \<and> (\<forall>fd. preserves R (su_close su fd) \<and> plain (su_close su fd))
     \<and> preserves R (now (su_clock su)) \<and> (\<forall>rp. su_runs su = Some rp \<longrightarrow> history_keeps R rp)"

definition RF :: "('w \<Rightarrow> 'w \<Rightarrow> bool) \<Rightarrow> 'w apply_frame \<Rightarrow> 'w apply_frame \<Rightarrow> bool" where
  "RF R f g \<longleftrightarrow> R (st_world (fr_state f)) (st_world (fr_state g))"

lemma RF_refl: "reflp R \<Longrightarrow> reflp (RF R)"
  and RF_trans: "transp R \<Longrightarrow> transp (RF R)"
  by (auto simp: RF_def reflp_def transp_def)

lemma on_world_R: "preserves R m \<Longrightarrow> preserves (RF R) (on_world m)"
  by (auto simp: preserves_def RF_def in_state_def in_world_def split: prod.splits) (metis snd_conv)

lemma in_store_R: "reflp R \<Longrightarrow> preserves (RF R) (in_state (in_store m))"
  by (auto simp: preserves_def RF_def in_state_def in_store_def reflp_def split: prod.splits)

lemma frame_R: "reflp R \<Longrightarrow> (\<And>f. fr_state (g f) = fr_state f) \<Longrightarrow> preserves (RF R) (\<lambda>f. (x, g f))"
  by (auto simp: preserves_def RF_def reflp_def)

lemma keepsD:
  assumes "supervisor_keeps R su"
  shows "reflp R" "transp R" "preserves R (su_schema_version su)" "preserves R (su_lookup su inst)"
    "preserves R (su_secrets su config)" "preserves R (su_open_lock su)" "preserves R (su_flock su fd)"
    "preserves R (su_close su fd)" "plain (su_close su fd)" "preserves R (now (su_clock su))"
  using assms by (simp_all add: supervisor_keeps_def)

lemmas keeps_intros = preserves_intros keepsD on_world_R in_store_R RF_refl RF_trans frame_R

lemma keeps_history:
  assumes "supervisor_keeps R su" and "su_runs su = Some rp"
  shows "preserves R (rp_start rp inst ty tr by)" "preserves R (rp_finish rp i st cs d v ec em)"
    "plain (rp_finish rp i st cs d v ec em)"
  using assms by (simp_all add: supervisor_keeps_def history_keeps_def)

lemma registered_source_R: "supervisor_keeps R su \<Longrightarrow> preserves R (registered_source su inst)"
  unfolding registered_source_def by (intro keeps_intros) assumption+

lemma child_payload_R: "supervisor_keeps R su \<Longrightarrow> preserves R (child_payload su config operation expected)"
  unfolding child_payload_def by (intro keeps_intros) assumption+

lemma locked_source_R: "supervisor_keeps R su \<Longrightarrow> preserves R (locked_source su inst claims fd)"
  unfolding locked_source_def by (intro keeps_intros registered_source_R) assumption+

lemma open_lock_R: "supervisor_keeps R su \<Longrightarrow> preserves R (open_lock su)"
  unfolding open_lock_def by (intro keeps_intros) assumption+

lemma start_manual_R:
  assumes "supervisor_keeps R su"
  shows "preserves R (start_manual su inst ty)"
  using keeps_history [OF assms] keepsD [OF assms] unfolding start_manual_def
  by (cases "su_runs su") (auto intro!: preserves_intros)

lemma record_success_R:
  assumes "supervisor_keeps R su"
  shows "preserves R (record_success su run claims result)"
  using keeps_history [OF assms] keepsD [OF assms] unfolding record_success_def Let_def
  by (cases "su_runs su"; cases run) (auto intro!: preserves_intros)

lemma record_failure_R:
  assumes "supervisor_keeps R su"
  shows "preserves R (record_failure su run claims code)"
  using keeps_history [OF assms] keepsD [OF assms] unfolding record_failure_def
  by (cases "su_runs su"; cases run) (auto intro!: preserves_intros)

lemma consume_claims_R: "supervisor_keeps R su \<Longrightarrow> preserves (RF R) (consume_claims su inst token)"
  unfolding consume_claims_def by (intro keeps_intros) (assumption | simp)+

lemma apply_failed_R:
  assumes "supervisor_keeps R su"
  shows "preserves (RF R) (apply_failed su run e)"
proof -
  have "RF R f (snd (apply_failed su run e f))" for f
  proof -
    have "preserves (RF R) (io_bind (on_world (record_failure su run c code)) (\<lambda>_. io_raise d))"
      for c code and d :: py_exn
      by (rule preserves_bind [OF RF_trans [OF keepsD(2) [OF assms]] on_world_R [OF record_failure_R [OF assms]]
            preserves_raise [OF RF_refl [OF keepsD(1) [OF assms]]]])
    then show ?thesis
      using reflpD [OF RF_refl [OF keepsD(1) [OF assms]]]
      by (auto simp: apply_failed_def preserves_def split: option.split)
  qed
  then show ?thesis by (simp add: preserves_def)
qed

section \<open>A change of the world goes through the child\<close>

definition apply_request :: "source_config \<Rightarrow> obj \<Rightarrow> confirmation_claims \<Rightarrow> child_request" where
  "apply_request config secrets claims = \<lparr>cq_source = config, cq_secrets = secrets, cq_operation = ''apply'',
     cq_expected_digest = JStr (cl_plan_digest claims)\<rparr>"

definition apply_verdict :: "confirmation_claims \<Rightarrow> child_exit \<Rightarrow> obj res" where
  "apply_verdict claims ended =
     res_bind (child_verdict ''apply'' ended) (\<lambda>result.
       if jget result ''plan_digest'' \<noteq> JStr (cl_plan_digest claims)
       then Inl (ApplyWorkerError ''OUTCOME_UNCERTAIN'') else Inr result)"

definition spawn_outcome :: "confirmation_claims \<Rightarrow> child_exit res \<Rightarrow> obj res" where
  "spawn_outcome claims outcome = res_bind outcome (apply_verdict claims)"

lemma apply_child_change:
  assumes keeps: "supervisor_keeps R su" and change: "changes R (apply_child su config claims) w"
  shows "\<exists>secrets v. R w v \<and> changes R (su_spawn su (apply_request config secrets claims)) v
    \<and> fst (apply_child su config claims w) = spawn_outcome claims (fst (su_spawn su (apply_request config secrets claims) v))"
proof -
  note trans = keepsD(2) [OF keeps] and refl = keepsD(1) [OF keeps]
  have payload: "child_payload su config ''apply'' (JStr (cl_plan_digest claims)) w = (Inr request, v) \<Longrightarrow>
      \<exists>secrets. request = apply_request config secrets claims" for request v
    by (auto simp: child_payload_def io_bind_Inr io_return_def apply_request_def)
  obtain request v where v: "child_payload su config ''apply'' (JStr (cl_plan_digest claims)) w = (Inr request, v)"
    "R w v" and rest: "apply_child su config claims w =
      io_bind (run_child su request) (\<lambda>result. if jget result ''plan_digest'' \<noteq> JStr (cl_plan_digest claims)
       then io_raise (ApplyWorkerError ''OUTCOME_UNCERTAIN'') else io_return result) v"
      "changes R (io_bind (run_child su request) (\<lambda>result. if jget result ''plan_digest'' \<noteq> JStr (cl_plan_digest claims)
       then io_raise (ApplyWorkerError ''OUTCOME_UNCERTAIN'') else io_return result)) v"
    using change unfolding apply_child_def
    by (rule changes_bindE) (use trans child_payload_R [OF keeps] in auto)
  from payload [OF v(1)] obtain secrets where req: "request = apply_request config secrets claims" ..
  from rest(2) have "changes R (run_child su request) v"
    by (rule changes_bind_first) (auto intro!: trans preserves_raise preserves_return refl split: if_split)
  then have "changes R (su_spawn su request) v"
    unfolding run_child_def by (rule changes_bind_first) (auto intro!: trans preserves_lift refl)
  moreover have "fst (apply_child su config claims w) = spawn_outcome claims (fst (su_spawn su request v))"
    unfolding rest(1) run_child_def req apply_request_def spawn_outcome_def apply_verdict_def
    by (auto simp: io_bind_def io_lift_def io_raise_def io_return_def res_bind_def split: prod.split sum.split)
  ultimately show ?thesis using v(2) req by blast
qed

definition at_world :: "'w apply_frame \<Rightarrow> 'w" where "at_world f = st_world (fr_state f)"

lemma on_world_run: "on_world m f = (case m (at_world f) of (x, w) \<Rightarrow>
    (x, f\<lparr>fr_state := fr_state f\<lparr>st_world := w\<rparr>\<rparr>))"
  by (simp add: in_state_def in_world_def at_world_def split: prod.split)

lemma changes_on_world: "changes (RF R) (on_world m) f \<longleftrightarrow> changes R m (at_world f)"
  by (simp add: changes_def RF_def on_world_run at_world_def split: prod.split)

lemma apply_locked_change:
  assumes keeps: "supervisor_keeps R su" and change: "changes (RF R) (apply_locked su inst claims) f"
  shows "\<exists>fd config u v w. R (at_world f) u \<and> locked_source su inst claims fd u = (Inr config, v) \<and> R u v
    \<and> changes R (apply_child su config claims) v
    \<and> (fst (apply_locked su inst claims f) = fst (apply_child su config claims v)
       \<or> (\<exists>e. fst (apply_locked su inst claims f) = Inl e \<and> worker_code e = None))
    \<and> snd (apply_locked su inst claims f) = \<lparr>fr_state = \<lparr>st_store = st_store (fr_state f), st_world = w\<rparr>,
        fr_claims = fr_claims f, fr_started = True\<rparr>"
proof -
  note trans = RF_trans [OF keepsD(2) [OF keeps]] and refl = RF_refl [OF keepsD(1) [OF keeps]]
  let ?body = "\<lambda>fd. io_bind (on_world (locked_source su inst claims fd)) (\<lambda>config.
          io_bind (\<lambda>f. (Inr (), f\<lparr>fr_started := True\<rparr>)) (\<lambda>_. on_world (apply_child su config claims)))"
  obtain fd g where g: "on_world (open_lock su) f = (Inr fd, g)" "RF R f g"
    and fin: "changes (RF R) (io_finally (?body fd) (on_world (su_close su fd))) g"
      "apply_locked su inst claims f = io_finally (?body fd) (on_world (su_close su fd)) g"
    using change unfolding apply_locked_def
    by (rule changes_bindE) (use trans on_world_R [OF open_lock_R [OF keeps]] in auto)
  have close: "preserves (RF R) (on_world (su_close su fd))" by (rule on_world_R [OF keepsD(8) [OF keeps]])
  from fin(1) have "changes (RF R) (?body fd) g" by (rule changes_finally_first [OF _ trans close])
  then obtain config h where h: "on_world (locked_source su inst claims fd) g = (Inr config, h)" "RF R g h"
    and started: "changes (RF R) (io_bind (\<lambda>f. (Inr (), f\<lparr>fr_started := True\<rparr>)) (\<lambda>_. on_world (apply_child su config claims))) h"
      "?body fd g = io_bind (\<lambda>f. (Inr (), f\<lparr>fr_started := True\<rparr>)) (\<lambda>_. on_world (apply_child su config claims)) h"
    by (rule changes_bindE) (use trans on_world_R [OF locked_source_R [OF keeps]] in auto)
  let ?h = "h\<lparr>fr_started := True\<rparr>"
  have body: "?body fd g = on_world (apply_child su config claims) ?h" using started(2) by (simp add: io_bind_def)
  have "changes R (apply_child su config claims) (at_world ?h)"
    using started(1) by (simp add: changes_def io_bind_def RF_def on_world_run at_world_def split: prod.splits)
  then have child: "changes R (apply_child su config claims) (at_world h)" by (simp add: at_world_def)
  obtain x w where x: "apply_child su config claims (at_world h) = (x, w)" by (cases "apply_child su config claims (at_world h)")
  obtain y w' where y: "su_close su fd w = (y, w')" by (cases "su_close su fd w")
  have frames: "R (at_world f) (at_world g)" "R (at_world g) (at_world h)"
      "locked_source su inst claims fd (at_world g) = (Inr config, at_world h)"
      "fr_claims h = fr_claims f" "st_store (fr_state h) = st_store (fr_state f)"
    using g h by (auto simp: RF_def at_world_def on_world_run split: prod.splits)
  have "io_finally (?body fd) (on_world (su_close su fd)) g = ((case y of Inl e \<Rightarrow> Inl e | Inr _ \<Rightarrow> x),
      ?h\<lparr>fr_state := fr_state h\<lparr>st_world := w'\<rparr>\<rparr>)"
    unfolding io_finally_def body using x y by (simp add: on_world_run at_world_def split: sum.split)
  moreover have "worker_code e = None" if "y = Inl e" for e
    using keepsD(9) [OF keeps, of fd] y that by (auto simp: plain_def)
  moreover have "?h\<lparr>fr_state := fr_state h\<lparr>st_world := w'\<rparr>\<rparr> = \<lparr>fr_state = \<lparr>st_store = st_store (fr_state f), st_world = w'\<rparr>,
        fr_claims = fr_claims f, fr_started = True\<rparr>"
    using frames(4,5) by (cases h; cases "fr_state h") simp
  ultimately show ?thesis
    using frames child x fin(2) by (intro exI [of _ fd] exI [of _ config] exI [of _ "at_world g"] exI [of _ "at_world h"] exI [of _ w'])
      (cases y; simp)
qed

section \<open>The whole of a confirmed run\<close>

lemma plainD: "plain m \<Longrightarrow> m w = (Inl e, v) \<Longrightarrow> worker_code e = None"
  by (auto simp: plain_def)

lemma plain_bind: "plain m \<Longrightarrow> (\<And>x. plain (f x)) \<Longrightarrow> plain (io_bind m f)"
  by (fastforce simp: plain_def io_bind_Inl)

lemma plain_return: "plain (io_return x)"
  by (simp add: plain_def io_return_def)

lemma plain_lift: "(\<And>e. r = Inl e \<Longrightarrow> worker_code e = None) \<Longrightarrow> plain (io_lift r)"
  by (simp add: plain_def io_lift_def)

lemma worker_code_other [simp]:
  "worker_code (ValueError m) = None" "worker_code (TypeError m) = None"
  by (simp_all add: worker_code_def)

lemma worker_code_coded [simp]: "worker_code (ApplyWorkerError c) = Some c"
  by (simp add: worker_code_def ApplyWorkerError_def)

lemma counts_plain: "counts_of v = Inl e \<Longrightarrow> worker_code e = None"
proof -
  have one: "count_at d k = Inl e \<Longrightarrow> worker_code e = None" for d k e
    by (auto simp: count_at_def split: option.splits json.splits)
  have all: "res_map (count_at d) ks = Inl e \<Longrightarrow> worker_code e = None" for d ks e
    by (induction ks) (auto simp: res_bind_eq_Inl dest: one)
  assume "counts_of v = Inl e"
  then show ?thesis
    by (auto simp: counts_of_def res_bind_eq_Inl split: json.splits if_splits dest: all)
qed

lemma optional_text_plain: "optional_text v = Inl e \<Longrightarrow> worker_code e = None"
  by (auto simp: optional_text_def split: json.splits)

lemma record_success_plain:
  assumes "supervisor_keeps R su"
  shows "plain (record_success su run claims result)"
  unfolding record_success_def Let_def
  by (cases "su_runs su"; cases run)
    (auto intro!: plain_bind plain_lift plain_return keeps_history(3) [OF assms] dest: counts_plain optional_text_plain)

lemma record_failure_plain:
  assumes "supervisor_keeps R su"
  shows "plain (record_failure su run claims code)"
  unfolding record_failure_def
  by (cases "su_runs su"; cases run) (auto intro!: plain_bind plain_return keeps_history(3) [OF assms])

lemma dget_filter_keys: "dget (filter (\<lambda>(k, v). k \<noteq> k0) d) k = (if k = k0 then None else dget d k)"
  by (induction d) auto

lemma record_success_answer:
  assumes "record_success su run claims result w = (Inr answer, v)" and "jget result ''plan_digest'' = digest"
  shows "\<exists>d. answer = JObj d \<and> jget d ''plan_digest'' = digest"
proof -
  have jget: "jget (filter (\<lambda>(k, v). k \<noteq> ''planner_version'') (filter (\<lambda>(k, v). k \<noteq> ''action_counts'') result)) ''plan_digest'' = digest"
    using assms(2) by (simp add: jget_def dget_filter_keys del: filter_filter)
  then show ?thesis
    using assms(1) jget unfolding record_success_def Let_def
    by (cases "su_runs su"; cases run) (auto simp: io_bind_Inr io_lift_def io_return_def jget_def simp del: filter_filter)
qed

lemma apply_failed_code:
  assumes "supervisor_keeps R su" and "fr_started f"
  shows "\<exists>e'. fst (apply_failed su run e f) = Inl e' \<and>
    (worker_code e' = None \<or> worker_code e' = Some ''OUTCOME_UNCERTAIN'' \<or> e' = e \<and> worker_code e \<noteq> None)"
proof (cases "is_exception e")
  case False
  then have "worker_code e = None" by (auto simp: is_exception_def worker_code_def)
  with False show ?thesis by (simp add: apply_failed_def)
next
  case True
  have raised: "\<exists>e'. fst (io_bind (on_world (record_failure su run c k)) (\<lambda>_. io_raise d :: ('a apply_frame, json) io) f) = Inl e'
      \<and> (worker_code e' = None \<or> e' = d)" for c k d
  proof -
    obtain x w where x: "record_failure su run c k (at_world f) = (x, w)" by (cases "record_failure su run c k (at_world f)")
    then show ?thesis
      using plainD [OF record_failure_plain [OF assms(1)]] by (cases x) (auto simp: io_bind_def on_world_run io_raise_def)
  qed
  show ?thesis
  proof (cases "worker_code e")
    case None
    with raised [of "fr_claims f" "''OUTCOME_UNCERTAIN''" "ApplyWorkerError ''OUTCOME_UNCERTAIN''"] True assms(2)
    show ?thesis by (auto simp: apply_failed_def failure_code_def)
  next
    case (Some c)
    with raised [of "fr_claims f" "safe_error_code (Some c)" e] True show ?thesis by (auto simp: apply_failed_def)
  qed
qed

text \<open>A capability of the store: unspent, not expired, and for this source.\<close>

definition spends ::
    "'w supervisor \<Rightarrow> string \<Rightarrow> string \<Rightarrow> confirmation_claims \<Rightarrow> int \<Rightarrow> confirmation_store \<Rightarrow> confirmation_store \<Rightarrow> bool" where
  "spends su inst token claims instant s t \<longleftrightarrow>
     (\<exists>expires. dget (cs_entries s) (su_hash su token) = Some (claims, expires) \<and> instant < expires)
     \<and> cl_source_instance claims = inst \<and> t = s\<lparr>cs_entries := AList.delete (su_hash su token) (cs_entries s)\<rparr>"

lemma consume_claims_spends:
  assumes "consume_claims su inst token f = (Inr claims, g)"
  shows "spends su inst token claims (fst (su_clock su (at_world f))) (st_store (fr_state f)) (st_store (fr_state g)) \<and> fr_claims g = Some claims"
proof -
  obtain instant w where w: "su_clock su (at_world f) = (instant, w)" by (cases "su_clock su (at_world f)")
  obtain x t where x: "consume (su_hash su) token inst instant (st_store (fr_state f)) = (x, t)"
    by (cases "consume (su_hash su) token inst instant (st_store (fr_state f))")
  let ?f = "f\<lparr>fr_state := \<lparr>st_store = t, st_world = w\<rparr>\<rparr>"
  have "consume_claims su inst token f = (case x of Inl e \<Rightarrow> (Inl (worker_error_of e), ?f)
      | Inr c \<Rightarrow> (Inr c, ?f\<lparr>fr_claims := Some c\<rparr>))"
    using w x by (cases x; cases "fr_state f")
      (simp_all add: consume_claims_def io_bind_def now_def io_try_def in_state_def in_world_def in_store_def
        io_raise_def at_world_def)
  then have "x = Inr claims" "st_store (fr_state g) = t" "fr_claims g = Some claims"
    using assms by (cases x; auto)+
  with x w show ?thesis
    by (cases rule: consume_cases) (auto simp: spends_def check_entry_def split: prod.splits if_splits)
qed

lemma apply_body_change:
  assumes keeps: "supervisor_keeps R su" and change: "changes (RF R) (apply_body su inst token run) f"
  shows "\<exists>claims fd config secrets u v w. spends su inst token claims (fst (su_clock su (at_world f))) (st_store (fr_state f))
      (st_store (fr_state (snd (apply_body su inst token run f))))
    \<and> R (at_world f) u \<and> locked_source su inst claims fd u = (Inr config, v) \<and> R u w
    \<and> changes R (su_spawn su (apply_request config secrets claims)) w
    \<and> fr_started (snd (apply_body su inst token run f))
    \<and> (let outcome = spawn_outcome claims (fst (su_spawn su (apply_request config secrets claims) w)) in
       (case fst (apply_body su inst token run f) of
          Inl e \<Rightarrow> worker_code e = None \<or> outcome = Inl e
        | Inr answer \<Rightarrow> (\<exists>d. outcome \<in> range Inr \<and> answer = JObj d \<and> jget d ''plan_digest'' = JStr (cl_plan_digest claims))))"
proof -
  note trans = keepsD(2) [OF keeps] and rtrans = RF_trans [OF keepsD(2) [OF keeps]]
  obtain claims g where g: "consume_claims su inst token f = (Inr claims, g)" "RF R f g"
    and rest: "changes (RF R) (io_bind (apply_locked su inst claims) (\<lambda>result. on_world (record_success su run claims result))) g"
      "apply_body su inst token run f =
        io_bind (apply_locked su inst claims) (\<lambda>result. on_world (record_success su run claims result)) g"
    using change unfolding apply_body_def
    by (rule changes_bindE) (use rtrans consume_claims_R [OF keeps] in auto)
  from rest(1) have "changes (RF R) (apply_locked su inst claims) g"
    by (rule changes_bind_first) (auto intro!: rtrans on_world_R record_success_R [OF keeps])
  from apply_locked_change [OF keeps this] obtain fd config u v w where u: "R (at_world g) u"
      "locked_source su inst claims fd u = (Inr config, v)" "R u v" and child: "changes R (apply_child su config claims) v"
    and fst: "fst (apply_locked su inst claims g) = fst (apply_child su config claims v)
       \<or> (\<exists>e. fst (apply_locked su inst claims g) = Inl e \<and> worker_code e = None)"
    and snd: "snd (apply_locked su inst claims g) = \<lparr>fr_state = \<lparr>st_store = st_store (fr_state g), st_world = w\<rparr>,
        fr_claims = fr_claims g, fr_started = True\<rparr>" by blast
  from apply_child_change [OF keeps child] obtain secrets w' where w': "R v w'"
      "changes R (su_spawn su (apply_request config secrets claims)) w'"
    and outcome: "fst (apply_child su config claims v) =
        spawn_outcome claims (fst (su_spawn su (apply_request config secrets claims) w'))" by blast
  let ?outcome = "spawn_outcome claims (fst (su_spawn su (apply_request config secrets claims) w'))"
  let ?done_body = "apply_body su inst token run f"
  obtain x h where x: "apply_locked su inst claims g = (x, h)" by (cases "apply_locked su inst claims g")
  have frame: "st_store (fr_state (snd ?done_body)) = st_store (fr_state g) \<and> fr_started (snd ?done_body)"
    using snd x unfolding rest(2) by (cases x) (auto simp: io_bind_def on_world_run split: prod.split)
  have digest: "jget result ''plan_digest'' = JStr (cl_plan_digest claims)" if "?outcome = Inr result" for result
    using that by (auto simp: spawn_outcome_def apply_verdict_def res_bind_eq_Inr split: if_splits)
  have "case fst ?done_body of Inl e \<Rightarrow> worker_code e = None \<or> ?outcome = Inl e
      | Inr answer \<Rightarrow> (\<exists>d. ?outcome \<in> range Inr \<and> answer = JObj d \<and> jget d ''plan_digest'' = JStr (cl_plan_digest claims))"
  proof (cases x)
    case (Inl e)
    with x fst outcome show ?thesis unfolding rest(2) by (auto simp: io_bind_def)
  next
    case (Inr result)
    with x fst outcome have result: "?outcome = Inr result" by auto
    obtain y t where y: "record_success su run claims result (at_world h) = (y, t)"
      by (cases "record_success su run claims result (at_world h)")
    have "fst ?done_body = y" unfolding rest(2) using x Inr y by (simp add: io_bind_def on_world_run)
    then show ?thesis
      using plainD [OF record_success_plain [OF keeps]] record_success_answer [OF _ digest [OF result]] y result
      by (cases y) auto
  qed
  moreover have "spends su inst token claims (fst (su_clock su (at_world f))) (st_store (fr_state f)) (st_store (fr_state (snd ?done_body)))"
    using consume_claims_spends [OF g(1)] frame by simp
  moreover have "R (at_world f) u" "R u w'"
    using g(2) u(1,3) w'(1) transpD [OF trans] unfolding RF_def at_world_def by blast+
  ultimately show ?thesis
    unfolding Let_def using u(2) w'(2) frame
    by (intro exI [of _ claims] exI [of _ fd] exI [of _ config] exI [of _ secrets] exI [of _ u] exI [of _ v] exI [of _ w'] conjI) simp_all
qed

lemma supervisor_apply_change:
  assumes keeps: "supervisor_keeps R su" and run: "supervisor_apply su inst token s = (r, t)"
    and change: "\<not> R (st_world s) (st_world t)"
  shows "\<exists>claims fd config secrets w u v w'. R (st_world s) w
    \<and> spends su inst token claims (fst (su_clock su w)) (st_store s) (st_store t)
    \<and> R (st_world s) u \<and> locked_source su inst claims fd u = (Inr config, v) \<and> R (st_world s) w'
    \<and> changes R (su_spawn su (apply_request config secrets claims)) w'
    \<and> (let outcome = spawn_outcome claims (fst (su_spawn su (apply_request config secrets claims) w')) in
       (case r of
          Inl e \<Rightarrow> worker_code e = None \<or> worker_code e = Some ''OUTCOME_UNCERTAIN'' \<or> outcome = Inl e
        | Inr answer \<Rightarrow> (\<exists>d. outcome \<in> range Inr \<and> answer = JObj d \<and> jget d ''plan_digest'' = JStr (cl_plan_digest claims))))"
proof -
  note trans = keepsD(2) [OF keeps]
  have tr: "R a b \<Longrightarrow> R b c \<Longrightarrow> R a c" for a b c using trans by (rule transpD)
  obtain x u where x: "registered_source su inst (st_world s) = (x, u)" by (cases "registered_source su inst (st_world s)")
  have u: "R (st_world s) u" using preservesD [OF registered_source_R [OF keeps], of "st_world s" inst] x by simp
  obtain config where config: "x = Inr config"
    using run change u x by (cases x) (auto simp: supervisor_apply_def io_bind_def in_world_def)
  obtain y w where y: "start_manual su inst (sc_source_type config) u = (y, w)"
    by (cases "start_manual su inst (sc_source_type config) u")
  have w: "R (st_world s) w"
    using tr [OF u] preservesD [OF start_manual_R [OF keeps], of u inst "sc_source_type config"] y by simp
  obtain rn where rn: "y = Inr rn"
    using run change u w x y config by (cases y) (auto simp: supervisor_apply_def io_bind_def in_world_def)
  let ?f = "\<lparr>fr_state = s\<lparr>st_world := w\<rparr>, fr_claims = None, fr_started = False\<rparr>"
  let ?body = "apply_body su inst token rn" and ?failed = "apply_failed su rn"
  have whole: "r = fst (io_try ?body ?failed ?f)" "t = fr_state (snd (io_try ?body ?failed ?f))"
    using run x y config rn by (auto simp: supervisor_apply_def io_bind_def in_world_def with_frame_def split: prod.splits)
  have at: "at_world ?f = w" by (simp add: at_world_def)
  have "changes (RF R) (io_try ?body ?failed) ?f"
    using change whole w tr by (auto simp: changes_def RF_def)
  then have body: "changes (RF R) ?body ?f"
    by (rule changes_try_first [OF _ RF_trans [OF trans] apply_failed_R [OF keeps]])
  from apply_body_change [OF keeps this] obtain claims fd config' secrets u' v w' where
      spends: "spends su inst token claims (fst (su_clock su w)) (st_store s) (st_store (fr_state (snd (?body ?f))))"
    and steps: "R w u'" "locked_source su inst claims fd u' = (Inr config', v)" "R u' w'"
      "changes R (su_spawn su (apply_request config' secrets claims)) w'" "fr_started (snd (?body ?f))"
    and outcome: "(let outcome = spawn_outcome claims (fst (su_spawn su (apply_request config' secrets claims) w')) in
       (case fst (?body ?f) of
          Inl e \<Rightarrow> worker_code e = None \<or> outcome = Inl e
        | Inr answer \<Rightarrow> (\<exists>d. outcome \<in> range Inr \<and> answer = JObj d \<and> jget d ''plan_digest'' = JStr (cl_plan_digest claims))))"
    by (auto simp: at)
  let ?outcome = "spawn_outcome claims (fst (su_spawn su (apply_request config' secrets claims) w'))"
  obtain z g where z: "?body ?f = (z, g)" by (cases "?body ?f")
  have "(case r of Inl e \<Rightarrow> worker_code e = None \<or> worker_code e = Some ''OUTCOME_UNCERTAIN'' \<or> ?outcome = Inl e
        | Inr answer \<Rightarrow> (\<exists>d. ?outcome \<in> range Inr \<and> answer = JObj d \<and> jget d ''plan_digest'' = JStr (cl_plan_digest claims)))
      \<and> st_store t = st_store (fr_state g)"
  proof (cases z)
    case (Inr answer)
    with z whole have "r = Inr answer" "t = fr_state g" by (auto simp: io_try_def)
    with outcome z Inr show ?thesis by (simp add: Let_def)
  next
    case (Inl e)
    have store: "st_store (fr_state (snd (apply_failed su rn e g))) = st_store (fr_state g)"
      by (auto simp: apply_failed_def io_bind_def on_world_run io_raise_def split: prod.split sum.split option.split)
    from apply_failed_code [OF keeps, of g rn e] steps(5) z obtain e' where e': "fst (?failed e g) = Inl e'"
      "worker_code e' = None \<or> worker_code e' = Some ''OUTCOME_UNCERTAIN'' \<or> e' = e \<and> worker_code e \<noteq> None" by auto
    with z Inl whole have "r = Inl e'" "t = fr_state (snd (?failed e g))" by (auto simp: io_try_def)
    with e' outcome z Inl store show ?thesis by (auto simp: Let_def)
  qed
  then show ?thesis
    unfolding Let_def using spends steps(2,4) w tr [OF w steps(1)] tr [OF tr [OF w steps(1)] steps(3)] z
    by (intro exI [of _ claims] exI [of _ fd] exI [of _ config'] exI [of _ secrets] exI [of _ w] exI [of _ u'] exI [of _ v] exI [of _ w'] conjI) simp_all
qed

section \<open>The child as a process\<close>

text \<open>A child that ran to its end: \<open>child_main\<close> on the payload.  An interrupt ends it with a failing exit
  code; \<open>len\<close> is the length of the printed answer.  A child that is killed while it writes is not of this form.\<close>

definition child_process ::
    "(string \<Rightarrow> string) \<Rightarrow> ('w, 'r) netbox \<Rightarrow> ('w, 'r) esxi_provider
       \<Rightarrow> (child_request \<Rightarrow> ('w, source_config \<times> discovered_host list) io) \<Rightarrow> (json \<Rightarrow> int)
       \<Rightarrow> child_request \<Rightarrow> ('w, child_exit) io" where
  "child_process H nb esxi discover len request = (\<lambda>w.
     case child_main (execute_child H nb esxi (discover request) (cq_operation request) (cq_expected_digest request)) w of
       (Inr answer, v) \<Rightarrow> (Inr (Exited 0 (len answer) (Some answer)), v)
     | (Inl e, v) \<Rightarrow> (Inr (Exited 1 0 None), v))"

lemma worker_code_exception: "worker_code e = Some c \<Longrightarrow> is_exception e"
  by (auto simp: worker_code_def is_exception_def)

lemma applied_answer:
  assumes "jget d ''plan_digest'' = JStr digest"
  shows "child_response ''apply'' (Some (JObj [(''result'', JObj d)])) = Inr d"
  by (simp add: child_response_def jget_def dget_def truthy_def)

lemma spawn_outcome_changed:
  assumes reads: "netbox_reader nb R" "\<forall>request. preserves R (discover request)" "esxi_reads R esxi"
    and request: "cq_operation request = ''apply''"
    and change: "changes R (child_process H nb esxi discover len request) w"
  shows "(\<forall>e. spawn_outcome claims (fst (child_process H nb esxi discover len request w)) = Inl e
      \<longrightarrow> worker_code e = Some ''OUTCOME_UNCERTAIN'')
    \<and> (\<exists>config hosts plan u v w'. discover request w = (Inr (config, hosts), u)
      \<and> build_runtime_plan H nb esxi hosts config u = (Inr plan, v) \<and> apply_allowed plan
      \<and> cq_expected_digest request = JStr (plan_digest H plan)
      \<and> provider_run nb esxi hosts config False v = (Inr (), w'))"
proof -
  let ?child = "execute_child H nb esxi (discover request) (cq_operation request) (cq_expected_digest request)"
  obtain r t where run: "?child w = (r, t)" by (cases "?child w")
  have "snd (child_process H nb esxi discover len request w) = t"
    using run by (simp add: child_process_def child_main_def split: sum.split)
  with change have "\<not> R w t" by (simp add: changes_def)
  from execute_child_writes [OF reads(1) _ reads(3) run this] reads(2) obtain plan where
      plan: "(\<exists>config hosts u v w'. discover request w = (Inr (config, hosts), u)
      \<and> build_runtime_plan H nb esxi hosts config u = (Inr plan, v) \<and> apply_allowed plan
      \<and> cq_expected_digest request = JStr (plan_digest H plan)
      \<and> provider_run nb esxi hosts config False v = (Inr (), w'))"
    and r: "r = Inr (applied_json H plan) \<or> r = Inl (ApplyWorkerError ''OUTCOME_UNCERTAIN'') \<or> (\<exists>e. r = Inl e \<and> \<not> is_exception e)"
    by blast
  have broken: "broken_child ''apply'' = ApplyWorkerError ''OUTCOME_UNCERTAIN''" by (simp add: broken_child_def)
  then have code: "worker_code (broken_child ''apply'') = Some ''OUTCOME_UNCERTAIN''" by simp
  from r have "spawn_outcome claims (fst (child_process H nb esxi discover len request w)) = Inl e
      \<Longrightarrow> worker_code e = Some ''OUTCOME_UNCERTAIN''" for e
  proof (elim disjE exE conjE)
    assume ok: "r = Inr (applied_json H plan)" and e: "spawn_outcome claims (fst (child_process H nb esxi discover len request w)) = Inl e"
    obtain d where d: "applied_json H plan = JObj d" "jget d ''plan_digest'' = JStr (plan_digest H plan)"
      by (simp add: applied_json_def jget_def dget_def)
    with ok e run request code applied_answer [OF d(2)] show ?thesis
      by (auto simp: child_process_def child_main_def spawn_outcome_def apply_verdict_def child_verdict_def res_bind_eq_Inl
          split: if_splits)
  next
    assume "r = Inl (ApplyWorkerError ''OUTCOME_UNCERTAIN'')" "spawn_outcome claims (fst (child_process H nb esxi discover len request w)) = Inl e"
    with run code request show ?thesis
      by (auto simp: child_process_def child_main_def spawn_outcome_def apply_verdict_def child_verdict_def res_bind_eq_Inl
          is_exception_def ApplyWorkerError_def child_response_def jget_def dget_def truthy_def CHILD_CODES_def worker_code_def
          split: if_splits)
  next
    fix e' assume "r = Inl e'" "\<not> is_exception e'" "spawn_outcome claims (fst (child_process H nb esxi discover len request w)) = Inl e"
    with run code request show ?thesis
      by (auto simp: child_process_def child_main_def spawn_outcome_def apply_verdict_def child_verdict_def)
  qed
  with plan show ?thesis by blast
qed

section \<open>Properties\<close>


definition sample_supervisor :: "fake_state supervisor" where
  "sample_supervisor =
     \<lparr>su_schema_version = io_return 1, su_lookup = (\<lambda>inst. io_return (Some sample_esxi_source)),
      su_secrets = (\<lambda>config. io_return []),
      su_spawn = child_process (\<lambda>t. ''digest'') fake_netbox sample_esxi (\<lambda>request. io_return (cq_source request, [])) (\<lambda>v. 0),
      su_open_lock = io_return 3, su_flock = (\<lambda>fd. io_return ()), su_close = (\<lambda>fd. io_return ()), su_runs = None,
      su_clock = (\<lambda>w. (5, w)), su_token = (\<lambda>w. (sample_token, w)), su_hash = (\<lambda>t. t)\<rparr>"

definition confirmed_claims :: confirmation_claims where
  "confirmed_claims = sample_claims\<lparr>cl_source_id := sc_id sample_esxi_source, cl_plan_digest := ''digest''\<rparr>"

definition confirmed_state :: "fake_state supervisor_state" where
  "confirmed_state = \<lparr>st_store = \<lparr>cs_ttl = 300, cs_maximum = 256, cs_entries = [(sample_token, confirmed_claims, 9)]\<rparr>,
     st_world = sample_netbox\<rparr>"

lemma sample_supervisor_keeps: "supervisor_keeps (=) sample_supervisor"
  by (simp add: supervisor_keeps_def sample_supervisor_def preserves_def plain_def io_return_def now_def)


end
