(* ===== verification/SchedulerRuntime.thy ===== *)
theory SchedulerRuntime
  imports Orchestrator
begin

text \<open>
  One tick of the scheduler (netbox_sync/scheduler_runtime.py): evaluate every source once against the
  scheduled history, then execute the eligible ones sequentially.
\<close>

datatype scheduler_input = SchedulerSourceInput "source_config option" | PlainConfig source_config

definition input_config :: "scheduler_input \<Rightarrow> source_config option" where
  "input_config entry = (case entry of SchedulerSourceInput c \<Rightarrow> c | PlainConfig c \<Rightarrow> Some c)"

record tick_result =
  tk_decisions :: "schedule_decision list"
  tk_execution :: "source_run_result list"

definition decisions_in :: "scheduler_state \<Rightarrow> tick_result \<Rightarrow> nat" where
  "decisions_in st tick =
     length (filter (\<lambda>d. sd_evaluation_status d = EvaluationOk \<and> sd_state d = Some st) (tk_decisions tick))"

definition evaluation_failed :: "tick_result \<Rightarrow> nat" where
  "evaluation_failed tick = length (filter (\<lambda>d. sd_evaluation_status d = EvaluationFailed) (tk_decisions tick))"

definition tick_failed :: "tick_result \<Rightarrow> bool" where
  "tick_failed tick \<longleftrightarrow> evaluation_failed tick \<noteq> 0 \<or> multi_failed (tk_execution tick) \<noteq> 0
     \<or> multi_history_failures (tk_execution tick) \<noteq> 0"

definition scheduler_summary_lines :: "tick_result \<Rightarrow> string list" where
  "scheduler_summary_lines tick =
     [''SCHEDULER SUMMARY'',
      ''sources='' @ nat_digits (length (tk_decisions tick)),
      ''due='' @ nat_digits (decisions_in Due tick),
      ''delayed='' @ nat_digits (decisions_in Delayed tick),
      ''waiting='' @ nat_digits (decisions_in Waiting tick),
      ''running='' @ nat_digits (decisions_in Running tick),
      ''disabled='' @ nat_digits (decisions_in Disabled tick),
      ''evaluation_failed='' @ nat_digits (evaluation_failed tick),
      ''executed='' @ nat_digits (multi_total (tk_execution tick)),
      ''failed='' @ py_str_int (multi_failed (tk_execution tick)),
      ''history_failures='' @ nat_digits (multi_history_failures (tk_execution tick))]"

definition by_source :: "sync_run list \<Rightarrow> (string \<times> sync_run) list" where
  "by_source runs = fold (\<lambda>r d. dset (sr_source_instance r) r d) runs []"

definition started_of :: "(string \<times> sync_run) list \<Rightarrow> source_config \<Rightarrow> int option" where
  "started_of d source = map_option sr_started_at (dget d (sc_source_instance source))"

definition decide ::
    "(string \<times> sync_run) list \<Rightarrow> (string \<times> sync_run) list \<Rightarrow> int \<Rightarrow> int \<Rightarrow> source_config \<Rightarrow> schedule_decision" where
  "decide latest running instant stale_seconds source =
     (case evaluate_schedule source (started_of latest source) (started_of running source) instant stale_seconds of
        Inl e \<Rightarrow> decision_failed (Some (sc_source_instance source))
      | Inr d \<Rightarrow> d)"

definition tick_configs :: "scheduler_input list \<Rightarrow> source_config list" where
  "tick_configs entries = sort_key sc_id (List.map_filter input_config entries)"

definition run_scheduler_tick ::
    "scheduler_input list \<Rightarrow> (source_config \<Rightarrow> ('s, execution) io) \<Rightarrow> 's run_repository \<Rightarrow> 's clock \<Rightarrow> int \<Rightarrow> bool
       \<Rightarrow> ('s, tick_result) io" where
  "run_scheduler_tick entries execute rp clock stale_seconds execute_due =
     io_bind (now clock) (\<lambda>instant.
     io_bind (rp_latest rp (Some SCHEDULED) None) (\<lambda>latest_runs.
     io_bind (rp_latest rp (Some SCHEDULED) (Some RUNNING)) (\<lambda>running_runs.
     let configs = tick_configs entries;
         decision = decide (by_source latest_runs) (by_source running_runs) instant stale_seconds;
         decisions = map (\<lambda>e. decision_failed None) (filter (\<lambda>e. input_config e = None) entries)
           @ map decision configs;
         due = filter (\<lambda>c. eligible (decision c)) configs
     in io_bind (run_sources clock (if execute_due then Some rp else None) execute
                   (if execute_due then due else [])) (\<lambda>execution.
          io_return \<lparr>tk_decisions = decisions, tk_execution = execution\<rparr>))))"

section \<open>The history a tick reads\<close>

lemma distinct_on_distinct: "distinct (map key (distinct_on key xs))"
proof (induction key xs rule: distinct_on.induct)
  case (2 key x xs)
  have "set (distinct_on key ys) \<subseteq> set ys" for ys
    by (induction key ys rule: distinct_on.induct) auto
  with 2 show ?case by fastforce
qed simp

lemma distinct_on_subset: "set (distinct_on key xs) \<subseteq> set xs"
  by (induction key xs rule: distinct_on.induct) auto

lemma distinct_on_first:
  assumes "sorted_wrt R xs" and "x \<in> set xs"
  shows "\<exists>y \<in> set (distinct_on key xs). key y = key x \<and> (y = x \<or> R y x)"
  using assms
proof (induction key xs rule: distinct_on.induct)
  case (2 key z zs)
  show ?case
  proof (cases "key x = key z")
    case True
    with 2(2,3) show ?thesis by auto
  next
    case False
    with 2(3) have "x \<in> set (filter (\<lambda>y. key y \<noteq> key z) zs)" by auto
    with 2(1) [of ] sorted_wrt_filter 2(2) show ?thesis by fastforce
  qed
qed simp

lemma newest_first_sorted: "sorted_wrt (\<lambda>x y. run_key y \<le> run_key x) (newest_first rows)"
proof -
  have "sorted (map run_key (sort_key run_key rows))" by simp
  then show ?thesis by (simp add: newest_first_def sorted_wrt_rev sorted_wrt_map)
qed

lemma dget_fold_other:
  "k \<notin> sr_source_instance ` set rs \<Longrightarrow> dget (fold (\<lambda>r d. dset (sr_source_instance r) r d) rs d) k = dget d k"
  by (induction rs arbitrary: d) auto

lemma dget_by_source:
  assumes "distinct (map sr_source_instance rs)" and "r \<in> set rs"
  shows "dget (by_source rs) (sr_source_instance r) = Some r"
proof -
  have "dget (fold (\<lambda>r d. dset (sr_source_instance r) r d) rs d) (sr_source_instance r) = Some r" for d
    using assms
  proof (induction rs arbitrary: d)
    case (Cons q rs)
    show ?case
    proof (cases "q = r")
      case True
      with Cons.prems(1) have "sr_source_instance r \<notin> sr_source_instance ` set rs" by simp
      with True dget_fold_other [OF this] show ?thesis by simp
    qed (use Cons in simp)
  qed simp
  then show ?thesis by (simp add: by_source_def)
qed

lemma dget_by_source_set:
  assumes "dget (by_source rs) k = Some r"
  shows "r \<in> set rs \<and> sr_source_instance r = k"
proof -
  have "dget (fold (\<lambda>r d. dset (sr_source_instance r) r d) rs d) k = Some r \<Longrightarrow>
      dget d k = Some r \<or> (r \<in> set rs \<and> sr_source_instance r = k)" for d
    by (induction rs arbitrary: d) (fastforce split: if_splits)+
  from this [of "[]"] assms show ?thesis by (simp add: by_source_def)
qed

text \<open>What a tick reads of the table: a latest run per source is one of its scheduled runs of that status, and
  no such run started later.\<close>

definition scheduled_run :: "run_status option \<Rightarrow> string \<Rightarrow> sync_run \<Rightarrow> bool" where
  "scheduled_run st inst r \<longleftrightarrow> sr_trigger r = SCHEDULED \<and> sr_source_instance r = inst
     \<and> (case st of None \<Rightarrow> True | Some x \<Rightarrow> sr_status r = x)"

lemma latest_found:
  assumes "fst (latest_by_source (Some SCHEDULED) st rows) = Inr rs" and "dget (by_source rs) inst = Some r"
  shows "r \<in> set rows \<and> scheduled_run st inst r"
proof -
  from dget_by_source_set [OF assms(2)] have "r \<in> set rs" "sr_source_instance r = inst" by auto
  with assms(1) distinct_on_subset show ?thesis
    by (fastforce simp: latest_by_source_def io_read_def newest_first_def filter_matches_def scheduled_run_def)
qed

lemma latest_start:
  assumes "fst (latest_by_source (Some SCHEDULED) st rows) = Inr rs"
    and "q \<in> set rows" and "scheduled_run st inst q"
  shows "\<exists>r. dget (by_source rs) inst = Some r \<and> sr_started_at q \<le> sr_started_at r"
proof -
  let ?f = "\<lparr>rf_source_instance = None, rf_source_type = None, rf_trigger = Some SCHEDULED, rf_status = st\<rparr>"
  let ?xs = "filter (filter_matches ?f) (newest_first rows)"
  have rs: "rs = sort_key sr_source_instance (distinct_on sr_source_instance ?xs)"
    using assms(1) by (simp add: latest_by_source_def io_read_def)
  from assms(2,3) have "q \<in> set ?xs" by (simp add: newest_first_def filter_matches_def scheduled_run_def)
  from distinct_on_first [OF sorted_wrt_filter [OF newest_first_sorted] this, of sr_source_instance]
  obtain r where r: "r \<in> set (distinct_on sr_source_instance ?xs)" "sr_source_instance r = inst"
    "r = q \<or> run_key q \<le> run_key r" using assms(3) by (auto simp: scheduled_run_def)
  have "distinct (map sr_source_instance rs)"
    unfolding rs using distinct_on_distinct [of sr_source_instance ?xs]
    by (metis mset_eq_imp_distinct_iff mset_map mset_sort)
  from dget_by_source [OF this, of r] r(1,2) have "dget (by_source rs) inst = Some r" by (simp add: rs)
  moreover have "sr_started_at q \<le> sr_started_at r" using r(3) by (auto simp: run_key_def)
  ultimately show ?thesis by blast
qed

lemma decide_eligible:
  "eligible (decide latest running instant stale source) \<longleftrightarrow>
     (\<exists>d. evaluate_schedule source (started_of latest source) (started_of running source) instant stale = Inr d)
     \<and> sc_enabled source \<and> sc_sync_enabled source \<and> \<not> in_progress (started_of running source) instant stale
     \<and> (case started_of latest source of None \<Rightarrow> True
        | Some r \<Rightarrow> r + seconds (sc_sync_interval_seconds source) \<le> instant)"
  unfolding decide_def
  by (cases "evaluate_schedule source (started_of latest source) (started_of running source) instant stale")
    (simp_all add: evaluate_schedule_eligible)

text \<open>What due means of the table itself.\<close>

definition due_now :: "run_table \<Rightarrow> int \<Rightarrow> int \<Rightarrow> source_config \<Rightarrow> bool" where
  "due_now rows stale instant c \<longleftrightarrow> sc_enabled c \<and> sc_sync_enabled c
     \<and> (\<forall>r \<in> set rows. scheduled_run (Some RUNNING) (sc_source_instance c) r \<longrightarrow>
          sr_started_at r + seconds stale < instant)
     \<and> (\<forall>r \<in> set rows. scheduled_run None (sc_source_instance c) r \<longrightarrow>
          sr_started_at r + seconds (sc_sync_interval_seconds c) \<le> instant)"

lemma evaluate_schedule_returns:
  assumes "\<forall>r. latest = Some r \<longrightarrow> 0 \<le> r \<and> r + seconds (sc_sync_interval_seconds source) \<le> MAX_INSTANT"
  shows "\<exists>d. evaluate_schedule source latest running instant stale = Inr d"
  using assms
  by (cases latest) (auto simp: evaluate_schedule_def add_seconds_def seconds_def MAX_INSTANT_def)

lemma decide_due:
  assumes latest: "fst (latest_by_source (Some SCHEDULED) None rows) = Inr ls"
    and running: "fst (latest_by_source (Some SCHEDULED) (Some RUNNING) rows) = Inr rs"
    and starts: "\<forall>r \<in> set rows. 0 \<le> sr_started_at r" and "instant \<le> MAX_INSTANT"
  shows "eligible (decide (by_source ls) (by_source rs) instant stale c) \<longleftrightarrow> due_now rows stale instant c"
proof -
  let ?i = "sc_source_instance c" let ?l = "started_of (by_source ls) c" let ?r = "started_of (by_source rs) c"
  have progress: "in_progress ?r instant stale \<longleftrightarrow>
      (\<exists>r \<in> set rows. scheduled_run (Some RUNNING) ?i r \<and> instant \<le> sr_started_at r + seconds stale)"
    using latest_found [OF running, of ?i] latest_start [OF running, of _ ?i]
    by (cases "dget (by_source rs) ?i") (force simp: in_progress_def started_of_def)+
  have elapsed: "(case ?l of None \<Rightarrow> True | Some r \<Rightarrow> r + seconds (sc_sync_interval_seconds c) \<le> instant) \<longleftrightarrow>
      (\<forall>r \<in> set rows. scheduled_run None ?i r \<longrightarrow> sr_started_at r + seconds (sc_sync_interval_seconds c) \<le> instant)"
    using latest_found [OF latest, of ?i] latest_start [OF latest, of _ ?i]
    by (cases "dget (by_source ls) ?i") (force simp: started_of_def)+
  have "\<exists>d. evaluate_schedule c ?l ?r instant stale = Inr d"
    if "case ?l of None \<Rightarrow> True | Some r \<Rightarrow> r + seconds (sc_sync_interval_seconds c) \<le> instant"
    using that starts \<open>instant \<le> MAX_INSTANT\<close> latest_found [OF latest, of ?i]
    by (intro evaluate_schedule_returns) (auto simp: started_of_def)
  then show ?thesis
    unfolding decide_eligible progress due_now_def elapsed [symmetric] by (auto simp: not_le)
qed

section \<open>The cadence over ticks\<close>

definition spaced :: "(string \<Rightarrow> int) \<Rightarrow> (string \<times> int) list \<Rightarrow> bool" where
  "spaced interval starts \<longleftrightarrow>
     sorted_wrt (\<lambda>p q. fst p = fst q \<longrightarrow> snd p + seconds (interval (fst p)) \<le> snd q) starts"

lemma spaced_snoc: "spaced interval (starts @ [(inst, i)]) \<longleftrightarrow>
    spaced interval starts \<and> (\<forall>j. (inst, j) \<in> set starts \<longrightarrow> j + seconds (interval inst) \<le> i)"
  by (auto simp: spaced_def sorted_wrt_append)

context run_store
begin

lemma run_map_spaced:
  assumes "spaced interval (scheduled_starts (rows s))" and "instant \<le> time s"
    and "distinct (map sc_source_instance cs)"
    and "\<forall>c \<in> set cs. preserves quiet (execute c)"
    and "\<forall>c \<in> set cs. \<forall>j. (sc_source_instance c, j) \<in> set (scheduled_starts (rows s)) \<longrightarrow>
           j + seconds (interval (sc_source_instance c)) \<le> instant"
  shows "spaced interval (scheduled_starts (rows (snd (io_map (run_source clock (Some rp) execute) cs s))))"
  using assms
proof (induction cs arbitrary: s)
  case (Cons c cs)
  let ?t = "snd (run_source clock (Some rp) execute c s)"
  from run_source_starts [of execute c s] Cons.prems(4) obtain new where
    time: "time s \<le> time ?t" and t: "scheduled_starts (rows ?t) = scheduled_starts (rows s) @ new"
    and new: "new = [] \<or> (\<exists>i. new = [(sc_source_instance c, i)] \<and> time s \<le> i \<and> i \<le> time ?t)" by auto
  have spaced: "spaced interval (scheduled_starts (rows ?t))"
    using new
  proof
    assume "\<exists>i. new = [(sc_source_instance c, i)] \<and> time s \<le> i \<and> i \<le> time ?t"
    with t Cons.prems(1,2,5) show ?thesis by (fastforce simp: spaced_snoc)
  qed (use t Cons.prems(1) in simp)
  have rest: "spaced interval (scheduled_starts (rows (snd (io_map (run_source clock (Some rp) execute) cs ?t))))"
  proof (rule Cons.IH [OF spaced])
    show "\<forall>c \<in> set cs. \<forall>j. (sc_source_instance c, j) \<in> set (scheduled_starts (rows ?t)) \<longrightarrow>
        j + seconds (interval (sc_source_instance c)) \<le> instant"
      using new t Cons.prems(3,5) by (auto simp: image_iff)
  qed (use Cons.prems time in auto)
  show ?case
  proof (cases "run_source clock (Some rp) execute c s")
    case (Pair x u)
    with spaced rest show ?thesis
      by (cases x; cases "io_map (run_source clock (Some rp) execute) cs u")
        (auto simp: io_bind_def io_return_def split: sum.splits)
  qed
qed (simp add: io_return_def)

lemma tick_spaced:
  assumes "spaced interval (scheduled_starts (rows s))"
    and "distinct (map sc_source_instance (tick_configs entries))"
    and "\<forall>c \<in> set (tick_configs entries). preserves quiet (execute c)"
    and "\<forall>c \<in> set (tick_configs entries). interval (sc_source_instance c) = sc_sync_interval_seconds c"
  shows "spaced interval (scheduled_starts (rows (snd (run_scheduler_tick entries execute rp clock stale True s))))"
proof -
  obtain instant s1 where s1: "clock s = (instant, s1)" by (cases "clock s")
  obtain x s2 where s2: "rp_latest rp (Some SCHEDULED) None s1 = (x, s2)"
    by (cases "rp_latest rp (Some SCHEDULED) None s1")
  note c = clock_law [OF s1] and l = latest_law [OF s2]
  show ?thesis
  proof (cases x)
    case (Inl e)
    then have "snd (run_scheduler_tick entries execute rp clock stale True s) = s2"
      using s1 s2 by (simp add: run_scheduler_tick_def io_bind_def now_def)
    with c l assms(1) show ?thesis by simp
  next
    case (Inr latest)
    obtain y s3 where s3: "rp_latest rp (Some SCHEDULED) (Some RUNNING) s2 = (y, s3)"
      by (cases "rp_latest rp (Some SCHEDULED) (Some RUNNING) s2")
    note m = latest_law [OF s3]
    show ?thesis
    proof (cases y)
      case (Inl e)
      then have "snd (run_scheduler_tick entries execute rp clock stale True s) = s3"
        using s1 s2 s3 Inr by (simp add: run_scheduler_tick_def io_bind_def now_def)
      with c l m assms(1) show ?thesis by simp
    next
      case (Inr running)
      let ?due = "filter (\<lambda>c. eligible (decide (by_source latest) (by_source running) instant stale c)) (tick_configs entries)"
      let ?cs = "sort_key sc_id ?due"
      have "snd (run_scheduler_tick entries execute rp clock stale True s)
          = snd (io_map (run_source clock (Some rp) execute) ?cs s3)"
        using s1 s2 s3 \<open>x = Inr latest\<close> Inr
        by (simp add: run_scheduler_tick_def io_bind_def now_def run_sources_def io_return_def Let_def
            split: prod.splits sum.splits)
      moreover have "spaced interval (scheduled_starts (rows (snd (io_map (run_source clock (Some rp) execute) ?cs s3))))"
      proof (rule run_map_spaced)
        show "spaced interval (scheduled_starts (rows s3))" "instant \<le> time s3" using c l m assms(1) by auto
        have "distinct (map sc_source_instance ?due)" using assms(2) by (rule distinct_map_filter)
        then show "distinct (map sc_source_instance ?cs)"
          by (metis mset_eq_imp_distinct_iff mset_map mset_sort)
        show "\<forall>c \<in> set ?cs. preserves quiet (execute c)" using assms(3) by simp
        show "\<forall>c \<in> set ?cs. \<forall>j. (sc_source_instance c, j) \<in> set (scheduled_starts (rows s3)) \<longrightarrow>
            j + seconds (interval (sc_source_instance c)) \<le> instant"
        proof (intro ballI allI impI)
          fix d j assume d: "d \<in> set ?cs" and "(sc_source_instance d, j) \<in> set (scheduled_starts (rows s3))"
          then obtain q where q: "q \<in> set (rows s3)" "scheduled_run None (sc_source_instance d) q" "sr_started_at q = j"
            by (auto simp: scheduled_starts_def scheduled_run_def)
          with l m c \<open>x = Inr latest\<close> latest_start [of None "rows s" latest q "sc_source_instance d"]
          obtain r where r: "dget (by_source latest) (sc_source_instance d) = Some r" "j \<le> sr_started_at r" by auto
          from d have "eligible (decide (by_source latest) (by_source running) instant stale d)" by simp
          with r show "j + seconds (interval (sc_source_instance d)) \<le> instant"
            using assms(4) d by (auto simp: decide_eligible started_of_def)
        qed
      qed
      ultimately show ?thesis by simp
    qed
  qed
qed

end

section \<open>Properties\<close>

text \<open>What other parts of the system may do to the world: time passes, other runs are recorded, and no
  scheduled start appears or disappears.\<close>

definition no_scheduled_start :: "world \<Rightarrow> world \<Rightarrow> bool" where
  "no_scheduled_start s t \<longleftrightarrow> w_clock s \<le> w_clock t \<and> scheduled_starts (w_rows t) = scheduled_starts (w_rows s)"

lemma no_scheduled_start_quiet: "no_scheduled_start = history.quiet"
  by (simp add: fun_eq_iff no_scheduled_start_def history.quiet_def)

text \<open>The worlds reached by ticks, at any instants and over any sets of sources whose intervals stay those of
  the map, starting from an empty table.\<close>

inductive ticked :: "(string \<Rightarrow> int) \<Rightarrow> int \<Rightarrow> world \<Rightarrow> bool" for interval stale where
  ticked_empty: "w_rows s = [] \<Longrightarrow> ticked interval stale s"
| ticked_other: "ticked interval stale s \<Longrightarrow> no_scheduled_start s t \<Longrightarrow> ticked interval stale t"
| ticked_tick: "ticked interval stale s \<Longrightarrow>
    distinct (map sc_source_instance (tick_configs entries)) \<Longrightarrow>
    (\<forall>c \<in> set (tick_configs entries). interval (sc_source_instance c) = sc_sync_interval_seconds c) \<Longrightarrow>
    (\<forall>c \<in> set (tick_configs entries). preserves no_scheduled_start (execute c)) \<Longrightarrow>
    run_scheduler_tick entries execute history_repository world_clock stale True s = (x, t) \<Longrightarrow>
    ticked interval stale t"

lemma ticked_spaced: "ticked interval stale s \<Longrightarrow> spaced interval (scheduled_starts (w_rows s))"
proof (induction rule: ticked.induct)
  case (ticked_empty s)
  then show ?case by (simp add: scheduled_starts_def spaced_def)
next
  case (ticked_other s t)
  then show ?case by (simp add: no_scheduled_start_def)
next
  case (ticked_tick s entries execute x t)
  from history.tick_spaced [OF ticked_tick.IH ticked_tick.hyps(2), of execute stale] ticked_tick.hyps(3,4,5)
  show ?case unfolding no_scheduled_start_quiet by simp
qed

text \<open>C6: The cadence is never exceeded.  In every world the scheduler can reach, however the ticks are
  timed, whatever the executors raise, and whatever manual runs other parts record meanwhile, two
  scheduled runs of one source start at least its interval apart.\<close>

theorem scheduled_runs_spaced:
  assumes "ticked interval stale s" and "i < j" and "j < length (scheduled_starts (w_rows s))"
    and "fst (scheduled_starts (w_rows s) ! i) = inst" and "fst (scheduled_starts (w_rows s) ! j) = inst"
  shows "snd (scheduled_starts (w_rows s) ! i) + seconds (interval inst) \<le> snd (scheduled_starts (w_rows s) ! j)"
proof -
  from ticked_spaced [OF assms(1)] assms(2,3)
  have "fst (scheduled_starts (w_rows s) ! i) = fst (scheduled_starts (w_rows s) ! j) \<longrightarrow>
      snd (scheduled_starts (w_rows s) ! i) + seconds (interval (fst (scheduled_starts (w_rows s) ! i)))
        \<le> snd (scheduled_starts (w_rows s) ! j)"
    unfolding spaced_def sorted_wrt_iff_nth_less by blast
  with assms(4,5) show ?thesis by simp
qed

definition idle_executor :: "source_config \<Rightarrow> (world, execution) io" where
  "idle_executor source = io_return \<lparr>ex_items = [], ex_digest = None, ex_planner_version = None\<rparr>"

definition tick_world :: "int \<Rightarrow> run_table \<Rightarrow> world" where
  "tick_world i rows = \<lparr>w_rows = rows, w_clock = i, w_elapse = [], w_uuid = i\<rparr>"

lemma tick_configs_sample: "tick_configs [PlainConfig sample_source] = [sample_source]"
  by (simp add: tick_configs_def List.map_filter_simps input_config_def)

lemma sample_source_interval: "sc_sync_interval_seconds sample_source = 600"
  by (simp add: sample_source_def)

definition tick_sample :: "world \<Rightarrow> world" where
  "tick_sample s = snd (run_scheduler_tick [PlainConfig sample_source] idle_executor history_repository world_clock 7200 True s)"

lemma ticked_sample: "ticked (\<lambda>_. 600) 7200 s \<Longrightarrow> ticked (\<lambda>_. 600) 7200 (tick_sample s)"
  by (rule ticked_tick [where entries = "[PlainConfig sample_source]" and execute = idle_executor
        and x = "fst (run_scheduler_tick [PlainConfig sample_source] idle_executor history_repository world_clock 7200 True s)"])
    (simp_all add: tick_sample_def tick_configs_sample sample_source_interval idle_executor_def preserves_def
       io_return_def no_scheduled_start_def)

definition later :: "int \<Rightarrow> world \<Rightarrow> world" where
  "later n s = s\<lparr>w_clock := w_clock s + seconds n\<rparr>"

lemma ticked_later: "ticked interval stale s \<Longrightarrow> 0 \<le> n \<Longrightarrow> ticked interval stale (later n s)"
  by (rule ticked_other) (auto simp: later_def no_scheduled_start_def seconds_def)

theorem scheduled_runs_spaced_witness:
  "scheduled_starts (w_rows (tick_sample (later 1000 (tick_sample (tick_world 0 [])))))
      = [(''pve-a'', 0), (''pve-a'', seconds 1000)] \<and> seconds 600 \<le> seconds 1000"
proof -
  have starts: "scheduled_starts (w_rows (tick_sample (later 1000 (tick_sample (tick_world 0 [])))))
      = [(''pve-a'', 0), (''pve-a'', seconds 1000)]" by code_simp
  have "ticked (\<lambda>_. 600) 7200 (tick_sample (later 1000 (tick_sample (tick_world 0 []))))"
    by (intro ticked_sample ticked_later) (simp_all add: ticked_empty tick_world_def)
  from scheduled_runs_spaced [OF this, of 0 1 "''pve-a''"] starts show ?thesis by simp
qed

lemma sort_filter_sorted: "sort_key f (filter P (sort_key f xs)) = filter P (sort_key f xs)"
  by (rule sort_key_id_if_sorted) (rule sorted_filter, simp)

lemma latest_by_source_total: "\<exists>rs. latest_by_source tr st rows = (Inr rs, rows)"
  by (simp add: latest_by_source_def io_read_def)

lemma rp_latest_history:
  "latest_by_source tr st (w_rows s) = (Inr rs, w_rows s) \<Longrightarrow> rp_latest history_repository tr st s = (Inr rs, s)"
  by (simp add: history_repository_def on_rows_def)

text \<open>C25: A tick runs every due source, and no other.  With a table and a clock that keep to the calendar
  and executors that raise anything but an interrupt, the tick returns; it decides on every entry; and its
  results are, in the order of their ids, those of the sources that are due by the table itself: enabled,
  no scheduled run in progress, every scheduled run at least an interval old.\<close>

theorem tick_runs_the_due:
  assumes "\<forall>r \<in> set (w_rows s). 0 \<le> sr_started_at r" and "fst (world_clock s) \<le> MAX_INSTANT"
    and "\<forall>c \<in> set (tick_configs entries). raises_only exception_or_exit (execute c)"
  shows "\<exists>tick t. run_scheduler_tick entries execute history_repository world_clock stale True s = (Inr tick, t)
     \<and> length (tk_decisions tick) = length entries
     \<and> list_all2 result_for (filter (due_now (w_rows s) stale (fst (world_clock s))) (tick_configs entries))
         (tk_execution tick)"
proof -
  obtain i s1 where s1: "world_clock s = (i, s1)" "w_rows s1 = w_rows s"
    by (cases "world_clock s") (auto simp: world_clock_def Let_def split: list.splits)
  obtain ls rs where ls: "latest_by_source (Some SCHEDULED) None (w_rows s) = (Inr ls, w_rows s)"
    and rs: "latest_by_source (Some SCHEDULED) (Some RUNNING) (w_rows s) = (Inr rs, w_rows s)"
    using latest_by_source_total by blast
  let ?due = "filter (\<lambda>c. eligible (decide (by_source ls) (by_source rs) i stale c)) (tick_configs entries)"
  have due: "?due = filter (due_now (w_rows s) stale (fst (world_clock s))) (tick_configs entries)"
    using decide_due [of "w_rows s" ls rs i stale] ls rs assms(1,2) s1(1) by simp
  have order: "sort_key sc_id ?due = ?due" unfolding tick_configs_def by (rule sort_filter_sorted)
  obtain y t where run: "run_sources world_clock (Some history_repository) execute ?due s1 = (y, t)"
    by (cases "run_sources world_clock (Some history_repository) execute ?due s1")
  have "raises_only (\<lambda>e. False) (run_sources world_clock (Some history_repository) execute ?due)"
    unfolding run_sources_def using assms(3) history_repository_calm
    by (intro raises_only_map run_source_calm) auto
  with run obtain results where y: "y = Inr results" by (cases y) (auto simp: raises_only_def)
  have results: "list_all2 result_for ?due results"
    using run [unfolded run_sources_def order y] by (rule io_map_returns) (rule returnsD [OF run_source_returns])
  let ?ds = "map (\<lambda>e. decision_failed None) (filter (\<lambda>e. input_config e = None) entries)
    @ map (decide (by_source ls) (by_source rs) i stale) (tick_configs entries)"
  have "length ?ds = length entries"
    by (simp add: tick_configs_def List.map_filter_def sum_length_filter_compl del: not_None_eq)
  moreover have "run_scheduler_tick entries execute history_repository world_clock stale True s
      = (Inr \<lparr>tk_decisions = ?ds, tk_execution = results\<rparr>, t)"
    using s1 run y rp_latest_history [of _ _ s1, unfolded s1(2), OF ls] rp_latest_history [of _ _ s1, unfolded s1(2), OF rs]
    by (simp add: run_scheduler_tick_def io_bind_def now_def io_return_def Let_def)
  ultimately show ?thesis using results due by auto
qed

theorem tick_runs_the_due_witness:
  "\<exists>tick t. run_scheduler_tick [SchedulerSourceInput None, PlainConfig sample_source] failing_executor
       history_repository world_clock 7200 True sample_world = (Inr tick, t)
     \<and> length (tk_decisions tick) = 2 \<and> map sx_source_id (tk_execution tick) = [''s1'']"
proof -
  have configs: "tick_configs [SchedulerSourceInput None, PlainConfig sample_source] = [sample_source]"
    by (simp add: tick_configs_def List.map_filter_simps input_config_def)
  have "filter (due_now (w_rows sample_world) 7200 (fst (world_clock sample_world))) [sample_source] = [sample_source]"
    by code_simp
  with tick_runs_the_due [of sample_world "[SchedulerSourceInput None, PlainConfig sample_source]" failing_executor 7200]
  obtain tick t where tick: "run_scheduler_tick [SchedulerSourceInput None, PlainConfig sample_source] failing_executor
       history_repository world_clock 7200 True sample_world = (Inr tick, t)"
     "length (tk_decisions tick) = 2" "list_all2 result_for [sample_source] (tk_execution tick)"
    by (auto simp: configs sample_world_def world_clock_def MAX_INSTANT_def failing_executor_def raises_only_def
        io_raise_def exception_or_exit_def)
  from tick(3) have "map sx_source_id (tk_execution tick) = [''s1'']"
    by (auto simp: list_all2_Cons1 result_for_def sample_source_def)
  with tick(1,2) show ?thesis by (intro exI conjI) (assumption | simp)+
qed

end
