(* ===== verification/ProxmoxText.thy ===== *)
theory ProxmoxText
  imports IpAddress
begin

text \<open>
  The texts of a Proxmox configuration (netbox_sync/proxmox_discovery.py): guest numbers, states, flags, the
  comma-separated definitions of disks and network cards, and sizes with a unit.
\<close>

section \<open>Python conversions of JSON values\<close>

text \<open>\<open>int(v)\<close>; \<open>v.get(k, d)\<close>; \<open>for x in v\<close>.  \<open>in_json c v\<close> is \<open>c in v\<close>.\<close>

definition py_int :: "json \<Rightarrow> int res" where
  "py_int v = (case v of
       JBool b \<Rightarrow> Inr (if b then 1 else 0)
     | JInt i \<Rightarrow> Inr i
     | JFloat t r \<Rightarrow> Inr (truncate_rat r)
     | JStr s \<Rightarrow> (case int_of_text s of Some i \<Rightarrow> Inr i | None \<Rightarrow> Inl (ValueError ''invalid literal for int()''))
     | _ \<Rightarrow> Inl (TypeError ''int() argument must be a string or a real number''))"

definition json_get :: "json \<Rightarrow> string \<Rightarrow> json \<Rightarrow> json res" where
  "json_get v k other = (case v of
       JObj d \<Rightarrow> Inr (case dget d k of None \<Rightarrow> other | Some w \<Rightarrow> w)
     | _ \<Rightarrow> Inl (AttributeError ''get''))"

definition json_iter :: "json \<Rightarrow> json list res" where
  "json_iter v = (case v of
       JList xs \<Rightarrow> Inr xs
     | JObj d \<Rightarrow> Inr (map (\<lambda>(k, w). JStr k) d)
     | JStr s \<Rightarrow> Inr (map (\<lambda>c. JStr [c]) s)
     | _ \<Rightarrow> Inl (TypeError ''object is not iterable''))"

text \<open>A field declared \<open>str | None\<close>: a value of another type is outside the model, which raises.\<close>

definition text_or_none :: "json \<Rightarrow> string option res" where
  "text_or_none v = (case v of JNull \<Rightarrow> Inr None | JStr s \<Rightarrow> Inr (Some s) | _ \<Rightarrow> Inl (TypeError ''expected a text''))"

section \<open>Guests\<close>

definition VMID_ERROR :: py_exn where
  "VMID_ERROR = ValueError ''Proxmox VMID must be a positive integer''"

definition is_digit :: "char \<Rightarrow> bool" where
  "is_digit c \<longleftrightarrow> CHR ''0'' \<le> c \<and> c \<le> CHR ''9''"

definition validated_vmid :: "json \<Rightarrow> int res" where
  "validated_vmid v =
     res_bind (case v of
         JInt i \<Rightarrow> Inr i
       | JStr s \<Rightarrow> if s \<noteq> [] \<and> hd s \<noteq> CHR ''0'' \<and> list_all is_digit s
                   then (case int_of_text s of Some i \<Rightarrow> Inr i | None \<Rightarrow> Inl VMID_ERROR)
                   else Inl VMID_ERROR
       | _ \<Rightarrow> Inl VMID_ERROR) (\<lambda>i. if i \<le> 0 then Inl VMID_ERROR else Inr i)"

definition workload_status :: "json \<Rightarrow> string" where
  "workload_status v =
     (case dget [(''running'', ''running''), (''stopped'', ''stopped''), (''paused'', ''paused''), (''suspended'', ''paused'')]
         (py_str v) of None \<Rightarrow> ''stopped'' | Some st \<Rightarrow> st)"

definition config_flag :: "json \<Rightarrow> bool" where
  "config_flag v \<longleftrightarrow> v = JBool True \<or> casefold (py_strip (py_str v)) \<in> {''1'', ''true'', ''on''}"

section \<open>Definitions\<close>

text \<open>\<open>s.split(c, 1)\<close> of a text that contains \<open>c\<close>.\<close>

definition before_first :: "char \<Rightarrow> string \<Rightarrow> string" where
  "before_first c s = takeWhile (\<lambda>x. x \<noteq> c) s"

definition after_first :: "char \<Rightarrow> string \<Rightarrow> string" where
  "after_first c s = drop (Suc (length (before_first c s))) s"

definition definition_step :: "(string \<times> string) list \<Rightarrow> string \<Rightarrow> (string \<times> string) list" where
  "definition_step result component =
     (if CHR ''='' \<in> set component
      then dset (before_first (CHR ''='') component) (after_first (CHR ''='') component) result
      else if CHR '':'' \<in> set component \<and> dget result ''storage'' = None
      then dset ''volume'' (after_first (CHR '':'') component)
             (dset ''storage'' (before_first (CHR '':'') component) result)
      else result)"

definition parse_config_definition :: "string \<Rightarrow> (string \<times> string) list" where
  "parse_config_definition raw = foldl definition_step [] (split_on (CHR '','') raw)"

definition size_unit :: "char \<Rightarrow> int option" where
  "size_unit c = (if c = CHR ''K'' then Some 1024 else if c = CHR ''M'' then Some (1024 ^ 2)
     else if c = CHR ''G'' then Some (1024 ^ 3) else if c = CHR ''T'' then Some (1024 ^ 4) else None)"

text \<open>\<open>raw_size[-1]\<close> of a blank text is an \<open>IndexError\<close> and \<open>int\<close> of an infinite float an \<open>OverflowError\<close>;
  only a \<open>ValueError\<close> is caught.  A decimal is read exactly, as everywhere in the model.\<close>

definition scaled_size :: "string \<Rightarrow> int \<Rightarrow> int res" where
  "scaled_size s unit = (case float_of_text s of
       Some (FloatNum r) \<Rightarrow> Inr (truncate_rat (r * of_int unit))
     | Some FloatInf \<Rightarrow> Inl (OverflowError ''cannot convert float infinity to integer'')
     | _ \<Rightarrow> Inr 0)"

definition parse_size_bytes :: "string \<Rightarrow> int res" where
  "parse_size_bytes raw =
     (if raw = [] then Inr 0
      else let s = py_upper (py_strip raw)
        in if s = [] then Inl (CodedError ''IndexError'' ''string index out of range'')
           else (case size_unit (last s) of
             Some unit \<Rightarrow> scaled_size (butlast s) unit
           | None \<Rightarrow> Inr (case int_of_text s of Some i \<Rightarrow> i | None \<Rightarrow> 0)))"

definition disk_storage :: "string \<Rightarrow> (string \<times> string) list \<Rightarrow> string option" where
  "disk_storage raw d =
     (case dget d ''storage'' of
        Some st \<Rightarrow> Some st
      | None \<Rightarrow> let first = before_first (CHR '','') raw
                in if CHR '':'' \<in> set first then Some (before_first (CHR '':'') first) else None)"

text \<open>\<open>re.fullmatch(r'net[0-9]+', key)\<close>.\<close>

definition is_net_key :: "string \<Rightarrow> bool" where
  "is_net_key key \<longleftrightarrow> starts_with key ''net'' \<and> drop 3 key \<noteq> [] \<and> list_all is_digit (drop 3 key)"

definition vlan_tag :: "(string \<times> string) list \<Rightarrow> int option" where
  "vlan_tag d = (case dget d ''tag'' of None \<Rightarrow> None | Some t \<Rightarrow> if t = [] then None else int_of_text t)"

section \<open>Lemmas\<close>

lemma validated_vmid_pos: "validated_vmid v = Inr i \<Longrightarrow> 0 < i"
  by (auto simp: validated_vmid_def res_bind_eq_Inr split: if_splits)

lemma workload_status_closed: "workload_status v \<in> {''running'', ''stopped'', ''paused''}"
  by (auto simp: workload_status_def split: option.split)

lemma before_first_eq: "c \<notin> set k \<Longrightarrow> before_first c (k @ c # v) = k"
  by (induction k) (auto simp: before_first_def)

lemma after_first_eq: "c \<notin> set k \<Longrightarrow> after_first c (k @ c # v) = v"
  by (simp add: after_first_def before_first_eq)

text \<open>Writing the components of a definition and reading them back.\<close>

definition component_text :: "string \<times> string \<Rightarrow> string" where
  "component_text kv = fst kv @ ''='' @ snd kv"

definition plain_component :: "string \<times> string \<Rightarrow> bool" where
  "plain_component kv \<longleftrightarrow> CHR '','' \<notin> set (fst kv) \<and> CHR '','' \<notin> set (snd kv) \<and> CHR ''='' \<notin> set (fst kv)"

lemma definition_step_component:
  "plain_component kv \<Longrightarrow> definition_step d (component_text kv) = dset (fst kv) (snd kv) d"
  using before_first_eq [of "CHR ''=''" "fst kv" "snd kv"] after_first_eq [of "CHR ''=''" "fst kv" "snd kv"]
  by (simp add: definition_step_def component_text_def plain_component_def)

lemma dset_new: "k \<notin> fst ` set d \<Longrightarrow> dset k v d = d @ [(k, v)]"
  by (induction d) auto

lemma definition_fold:
  assumes "\<forall>kv \<in> set kvs. plain_component kv" and "distinct (map fst (d @ kvs))"
  shows "foldl definition_step d (map component_text kvs) = d @ kvs"
  using assms
proof (induction kvs arbitrary: d)
  case (Cons kv kvs)
  then have "definition_step d (component_text kv) = d @ [kv]"
    by (cases kv) (auto simp: definition_step_component intro!: dset_new)
  with Cons show ?case by simp
qed simp

lemma component_no_comma: "plain_component kv \<Longrightarrow> CHR '','' \<notin> set (component_text kv)"
  by (simp add: plain_component_def component_text_def)

lemma split_components:
  assumes "xs \<noteq> []" and "\<forall>x \<in> set xs. CHR '','' \<notin> set x"
  shows "split_on (CHR '','') (join '','' xs) = xs"
  using split_on_join [OF assms] by simp

section \<open>Decimal digits\<close>

abbreviation digit_chars :: "char set" where
  "digit_chars \<equiv> set ''0123456789''"

lemma digit_chars_facts:
  "c \<in> digit_chars \<Longrightarrow> is_digit c \<and> \<not> is_space c \<and> py_lower_char c = c \<and> py_upper_char c = c
     \<and> c \<notin> {CHR ''_'', CHR ''-'', CHR ''+'', CHR ''.'', CHR ''e'', CHR '','', CHR ''=''}"
proof -
  have "\<forall>c \<in> digit_chars. is_digit c \<and> \<not> is_space c \<and> py_lower_char c = c \<and> py_upper_char c = c
     \<and> c \<notin> {CHR ''_'', CHR ''-'', CHR ''+'', CHR ''.'', CHR ''e'', CHR '','', CHR ''=''}" by code_simp
  then show "c \<in> digit_chars \<Longrightarrow> ?thesis" by blast
qed

lemma strip_no_space: "\<forall>c \<in> set s. \<not> is_space c \<Longrightarrow> py_strip s = s"
proof -
  have drop: "\<forall>c \<in> set t. \<not> is_space c \<Longrightarrow> dropWhile is_space t = t" for t by (cases t) auto
  assume "\<forall>c \<in> set s. \<not> is_space c"
  then show ?thesis using drop [of s] drop [of "rev s"] by (simp add: py_strip_def)
qed

lemma grouped_digits_plain:
  "set s \<subseteq> digit_chars \<Longrightarrow> prev \<or> s \<noteq> [] \<Longrightarrow> grouped_digits acc prev s = digits_value acc s"
proof (induction s arbitrary: acc prev)
  case (Cons c cs)
  then have c: "c \<noteq> CHR ''_''" using digit_chars_facts [of c] by auto
  show ?case
  proof (cases "digit_value c")
    case (Some d)
    with c Cons.IH [of True "10 * acc + d"] Cons.prems show ?thesis by simp
  qed (use c in simp)
qed simp

lemma digits_ok:
  "\<forall>c \<in> set (nat_digits n). is_digit c \<and> \<not> is_space c \<and> py_lower_char c = c \<and> py_upper_char c = c
     \<and> c \<notin> {CHR ''_'', CHR ''-'', CHR ''+'', CHR ''.'', CHR ''e'', CHR '','', CHR ''=''}"
  using nat_digits_chars [of n] digit_chars_facts by blast

lemma split_sign_digits: "split_sign (nat_digits n) = (1, nat_digits n)"
  using digits_ok [of n] by (cases "nat_digits n") (auto simp: split_sign_def)

lemma int_of_text_digits: "int_of_text (nat_digits n) = Some (int n)"
  using digits_ok [of n] nat_digits_chars [of n]
  by (simp add: int_of_text_def strip_no_space split_sign_digits grouped_digits_plain digits_value_nat_digits)

lemma casefold_digits: "casefold (nat_digits n) = nat_digits n"
  using digits_ok [of n] by (simp add: casefold_def map_idI)

lemma upper_digits: "py_upper (nat_digits n @ s) = nat_digits n @ py_upper s"
  using digits_ok [of n] by (simp add: py_upper_def map_idI)

lemma takeWhile_digits:
  "c \<notin> set s \<Longrightarrow> takeWhile (\<lambda>x. x \<noteq> c) s = s"
  by (induction s) auto

lemma float_of_digits: "float_of_text (nat_digits n) = Some (FloatNum (of_nat n))"
proof -
  note ok = digits_ok [of n]
  have e: "CHR ''e'' \<notin> set (nat_digits n)" and dot: "CHR ''.'' \<notin> set (nat_digits n)" using ok by blast+
  have "hd (nat_digits n) \<in> set (nat_digits n)" by simp
  then have digit: "is_digit (hd (nat_digits n))" using ok by blast
  have body: "nat_digits n \<noteq> ''inf''" "nat_digits n \<noteq> ''infinity''" "nat_digits n \<noteq> ''nan''"
    using digit by (auto simp: is_digit_def less_eq_char_def)
  have "decimal_of_text (nat_digits n) = Some (of_nat n)"
    using nat_digits_chars [of n]
    by (simp add: decimal_of_text_def takeWhile_digits [OF dot] grouped_digits_plain digits_value_nat_digits)
  with ok body show ?thesis
    by (simp add: float_of_text_def strip_no_space casefold_digits split_sign_digits takeWhile_digits [OF e])
qed

lemma truncate_rat_int: "truncate_rat (of_int i) = i"
  by (simp add: truncate_rat_def del: of_int_minus flip: of_int_minus)

lemma size_of_digits: "parse_size_bytes (nat_digits n) = Inr (int n)"
proof -
  have "last (nat_digits n) \<in> set (nat_digits n)" by simp
  with nat_digits_chars have "last (nat_digits n) \<in> digit_chars" by blast
  then have "size_unit (last (nat_digits n)) = None" by (auto simp: size_unit_def)
  then show ?thesis
    using digits_ok [of n] upper_digits [of n "[]"]
    by (simp add: parse_size_bytes_def strip_no_space int_of_text_digits py_upper_def)
qed

lemma size_of_unit:
  assumes "size_unit (py_upper_char c) = Some unit" and "\<not> is_space c"
  shows "parse_size_bytes (nat_digits n @ [c]) = Inr (int n * unit)"
proof -
  have "truncate_rat (of_nat n * of_int unit) = int n * unit"
    using truncate_rat_int [of "int n * unit"] by simp
  then show ?thesis
    using assms digits_ok [of n]
    by (simp add: parse_size_bytes_def strip_no_space upper_digits py_upper_def [of "[c]"] scaled_size_def
        float_of_digits ball_Un)
qed

text \<open>The text Proxmox prints for a disk: the volume on its storage, then options.\<close>

definition drive_text :: "string \<Rightarrow> string \<Rightarrow> (string \<times> string) list \<Rightarrow> string" where
  "drive_text storage volume options =
     join '','' ((storage @ '':'' @ volume) # map component_text options)"

section \<open>Properties\<close>



end
