(* ===== verification/ProxmoxDiscovery.thy ===== *)
theory ProxmoxDiscovery
  imports ProxmoxText SourceConfig SourceIdentity
begin

text \<open>
  The discovery of a Proxmox cluster (netbox_sync/proxmox_discovery.py).  The API client (proxmoxer, third
  party) is the record of the paths the code gets; an answer is a JSON value of any shape, and a call may raise.
  The warnings the code logs are not modelled.  A host carries its storages beside the fields the stages read.
\<close>

record 'w proxmox =
  px_cluster_status :: "('w, json) io"
  px_nodes :: "('w, json) io"
  px_status :: "string \<Rightarrow> ('w, json) io"
  px_disks :: "string \<Rightarrow> ('w, json) io"
  px_storage :: "string \<Rightarrow> ('w, json) io"
  px_network :: "string \<Rightarrow> ('w, json) io"
  px_qemu :: "string \<Rightarrow> ('w, json) io"
  px_qemu_config :: "string \<Rightarrow> int \<Rightarrow> ('w, json) io"
  px_agent :: "string \<Rightarrow> int \<Rightarrow> ('w, json) io"
  px_lxc :: "string \<Rightarrow> ('w, json) io"
  px_lxc_config :: "string \<Rightarrow> int \<Rightarrow> ('w, json) io"

record discovered_storage =
  st_name :: string
  st_storage_type :: "string option"
  st_content :: "string option"
  st_total_bytes :: int
  st_used_bytes :: int
  st_available_bytes :: int
  st_active :: bool

record proxmox_host = discovered_host +
  h_storages :: "discovered_storage list"

text \<open>\<open>int(d.get(k, other))\<close> and a declared text of a dictionary.\<close>

definition int_of_key :: "json \<Rightarrow> string \<Rightarrow> int \<Rightarrow> int res" where
  "int_of_key v k other = res_bind (json_get v k (JInt other)) py_int"

definition text_of_key :: "json \<Rightarrow> string \<Rightarrow> string option res" where
  "text_of_key v k = res_bind (json_get v k JNull) text_or_none"

definition required_name :: "json \<Rightarrow> string res" where
  "required_name v = (case v of JStr s \<Rightarrow> Inr s | _ \<Rightarrow> Inl (AttributeError ''upper''))"

definition json_item :: "json \<Rightarrow> string \<Rightarrow> json res" where
  "json_item v k = (case v of
       JObj d \<Rightarrow> (case dget d k of None \<Rightarrow> Inl (KeyError k) | Some w \<Rightarrow> Inr w)
     | _ \<Rightarrow> Inl (TypeError ''not subscriptable by a text''))"

section \<open>Host interfaces\<close>

definition interface_addresses :: "json \<Rightarrow> json \<Rightarrow> json \<Rightarrow> string list" where
  "interface_addresses cidr address netmask =
     (if truthy cidr then [py_str cidr]
      else if truthy address
      then [if truthy netmask then py_str address @ ''/'' @ py_str netmask else py_str address]
      else [])"

text \<open>\<open>int(name.rsplit('.', 1)[1])\<close>, or nothing.\<close>

definition vlan_of_name :: "string \<Rightarrow> int option" where
  "vlan_of_name name =
     (if CHR ''.'' \<in> set name then int_of_text (last (split_on (CHR ''.'') name)) else None)"

fun split_blank :: "string \<Rightarrow> string \<Rightarrow> string list" where
  "split_blank word [] = (if word = [] then [] else [word])"
| "split_blank word (c # cs) =
     (if is_space c then (if word = [] then [] else [word]) @ split_blank [] cs else split_blank (word @ [c]) cs)"

definition host_interface :: "json \<Rightarrow> discovered_host_interface option res" where
  "host_interface raw =
     res_bind (json_get raw ''iface'' JNull) (\<lambda>name_value.
     if \<not> truthy name_value then Inr None
     else
       res_bind (text_or_none name_value) (\<lambda>iface.
       res_bind (text_of_key raw ''type'') (\<lambda>kind.
       res_bind (text_of_key raw ''method'') (\<lambda>method.
       res_bind (text_of_key raw ''gateway'') (\<lambda>gateway.
       res_bind (res_map (\<lambda>(k, d). json_get raw k d)
           [(''cidr'', JNull), (''address'', JNull), (''netmask'', JNull), (''bridge_ports'', JNull),
            (''active'', JInt 0), (''autostart'', JInt 0), (''bridge_vlan_aware'', JInt 0), (''comments'', JNull)]) (\<lambda>vs.
         let name = (case iface of None \<Rightarrow> [] | Some n \<Rightarrow> n); ports = vs ! 3; comments = vs ! 7
         in Inr (Some
           \<lparr>hi_name = name, hi_interface_type = kind, hi_active = config_flag (vs ! 4), hi_autostart = config_flag (vs ! 5),
            hi_method = method, hi_addresses = interface_addresses (vs ! 0) (vs ! 1) (vs ! 2), hi_gateway = gateway,
            hi_bridge_ports = split_blank [] (if truthy ports then py_str ports else []),
            hi_vlan_id = (if kind = Some ''vlan'' then vlan_of_name name else None),
            hi_vlan_aware = config_flag (vs ! 6),
            hi_comments = (if truthy comments then Some (py_strip (py_str comments)) else None),
            hi_mac_address = None, hi_management = False\<rparr>)))))))"

definition concat_options :: "'a option list \<Rightarrow> 'a list" where
  "concat_options xs = concat (map (\<lambda>x. case x of None \<Rightarrow> [] | Some y \<Rightarrow> [y]) xs)"

definition discover_host_interfaces :: "'w proxmox \<Rightarrow> string \<Rightarrow> ('w, discovered_host_interface list) io" where
  "discover_host_interfaces px node =
     io_bind (px_network px node) (\<lambda>answer.
     io_lift (res_bind (json_iter answer) (\<lambda>raws.
       res_bind (res_map host_interface raws) (\<lambda>found. Inr (concat_options found)))))"

section \<open>The guest agent\<close>

text \<open>\<open>':' in address\<close> followed by \<open>address.startswith\<close>: what is not a text raises unless it contains the
  colon as an element or a key.\<close>

definition skip_address :: "json \<Rightarrow> bool res" where
  "skip_address address = (case address of
       JStr s \<Rightarrow> Inr (CHR '':'' \<in> set s \<or> starts_with s ''127.'')
     | JList xs \<Rightarrow> if JStr '':'' \<in> set xs then Inr True else Inl (AttributeError ''startswith'')
     | JObj d \<Rightarrow> if '':'' \<in> set (map fst d) then Inr True else Inl (AttributeError ''startswith'')
     | _ \<Rightarrow> Inl (TypeError ''argument is not iterable''))"

definition agent_address :: "json \<Rightarrow> string option res" where
  "agent_address ip =
     res_bind (json_get ip ''ip-address'' JNull) (\<lambda>address.
     res_bind (json_get ip ''prefix'' JNull) (\<lambda>prefix.
       if \<not> truthy address then Inr None
       else res_bind (skip_address address) (\<lambda>skip.
         Inr (if skip then None
              else Some (if prefix = JNull then py_str address else py_str address @ ''/'' @ py_str prefix)))))"

definition agent_interface :: "json \<Rightarrow> (string \<times> string list) option res" where
  "agent_interface v = (case v of
       JObj d \<Rightarrow>
         let mac = casefold (py_str (case dget d ''hardware-address'' of None \<Rightarrow> JStr [] | Some w \<Rightarrow> w))
         in if mac = [] then Inr None
            else res_bind (json_iter (case dget d ''ip-addresses'' of None \<Rightarrow> JList [] | Some w \<Rightarrow> w)) (\<lambda>entries.
                 res_bind (res_map agent_address entries) (\<lambda>found. Inr (Some (mac, concat_options found))))
     | _ \<Rightarrow> Inr None)"

text \<open>The loop fills the dictionary until an interface raises; the caller keeps what was filled.\<close>

fun agent_loop :: "(string \<times> string list) list \<Rightarrow> json list \<Rightarrow> (string \<times> string list) list \<times> py_exn option" where
  "agent_loop found [] = (found, None)"
| "agent_loop found (v # vs) = (case agent_interface v of
       Inl e \<Rightarrow> (found, Some e)
     | Inr None \<Rightarrow> agent_loop found vs
     | Inr (Some (mac, ips)) \<Rightarrow> agent_loop (dset mac ips found) vs)"

definition agent_caught :: "py_exn \<Rightarrow> bool" where
  "agent_caught e = (case e of
       AttributeError m \<Rightarrow> True | TypeError m \<Rightarrow> True | ValueError m \<Rightarrow> True
     | CodedError cls code \<Rightarrow> cls = ''ResourceException'' | _ \<Rightarrow> False)"

definition agent_entries :: "json \<Rightarrow> json list res" where
  "agent_entries answer = (case answer of
       JObj d \<Rightarrow> json_iter (case dget d ''result'' of None \<Rightarrow> JList [] | Some w \<Rightarrow> w)
     | _ \<Rightarrow> Inl (ValueError ''QEMU guest agent response must be an object''))"

definition agent_by_mac :: "'w proxmox \<Rightarrow> string \<Rightarrow> int \<Rightarrow> ('w, (string \<times> string list) list) io" where
  "agent_by_mac px node vmid =
     io_bind (io_attempt agent_caught (px_agent px node vmid)) (\<lambda>asked.
       io_lift (case asked of
         Inl e \<Rightarrow> Inr []
       | Inr answer \<Rightarrow> (case agent_entries answer of
           Inl e \<Rightarrow> Inr []
         | Inr entries \<Rightarrow> (case agent_loop [] entries of
             (found, None) \<Rightarrow> Inr found
           | (found, Some e) \<Rightarrow> if agent_caught e then Inr found else Inl e))))"

section \<open>Guests\<close>

text \<open>The exceptions that make a guest malformed: it is left out and the discovery goes on.\<close>

definition malformed :: "py_exn \<Rightarrow> bool" where
  "malformed e = (case e of
       AttributeError m \<Rightarrow> True | KeyError m \<Rightarrow> True | TypeError m \<Rightarrow> True | ValueError m \<Rightarrow> True | _ \<Rightarrow> False)"

definition config_object :: "string \<Rightarrow> json \<Rightarrow> obj res" where
  "config_object message v = (case v of JObj d \<Rightarrow> Inr d | _ \<Rightarrow> Inl (ValueError message))"

text \<open>The resources of a machine: its virtual CPUs and its memory in MiB.\<close>

definition qemu_resources :: "obj \<Rightarrow> (int \<times> int) res" where
  "qemu_resources config =
     res_bind (int_of_key (JObj config) ''sockets'' 1) (\<lambda>sockets.
     res_bind (int_of_key (JObj config) ''cores'' 1) (\<lambda>cores.
     res_bind (int_of_key (JObj config) ''vcpus'' (sockets * cores)) (\<lambda>vcpus.
     res_bind (int_of_key (JObj config) ''memory'' 0) (\<lambda>memory.
       if Min {sockets, cores, vcpus, memory} < 0
       then Inl (ValueError ''Proxmox QEMU resources cannot be negative'')
       else Inr (vcpus, memory)))))"

definition lxc_resources :: "obj \<Rightarrow> (int \<times> int \<times> int) res" where
  "lxc_resources config =
     res_bind (int_of_key (JObj config) ''cores'' 1) (\<lambda>vcpus.
     res_bind (int_of_key (JObj config) ''memory'' 0) (\<lambda>memory.
     res_bind (int_of_key (JObj config) ''swap'' 0) (\<lambda>swap.
       if Min {vcpus, memory, swap} < 0
       then Inl (ValueError ''Proxmox LXC resources cannot be negative'')
       else Inr (vcpus, memory, swap))))"

text \<open>The head of the loop over guests: number, configuration and resources, or \<open>None\<close> for a malformed one.\<close>

definition guest_head ::
    "json \<Rightarrow> (int \<Rightarrow> ('w, json) io) \<Rightarrow> string \<Rightarrow> (obj \<Rightarrow> 'a res) \<Rightarrow> ('w, (int \<times> obj \<times> 'a) option) io" where
  "guest_head entry get_config message resources =
     io_bind (io_attempt malformed
       (io_bind (io_lift (res_bind (json_get entry ''vmid'' JNull) validated_vmid)) (\<lambda>vmid.
        io_bind (get_config vmid) (\<lambda>answer.
        io_lift (res_bind (config_object message answer) (\<lambda>config.
          res_bind (resources config) (\<lambda>r. Inr (vmid, config, r))))))))
     (\<lambda>outcome. io_return (case outcome of Inl e \<Rightarrow> None | Inr head \<Rightarrow> Some head))"

text \<open>The text of a network card's value; \<open>None\<close> for a malformed one.\<close>

definition nic_text :: "json \<Rightarrow> string option" where
  "nic_text v = (case v of JStr s \<Rightarrow> if py_strip s = [] then None else Some s | _ \<Rightarrow> None)"

definition nic_definitions :: "obj \<Rightarrow> (string \<times> (string \<times> string) list) list" where
  "nic_definitions config =
     concat_options (map (\<lambda>(key, v).
       if is_net_key key then map_option (\<lambda>s. (key, parse_config_definition s)) (nic_text v) else None) config)"

definition NIC_MODELS :: "string list" where
  "NIC_MODELS = [''virtio'', ''e1000'', ''e1000e'', ''rtl8139'', ''vmxnet3'']"

definition nic_mac :: "(string \<times> string) list \<Rightarrow> string option" where
  "nic_mac d = (case filter (\<lambda>m. dget d m \<noteq> None) NIC_MODELS of [] \<Rightarrow> None | m # _ \<Rightarrow> dget d m)"

definition qemu_interface :: "(string \<times> string list) list \<Rightarrow> string \<times> (string \<times> string) list \<Rightarrow> discovered_interface" where
  "qemu_interface agent kd = (case kd of (key, d) \<Rightarrow>
     \<lparr>nic_name = key, nic_mac_address = nic_mac d, nic_bridge = dget d ''bridge'', nic_vlan_id = vlan_tag d,
      nic_ip_addresses = (case nic_mac d of
          None \<Rightarrow> []
        | Some mac \<Rightarrow> if mac = [] then [] else (case dget agent (casefold mac) of None \<Rightarrow> [] | Some ips \<Rightarrow> ips)),
      nic_external_id = Some key\<rparr>)"

definition lxc_addresses :: "(string \<times> string) list \<Rightarrow> string list" where
  "lxc_addresses d = (case dget d ''ip'' of
       None \<Rightarrow> []
     | Some ip \<Rightarrow> if ip = [] \<or> casefold ip \<in> {''dhcp'', ''manual''} then [] else [ip])"

definition lxc_interface :: "string \<times> (string \<times> string) list \<Rightarrow> discovered_interface" where
  "lxc_interface kd = (case kd of (key, d) \<Rightarrow>
     \<lparr>nic_name = (case dget d ''name'' of None \<Rightarrow> key | Some n \<Rightarrow> n), nic_mac_address = dget d ''hwaddr'',
      nic_bridge = dget d ''bridge'', nic_vlan_id = vlan_tag d, nic_ip_addresses = lxc_addresses d,
      nic_external_id = Some key\<rparr>)"

definition virtual_disk :: "string \<Rightarrow> string \<Rightarrow> discovered_virtual_disk res" where
  "virtual_disk key raw =
     (let d = parse_config_definition raw
      in res_bind (parse_size_bytes (case dget d ''size'' of None \<Rightarrow> [] | Some t \<Rightarrow> t)) (\<lambda>bytes.
        Inr \<lparr>vd_name = key, vd_storage = disk_storage raw d, vd_size_bytes = bytes\<rparr>))"

definition is_qemu_disk :: "string \<Rightarrow> string \<Rightarrow> bool" where
  "is_qemu_disk key raw \<longleftrightarrow>
     list_ex (starts_with key) [''scsi'', ''virtio'', ''sata'', ''ide''] \<and> key \<noteq> ''scsihw''
     \<and> dget (parse_config_definition raw) ''media'' \<noteq> Some ''cdrom'' \<and> casefold (py_strip raw) \<noteq> ''none''"

definition qemu_disks :: "obj \<Rightarrow> discovered_virtual_disk list res" where
  "qemu_disks config =
     res_map (\<lambda>(key, v). virtual_disk key (py_str v)) (filter (\<lambda>(key, v). is_qemu_disk key (py_str v)) config)"

definition lxc_disks :: "obj \<Rightarrow> discovered_virtual_disk list res" where
  "lxc_disks config =
     res_map (\<lambda>(key, v). virtual_disk key (py_str v))
       (filter (\<lambda>(key, v). key = ''rootfs'' \<or> starts_with key ''mp'') config)"

definition flag_at :: "obj \<Rightarrow> string \<Rightarrow> bool" where
  "flag_at config key = config_flag (case dget config key of None \<Rightarrow> JInt 0 | Some v \<Rightarrow> v)"

definition text_at :: "obj \<Rightarrow> string \<Rightarrow> json \<Rightarrow> json" where
  "text_at d key other = (case dget d key of None \<Rightarrow> other | Some v \<Rightarrow> v)"

definition discover_vm :: "'w proxmox \<Rightarrow> string \<Rightarrow> source_config \<Rightarrow> json \<Rightarrow> ('w, discovered_vm option) io" where
  "discover_vm px node source entry =
     io_bind (guest_head entry (px_qemu_config px node) ''Proxmox QEMU config must be an object'' qemu_resources) (\<lambda>head.
     (case head of
        None \<Rightarrow> io_return None
      | Some (vmid, config, vcpus, memory) \<Rightarrow>
          io_bind (agent_by_mac px node vmid) (\<lambda>agent.
          io_lift (res_bind (qemu_disks config) (\<lambda>disks.
          res_bind (json_get entry ''name'' (JStr (''vm-'' @ py_str_int vmid))) (\<lambda>name.
          res_bind (json_get entry ''status'' JNull) (\<lambda>status.
            Inr (Some \<lparr>g_source = ''proxmox'', g_source_instance = sc_source_instance source,
              g_legacy_identity_owner = sc_legacy_identity_owner source,
              g_source_id = ''proxmox:'' @ node @ '':'' @ py_str_int vmid, g_node_source_id = node, g_vmid = IntId vmid,
              g_original_name = py_str name, g_normalized_name = py_str name, g_status = workload_status status,
              g_vcpus = vcpus, g_memory_bytes = memory * 1024 ^ 2, g_autostart = flag_at config ''onboot'',
              g_disks = disks, g_interfaces = map (qemu_interface agent) (nic_definitions config),
              vm_external_id = None\<rparr>))))))))"

definition discover_container ::
    "'w proxmox \<Rightarrow> string \<Rightarrow> source_config \<Rightarrow> json \<Rightarrow> ('w, discovered_container option) io" where
  "discover_container px node source entry =
     io_bind (guest_head entry (px_lxc_config px node) ''Proxmox LXC config must be an object'' lxc_resources) (\<lambda>head.
     (case head of
        None \<Rightarrow> io_return None
      | Some (vmid, config, vcpus, memory, swap) \<Rightarrow>
          io_lift (res_bind (lxc_disks config) (\<lambda>disks.
          res_bind (json_get entry ''name'' (JStr (''lxc-'' @ py_str_int vmid))) (\<lambda>listed.
          res_bind (json_get entry ''status'' JNull) (\<lambda>status.
          res_bind (text_of_key (JObj config) ''arch'') (\<lambda>arch.
          res_bind (text_of_key (JObj config) ''ostype'') (\<lambda>ostype.
            let name = py_str (text_at config ''hostname'' listed)
            in Inr (Some \<lparr>g_source = ''proxmox'', g_source_instance = sc_source_instance source,
              g_legacy_identity_owner = sc_legacy_identity_owner source,
              g_source_id = ''proxmox:'' @ node @ '':lxc:'' @ py_str_int vmid, g_node_source_id = node,
              g_vmid = IntId vmid, g_original_name = name, g_normalized_name = name,
              g_status = workload_status status, g_vcpus = vcpus, g_memory_bytes = memory * 1024 ^ 2,
              g_autostart = flag_at config ''onboot'', g_disks = disks,
              g_interfaces = map lxc_interface (nic_definitions config),
              ct_architecture = arch, ct_os_type = ostype, ct_swap_bytes = swap * 1024 ^ 2,
              ct_unprivileged = flag_at config ''unprivileged''\<rparr>)))))))))"

definition discover_virtual_machines :: "'w proxmox \<Rightarrow> string \<Rightarrow> source_config \<Rightarrow> ('w, discovered_vm list) io" where
  "discover_virtual_machines px node source =
     io_bind (px_qemu px node) (\<lambda>answer.
     io_bind (io_lift (json_iter answer)) (\<lambda>entries.
     io_bind (io_map (discover_vm px node source) entries) (\<lambda>found. io_return (concat_options found))))"

definition discover_containers :: "'w proxmox \<Rightarrow> string \<Rightarrow> source_config \<Rightarrow> ('w, discovered_container list) io" where
  "discover_containers px node source =
     io_bind (px_lxc px node) (\<lambda>answer.
     io_bind (io_lift (json_iter answer)) (\<lambda>entries.
     io_bind (io_map (discover_container px node source) entries) (\<lambda>found. io_return (concat_options found))))"

section \<open>Hosts\<close>

definition node_addresses :: "json list \<Rightarrow> (string \<times> string option) list res" where
  "node_addresses items =
     res_fold (\<lambda>found item.
       res_bind (json_get item ''type'' JNull) (\<lambda>kind.
         if kind \<noteq> JStr ''node'' then Inr found
         else res_bind (json_get item ''name'' JNull) (\<lambda>name.
           if \<not> truthy name then Inr found
           else res_bind (required_name name) (\<lambda>node.
             res_bind (text_of_key item ''ip'') (\<lambda>ip. Inr (dset node ip found)))))) [] items"

definition discover_cpu :: "json \<Rightarrow> discovered_cpu res" where
  "discover_cpu status =
     res_bind (json_get status ''cpuinfo'' (JObj [])) (\<lambda>info.
     res_bind (text_of_key info ''model'') (\<lambda>model.
     res_bind (text_of_key info ''vendor'') (\<lambda>vendor.
     res_bind (int_of_key info ''sockets'' 0) (\<lambda>sockets.
     res_bind (int_of_key info ''cores'' 0) (\<lambda>cores.
     res_bind (int_of_key info ''cpus'' 0) (\<lambda>cpus.
       Inr \<lparr>cpu_model = model, cpu_vendor = vendor, cpu_sockets = sockets, cpu_cores = cores, cpu_logical_cpus = cpus\<rparr>))))))"

definition discover_disk :: "json \<Rightarrow> discovered_disk res" where
  "discover_disk disk =
     res_bind (json_get disk ''path'' (JStr [])) (\<lambda>fallback.
     res_bind (json_get disk ''devpath'' fallback) (\<lambda>path_value.
     res_bind (required_name path_value) (\<lambda>path.
     res_bind (text_of_key disk ''model'') (\<lambda>model.
     res_bind (text_of_key disk ''serial'') (\<lambda>serial.
     res_bind (int_of_key disk ''size'' 0) (\<lambda>size_bytes.
     res_bind (text_of_key disk ''type'') (\<lambda>kind.
     res_bind (text_of_key disk ''health'') (\<lambda>health.
       Inr \<lparr>disk_path = path, disk_model = model, disk_serial = serial, disk_size_bytes = size_bytes,
         disk_type = kind, disk_health = health\<rparr>))))))))"

definition discover_storage :: "json \<Rightarrow> discovered_storage res" where
  "discover_storage storage =
     res_bind (res_bind (json_item storage ''storage'') required_name) (\<lambda>name.
     res_bind (text_of_key storage ''type'') (\<lambda>kind.
     res_bind (text_of_key storage ''content'') (\<lambda>content.
     res_bind (int_of_key storage ''total'' 0) (\<lambda>total.
     res_bind (int_of_key storage ''used'' 0) (\<lambda>used.
     res_bind (int_of_key storage ''avail'' 0) (\<lambda>available.
     res_bind (json_get storage ''active'' JNull) (\<lambda>active.
       Inr \<lparr>st_name = name, st_storage_type = kind, st_content = content, st_total_bytes = total,
         st_used_bytes = used, st_available_bytes = available, st_active = truthy active\<rparr>)))))))"

text \<open>\<open>version.split('/', 2)[1]\<close> after the prefix \<open>pve-manager/\<close>.\<close>

definition short_version :: "string option \<Rightarrow> string option" where
  "short_version v = (case v of
       None \<Rightarrow> None
     | Some s \<Rightarrow> Some (if starts_with s ''pve-manager/'' then split_on (CHR ''/'') s ! 1 else s))"

definition discover_list :: "('w, json) io \<Rightarrow> (json \<Rightarrow> 'a res) \<Rightarrow> ('w, 'a list) io" where
  "discover_list answer one = io_bind answer (\<lambda>v. io_lift (res_bind (json_iter v) (res_map one)))"

definition discover_host ::
    "'w proxmox \<Rightarrow> source_config \<Rightarrow> (string \<times> string option) list \<Rightarrow> json \<Rightarrow> ('w, proxmox_host) io" where
  "discover_host px source node_ips entry =
     io_bind (io_lift (res_bind (json_item entry ''node'') required_name)) (\<lambda>node.
     io_bind (px_status px node) (\<lambda>status.
     io_bind (io_lift (json_get status ''memory'' (JObj []))) (\<lambda>memory.
     io_bind (io_lift (discover_cpu status)) (\<lambda>cpu.
     io_bind (discover_list (px_disks px node) discover_disk) (\<lambda>disks.
     io_bind (discover_list (px_storage px node) discover_storage) (\<lambda>storages.
     io_bind (io_lift (text_of_key status ''pveversion'')) (\<lambda>version.
     io_bind (io_lift (int_of_key memory ''total'' 0)) (\<lambda>total.
     io_bind (discover_virtual_machines px node source) (\<lambda>vms.
     io_bind (discover_containers px node source) (\<lambda>containers.
     io_bind (discover_host_interfaces px node) (\<lambda>interfaces.
       io_return \<lparr>h_source = ''proxmox'', h_source_instance = sc_source_instance source,
         h_legacy_identity_owner = sc_legacy_identity_owner source, h_source_id = node, h_original_name = node,
         h_normalized_name = py_upper node, h_management_ip = (case dget node_ips node of None \<Rightarrow> None | Some ip \<Rightarrow> ip),
         h_hypervisor = ''Proxmox VE'', h_hypervisor_version = short_version version, h_cpu = cpu,
         h_memory_bytes = total, h_disks = disks, h_interfaces = interfaces, h_virtual_machines = vms,
         h_containers = containers, h_storages = storages\<rparr>)))))))))))"

definition discover_hosts :: "'w proxmox \<Rightarrow> source_config \<Rightarrow> ('w, proxmox_host list) io" where
  "discover_hosts px source =
     io_bind (px_cluster_status px) (\<lambda>answer.
     io_bind (io_lift (res_bind (json_iter answer) node_addresses)) (\<lambda>node_ips.
     io_bind (px_nodes px) (\<lambda>nodes.
     io_bind (io_lift (json_iter nodes)) (\<lambda>entries.
       io_map (discover_host px source node_ips) entries))))"

section \<open>What a discovered guest satisfies\<close>

definition agent_ip_ok :: "string \<Rightarrow> bool" where
  "agent_ip_ok ip \<longleftrightarrow> ip \<noteq> [] \<and> \<not> starts_with ip ''127.''"

text \<open>A guest of the node: numbered, of this source, with bounded resources, a known state, and network cards
  that are named by their configuration keys, each once.\<close>

definition guest_ok :: "source_config \<Rightarrow> string \<Rightarrow> string \<Rightarrow> 'z discovered_guest_scheme \<Rightarrow> bool" where
  "guest_ok source node infix g \<longleftrightarrow>
     g_source g = ''proxmox'' \<and> g_source_instance g = sc_source_instance source
     \<and> g_legacy_identity_owner g = sc_legacy_identity_owner source \<and> g_node_source_id g = node
     \<and> (\<exists>n > 0. g_vmid g = IntId n \<and> g_source_id g = ''proxmox:'' @ node @ infix @ py_str_int n)
     \<and> g_status g \<in> {''running'', ''stopped'', ''paused''} \<and> 0 \<le> g_vcpus g \<and> 0 \<le> g_memory_bytes g
     \<and> distinct (map nic_external_id (g_interfaces g))
     \<and> (\<forall>nic \<in> set (g_interfaces g). \<exists>key. is_net_key key \<and> nic_external_id nic = Some key)"

lemma returns_map:
  assumes "\<And>x. returns P (f x)"
  shows "returns (list_all P) (io_map f xs)"
proof (induction xs)
  case (Cons x xs)
  show ?case
    unfolding io_map.simps
    by (rule returns_bind_via [OF assms], rule returns_bind_via [OF Cons.IH], rule returns_return) simp
qed (simp add: returns_def io_return_def)

lemma returns_lift: "(\<And>x. r = Inr x \<Longrightarrow> P x) \<Longrightarrow> returns P (io_lift r)"
  by (simp add: returns_def io_lift_def)

lemma concat_options_mem: "x \<in> set (concat_options xs) \<longleftrightarrow> Some x \<in> set xs"
  by (induction xs) (auto simp: concat_options_def split: option.splits)

lemma config_object_Inr: "config_object message v = Inr d \<longleftrightarrow> v = JObj d"
  by (cases v) (auto simp: config_object_def)

lemma guest_head_returns:
  assumes "\<And>vmid s v t. get_config vmid s = (Inr v, t) \<Longrightarrow> wf_json v"
  shows "returns (\<lambda>head. \<forall>vmid config r. head = Some (vmid, config, r) \<longrightarrow>
      0 < vmid \<and> distinct (map fst config) \<and> resources config = Inr r) (guest_head entry get_config message resources)"
proof -
  have "returns (\<lambda>(vmid, config, r). 0 < vmid \<and> distinct (map fst config) \<and> resources config = Inr r)
     (io_bind (io_lift (res_bind (json_get entry ''vmid'' JNull) validated_vmid)) (\<lambda>vmid.
        io_bind (get_config vmid) (\<lambda>answer.
        io_lift (res_bind (config_object message answer) (\<lambda>config.
          res_bind (resources config) (\<lambda>r. Inr (vmid, config, r)))))))"
    unfolding returns_def
    by (auto simp: io_bind_Inr io_lift_def res_bind_eq_Inr config_object_Inr validated_vmid_pos dest: assms)
  then show ?thesis
    unfolding guest_head_def returns_def
    by (auto simp: io_bind_Inr io_attempt_def io_return_def split: prod.splits sum.splits if_splits) blast+
qed

lemma qemu_resources_bounds: "qemu_resources config = Inr (vcpus, memory) \<Longrightarrow> 0 \<le> vcpus \<and> 0 \<le> memory"
  by (auto simp: qemu_resources_def res_bind_eq_Inr split: if_splits)

lemma lxc_resources_bounds: "lxc_resources config = Inr (vcpus, memory, swap) \<Longrightarrow> 0 \<le> vcpus \<and> 0 \<le> memory \<and> 0 \<le> swap"
  by (auto simp: lxc_resources_def res_bind_eq_Inr split: if_splits)

lemma nic_definitions_keys:
  assumes "distinct (map fst config)"
  shows "distinct (map fst (nic_definitions config)) \<and> (\<forall>kd \<in> set (nic_definitions config). is_net_key (fst kd))
     \<and> fst ` set (nic_definitions config) \<subseteq> fst ` set config"
  using assms
proof (induction config)
  case (Cons kv config)
  obtain k v where kv: "kv = (k, v)" by (cases kv)
  have step: "nic_definitions (kv # config) =
      (if is_net_key k then (case nic_text v of None \<Rightarrow> [] | Some s \<Rightarrow> [(k, parse_config_definition s)]) else [])
        @ nic_definitions config"
    by (cases "nic_text v") (simp_all add: nic_definitions_def concat_options_def kv)
  from Cons show ?case unfolding step by (cases "nic_text v"; cases "is_net_key k") (auto simp: kv)
qed (simp add: nic_definitions_def concat_options_def)

lemma nic_external_ids:
  "map nic_external_id (map (qemu_interface agent) kds) = map (Some \<circ> fst) kds"
  "map nic_external_id (map lxc_interface kds) = map (Some \<circ> fst) kds"
  by (auto simp: qemu_interface_def lxc_interface_def split: prod.split)

lemma nics_ok:
  assumes "distinct (map fst config)" and ids: "map nic_external_id nics = map (Some \<circ> fst) (nic_definitions config)"
  shows "distinct (map nic_external_id nics) \<and> (\<forall>nic \<in> set nics. \<exists>key. is_net_key key \<and> nic_external_id nic = Some key)"
proof
  note keys = nic_definitions_keys [OF assms(1)]
  then show "distinct (map nic_external_id nics)" unfolding ids by (auto simp: distinct_map inj_on_def)
  show "\<forall>nic \<in> set nics. \<exists>key. is_net_key key \<and> nic_external_id nic = Some key"
  proof
    fix nic assume "nic \<in> set nics"
    then have "nic_external_id nic \<in> set (map nic_external_id nics)" by simp
    then obtain kd where "kd \<in> set (nic_definitions config)" "nic_external_id nic = Some (fst kd)" unfolding ids by auto
    with keys show "\<exists>key. is_net_key key \<and> nic_external_id nic = Some key" by blast
  qed
qed

lemma workload_status_other:
  "workload_status v \<noteq> ''running'' \<Longrightarrow> workload_status v \<noteq> ''paused'' \<Longrightarrow> workload_status v = ''stopped''"
  using workload_status_closed [of v] by simp

definition wf_answers :: "'w proxmox \<Rightarrow> bool" where
  "wf_answers px \<longleftrightarrow> (\<forall>node vmid s v t.
     (px_qemu_config px node vmid s = (Inr v, t) \<longrightarrow> wf_json v) \<and> (px_lxc_config px node vmid s = (Inr v, t) \<longrightarrow> wf_json v))"

text \<open>Addresses the guest agent reports: no loopback, and nothing for a card the agent does not know.\<close>

lemma starts_with_slash:
  assumes "\<not> starts_with a ''127.''" and "a \<noteq> []"
  shows "agent_ip_ok a" "agent_ip_ok (a @ ''/'' @ p)"
proof -
  have "\<not> starts_with (a @ ''/'' @ p) ''127.''"
  proof
    assume t: "starts_with (a @ ''/'' @ p) ''127.''"
    have eq: "take 4 (a @ ''/'' @ p) = ''127.''" using t by (simp add: starts_with_def eval_nat_numeral)
    have len: "length a < 4"
    proof (rule ccontr)
      assume "\<not> length a < 4"
      with eq have "take 4 a = ''127.''" by simp
      with assms(1) show False by (simp add: starts_with_def eval_nat_numeral)
    qed
    have "take 4 (a @ ''/'' @ p) ! length a = CHR ''/''" using len by (simp only: nth_take) simp
    then have "''127.'' ! length a = CHR ''/''" unfolding eq .
    moreover have "length a = 0 \<or> length a = 1 \<or> length a = 2 \<or> length a = 3" using len by linarith
    ultimately show False by auto
  qed
  with assms show "agent_ip_ok a" "agent_ip_ok (a @ ''/'' @ p)" by (simp_all add: agent_ip_ok_def)
qed

lemma skip_address_False: "skip_address v = Inr False \<Longrightarrow> \<exists>a. v = JStr a \<and> \<not> starts_with a ''127.''"
  by (cases v) (auto simp: skip_address_def split: if_splits)

lemma agent_address_ok:
  assumes "agent_address ip = Inr (Some t)"
  shows "agent_ip_ok t"
proof -
  from assms obtain address prefix where "truthy address" "skip_address address = Inr False"
    and t: "t = (if prefix = JNull then py_str address else py_str address @ ''/'' @ py_str prefix)"
    unfolding agent_address_def res_bind_eq_Inr by (force simp: res_bind_eq_Inr split: if_splits)
  moreover from this(2) obtain a where "address = JStr a" "\<not> starts_with a ''127.''"
    using skip_address_False by blast
  ultimately show ?thesis using starts_with_slash(1) [of a] starts_with_slash(2) [of a "py_str prefix"] by (simp add: truthy_def py_str_def)
qed

definition agent_ok :: "(string \<times> string list) list \<Rightarrow> bool" where
  "agent_ok found \<longleftrightarrow> (\<forall>(mac, ips) \<in> set found. \<forall>ip \<in> set ips. agent_ip_ok ip)"

lemma agent_interface_ok:
  assumes "agent_interface v = Inr (Some (mac, ips))" and "ip \<in> set ips"
  shows "agent_ip_ok ip"
proof -
  from assms(1) obtain entries found where "res_map agent_address entries = Inr found" "ips = concat_options found"
    by (auto simp: agent_interface_def res_bind_eq_Inr Let_def split: json.splits if_splits)
  with assms(2) res_map_mem [of agent_address entries found "Some ip"] show ?thesis
    by (auto simp: concat_options_mem dest: agent_address_ok)
qed

lemma dset_mem: "x \<in> set (dset k v d) \<Longrightarrow> x = (k, v) \<or> x \<in> set d"
  by (induction d) (auto split: if_splits)

lemma agent_loop_ok: "agent_ok found \<Longrightarrow> agent_ok (fst (agent_loop found vs))"
proof (induction vs arbitrary: found)
  case (Cons v vs)
  have "agent_ok (dset mac ips found)" if "agent_interface v = Inr (Some (mac, ips))" for mac ips
    using Cons.prems agent_interface_ok [OF that] unfolding agent_ok_def by (fastforce dest: dset_mem)
  with Cons show ?case by (auto split: sum.split option.split)
qed simp

lemma agent_by_mac_returns: "returns agent_ok (agent_by_mac px node vmid)"
proof -
  have "agent_ok found" if "agent_loop [] entries = (found, e)" for entries found e
    using agent_loop_ok [of "[]" entries] that by (simp add: agent_ok_def)
  moreover have "agent_ok []" by (simp add: agent_ok_def)
  ultimately show ?thesis
    unfolding agent_by_mac_def
    by (intro returns_bind returns_lift) (auto split: sum.splits prod.splits option.splits if_splits)
qed

definition agent_nics :: "'z discovered_guest_scheme \<Rightarrow> bool" where
  "agent_nics g \<longleftrightarrow> (\<forall>nic \<in> set (g_interfaces g). \<forall>ip \<in> set (nic_ip_addresses nic). agent_ip_ok ip)"

lemma qemu_interface_ips:
  "agent_ok agent \<Longrightarrow> ip \<in> set (nic_ip_addresses (qemu_interface agent kd)) \<Longrightarrow> agent_ip_ok ip"
  by (auto simp: qemu_interface_def agent_ok_def split: prod.splits option.splits if_splits dest!: dget_Some_mem)

lemma discover_vm_returns:
  assumes "wf_answers px"
  shows "returns (\<lambda>found. \<forall>vm. found = Some vm \<longrightarrow> guest_ok source node '':'' vm \<and> agent_nics vm)
    (discover_vm px node source entry)"
proof -
  have head: "returns (\<lambda>head. \<forall>vmid config r. head = Some (vmid, config, r) \<longrightarrow>
      0 < vmid \<and> distinct (map fst config) \<and> qemu_resources config = Inr r)
    (guest_head entry (px_qemu_config px node) ''Proxmox QEMU config must be an object'' qemu_resources)"
    by (rule guest_head_returns) (use assms in \<open>auto simp: wf_answers_def\<close>)
  show ?thesis
    unfolding discover_vm_def
  proof (rule returns_bind_via [OF head], goal_cases)
    case (1 head)
    show ?case
    proof (cases head)
      case (Some h)
      obtain vmid config vcpus memory where h: "h = (vmid, config, vcpus, memory)" by (cases h) auto
      with 1 Some have ok: "0 < vmid" "distinct (map fst config)" "0 \<le> vcpus" "0 \<le> memory"
        using qemu_resources_bounds by blast+
      note nics = nics_ok [OF ok(2) nic_external_ids(1)]
      from ok nics show ?thesis
        unfolding Some h option.case prod.case
        by (intro returns_bind_via [OF agent_by_mac_returns] returns_lift)
          (auto simp: res_bind_eq_Inr guest_ok_def agent_nics_def qemu_interface_ips intro: workload_status_other)
    qed (simp add: returns_return)
  qed
qed

lemma discover_container_returns:
  assumes "wf_answers px"
  shows "returns (\<lambda>found. \<forall>c. found = Some c \<longrightarrow> guest_ok source node '':lxc:'' c \<and> 0 \<le> ct_swap_bytes c)
    (discover_container px node source entry)"
proof -
  have head: "returns (\<lambda>head. \<forall>vmid config r. head = Some (vmid, config, r) \<longrightarrow>
      0 < vmid \<and> distinct (map fst config) \<and> lxc_resources config = Inr r)
    (guest_head entry (px_lxc_config px node) ''Proxmox LXC config must be an object'' lxc_resources)"
    by (rule guest_head_returns) (use assms in \<open>auto simp: wf_answers_def\<close>)
  show ?thesis
    unfolding discover_container_def
  proof (rule returns_bind_via [OF head], goal_cases)
    case (1 head)
    show ?case
    proof (cases head)
      case (Some h)
      obtain vmid config vcpus memory swap where h: "h = (vmid, config, vcpus, memory, swap)" by (cases h) auto
      with 1 Some have ok: "0 < vmid" "distinct (map fst config)" "0 \<le> vcpus" "0 \<le> memory" "0 \<le> swap"
        using lxc_resources_bounds by blast+
      note nics = nics_ok [OF ok(2) nic_external_ids(2)]
      from ok nics show ?thesis
        unfolding Some h option.case prod.case
        by (intro returns_lift)
          (auto simp: res_bind_eq_Inr guest_ok_def Let_def intro: workload_status_other)
    qed (simp add: returns_return)
  qed
qed

definition host_ok :: "source_config \<Rightarrow> proxmox_host \<Rightarrow> bool" where
  "host_ok source h \<longleftrightarrow> h_source h = ''proxmox'' \<and> h_source_instance h = sc_source_instance source
     \<and> h_original_name h = h_source_id h \<and> h_normalized_name h = py_upper (h_source_id h)
     \<and> (\<forall>vm \<in> set (h_virtual_machines h). guest_ok source (h_source_id h) '':'' vm \<and> agent_nics vm)
     \<and> (\<forall>c \<in> set (h_containers h). guest_ok source (h_source_id h) '':lxc:'' c \<and> 0 \<le> ct_swap_bytes c)"

lemma discovered_vms:
  assumes "wf_answers px"
  shows "returns (\<lambda>vms. \<forall>vm \<in> set vms. guest_ok source node '':'' vm \<and> agent_nics vm)
      (discover_virtual_machines px node source)"
  unfolding discover_virtual_machines_def
  by (rule returns_bind, rule returns_bind, rule returns_bind_via [OF returns_map [OF discover_vm_returns [OF assms]]], rule returns_return)
    (auto simp: concat_options_mem list_all_iff)

lemma discovered_containers:
  assumes "wf_answers px"
  shows "returns (\<lambda>cs. \<forall>c \<in> set cs. guest_ok source node '':lxc:'' c \<and> 0 \<le> ct_swap_bytes c)
      (discover_containers px node source)"
  unfolding discover_containers_def
  by (rule returns_bind, rule returns_bind, rule returns_bind_via [OF returns_map [OF discover_container_returns [OF assms]]], rule returns_return)
    (auto simp: concat_options_mem list_all_iff)

lemma discover_host_returns:
  assumes "wf_answers px"
  shows "returns (host_ok source) (discover_host px source node_ips entry)"
  unfolding discover_host_def
  apply (rule returns_bind, rule returns_bind, rule returns_bind, rule returns_bind)
  apply (rule returns_bind, rule returns_bind, rule returns_bind, rule returns_bind)
  apply (rule returns_bind_via [OF discovered_vms [OF assms]])
  apply (rule returns_bind_via [OF discovered_containers [OF assms]])
  apply (rule returns_bind, rule returns_return)
  apply (simp add: host_ok_def)
  done

lemma discover_hosts_ok:
  assumes "wf_answers px" and "discover_hosts px source s = (Inr hosts, t)" and "h \<in> set hosts"
  shows "host_ok source h"
proof -
  have "returns (list_all (host_ok source)) (discover_hosts px source)"
    unfolding discover_hosts_def by (intro returns_bind returns_map discover_host_returns [OF assms(1)])
  with assms(2,3) show ?thesis by (auto simp: returns_def list_all_iff)
qed

section \<open>Identities\<close>

lemma vmid_digits: "0 < n \<Longrightarrow> py_str_int n = nat_digits (nat n)"
  by (simp add: py_str_int_def)

lemma strip_digits: "py_strip (nat_digits n) = nat_digits n"
  using digits_ok [of n] by (simp add: strip_no_space)

lemma strip_digits_append: "py_strip (nat_digits n @ s) \<noteq> []"
proof -
  have "\<forall>c \<in> set (nat_digits n). \<not> is_space c" using digits_ok [of n] by blast
  then show ?thesis by (cases "nat_digits n") (auto simp: py_strip_def dropWhile_eq_Nil_conv)
qed

text \<open>The identity of a discovered guest and of its network cards.\<close>

lemma guest_identity:
  assumes "0 < n" and "py_strip inst \<noteq> []" and "py_strip kind \<noteq> []"
  shows "identity_of ''proxmox'' inst kind (py_str_int n @ suffix) =
    Inr \<lparr>si_schema = IDENTITY_SCHEMA_V2, si_type = ''proxmox'', si_instance = inst, si_kind = kind,
         si_external_id = py_str_int n @ suffix\<rparr>"
proof -
  have "py_strip ''proxmox'' \<noteq> []" by code_simp
  then show ?thesis
    using assms strip_digits_append [of "nat n" suffix]
    by (simp add: identity_of_def make_identity_def required_text_def vmid_digits)
qed

lemma net_key_text: "is_net_key key \<Longrightarrow> or_text (Some key) name = key"
  by (auto simp: is_net_key_def or_text_def)

lemma qemu_identities:
  assumes "guest_ok source node infix vm" and "py_strip (sc_source_instance source) \<noteq> []"
  obtains n where "g_vmid vm = IntId n" "0 < n" "virtual_machine_source_identity vm =
      Inr \<lparr>si_schema = IDENTITY_SCHEMA_V2, si_type = ''proxmox'', si_instance = sc_source_instance source,
        si_kind = ''qemu'', si_external_id = py_str_int n\<rparr>"
    "\<And>nic. nic \<in> set (g_interfaces vm) \<Longrightarrow> virtual_machine_nic_source_identity vm nic =
      Inr \<lparr>si_schema = IDENTITY_SCHEMA_V2, si_type = ''proxmox'', si_instance = sc_source_instance source,
        si_kind = ''qemu-nic'', si_external_id = py_str_int n @ '':'' @ the (nic_external_id nic)\<rparr>"
proof -
  from assms(1) obtain n where n: "0 < n" "g_vmid vm = IntId n" by (auto simp: guest_ok_def)
  have kinds: "py_strip ''qemu'' \<noteq> []" "py_strip ''qemu-nic'' \<noteq> []" by code_simp+
  from assms(1) have g: "g_source vm = ''proxmox''" "g_source_instance vm = sc_source_instance source"
    and nics: "\<forall>nic \<in> set (g_interfaces vm). \<exists>key. is_net_key key \<and> nic_external_id nic = Some key"
    by (auto simp: guest_ok_def)
  show thesis
  proof (rule that [OF n(2,1)])
    show "virtual_machine_source_identity vm = Inr \<lparr>si_schema = IDENTITY_SCHEMA_V2, si_type = ''proxmox'',
        si_instance = sc_source_instance source, si_kind = ''qemu'', si_external_id = py_str_int n\<rparr>"
      using guest_identity [OF n(1) assms(2) kinds(1), of "[]"] g n
      by (simp add: virtual_machine_source_identity_def qemu_source_identity_def)
  next
    fix nic assume "nic \<in> set (g_interfaces vm)"
    with nics obtain key where "is_net_key key" "nic_external_id nic = Some key" by blast
    then show "virtual_machine_nic_source_identity vm nic = Inr \<lparr>si_schema = IDENTITY_SCHEMA_V2, si_type = ''proxmox'',
        si_instance = sc_source_instance source, si_kind = ''qemu-nic'',
        si_external_id = py_str_int n @ '':'' @ the (nic_external_id nic)\<rparr>"
      using guest_identity [OF n(1) assms(2) kinds(2), of "'':'' @ key"] g n net_key_text [of key]
      by (simp add: virtual_machine_nic_source_identity_def qemu_nic_source_identity_def)
  qed
qed

lemma lxc_identities:
  assumes "guest_ok source node infix c" and "py_strip (sc_source_instance source) \<noteq> []"
  obtains n where "g_vmid c = IntId n" "0 < n" "lxc_source_identity c =
      Inr \<lparr>si_schema = IDENTITY_SCHEMA_V2, si_type = ''proxmox'', si_instance = sc_source_instance source,
        si_kind = ''lxc'', si_external_id = py_str_int n\<rparr>"
    "\<And>nic. nic \<in> set (g_interfaces c) \<Longrightarrow> lxc_nic_source_identity c nic =
      Inr \<lparr>si_schema = IDENTITY_SCHEMA_V2, si_type = ''proxmox'', si_instance = sc_source_instance source,
        si_kind = ''lxc-nic'', si_external_id = py_str_int n @ '':'' @ the (nic_external_id nic)\<rparr>"
proof -
  from assms(1) obtain n where n: "0 < n" "g_vmid c = IntId n" by (auto simp: guest_ok_def)
  have kinds: "py_strip ''lxc'' \<noteq> []" "py_strip ''lxc-nic'' \<noteq> []" by code_simp+
  from assms(1) have g: "g_source c = ''proxmox''" "g_source_instance c = sc_source_instance source"
    and nics: "\<forall>nic \<in> set (g_interfaces c). \<exists>key. is_net_key key \<and> nic_external_id nic = Some key"
    by (auto simp: guest_ok_def)
  show thesis
  proof (rule that [OF n(2,1)])
    show "lxc_source_identity c = Inr \<lparr>si_schema = IDENTITY_SCHEMA_V2, si_type = ''proxmox'',
        si_instance = sc_source_instance source, si_kind = ''lxc'', si_external_id = py_str_int n\<rparr>"
      using guest_identity [OF n(1) assms(2) kinds(1), of "[]"] g n by (simp add: lxc_source_identity_def)
  next
    fix nic assume "nic \<in> set (g_interfaces c)"
    with nics obtain key where "is_net_key key" "nic_external_id nic = Some key" by blast
    then show "lxc_nic_source_identity c nic = Inr \<lparr>si_schema = IDENTITY_SCHEMA_V2, si_type = ''proxmox'',
        si_instance = sc_source_instance source, si_kind = ''lxc-nic'',
        si_external_id = py_str_int n @ '':'' @ the (nic_external_id nic)\<rparr>"
      using guest_identity [OF n(1) assms(2) kinds(2), of "'':'' @ key"] g n net_key_text [of key]
      by (simp add: lxc_nic_source_identity_def)
  qed
qed

lemma distinct_nic_identities:
  assumes "guest_ok source node infix g"
    and "\<And>nic. nic \<in> set (g_interfaces g) \<Longrightarrow> f nic = Inr (i\<lparr>si_external_id := prefix @ the (nic_external_id nic)\<rparr>)"
  shows "distinct (map f (g_interfaces g))"
proof -
  from assms(1) have ids: "distinct (map nic_external_id (g_interfaces g))"
    "\<forall>nic \<in> set (g_interfaces g). nic_external_id nic \<noteq> None" by (auto simp: guest_ok_def)
  have "inj_on f (set (g_interfaces g))"
  proof (rule inj_onI)
    fix x y assume xy: "x \<in> set (g_interfaces g)" "y \<in> set (g_interfaces g)" "f x = f y"
    then have "i\<lparr>si_external_id := prefix @ the (nic_external_id x)\<rparr> = i\<lparr>si_external_id := prefix @ the (nic_external_id y)\<rparr>"
      using assms(2) by simp
    then have "prefix @ the (nic_external_id x) = prefix @ the (nic_external_id y)"
      by (metis source_identity.select_convs(5) source_identity.surjective source_identity.update_convs(5))
    moreover obtain a b where "nic_external_id x = Some a" "nic_external_id y = Some b" using xy ids(2) by blast
    ultimately have "nic_external_id x = nic_external_id y" by simp
    with xy ids(1) show "x = y" by (auto simp: distinct_map inj_on_def)
  qed
  with ids(1) show ?thesis by (auto simp: distinct_map)
qed

lemma vm_identities:
  assumes vm: "guest_ok source node infix vm" and inst: "py_strip (sc_source_instance source) \<noteq> []"
  shows "\<exists>i. virtual_machine_source_identity vm = Inr i"
    and "distinct (map (virtual_machine_nic_source_identity vm) (g_interfaces vm))"
    and "guest_ok source node' infix' vm' \<Longrightarrow>
      virtual_machine_source_identity vm' = virtual_machine_source_identity vm \<longleftrightarrow> g_vmid vm' = g_vmid vm"
proof -
  obtain n where n: "g_vmid vm = IntId n" "0 < n" "virtual_machine_source_identity vm =
      Inr \<lparr>si_schema = IDENTITY_SCHEMA_V2, si_type = ''proxmox'', si_instance = sc_source_instance source,
        si_kind = ''qemu'', si_external_id = py_str_int n\<rparr>"
    and nics: "\<And>nic. nic \<in> set (g_interfaces vm) \<Longrightarrow> virtual_machine_nic_source_identity vm nic =
      Inr \<lparr>si_schema = IDENTITY_SCHEMA_V2, si_type = ''proxmox'', si_instance = sc_source_instance source,
        si_kind = ''qemu-nic'', si_external_id = py_str_int n @ '':'' @ the (nic_external_id nic)\<rparr>"
    using qemu_identities [OF vm inst] by metis
  from n show "\<exists>i. virtual_machine_source_identity vm = Inr i" by blast
  show "distinct (map (virtual_machine_nic_source_identity vm) (g_interfaces vm))"
    by (rule distinct_nic_identities [OF vm, where i = "\<lparr>si_schema = IDENTITY_SCHEMA_V2, si_type = ''proxmox'',
        si_instance = sc_source_instance source, si_kind = ''qemu-nic'', si_external_id = []\<rparr>" and prefix = "py_str_int n @ '':''"])
      (simp add: nics)
  assume "guest_ok source node' infix' vm'"
  with n show "virtual_machine_source_identity vm' = virtual_machine_source_identity vm \<longleftrightarrow> g_vmid vm' = g_vmid vm"
    by (rule_tac qemu_identities [OF _ inst, of node' infix' vm']) (auto simp: vmid_digits)
qed

lemma container_identities:
  assumes c: "guest_ok source node infix c" and inst: "py_strip (sc_source_instance source) \<noteq> []"
  shows "\<exists>i. lxc_source_identity c = Inr i"
    and "distinct (map (lxc_nic_source_identity c) (g_interfaces c))"
    and "guest_ok source node' infix' c' \<Longrightarrow> lxc_source_identity c' = lxc_source_identity c \<longleftrightarrow> g_vmid c' = g_vmid c"
proof -
  obtain n where n: "g_vmid c = IntId n" "0 < n" "lxc_source_identity c =
      Inr \<lparr>si_schema = IDENTITY_SCHEMA_V2, si_type = ''proxmox'', si_instance = sc_source_instance source,
        si_kind = ''lxc'', si_external_id = py_str_int n\<rparr>"
    and nics: "\<And>nic. nic \<in> set (g_interfaces c) \<Longrightarrow> lxc_nic_source_identity c nic =
      Inr \<lparr>si_schema = IDENTITY_SCHEMA_V2, si_type = ''proxmox'', si_instance = sc_source_instance source,
        si_kind = ''lxc-nic'', si_external_id = py_str_int n @ '':'' @ the (nic_external_id nic)\<rparr>"
    using lxc_identities [OF c inst] by metis
  from n show "\<exists>i. lxc_source_identity c = Inr i" by blast
  show "distinct (map (lxc_nic_source_identity c) (g_interfaces c))"
    by (rule distinct_nic_identities [OF c, where i = "\<lparr>si_schema = IDENTITY_SCHEMA_V2, si_type = ''proxmox'',
        si_instance = sc_source_instance source, si_kind = ''lxc-nic'', si_external_id = []\<rparr>" and prefix = "py_str_int n @ '':''"])
      (simp add: nics)
  assume "guest_ok source node' infix' c'"
  with n show "lxc_source_identity c' = lxc_source_identity c \<longleftrightarrow> g_vmid c' = g_vmid c"
    by (rule_tac lxc_identities [OF _ inst, of node' infix' c']) (auto simp: vmid_digits)
qed

section \<open>Malformed guests\<close>

definition head_found :: "'w proxmox \<Rightarrow> string \<Rightarrow> 'w \<Rightarrow> json \<Rightarrow> bool" where
  "head_found px node s entry \<longleftrightarrow>
     fst (guest_head entry (px_qemu_config px node) ''Proxmox QEMU config must be an object'' qemu_resources s) \<noteq> Inr None"

lemma eq_rel: "reflp (=)" "transp (=)"
  by (auto simp: reflp_def transp_def)

lemma preserves_eqE:
  assumes "preserves (=) m"
  obtains x where "m s = (x, s)"
  using preservesD [OF assms, of s] by (cases "m s") simp

lemma io_map_reads:
  assumes "\<And>x. preserves (=) (f x)"
  shows "io_map f xs s = (res_map (\<lambda>x. fst (f x s)) xs, s)"
proof (induction xs)
  case (Cons x xs)
  obtain y where y: "f x s = (y, s)" using preserves_eqE [OF assms] .
  with Cons show ?case
    by (cases y; cases "res_map (\<lambda>x. fst (f x s)) xs") (simp_all add: io_bind_def io_return_def)
qed (simp add: io_return_def)

lemma concat_options_Cons: "concat_options (y # ys) = (case y of None \<Rightarrow> [] | Some z \<Rightarrow> [z]) @ concat_options ys"
  by (simp add: concat_options_def)

lemma concat_options_filter:
  assumes "\<And>x. \<not> P x \<Longrightarrow> g x = Inr None"
  shows "res_bind (res_map g (filter P xs)) (\<lambda>ys. Inr (concat_options ys)) = res_bind (res_map g xs) (\<lambda>ys. Inr (concat_options ys))"
proof (induction xs)
  case (Cons x xs)
  show ?case
  proof (cases "g x")
    case (Inr y)
    show ?thesis
    proof (cases "P x")
      case True
      with Inr Cons.IH show ?thesis
        by (cases "res_map g (filter P xs)"; cases "res_map g xs") (simp_all add: concat_options_Cons)
    next
      case False
      with assms Inr have "y = None" by simp
      with False Inr Cons.IH show ?thesis
        by (cases "res_map g (filter P xs)"; cases "res_map g xs") (simp_all add: concat_options_Cons)
    qed
  qed (use assms [of x] in \<open>cases "P x"; simp\<close>)
qed simp

lemma discover_vm_reads:
  assumes "\<And>node vmid. preserves (=) (px_qemu_config px node vmid)" and "\<And>node vmid. preserves (=) (px_agent px node vmid)"
  shows "preserves (=) (discover_vm px node source entry)"
  unfolding discover_vm_def guest_head_def agent_by_mac_def
  by (intro preserves_intros assms eq_rel)

section \<open>Properties\<close>


text \<open>C36: A malformed guest hides no other.  For a cluster whose answers do not change while it is read, the
  machines discovered from any list are those discovered from the entries whose number, configuration and
  resources are well formed, in the same order; the others leave no trace.\<close>

theorem malformed_guest_isolated:
  assumes reads: "\<forall>node vmid. preserves (=) (px_qemu_config px node vmid) \<and> preserves (=) (px_agent px node vmid)"
    and answer: "px_qemu px node s = (Inr (JList entries), s)"
  shows "discover_virtual_machines px node source s =
    discover_virtual_machines (px\<lparr>px_qemu := \<lambda>_. io_return (JList (filter (head_found px node s) entries))\<rparr>) node source s"
proof -
  have vm: "preserves (=) (discover_vm px node source entry)" for entry
    using reads by (intro discover_vm_reads) simp_all
  have skip: "fst (discover_vm px node source entry s) = Inr None" if "\<not> head_found px node s entry" for entry
  proof -
    have "preserves (=) (guest_head entry (px_qemu_config px node) ''Proxmox QEMU config must be an object'' qemu_resources)"
      unfolding guest_head_def using reads by (intro preserves_intros eq_rel) simp
    with that show ?thesis
      by (cases "guest_head entry (px_qemu_config px node) ''Proxmox QEMU config must be an object'' qemu_resources s")
        (simp add: head_found_def discover_vm_def io_bind_def io_return_def)
  qed
  have agent: "agent_by_mac (px\<lparr>px_qemu := q\<rparr>) n v = agent_by_mac px n v" for q n v
    by (simp add: agent_by_mac_def)
  have "discover_vm (px\<lparr>px_qemu := q\<rparr>) n src e = discover_vm px n src e" for q n src e
    unfolding discover_vm_def agent by simp
  then have same: "discover_vm (px\<lparr>px_qemu := q\<rparr>) = discover_vm px" for q by (intro ext) simp
  have rest: "io_bind (io_map (discover_vm px node source) xs) (\<lambda>found. io_return (concat_options found)) s =
      (res_bind (res_map (\<lambda>x. fst (discover_vm px node source x s)) xs) (\<lambda>ys. Inr (concat_options ys)), s)" for xs
    by (simp add: io_bind_def io_map_reads [OF vm] io_return_def res_bind_def split: sum.split)
  have listed: "discover_virtual_machines p node source s = io_bind (io_map (discover_vm p node source) xs)
      (\<lambda>found. io_return (concat_options found)) s" if "px_qemu p node s = (Inr (JList xs), s)" for p xs
    using that by (simp add: discover_virtual_machines_def io_bind_def [of "px_qemu p node"]
        io_bind_def [of "io_lift r" for r] io_lift_run json_iter_def)
  have "px_qemu (px\<lparr>px_qemu := \<lambda>_. io_return (JList ys)\<rparr>) node s = (Inr (JList ys), s)" for ys
    by (simp add: io_return_def)
  from listed [OF this] listed [OF answer] show ?thesis
    using concat_options_filter [of "head_found px node s" "\<lambda>x. fst (discover_vm px node source x s)" entries, OF skip]
    by (simp add: same rest)
qed

text \<open>The cluster of the test suite (tests/sample_data.py): one node with a machine, here beside one with an
  unusable number.\<close>

definition sample_vm_config :: json where
  "sample_vm_config = JObj [(''sockets'', JInt 1), (''cores'', JInt 4), (''memory'', JInt 4096), (''onboot'', JInt 1),
     (''net0'', JStr ''virtio=AA:BB:CC:DD:EE:01,bridge=vmbr0,tag=120''),
     (''scsi0'', JStr ''local-lvm:vm-100-disk-0,size=32G''), (''ide2'', JStr ''none,media=cdrom'')]"

definition sample_proxmox :: "unit proxmox" where
  "sample_proxmox =
     \<lparr>px_cluster_status = io_return (JList [JObj [(''type'', JStr ''node''), (''name'', JStr ''node-a''), (''ip'', JStr ''10.20.30.10'')]]),
      px_nodes = io_return (JList [JObj [(''node'', JStr ''node-a'')]]),
      px_status = (\<lambda>_. io_return (JObj [(''memory'', JObj [(''total'', JInt 1024)]), (''pveversion'', JStr ''pve-manager/8.3.2/abc'')])),
      px_disks = (\<lambda>_. io_return (JList [])), px_storage = (\<lambda>_. io_return (JList [])), px_network = (\<lambda>_. io_return (JList [])),
      px_qemu = (\<lambda>_. io_return (JList [JObj [(''vmid'', JStr ''../100'')],
        JObj [(''vmid'', JInt 100), (''name'', JStr ''qemu-100''), (''status'', JStr ''running'')]])),
      px_qemu_config = (\<lambda>_ _. io_return sample_vm_config),
      px_agent = (\<lambda>_ _. io_raise (CodedError ''ResourceException'' ''500'')),
      px_lxc = (\<lambda>_. io_return (JList [])), px_lxc_config = (\<lambda>_ _. io_return (JObj []))\<rparr>"

definition sample_proxmox_source :: source_config where
  "sample_proxmox_source =
     \<lparr>sc_id = ''1'', sc_source_instance = ''pve-a'', sc_name = ''PVE'', sc_source_type = ''proxmox'', sc_address = ''pve'',
      sc_enabled = True, sc_sync_enabled = True, sc_sync_interval_seconds = 600, sc_verify_ssl = True,
      sc_target = \<lparr>t_site_slug = ''lab'', t_cluster_type_slug = ''proxmox-ve'', t_cluster_name = ''PVE'',
        t_device_role_slug = ''hypervisor'', t_platform_slug = ''proxmox'', t_device_type_slug = ''generic''\<rparr>,
      sc_credentials = \<lparr>cr_username = ''u'', cr_token_id = \<lparr>sr_provider = ''file'', sr_key = ''a''\<rparr>,
        cr_token_secret = \<lparr>sr_provider = ''file'', sr_key = ''b''\<rparr>\<rparr>,
      sc_legacy_identity_owner = True, sc_settings = []\<rparr>"

lemma sample_discovery: "\<exists>h. discover_hosts sample_proxmox sample_proxmox_source () = (Inr [h], ())
    \<and> map g_vmid (h_virtual_machines h) = [IntId 100] \<and> map g_vcpus (h_virtual_machines h) = [4]
    \<and> map (map vd_size_bytes \<circ> g_disks) (h_virtual_machines h) = [[32 * 1024 ^ 3]]
    \<and> map (map nic_mac_address \<circ> g_interfaces) (h_virtual_machines h) = [[Some ''AA:BB:CC:DD:EE:01'']]
    \<and> h_management_ip h = Some ''10.20.30.10'' \<and> h_hypervisor_version h = Some ''8.3.2''"
proof -
  have "(case discover_hosts sample_proxmox sample_proxmox_source () of
      (Inr [h], u) \<Rightarrow> map g_vmid (h_virtual_machines h) = [IntId 100] \<and> map g_vcpus (h_virtual_machines h) = [4]
    \<and> map (map vd_size_bytes \<circ> g_disks) (h_virtual_machines h) = [[32 * 1024 ^ 3]]
    \<and> map (map nic_mac_address \<circ> g_interfaces) (h_virtual_machines h) = [[Some ''AA:BB:CC:DD:EE:01'']]
    \<and> h_management_ip h = Some ''10.20.30.10'' \<and> h_hypervisor_version h = Some ''8.3.2'' | _ \<Rightarrow> False)" by code_simp
  then show ?thesis
    by (cases "discover_hosts sample_proxmox sample_proxmox_source ()") (auto split: sum.splits list.splits)
qed

lemma sample_answers: "wf_answers sample_proxmox"
  by (auto simp: wf_answers_def sample_proxmox_def io_return_def sample_vm_config_def)


theorem malformed_guest_isolated_witness:
  "\<exists>entry. discover_virtual_machines sample_proxmox ''node-a'' sample_proxmox_source () =
     discover_virtual_machines (sample_proxmox\<lparr>px_qemu := \<lambda>_. io_return (JList [entry])\<rparr>) ''node-a'' sample_proxmox_source ()"
proof -
  let ?bad = "JObj [(''vmid'', JStr ''../100'')]"
  let ?good = "JObj [(''vmid'', JInt 100), (''name'', JStr ''qemu-100''), (''status'', JStr ''running'')]"
  have "\<not> head_found sample_proxmox ''node-a'' () ?bad" "head_found sample_proxmox ''node-a'' () ?good" by code_simp+
  moreover have "px_qemu sample_proxmox ''node-a'' () = (Inr (JList [?bad, ?good]), ())"
    by (simp add: sample_proxmox_def io_return_def)
  moreover have "\<forall>node vmid. preserves (=) (px_qemu_config sample_proxmox node vmid) \<and> preserves (=) (px_agent sample_proxmox node vmid)"
    by (simp add: preserves_def)
  ultimately show ?thesis
    using malformed_guest_isolated [of sample_proxmox "''node-a''" "()" "[?bad, ?good]" sample_proxmox_source]
    by (intro exI [of _ ?good]) simp
qed

text \<open>A blank size is not treated as malformed: it ends the whole discovery.\<close>

lemma blank_size_aborts:
  "fst (discover_hosts (sample_proxmox\<lparr>px_qemu_config := \<lambda>_ _. io_return (JObj [(''scsi0'', JStr ''local-lvm:d,size= '')])\<rparr>)
     sample_proxmox_source ()) = Inl (CodedError ''IndexError'' ''string index out of range'')"
  by code_simp

end
