(* ===== verification/EsxiAdoption.thy ===== *)
theory EsxiAdoption
  imports DiscoveryReview FullApply JsonText
begin

text \<open>
  The adoption of legacy NetBox objects by an ESXi source (netbox_sync/esxi_adoption.py): every discovered
  host and machine is classified against the records of NetBox by its v2 identity, its name and its network
  evidence; a confirmed adoption then writes the identity into the records the plan names, after checking each
  of them again.  Sets of addresses are lists in which only membership matters.
\<close>

datatype adoption_class = Adopt_MANAGED | Adopt_SAFE | Adopt_REVIEW | Adopt_AMBIGUOUS | Adopt_UNMATCHED

definition EsxiAdoptionError :: "string \<Rightarrow> py_exn" where
  "EsxiAdoptionError message = CodedError ''EsxiAdoptionError'' message"

record adoption_evidence =
  ev_object_id :: int
  ev_object_name :: string
  ev_signals :: "string list"
  ev_conflicts :: "string list"
  ev_snapshot :: string

record adoption_item =
  ad_object_kind :: string
  ad_source_name :: string
  ad_identity :: source_identity
  ad_classification :: adoption_class
  ad_candidates :: "adoption_evidence list"
  ad_selected_object_id :: "int option"

record adoption_plan =
  ap_source_instance :: string
  ap_site_id :: int
  ap_cluster_id :: int
  ap_items :: "adoption_item list"

section \<open>Canonical addresses\<close>

definition esxi_ip :: "string \<Rightarrow> string option" where
  "esxi_ip text =
     (case ip_interface_of text of
        Inl e \<Rightarrow> None
      | Inr i \<Rightarrow>
          if is_loopback (fst i) \<or> is_link_local (fst i) \<or> is_multicast (fst i) \<or> is_unspecified (fst i)
          then None else Some (str_ip (fst i)))"

definition is_hex_char :: "char \<Rightarrow> bool" where
  "is_hex_char c \<longleftrightarrow> c \<in> set ''0123456789abcdefABCDEF''"

fun in_pairs :: "string \<Rightarrow> string list" where
  "in_pairs (a # b # s) = [a, b] # in_pairs s"
| "in_pairs s = []"

definition esxi_mac :: "string \<Rightarrow> string option" where
  "esxi_mac text =
     (let compact = filter is_hex_char text
      in if text = [] \<or> length compact \<noteq> 12 then None
         else Some (join '':'' (map py_upper (in_pairs compact))))"

text \<open>The same on an attribute of a record or a value of its data: null has no address, and what is false is no MAC.\<close>

definition ip_of_attr :: "attr option \<Rightarrow> string option" where
  "ip_of_attr a = (case a of None \<Rightarrow> None | Some (AVal JNull) \<Rightarrow> None | Some v \<Rightarrow> esxi_ip (attr_str v))"

definition mac_of_attr :: "attr option \<Rightarrow> string option" where
  "mac_of_attr a = (case a of
       None \<Rightarrow> None
     | Some (AVal v) \<Rightarrow> if truthy v then esxi_mac (py_str v) else None
     | Some v \<Rightarrow> esxi_mac (attr_str v))"

definition snapshot_char :: "char \<Rightarrow> string" where
  "snapshot_char c = (if 32 \<le> (of_char c :: nat) \<and> c \<noteq> CHR 0x22 \<and> c \<noteq> CHR 0x5C then [c] else json_char c)"

definition snapshot_str :: "string \<Rightarrow> string" where
  "snapshot_str s = CHR 0x22 # concat (map snapshot_char s) @ [CHR 0x22]"

fun print_snapshot :: "json \<Rightarrow> string" where
  "print_snapshot JNull = ''null''"
| "print_snapshot (JBool b) = (if b then ''true'' else ''false'')"
| "print_snapshot (JInt i) = py_str_int i"
| "print_snapshot (JFloat t r) = t"
| "print_snapshot (JStr s) = snapshot_str s"
| "print_snapshot (JList xs) = ''['' @ join '','' (map print_snapshot xs) @ '']''"
| "print_snapshot (JObj kvs) = ''{'' @ join '','' (map (\<lambda>(k, v). snapshot_str k @ '':'' @ print_snapshot v) kvs) @ ''}''"

definition fields_snapshot :: "obj \<Rightarrow> string" where
  "fields_snapshot custom_fields = print_snapshot (sorted_keys (JObj custom_fields))"

section \<open>Network evidence\<close>

record 'r adoption_network =
  an_host_interfaces :: "'r list"
  an_vm_interfaces :: "'r list"
  an_ips :: "'r list"
  an_macs :: "'r list"

definition load_adoption_network :: "('s, 'r) netbox \<Rightarrow> ('s, 'r adoption_network) io" where
  "load_adoption_network nb =
     io_bind (nb_all nb ''dcim.interfaces'') (\<lambda>host_interfaces.
     io_bind (nb_all nb ''virtualization.interfaces'') (\<lambda>vm_interfaces.
     io_bind (nb_all nb ''ipam.ip_addresses'') (\<lambda>ips.
     io_bind (nb_all nb ''dcim.mac_addresses'') (\<lambda>macs.
       io_return \<lparr>an_host_interfaces = host_interfaces, an_vm_interfaces = vm_interfaces, an_ips = ips, an_macs = macs\<rparr>))))"

definition relation_of :: "string \<Rightarrow> string" where
  "relation_of kind = (if kind = ''host'' then ''device'' else ''virtual_machine'')"

definition assigned_type_of :: "string \<Rightarrow> string" where
  "assigned_type_of kind = (if kind = ''host'' then ''dcim.interface'' else ''virtualization.vminterface'')"

definition interfaces_of_kind :: "'r adoption_network \<Rightarrow> string \<Rightarrow> 'r list" where
  "interfaces_of_kind net kind = (if kind = ''host'' then an_host_interfaces net else an_vm_interfaces net)"

text \<open>The address of a serialized relation: an embedded object names it, otherwise the related record does.\<close>

definition relationship_value ::
    "('s, 'r) netbox \<Rightarrow> 's \<Rightarrow> 'r list \<Rightarrow> string \<Rightarrow> json \<Rightarrow> attr option" where
  "relationship_value nb s records field v =
     (case (case v of JObj d \<Rightarrow> jget d field | _ \<Rightarrow> JNull) of
        JNull \<Rightarrow> (case lookup_id (index_by_id nb s records) (review_object_id v) of
            None \<Rightarrow> None | Some r \<Rightarrow> nb_attr nb s r field)
      | direct \<Rightarrow> Some (AVal direct))"

definition has_relation :: "('s, 'r) netbox \<Rightarrow> 's \<Rightarrow> string \<Rightarrow> int \<Rightarrow> 'r \<Rightarrow> bool" where
  "has_relation nb s relation i r \<longleftrightarrow> py_eq (review_object_id (jget (nb_data nb s r) relation)) (JInt i)"

definition assigned_within :: "('s, 'r) netbox \<Rightarrow> 's \<Rightarrow> string \<Rightarrow> int list \<Rightarrow> 'r \<Rightarrow> bool" where
  "assigned_within nb s assigned_type ids r \<longleftrightarrow>
     jget (nb_data nb s r) ''assigned_object_type'' = JStr assigned_type
     \<and> list_ex (\<lambda>i. py_eq (review_object_id (jget (nb_data nb s r) ''assigned_object_id'')) (JInt i)) ids"

definition some_values :: "'a option list \<Rightarrow> 'a list" where
  "some_values xs = map the (filter (\<lambda>x. x \<noteq> None) xs)"

text \<open>The usable addresses assigned to one object: its IP addresses and its MAC addresses.\<close>

definition network_for_object ::
    "('s, 'r) netbox \<Rightarrow> 's \<Rightarrow> 'r adoption_network \<Rightarrow> string \<Rightarrow> 'r \<Rightarrow> string list \<times> string list" where
  "network_for_object nb s net kind r =
     (let interfaces = filter (has_relation nb s (relation_of kind) (nb_id nb s r)) (interfaces_of_kind net kind);
          ids = map (nb_id nb s) interfaces;
          primary_ip = ip_of_attr (relationship_value nb s (an_ips net) ''address'' (jget (nb_data nb s r) ''primary_ip4''));
          primary_macs = map (\<lambda>i. mac_of_attr (relationship_value nb s (an_macs net) ''mac_address''
              (jget (nb_data nb s i) ''primary_mac_address''))) interfaces;
          assigned = assigned_within nb s (assigned_type_of kind) ids;
          ips = map (\<lambda>a. ip_of_attr (Some (AVal (jget (nb_data nb s a) ''address'')))) (filter assigned (an_ips net));
          macs = map (\<lambda>a. mac_of_attr (Some (AVal (jget (nb_data nb s a) ''mac_address'')))) (filter assigned (an_macs net))
      in (some_values (primary_ip # ips), some_values (primary_macs @ macs)))"

definition optional_ip :: "string option \<Rightarrow> string option" where
  "optional_ip v = (case v of None \<Rightarrow> None | Some t \<Rightarrow> esxi_ip t)"

definition host_network :: "discovered_host \<Rightarrow> string list \<times> string list" where
  "host_network h =
     (some_values (optional_ip (h_management_ip h) # map esxi_ip (concat (map hi_addresses (h_interfaces h)))), [])"

definition optional_mac :: "string option \<Rightarrow> string option" where
  "optional_mac v = (case v of None \<Rightarrow> None | Some t \<Rightarrow> esxi_mac t)"

definition vm_network :: "discovered_vm \<Rightarrow> string list \<times> string list" where
  "vm_network vm =
     (some_values (map esxi_ip (concat (map nic_ip_addresses (g_interfaces vm)))),
      some_values (map (optional_mac \<circ> nic_mac_address) (g_interfaces vm)))"

section \<open>Identities and evidence\<close>

definition contains_v2_identity :: "obj \<Rightarrow> bool" where
  "contains_v2_identity custom_fields =
     (case jget custom_fields ''sync_identities'' of
        JNull \<Rightarrow> False
      | JList ids \<Rightarrow> list_ex (\<lambda>v. case v of JObj d \<Rightarrow> jget d ''schema'' = JStr ''v2'' | _ \<Rightarrow> True) ids
      | _ \<Rightarrow> True)"

definition matches_identity :: "('s, 'r) netbox \<Rightarrow> 's \<Rightarrow> source_identity \<Rightarrow> 'r \<Rightarrow> bool res" where
  "matches_identity nb s i r =
     (case source_identity_match_rank (custom_fields_of nb s r) i [] False of
        Inl (ValueError m) \<Rightarrow> Inl (EsxiAdoptionError ''Invalid identity metadata on NetBox object'')
      | Inl e \<Rightarrow> Inl e
      | Inr rank \<Rightarrow> Inr (rank = V2_IDENTITY_MATCH))"

definition managed_by :: "('s, 'r) netbox \<Rightarrow> 's \<Rightarrow> source_identity \<Rightarrow> 'r list \<Rightarrow> 'r list res" where
  "managed_by nb s i records =
     res_bind (res_map (\<lambda>r. res_bind (matches_identity nb s i r) (\<lambda>b. Inr (r, b))) records) (\<lambda>ranked.
       Inr (map fst (filter snd ranked)))"

definition record_text :: "('s, 'r) netbox \<Rightarrow> 's \<Rightarrow> 'r \<Rightarrow> string res" where
  "record_text nb s r =
     (case nb_attr nb s r ''name'' of None \<Rightarrow> Inl (AttributeError ''name'') | Some a \<Rightarrow> Inr (attr_str a))"

definition common :: "string list \<Rightarrow> string list \<Rightarrow> string list" where
  "common xs ys = sort (remdups (filter (\<lambda>x. x \<in> set ys) xs))"

definition adoption_signals :: "bool \<Rightarrow> string list \<Rightarrow> string list \<Rightarrow> string list" where
  "adoption_signals exact_name ips macs =
     (if exact_name then [''exact_name''] else []) @ map (append ''ip:'') ips @ map (append ''mac:'') macs"

definition evidence_for ::
    "('s, 'r) netbox \<Rightarrow> 's \<Rightarrow> 'r \<Rightarrow> string list \<Rightarrow> string list \<Rightarrow> adoption_evidence res" where
  "evidence_for nb s r signals conflicts =
     res_bind (record_text nb s r) (\<lambda>name.
       Inr \<lparr>ev_object_id = nb_id nb s r, ev_object_name = name, ev_signals = signals, ev_conflicts = conflicts,
            ev_snapshot = fields_snapshot (custom_fields_of nb s r)\<rparr>)"

definition adoption_conflicts ::
    "string list \<times> string list \<Rightarrow> string list \<times> string list \<Rightarrow> obj \<Rightarrow> string list" where
  "adoption_conflicts live current custom_fields =
     (if fst live \<noteq> [] \<and> fst current \<noteq> [] \<and> common (fst live) (fst current) = [] then [''conflicting_ip''] else [])
     @ (if snd live \<noteq> [] \<and> snd current \<noteq> [] \<and> common (snd live) (snd current) = [] then [''conflicting_mac''] else [])
     @ (if contains_v2_identity custom_fields then [''existing_managed_identity''] else [])"

text \<open>The evidence that connects one target record with the discovered object, \<open>None\<close> when there is none.\<close>

definition adoption_candidate ::
    "('s, 'r) netbox \<Rightarrow> 's \<Rightarrow> 'r adoption_network \<Rightarrow> string \<Rightarrow> string \<Rightarrow> string list \<times> string list \<Rightarrow> 'r
      \<Rightarrow> adoption_evidence option res" where
  "adoption_candidate nb s net kind original_name live r =
     res_bind (record_text nb s r) (\<lambda>name.
       let current = network_for_object nb s net kind r;
           exact_name = (casefold name = casefold original_name);
           ips = common (fst live) (fst current);
           macs = common (snd live) (snd current)
       in if \<not> exact_name \<and> ips = [] \<and> macs = [] then Inr None
          else res_bind (evidence_for nb s r (adoption_signals exact_name ips macs)
                 (adoption_conflicts live current (custom_fields_of nb s r))) (\<lambda>e. Inr (Some e)))"

definition network_signal :: "string \<Rightarrow> bool" where
  "network_signal signal \<longleftrightarrow> starts_with signal ''ip:'' \<or> starts_with signal ''mac:''"

definition candidates_class :: "adoption_evidence list \<Rightarrow> adoption_class \<times> int option" where
  "candidates_class candidates =
     (case candidates of
        [] \<Rightarrow> (Adopt_UNMATCHED, None)
      | [e] \<Rightarrow> if ev_conflicts e \<noteq> [] then (Adopt_AMBIGUOUS, None)
          else (if list_ex network_signal (ev_signals e) then Adopt_SAFE else Adopt_REVIEW, Some (ev_object_id e))
      | _ \<Rightarrow> (Adopt_AMBIGUOUS, None))"

definition adoption_item_of ::
    "string \<Rightarrow> string \<Rightarrow> source_identity \<Rightarrow> adoption_class \<times> int option \<Rightarrow> adoption_evidence list \<Rightarrow> adoption_item" where
  "adoption_item_of kind name i decided candidates =
     \<lparr>ad_object_kind = kind, ad_source_name = name, ad_identity = i, ad_classification = fst decided,
      ad_candidates = candidates, ad_selected_object_id = snd decided\<rparr>"

definition classify_adoption ::
    "('s, 'r) netbox \<Rightarrow> 's \<Rightarrow> 'r adoption_network \<Rightarrow> string \<Rightarrow> string \<Rightarrow> string list \<times> string list \<Rightarrow> source_identity
      \<Rightarrow> 'r list \<Rightarrow> 'r list \<Rightarrow> adoption_item res" where
  "classify_adoption nb s net kind original_name live i all_records target_records =
     res_bind (managed_by nb s i all_records) (\<lambda>managed.
       if managed \<noteq> [] then
         res_bind (res_map (\<lambda>r. evidence_for nb s r [] []) managed) (\<lambda>evidence.
           Inr (adoption_item_of kind original_name i
             (if length managed = 1 \<and> nb_id nb s (hd managed) \<in> set (map (nb_id nb s) target_records)
              then (Adopt_MANAGED, Some (nb_id nb s (hd managed))) else (Adopt_AMBIGUOUS, None)) evidence))
       else
         res_bind (res_map (adoption_candidate nb s net kind original_name live) target_records) (\<lambda>found.
           Inr (adoption_item_of kind original_name i (candidates_class (some_values found)) (some_values found))))"

section \<open>The plan\<close>

definition resolve_adoption_target :: "('s, 'r) netbox \<Rightarrow> sync_target \<Rightarrow> ('s, 'r \<times> 'r) io" where
  "resolve_adoption_target nb target =
     io_bind (nb_get nb ''dcim.sites'' [(''slug'', JStr (t_site_slug target))]) (\<lambda>found_site.
     io_bind (nb_get nb ''virtualization.cluster_types'' [(''slug'', JStr (t_cluster_type_slug target))]) (\<lambda>found_type.
     (case (found_site, found_type) of
        (Some site, Some cluster_type) \<Rightarrow>
          io_bind (nb_filter nb ''virtualization.clusters'' [(''name'', JStr (t_cluster_name target))]) (\<lambda>named.
          io_bind (io_read (\<lambda>s. Inr (filter (review_target_cluster nb s site cluster_type) named))) (\<lambda>clusters.
          if length clusters \<noteq> 1
          then io_raise (EsxiAdoptionError ''Expected exactly one ESXi adoption target cluster'')
          else io_return (site, hd clusters)))
      | _ \<Rightarrow> io_raise (EsxiAdoptionError ''ESXi adoption target is incomplete''))))"

text \<open>Which item claims which object; an item whose object another item claims as well becomes ambiguous.\<close>

definition item_claims :: "adoption_item list \<Rightarrow> ((string \<times> int) \<times> nat) list" where
  "item_claims items =
     concat (map (\<lambda>(k, item). map (\<lambda>e. ((ad_object_kind item, ev_object_id e), k)) (ad_candidates item))
       (enumerate 0 items))"

definition shared_claims :: "('k \<times> nat) list \<Rightarrow> nat list" where
  "shared_claims claims =
     concat (map (\<lambda>(key, ps). if length (remdups (map snd ps)) > 1 then map snd ps else []) (group_by fst claims []))"

definition mark_shared_claims_ambiguous :: "adoption_item list \<Rightarrow> adoption_item list" where
  "mark_shared_claims_ambiguous items =
     map (\<lambda>(k, item). if k \<in> set (shared_claims (item_claims items))
        then item\<lparr>ad_classification := Adopt_AMBIGUOUS, ad_selected_object_id := None\<rparr> else item)
       (enumerate 0 items)"

definition in_adoption_target :: "('s, 'r) netbox \<Rightarrow> 's \<Rightarrow> string \<Rightarrow> int \<Rightarrow> int \<Rightarrow> 'r \<Rightarrow> bool" where
  "in_adoption_target nb s kind site_id cluster_id r \<longleftrightarrow>
     py_eq (review_object_id (jget (nb_data nb s r) ''cluster'')) (JInt cluster_id)
     \<and> (kind = ''vm'' \<or> py_eq (review_object_id (jget (nb_data nb s r) ''site'')) (JInt site_id))"

definition classify_adoption_host ::
    "('s, 'r) netbox \<Rightarrow> 's \<Rightarrow> 'r adoption_network \<Rightarrow> string \<Rightarrow> 'r list \<Rightarrow> 'r list \<Rightarrow> 'r list \<Rightarrow> 'r list
      \<Rightarrow> discovered_host \<Rightarrow> adoption_item list res" where
  "classify_adoption_host nb s net inst devices target_devices vms target_vms host =
     (if h_source host \<noteq> ''esxi'' \<or> h_source_instance host \<noteq> inst
      then Inl (EsxiAdoptionError ''Discovered object is outside ESXi source scope'')
      else
      res_bind (host_source_identity host) (\<lambda>i.
      res_bind (classify_adoption nb s net ''host'' (h_original_name host) (host_network host) i
        devices target_devices) (\<lambda>host_item.
      res_bind (res_map (\<lambda>vm. res_bind (virtual_machine_source_identity vm) (\<lambda>j.
          classify_adoption nb s net ''vm'' (g_original_name vm) (vm_network vm) j vms target_vms))
        (h_virtual_machines host)) (\<lambda>vm_items.
        Inr (host_item # vm_items)))))"

definition build_esxi_adoption_plan ::
    "('s, 'r) netbox \<Rightarrow> discovered_host list \<Rightarrow> source_config \<Rightarrow> ('s, adoption_plan) io" where
  "build_esxi_adoption_plan nb hosts config =
     (if sc_source_type config \<noteq> ''esxi'' then io_raise (ValueError ''ESXi adoption requires source_type=esxi'')
      else
      io_bind (resolve_adoption_target nb (sc_target config)) (\<lambda>(site, cluster).
      io_bind (nb_all nb ''dcim.devices'') (\<lambda>devices.
      io_bind (nb_all nb ''virtualization.virtual_machines'') (\<lambda>vms.
      io_bind (load_adoption_network nb) (\<lambda>net.
      io_read (\<lambda>s.
        let target = (\<lambda>kind. in_adoption_target nb s kind (nb_id nb s site) (nb_id nb s cluster))
        in res_bind (res_map (classify_adoption_host nb s net (sc_source_instance config)
               devices (filter (target ''host'') devices) vms (filter (target ''vm'') vms)) hosts) (\<lambda>items.
             Inr \<lparr>ap_source_instance = sc_source_instance config, ap_site_id = nb_id nb s site,
                  ap_cluster_id = nb_id nb s cluster,
                  ap_items = mark_shared_claims_ambiguous (concat items)\<rparr>)))))))"

section \<open>The confirmed adoption\<close>

definition adoption_endpoint :: "string \<Rightarrow> string" where
  "adoption_endpoint kind = (if kind = ''host'' then ''dcim.devices'' else ''virtualization.virtual_machines'')"

definition target_record :: "('s, 'r) netbox \<Rightarrow> adoption_plan \<Rightarrow> adoption_item \<Rightarrow> ('s, 'r) io" where
  "target_record nb plan item =
     io_bind (nb_get nb (adoption_endpoint (ad_object_kind item))
       [(''id'', case ad_selected_object_id item of None \<Rightarrow> JNull | Some i \<Rightarrow> JInt i)]) (\<lambda>found.
     (case found of
        None \<Rightarrow> io_raise (EsxiAdoptionError ''Adoption candidate no longer exists'')
      | Some r \<Rightarrow> io_read (\<lambda>s.
          if in_adoption_target nb s (ad_object_kind item) (ap_site_id plan) (ap_cluster_id plan) r then Inr r
          else Inl (EsxiAdoptionError ''Adoption candidate moved outside target''))))"

fun signals_current :: "string res \<Rightarrow> string \<Rightarrow> string list \<times> string list \<Rightarrow> string list \<Rightarrow> bool res" where
  "signals_current name source_name current [] = Inr True"
| "signals_current name source_name current (signal # signals) =
     (let rest = signals_current name source_name current signals
      in if signal = ''exact_name''
         then res_bind name (\<lambda>n. if casefold n = casefold source_name then rest else Inr False)
         else if starts_with signal ''ip:'' then (if drop 3 signal \<in> set (fst current) then rest else Inr False)
         else if starts_with signal ''mac:'' then (if drop 4 signal \<in> set (snd current) then rest else Inr False)
         else Inr False)"

definition evidence_is_current ::
    "('s, 'r) netbox \<Rightarrow> 's \<Rightarrow> 'r adoption_network \<Rightarrow> adoption_item \<Rightarrow> adoption_evidence \<Rightarrow> 'r \<Rightarrow> bool res" where
  "evidence_is_current nb s net item e r =
     res_bind (signals_current (record_text nb s r) (ad_source_name item)
         (network_for_object nb s net (ad_object_kind item) r) (ev_signals e)) (\<lambda>ok.
       Inr (ok \<and> ev_signals e \<noteq> []))"

definition null_as :: "string \<Rightarrow> json \<Rightarrow> obj \<Rightarrow> obj" where
  "null_as key v d = (if jget d key = JNull then dset key v d else d)"

definition adopted_fields :: "obj \<Rightarrow> source_identity \<Rightarrow> string \<Rightarrow> obj res" where
  "adopted_fields current i source_name =
     (let base = null_as ''sync_original_names'' (JObj []) (null_as ''sync_identities'' (JList []) current)
      in res_bind (merge_source_identities base i) (\<lambda>identities.
         res_bind (merge_original_name base i source_name) (\<lambda>names.
           Inr (dset ''sync_original_names'' (JObj names)
             (dset ''sync_identities'' (JList (map JObj identities)) current)))))"

definition valid_adoption_item :: "adoption_plan \<Rightarrow> adoption_item \<Rightarrow> bool" where
  "valid_adoption_item plan item \<longleftrightarrow>
     si_type (ad_identity item) = ''esxi'' \<and> si_instance (ad_identity item) = ap_source_instance plan
     \<and> si_kind (ad_identity item) = ad_object_kind item
     \<and> length (ad_candidates item) = 1 \<and> ad_selected_object_id item = Some (ev_object_id (hd (ad_candidates item)))"

definition prepare_adoption ::
    "('s, 'r) netbox \<Rightarrow> adoption_plan \<Rightarrow> 'r adoption_network \<Rightarrow> adoption_item \<Rightarrow> ('s, 'r \<times> obj) io" where
  "prepare_adoption nb plan net item =
     (if \<not> valid_adoption_item plan item then io_raise (EsxiAdoptionError ''Invalid ESXi adoption plan item'')
      else
      io_bind (target_record nb plan item) (\<lambda>r.
      io_read (\<lambda>s.
        let current = custom_fields_of nb s r; e = hd (ad_candidates item)
        in if fields_snapshot current \<noteq> ev_snapshot e
           then Inl (EsxiAdoptionError ''Adoption candidate metadata changed after preflight'')
           else res_bind (evidence_is_current nb s net item e r) (\<lambda>ok.
             if \<not> ok then Inl (EsxiAdoptionError ''Adoption evidence changed after preflight'')
             else if contains_v2_identity current
             then Inl (EsxiAdoptionError ''Adoption candidate gained a managed identity'')
             else res_bind (adopted_fields current (ad_identity item) (ad_source_name item)) (\<lambda>desired.
               Inr (r, desired))))))"

definition write_adoption :: "('s, 'r) netbox \<Rightarrow> 'r \<times> obj \<Rightarrow> ('s, unit) io" where
  "write_adoption nb p = nb_update nb (fst p) [(''custom_fields'', JObj (snd p))]"

definition prepare_adoptions :: "('s, 'r) netbox \<Rightarrow> adoption_plan \<Rightarrow> bool \<Rightarrow> ('s, ('r \<times> obj) list) io" where
  "prepare_adoptions nb plan confirmed =
     (if \<not> confirmed then io_raise (EsxiAdoptionError ''ESXi adoption requires explicit confirmation'')
      else if list_ex (\<lambda>item. ad_classification item = Adopt_AMBIGUOUS) (ap_items plan)
      then io_raise (EsxiAdoptionError ''ESXi adoption plan contains ambiguity'')
      else io_bind (load_adoption_network nb) (\<lambda>net.
        io_map (prepare_adoption nb plan net)
          (filter (\<lambda>item. ad_classification item = Adopt_SAFE) (ap_items plan))))"

definition apply_esxi_adoption_plan :: "('s, 'r) netbox \<Rightarrow> adoption_plan \<Rightarrow> bool \<Rightarrow> ('s, nat) io" where
  "apply_esxi_adoption_plan nb plan confirmed =
     io_bind (prepare_adoptions nb plan confirmed) (\<lambda>pending.
     io_bind (io_map (write_adoption nb) pending) (\<lambda>done_writes.
       io_return (length pending)))"

section \<open>Reads\<close>

context netbox_reader
begin

lemma load_adoption_network_R: "preserves R (load_adoption_network nb)"
  unfolding load_adoption_network_def by (intro reader_intros)

lemma resolve_adoption_target_R: "preserves R (resolve_adoption_target nb target)"
  unfolding resolve_adoption_target_def
  by (intro reader_intros; (simp split: prod.split option.split)?; intro impI allI conjI reader_intros)

lemma adoption_plan_R: "preserves R (build_esxi_adoption_plan nb hosts config)"
  unfolding build_esxi_adoption_plan_def
  by (intro reader_intros load_adoption_network_R resolve_adoption_target_R)

lemma prepare_adoptions_R: "preserves R (prepare_adoptions nb plan confirmed)"
  unfolding prepare_adoptions_def prepare_adoption_def target_record_def
  by (intro reader_intros load_adoption_network_R)

end

section \<open>What a classification means\<close>

definition carries :: "('s, 'r) netbox \<Rightarrow> 's \<Rightarrow> source_identity \<Rightarrow> 'r \<Rightarrow> bool" where
  "carries nb s i r \<longleftrightarrow> source_identity_match_rank (custom_fields_of nb s r) i [] False = Inr V2_IDENTITY_MATCH"

lemma matches_identity_Inr: "matches_identity nb s i r = Inr b \<Longrightarrow> b = carries nb s i r"
  by (auto simp: matches_identity_def carries_def split: sum.splits py_exn.splits)

lemma managed_by_Inr:
  assumes "managed_by nb s i records = Inr managed"
  shows "managed = filter (carries nb s i) records"
proof -
  obtain ps where ps: "res_map (\<lambda>r. res_bind (matches_identity nb s i r) (\<lambda>b. Inr (r, b))) records = Inr ps"
    "managed = map fst (filter snd ps)"
    using assms unfolding managed_by_def res_bind_eq_Inr by auto
  have "map fst (filter snd ps) = filter (carries nb s i) records" if
    "res_map (\<lambda>r. res_bind (matches_identity nb s i r) (\<lambda>b. Inr (r, b))) records = Inr ps" for records ps
    using that by (induction records arbitrary: ps) (auto simp: res_bind_eq_Inr dest: matches_identity_Inr)
  with ps show ?thesis by blast
qed

lemma evidence_for_Inr:
  "evidence_for nb s r signals conflicts = Inr e \<Longrightarrow>
     ev_object_id e = nb_id nb s r \<and> ev_signals e = signals \<and> ev_conflicts e = conflicts"
  by (auto simp: evidence_for_def res_bind_eq_Inr)

lemma evidence_ids:
  "res_map (\<lambda>r. evidence_for nb s r signals conflicts) rs = Inr es \<Longrightarrow> map ev_object_id es = map (nb_id nb s) rs"
  by (induction rs arbitrary: es) (auto simp: res_bind_eq_Inr dest: evidence_for_Inr)

lemma some_values_mem: "x \<in> set (some_values xs) \<longleftrightarrow> Some x \<in> set xs"
  by (force simp: some_values_def)

lemma network_signal_cases:
  "list_ex network_signal (adoption_signals exact_name ips macs) \<longleftrightarrow> ips \<noteq> [] \<or> macs \<noteq> []"
  by (cases ips; cases macs) (auto simp: adoption_signals_def network_signal_def starts_with_def)

lemma candidates_class_selected:
  "candidates_class es = (c, Some i) \<Longrightarrow> \<exists>e. es = [e] \<and> ev_object_id e = i \<and> ev_conflicts e = []
     \<and> c = (if list_ex network_signal (ev_signals e) then Adopt_SAFE else Adopt_REVIEW)"
  by (auto simp: candidates_class_def split: list.splits if_splits)

text \<open>What connects a target record with a discovered object: its name or a shared address.\<close>

definition connects ::
    "('s, 'r) netbox \<Rightarrow> 's \<Rightarrow> 'r adoption_network \<Rightarrow> string \<Rightarrow> string \<Rightarrow> string list \<times> string list \<Rightarrow> 'r \<Rightarrow> bool" where
  "connects nb s net kind name live r \<longleftrightarrow>
     (\<exists>n. record_text nb s r = Inr n \<and> casefold n = casefold name)
     \<or> common (fst live) (fst (network_for_object nb s net kind r)) \<noteq> []
     \<or> common (snd live) (snd (network_for_object nb s net kind r)) \<noteq> []"

definition shares_address ::
    "('s, 'r) netbox \<Rightarrow> 's \<Rightarrow> 'r adoption_network \<Rightarrow> string \<Rightarrow> string list \<times> string list \<Rightarrow> 'r \<Rightarrow> bool" where
  "shares_address nb s net kind live r \<longleftrightarrow>
     set (fst live) \<inter> set (fst (network_for_object nb s net kind r)) \<noteq> {}
     \<or> set (snd live) \<inter> set (snd (network_for_object nb s net kind r)) \<noteq> {}"

definition about_record ::
    "('s, 'r) netbox \<Rightarrow> 's \<Rightarrow> 'r adoption_network \<Rightarrow> string \<Rightarrow> string list \<times> string list \<Rightarrow> 'r \<Rightarrow> adoption_evidence \<Rightarrow> bool" where
  "about_record nb s net kind live r e \<longleftrightarrow>
     ev_object_id e = nb_id nb s r
     \<and> (ev_conflicts e = [] \<longrightarrow> \<not> contains_v2_identity (custom_fields_of nb s r))
     \<and> (list_ex network_signal (ev_signals e) \<longleftrightarrow> shares_address nb s net kind live r)"

lemma common_Nil: "common xs ys = [] \<longleftrightarrow> set xs \<inter> set ys = {}"
  by (auto simp: common_def filter_empty_conv simp flip: set_empty)

lemma adoption_candidate_Inr:
  assumes "adoption_candidate nb s net kind name live r = Inr found"
  shows "(case found of None \<Rightarrow> \<not> connects nb s net kind name live r
     | Some e \<Rightarrow> connects nb s net kind name live r \<and> about_record nb s net kind live r e)"
proof -
  let ?current = "network_for_object nb s net kind r"
  let ?ips = "common (fst live) (fst ?current)" and ?macs = "common (snd live) (snd ?current)"
  obtain n where n: "record_text nb s r = Inr n"
    and f: "(if casefold n \<noteq> casefold name \<and> ?ips = [] \<and> ?macs = [] then Inr None
      else res_bind (evidence_for nb s r (adoption_signals (casefold n = casefold name) ?ips ?macs)
             (adoption_conflicts live ?current (custom_fields_of nb s r))) (\<lambda>e. Inr (Some e))) = Inr found"
    using assms unfolding adoption_candidate_def res_bind_eq_Inr Let_def by auto
  show ?thesis
  proof (cases found)
    case None
    with n f show ?thesis by (auto simp: connects_def res_bind_eq_Inr split: if_splits)
  next
    case (Some e)
    with f have e: "evidence_for nb s r (adoption_signals (casefold n = casefold name) ?ips ?macs)
        (adoption_conflicts live ?current (custom_fields_of nb s r)) = Inr e"
      by (auto simp: res_bind_eq_Inr split: if_splits)
    have c: "connects nb s net kind name live r"
      using n f Some by (auto simp: connects_def split: if_splits)
    have "about_record nb s net kind live r e"
      using evidence_for_Inr [OF e] unfolding about_record_def shares_address_def
      by (auto simp: network_signal_cases common_Nil adoption_conflicts_def)
    with c Some show ?thesis by simp
  qed
qed

lemma adoption_candidates_Inr:
  assumes "res_map (adoption_candidate nb s net kind name live) rs = Inr found"
  shows "list_all2 (about_record nb s net kind live) (filter (connects nb s net kind name live) rs) (some_values found)"
  using assms
proof (induction rs arbitrary: found)
  case (Cons r rs)
  then obtain e es where e: "adoption_candidate nb s net kind name live r = Inr e"
    and es: "res_map (adoption_candidate nb s net kind name live) rs = Inr es" and found: "found = e # es"
    by (auto simp: res_bind_eq_Inr)
  show ?case
    using Cons.IH [OF es] adoption_candidate_Inr [OF e] unfolding found
    by (cases e) (auto simp: some_values_def)
qed (simp add: some_values_def)

definition sound_item ::
    "('s, 'r) netbox \<Rightarrow> 's \<Rightarrow> 'r adoption_network \<Rightarrow> string list \<times> string list \<Rightarrow> ('r \<Rightarrow> bool) \<Rightarrow> 'r list \<Rightarrow> adoption_item \<Rightarrow> bool" where
  "sound_item nb s net live target records item \<longleftrightarrow>
     (case ad_classification item of
        Adopt_MANAGED \<Rightarrow> \<exists>r. filter (carries nb s (ad_identity item)) records = [r]
          \<and> ad_selected_object_id item = Some (nb_id nb s r)
          \<and> map ev_object_id (ad_candidates item) = [nb_id nb s r]
          \<and> (\<exists>r' \<in> set records. target r' \<and> nb_id nb s r' = nb_id nb s r)
      | Adopt_SAFE \<Rightarrow> filter (carries nb s (ad_identity item)) records = []
          \<and> (\<exists>r. filter (connects nb s net (ad_object_kind item) (ad_source_name item) live) (filter target records) = [r]
              \<and> ad_selected_object_id item = Some (nb_id nb s r)
              \<and> shares_address nb s net (ad_object_kind item) live r
              \<and> \<not> contains_v2_identity (custom_fields_of nb s r))
      | Adopt_UNMATCHED \<Rightarrow> filter (carries nb s (ad_identity item)) records = []
          \<and> filter (connects nb s net (ad_object_kind item) (ad_source_name item) live) (filter target records) = []
      | _ \<Rightarrow> True)"

definition claims_selected :: "adoption_item \<Rightarrow> bool" where
  "claims_selected item \<longleftrightarrow> ad_selected_object_id item \<in> insert None (Some ` ev_object_id ` set (ad_candidates item))"

lemma classify_adoption_Inr:
  assumes "classify_adoption nb s net kind name live i records (filter target records) = Inr item"
  shows "ad_object_kind item = kind \<and> ad_source_name item = name \<and> ad_identity item = i
    \<and> sound_item nb s net live target records item \<and> claims_selected item"
proof -
  obtain managed where m: "managed_by nb s i records = Inr managed"
    and rest: "(if managed \<noteq> [] then
         res_bind (res_map (\<lambda>r. evidence_for nb s r [] []) managed) (\<lambda>evidence.
           Inr (adoption_item_of kind name i
             (if length managed = 1 \<and> nb_id nb s (hd managed) \<in> set (map (nb_id nb s) (filter target records))
              then (Adopt_MANAGED, Some (nb_id nb s (hd managed))) else (Adopt_AMBIGUOUS, None)) evidence))
       else
         res_bind (res_map (adoption_candidate nb s net kind name live) (filter target records)) (\<lambda>found.
           Inr (adoption_item_of kind name i (candidates_class (some_values found)) (some_values found)))) = Inr item"
    using assms unfolding classify_adoption_def res_bind_eq_Inr by auto
  note managed = managed_by_Inr [OF m]
  show ?thesis
  proof (cases "managed = []")
    case False
    with rest obtain es where es: "res_map (\<lambda>r. evidence_for nb s r [] []) managed = Inr es"
      and item: "item = adoption_item_of kind name i
             (if length managed = 1 \<and> nb_id nb s (hd managed) \<in> set (map (nb_id nb s) (filter target records))
              then (Adopt_MANAGED, Some (nb_id nb s (hd managed))) else (Adopt_AMBIGUOUS, None)) es"
      by (auto simp: res_bind_eq_Inr)
    have "set (map ev_object_id es) = set (map (nb_id nb s) managed)" using evidence_ids [OF es] by simp
    then have ids: "ev_object_id ` set es = nb_id nb s ` set managed" by simp
    note list = evidence_ids [OF es]
    obtain r rs where rs: "managed = r # rs" using False by (cases managed) auto
    show ?thesis
      using ids list unfolding item sound_item_def claims_selected_def adoption_item_of_def managed [symmetric] rs
      by (auto simp: managed [symmetric] rs)
  next
    case True
    with rest obtain found where found: "res_map (adoption_candidate nb s net kind name live) (filter target records) = Inr found"
      and item: "item = adoption_item_of kind name i (candidates_class (some_values found)) (some_values found)"
      by (auto simp: res_bind_eq_Inr)
    note about = adoption_candidates_Inr [OF found]
    show ?thesis
      using about True managed unfolding item
      by (cases "some_values found"; cases "tl (some_values found)")
        (auto simp: sound_item_def claims_selected_def adoption_item_of_def candidates_class_def about_record_def
          list_all2_Cons2 split: if_splits)
  qed
qed

section \<open>Shared claims\<close>

lemma length_remdups_gt_1: "1 < length (remdups xs) \<longleftrightarrow> (\<exists>x \<in> set xs. \<exists>y \<in> set xs. x \<noteq> y)"
  using card_le_Suc0_iff_eq [of "set xs"] by (auto simp: length_remdups_card_conv not_less [symmetric])

lemma mem_shared_claims:
  "k \<in> set (shared_claims claims) \<longleftrightarrow> (\<exists>key k'. (key, k) \<in> set claims \<and> (key, k') \<in> set claims \<and> k' \<noteq> k)"
proof -
  let ?g = "group_by fst claims []"
  have d: "distinct (map fst ?g)" by (simp add: distinct_group_by)
  have ps: "ps = filter (\<lambda>c. fst c = key) claims" if "(key, ps) \<in> set ?g" for key ps
    using dgetl_mem [OF d that] by (simp add: dgetl_group_by)
  have mem: "(key, filter (\<lambda>c. fst c = key) claims) \<in> set ?g" if "(key, k) \<in> set claims" for key k
    using mem_dgetl [of ?g key] that by (force simp: dgetl_group_by filter_empty_conv)
  have snds: "set (map snd (filter (\<lambda>c. fst c = key) claims)) = {k. (key, k) \<in> set claims}" for key by force
  show ?thesis
  proof
    assume "k \<in> set (shared_claims claims)"
    then obtain key ps where p: "(key, ps) \<in> set ?g" "1 < length (remdups (map snd ps))" "k \<in> set (map snd ps)"
      by (auto simp: shared_claims_def split: if_splits)
    have "(key, k) \<in> set claims" using p(3) unfolding ps [OF p(1)] snds by simp
    moreover obtain k' where "(key, k') \<in> set claims" "k' \<noteq> k"
      using p(2) unfolding length_remdups_gt_1 ps [OF p(1)] snds by blast
    ultimately show "\<exists>key k'. (key, k) \<in> set claims \<and> (key, k') \<in> set claims \<and> k' \<noteq> k" by blast
  next
    assume "\<exists>key k'. (key, k) \<in> set claims \<and> (key, k') \<in> set claims \<and> k' \<noteq> k"
    then obtain key k' where k: "(key, k) \<in> set claims" "(key, k') \<in> set claims" "k' \<noteq> k" by blast
    let ?ps = "filter (\<lambda>c. fst c = key) claims"
    have m: "k \<in> set (map snd ?ps)" "k' \<in> set (map snd ?ps)" unfolding snds using k by simp_all
    then have "1 < length (remdups (map snd ?ps))" unfolding length_remdups_gt_1 using k(3) by blast
    with m(1) have "k \<in> set ((\<lambda>(key, ps). if 1 < length (remdups (map snd ps)) then map snd ps else []) (key, ?ps))"
      by simp
    with mem [OF k(1)] show "k \<in> set (shared_claims claims)"
      unfolding shared_claims_def set_concat set_map by blast
  qed
qed

lemma length_mark_shared [simp]: "length (mark_shared_claims_ambiguous items) = length items"
  by (simp add: mark_shared_claims_ambiguous_def)

lemma nth_mark_shared:
  "k < length items \<Longrightarrow> mark_shared_claims_ambiguous items ! k =
     (if k \<in> set (shared_claims (item_claims items))
      then (items ! k)\<lparr>ad_classification := Adopt_AMBIGUOUS, ad_selected_object_id := None\<rparr> else items ! k)"
  by (simp add: mark_shared_claims_ambiguous_def nth_enumerate_eq)

lemma item_claims_mem:
  "(key, k) \<in> set (item_claims items) \<longleftrightarrow>
     k < length items \<and> key \<in> (\<lambda>e. (ad_object_kind (items ! k), ev_object_id e)) ` set (ad_candidates (items ! k))"
  by (auto simp: item_claims_def in_set_enumerate_eq image_iff Bex_def)

lemma distinct_map_filter_nth:
  "(\<And>j k. j < k \<Longrightarrow> k < length xs \<Longrightarrow> P (xs ! j) \<Longrightarrow> P (xs ! k) \<Longrightarrow> f (xs ! j) \<noteq> f (xs ! k)) \<Longrightarrow>
     distinct (map f (filter P xs))"
proof (induction xs)
  case (Cons x xs)
  have "distinct (map f (filter P xs))"
    by (rule Cons.IH) (use Cons.prems [of "Suc _" "Suc _"] in auto)
  moreover have "f x \<noteq> f y" if "P x" "y \<in> set xs" "P y" for y
    using that Cons.prems [of 0 "Suc _"] by (auto simp: in_set_conv_nth)
  ultimately show ?case by auto
qed simp

lemma mark_shared_exclusive:
  assumes "\<forall>item \<in> set items. claims_selected item"
  shows "distinct (map (\<lambda>item. (ad_object_kind item, ad_selected_object_id item))
    (filter (\<lambda>item. ad_selected_object_id item \<noteq> None) (mark_shared_claims_ambiguous items)))"
proof (rule distinct_map_filter_nth)
  let ?claims = "item_claims items"
  fix j k assume jk: "j < k" "k < length (mark_shared_claims_ambiguous items)"
    and j: "ad_selected_object_id (mark_shared_claims_ambiguous items ! j) \<noteq> None"
    and k: "ad_selected_object_id (mark_shared_claims_ambiguous items ! k) \<noteq> None"
  have unshared: "mark_shared_claims_ambiguous items ! l = items ! l \<and> l \<notin> set (shared_claims ?claims)"
    if "l < length items" "ad_selected_object_id (mark_shared_claims_ambiguous items ! l) \<noteq> None" for l
    using that by (auto simp: nth_mark_shared split: if_splits)
  have claim: "((ad_object_kind (items ! l), i), l) \<in> set ?claims"
    if "l < length items" "ad_selected_object_id (items ! l) = Some i" for l i
    using assms that unfolding claims_selected_def item_claims_mem by (force dest: nth_mem)
  have len: "j < length items" "k < length items" using jk by simp_all
  note uj = unshared [OF len(1) j] and uk = unshared [OF len(2) k]
  obtain i where i: "ad_selected_object_id (items ! j) = Some i" using uj j by auto
  obtain i' where i': "ad_selected_object_id (items ! k) = Some i'" using uk k by auto
  have "(ad_object_kind (items ! j), i) \<noteq> (ad_object_kind (items ! k), i')"
    using claim [OF len(1) i] claim [OF len(2) i'] uj jk(1) unfolding mem_shared_claims by fastforce
  then show "(ad_object_kind (mark_shared_claims_ambiguous items ! j), ad_selected_object_id (mark_shared_claims_ambiguous items ! j))
      \<noteq> (ad_object_kind (mark_shared_claims_ambiguous items ! k), ad_selected_object_id (mark_shared_claims_ambiguous items ! k))"
    using uj uk i i' by auto
qed

section \<open>The plan\<close>

definition discovered_object ::
    "discovered_host list \<Rightarrow> string \<Rightarrow> source_identity \<Rightarrow> string \<Rightarrow> string list \<times> string list \<Rightarrow> bool" where
  "discovered_object hosts kind i name live \<longleftrightarrow>
     (\<exists>h \<in> set hosts.
        kind = ''host'' \<and> host_source_identity h = Inr i \<and> name = h_original_name h \<and> live = host_network h
        \<or> kind = ''vm'' \<and> (\<exists>vm \<in> set (h_virtual_machines h).
            virtual_machine_source_identity vm = Inr i \<and> name = g_original_name vm \<and> live = vm_network vm))"

definition adoption_scope :: "string \<Rightarrow> 'r list \<Rightarrow> 'r list \<Rightarrow> 'r list" where
  "adoption_scope kind devices vms = (if kind = ''host'' then devices else vms)"

lemma classify_host_items:
  assumes "classify_adoption_host nb s net inst devices (filter (target ''host'') devices) vms (filter (target ''vm'') vms) h
      = Inr items" and "item \<in> set items" and "h \<in> set hosts"
  shows "\<exists>live. discovered_object hosts (ad_object_kind item) (ad_identity item) (ad_source_name item) live
    \<and> sound_item nb s net live (target (ad_object_kind item)) (adoption_scope (ad_object_kind item) devices vms) item
    \<and> claims_selected item"
proof -
  obtain i host_item vm_items where i: "host_source_identity h = Inr i"
    and h: "classify_adoption nb s net ''host'' (h_original_name h) (host_network h) i devices (filter (target ''host'') devices)
      = Inr host_item"
    and vms: "res_map (\<lambda>vm. res_bind (virtual_machine_source_identity vm) (\<lambda>j.
          classify_adoption nb s net ''vm'' (g_original_name vm) (vm_network vm) j vms (filter (target ''vm'') vms)))
        (h_virtual_machines h) = Inr vm_items" and items: "items = host_item # vm_items"
    using assms(1) unfolding classify_adoption_host_def by (auto simp: res_bind_eq_Inr split: if_splits)
  consider (host) "item = host_item" | (vm) "item \<in> set vm_items" using assms(2) items by auto
  then show ?thesis
  proof cases
    case host
    show ?thesis
      by (rule exI [of _ "host_network h"])
        (use classify_adoption_Inr [OF h] i assms(3) host in \<open>auto simp: discovered_object_def adoption_scope_def\<close>)
  next
    case vm
    obtain v j where v: "v \<in> set (h_virtual_machines h)" and j: "virtual_machine_source_identity v = Inr j"
      and c: "classify_adoption nb s net ''vm'' (g_original_name v) (vm_network v) j vms (filter (target ''vm'') vms) = Inr item"
      using res_map_mem [OF vms vm] by (auto simp: res_bind_eq_Inr)
    show ?thesis
      by (rule exI [of _ "vm_network v"])
        (use classify_adoption_Inr [OF c] v j assms(3) in \<open>auto simp: discovered_object_def adoption_scope_def\<close>)
  qed
qed

lemma adoption_plan_parts:
  assumes reader: "netbox_reader nb (=)" and "build_esxi_adoption_plan nb hosts config s = (Inr plan, t)"
  shows "t = s" and "\<exists>devices vms net items.
      nb_all nb ''dcim.devices'' s = (Inr devices, s) \<and> nb_all nb ''virtualization.virtual_machines'' s = (Inr vms, s)
      \<and> load_adoption_network nb s = (Inr net, s) \<and> ap_items plan = mark_shared_claims_ambiguous (concat items)
      \<and> res_map (classify_adoption_host nb s net (sc_source_instance config)
           devices (filter (in_adoption_target nb s ''host'' (ap_site_id plan) (ap_cluster_id plan)) devices)
           vms (filter (in_adoption_target nb s ''vm'' (ap_site_id plan) (ap_cluster_id plan)) vms)) hosts = Inr items"
proof -
  note pure = pure_read [OF netbox_reader.all_R [OF reader]] pure_read [OF netbox_reader.load_adoption_network_R [OF reader]]
    pure_read [OF netbox_reader.resolve_adoption_target_R [OF reader]]
  show "t = s" using pure_read [OF netbox_reader.adoption_plan_R [OF reader]] assms(2) by blast
  show "\<exists>devices vms net items.
      nb_all nb ''dcim.devices'' s = (Inr devices, s) \<and> nb_all nb ''virtualization.virtual_machines'' s = (Inr vms, s)
      \<and> load_adoption_network nb s = (Inr net, s) \<and> ap_items plan = mark_shared_claims_ambiguous (concat items)
      \<and> res_map (classify_adoption_host nb s net (sc_source_instance config)
           devices (filter (in_adoption_target nb s ''host'' (ap_site_id plan) (ap_cluster_id plan)) devices)
           vms (filter (in_adoption_target nb s ''vm'' (ap_site_id plan) (ap_cluster_id plan)) vms)) hosts = Inr items"
    using assms(2) unfolding build_esxi_adoption_plan_def
    by (auto simp: io_bind_Inr io_read_def io_raise_def res_bind_eq_Inr pure Let_def split: if_splits prod.splits)
qed

lemma mark_shared_mem:
  assumes "item \<in> set (mark_shared_claims_ambiguous items)"
  shows "\<exists>original \<in> set items. item = original \<or>
     item = original\<lparr>ad_classification := Adopt_AMBIGUOUS, ad_selected_object_id := None\<rparr>"
proof -
  obtain k where "k < length items" "item = mark_shared_claims_ambiguous items ! k"
    using assms by (auto simp: in_set_conv_nth)
  then show ?thesis by (auto simp: nth_mark_shared intro!: bexI [of _ "items ! k"])
qed

lemma adoption_item_sound:
  assumes "netbox_reader nb (=)" and "build_esxi_adoption_plan nb hosts config s = (Inr plan, t)"
    and "item \<in> set (ap_items plan)"
  shows "t = s \<and> (\<exists>records net live.
    nb_all nb (adoption_endpoint (ad_object_kind item)) s = (Inr records, s)
    \<and> load_adoption_network nb s = (Inr net, s)
    \<and> discovered_object hosts (ad_object_kind item) (ad_identity item) (ad_source_name item) live
    \<and> sound_item nb s net live (in_adoption_target nb s (ad_object_kind item) (ap_site_id plan) (ap_cluster_id plan))
        records item)"
proof -
  note parts = adoption_plan_parts [OF assms(1,2)]
  obtain devices vms net items where d: "nb_all nb ''dcim.devices'' s = (Inr devices, s)"
    and v: "nb_all nb ''virtualization.virtual_machines'' s = (Inr vms, s)" and n: "load_adoption_network nb s = (Inr net, s)"
    and p: "ap_items plan = mark_shared_claims_ambiguous (concat items)"
    and m: "res_map (classify_adoption_host nb s net (sc_source_instance config)
           devices (filter (in_adoption_target nb s ''host'' (ap_site_id plan) (ap_cluster_id plan)) devices)
           vms (filter (in_adoption_target nb s ''vm'' (ap_site_id plan) (ap_cluster_id plan)) vms)) hosts = Inr items"
    using parts(2) by blast
  obtain original where o: "original \<in> set (concat items)" and item: "item = original \<or>
      item = original\<lparr>ad_classification := Adopt_AMBIGUOUS, ad_selected_object_id := None\<rparr>"
    using mark_shared_mem assms(3) unfolding p by blast
  then obtain its where its: "its \<in> set items" "original \<in> set its" by auto
  obtain h where h: "h \<in> set hosts" "classify_adoption_host nb s net (sc_source_instance config)
           devices (filter (in_adoption_target nb s ''host'' (ap_site_id plan) (ap_cluster_id plan)) devices)
           vms (filter (in_adoption_target nb s ''vm'' (ap_site_id plan) (ap_cluster_id plan)) vms) h = Inr its"
    using res_map_mem [OF m its(1)] by blast
  obtain live where live: "discovered_object hosts (ad_object_kind original) (ad_identity original) (ad_source_name original) live"
    "sound_item nb s net live (in_adoption_target nb s (ad_object_kind original) (ap_site_id plan) (ap_cluster_id plan))
       (adoption_scope (ad_object_kind original) devices vms) original"
    using classify_host_items [where target = "\<lambda>kind. in_adoption_target nb s kind (ap_site_id plan) (ap_cluster_id plan)",
        OF h(2) its(2) h(1)] by blast
  have scope: "nb_all nb (adoption_endpoint kind) s = (Inr (adoption_scope kind devices vms), s)" for kind
    by (simp add: adoption_endpoint_def adoption_scope_def d v)
  have "discovered_object hosts (ad_object_kind item) (ad_identity item) (ad_source_name item) live
    \<and> sound_item nb s net live (in_adoption_target nb s (ad_object_kind item) (ap_site_id plan) (ap_cluster_id plan))
        (adoption_scope (ad_object_kind item) devices vms) item"
    using item live by (auto simp: sound_item_def)
  with parts(1) n scope show ?thesis by blast
qed

text \<open>C8: What an ESXi adoption plan says of a discovered object.  Planning changes nothing.  Every item is about a
  discovered host or machine.  MANAGED means that exactly one record of NetBox carries the object's identity and
  that it lies in the target; SAFE means that no record carries it, that exactly one record of the target has the
  object's name or one of its addresses, that this one shares an address and holds no managed identity;
  UNMATCHED means that no record carries the identity and none of the target is connected.\<close>

theorem adoption_plan_sound:
  assumes "netbox_reader nb (=)" and "build_esxi_adoption_plan nb hosts config s = (Inr plan, t)"
    and "item \<in> set (ap_items plan)"
  shows "t = s \<and> (\<exists>records net live.
    nb_all nb (adoption_endpoint (ad_object_kind item)) s = (Inr records, s)
    \<and> load_adoption_network nb s = (Inr net, s)
    \<and> discovered_object hosts (ad_object_kind item) (ad_identity item) (ad_source_name item) live
    \<and> sound_item nb s net live (in_adoption_target nb s (ad_object_kind item) (ap_site_id plan) (ap_cluster_id plan))
        records item)"
  by (rule adoption_item_sound [OF assms])

text \<open>C38: No two items of an adoption plan select the same object of NetBox: whoever claims an object that another
  discovered object claims as well becomes ambiguous and selects nothing.\<close>

theorem adoption_exclusive:
  assumes "netbox_reader nb (=)" and "build_esxi_adoption_plan nb hosts config s = (Inr plan, t)"
  shows "distinct (map (\<lambda>item. (ad_object_kind item, ad_selected_object_id item))
    (filter (\<lambda>item. ad_selected_object_id item \<noteq> None) (ap_items plan)))"
proof -
  obtain devices vms net items where p: "ap_items plan = mark_shared_claims_ambiguous (concat items)"
    and m: "res_map (classify_adoption_host nb s net (sc_source_instance config)
           devices (filter (in_adoption_target nb s ''host'' (ap_site_id plan) (ap_cluster_id plan)) devices)
           vms (filter (in_adoption_target nb s ''vm'' (ap_site_id plan) (ap_cluster_id plan)) vms)) hosts = Inr items"
    using adoption_plan_parts(2) [OF assms] by blast
  have "claims_selected item" if "item \<in> set (concat items)" for item
  proof -
    obtain its where its: "its \<in> set items" "item \<in> set its" using \<open>item \<in> set (concat items)\<close> by auto
    from res_map_mem [OF m its(1)] obtain h where "h \<in> set hosts" "classify_adoption_host nb s net (sc_source_instance config)
           devices (filter (in_adoption_target nb s ''host'' (ap_site_id plan) (ap_cluster_id plan)) devices)
           vms (filter (in_adoption_target nb s ''vm'' (ap_site_id plan) (ap_cluster_id plan)) vms) h = Inr its" by blast
    from classify_host_items [where target = "\<lambda>kind. in_adoption_target nb s kind (ap_site_id plan) (ap_cluster_id plan)",
        OF this(2) its(2) this(1)] show ?thesis by blast
  qed
  then show ?thesis unfolding p by (intro mark_shared_exclusive) blast
qed

section \<open>What an adoption writes\<close>

lemma adopted_fields_Inr:
  assumes "adopted_fields current i name = Inr desired"
  shows "valid_identity i \<Longrightarrow> source_identity_match_rank desired i [] False = Inr V2_IDENTITY_MATCH"
    and "k \<noteq> ''sync_identities'' \<Longrightarrow> k \<noteq> ''sync_original_names'' \<Longrightarrow> dget desired k = dget current k"
proof -
  define base where "base = null_as ''sync_original_names'' (JObj []) (null_as ''sync_identities'' (JList []) current)"
  obtain rs ns where rs: "merge_source_identities base i = Inr rs"
    and d: "desired = dset ''sync_original_names'' (JObj ns) (dset ''sync_identities'' (JList (map JObj rs)) current)"
    using assms unfolding adopted_fields_def Let_def base_def [symmetric] by (auto simp: res_bind_eq_Inr)
  show "k \<noteq> ''sync_identities'' \<Longrightarrow> k \<noteq> ''sync_original_names'' \<Longrightarrow> dget desired k = dget current k"
    unfolding d by simp
  assume "valid_identity i"
  then show "source_identity_match_rank desired i [] False = Inr V2_IDENTITY_MATCH"
    using merge_again [OF _ rs, of desired] by (simp add: d)
qed

text \<open>One entry of the adoption, checked against the state \<open>s\<close> before the first write.\<close>

definition checked_adoption ::
    "('s, 'r) netbox \<Rightarrow> 's \<Rightarrow> adoption_plan \<Rightarrow> 'r adoption_network \<Rightarrow> adoption_item \<Rightarrow> 'r \<times> obj \<Rightarrow> bool" where
  "checked_adoption nb s plan net item p \<longleftrightarrow>
     (let e = hd (ad_candidates item); current = custom_fields_of nb s (fst p)
      in valid_adoption_item plan item
         \<and> nb_get nb (adoption_endpoint (ad_object_kind item)) [(''id'', JInt (ev_object_id e))] s = (Inr (Some (fst p)), s)
         \<and> in_adoption_target nb s (ad_object_kind item) (ap_site_id plan) (ap_cluster_id plan) (fst p)
         \<and> fields_snapshot current = ev_snapshot e
         \<and> evidence_is_current nb s net item e (fst p) = Inr True
         \<and> \<not> contains_v2_identity current
         \<and> (valid_identity (ad_identity item) \<longrightarrow>
              source_identity_match_rank (snd p) (ad_identity item) [] False = Inr V2_IDENTITY_MATCH)
         \<and> (\<forall>k. k \<noteq> ''sync_identities'' \<and> k \<noteq> ''sync_original_names'' \<longrightarrow> dget (snd p) k = dget current k))"

lemma prepare_adoption_checked:
  assumes reader: "netbox_reader nb (=)" and "prepare_adoption nb plan net item s = (Inr p, t)"
  shows "t = s \<and> checked_adoption nb s plan net item p"
proof -
  have valid: "valid_adoption_item plan item"
    and run: "io_bind (target_record nb plan item) (\<lambda>r. io_read (\<lambda>s.
        let current = custom_fields_of nb s r; e = hd (ad_candidates item)
        in if fields_snapshot current \<noteq> ev_snapshot e
           then Inl (EsxiAdoptionError ''Adoption candidate metadata changed after preflight'')
           else res_bind (evidence_is_current nb s net item e r) (\<lambda>ok.
             if \<not> ok then Inl (EsxiAdoptionError ''Adoption evidence changed after preflight'')
             else if contains_v2_identity current
             then Inl (EsxiAdoptionError ''Adoption candidate gained a managed identity'')
             else res_bind (adopted_fields current (ad_identity item) (ad_source_name item)) (\<lambda>desired.
               Inr (r, desired))))) s = (Inr p, t)"
    using assms(2) unfolding prepare_adoption_def by (simp_all add: io_raise_def split: if_splits)
  have sel: "ad_selected_object_id item = Some (ev_object_id (hd (ad_candidates item)))"
    using valid by (simp add: valid_adoption_item_def)
  obtain r where get: "nb_get nb (adoption_endpoint (ad_object_kind item))
      [(''id'', JInt (ev_object_id (hd (ad_candidates item))))] s = (Inr (Some r), s)"
    and intarget: "in_adoption_target nb s (ad_object_kind item) (ap_site_id plan) (ap_cluster_id plan) r"
    and rest: "(let current = custom_fields_of nb s r; e = hd (ad_candidates item)
        in if fields_snapshot current \<noteq> ev_snapshot e
           then Inl (EsxiAdoptionError ''Adoption candidate metadata changed after preflight'')
           else res_bind (evidence_is_current nb s net item e r) (\<lambda>ok.
             if \<not> ok then Inl (EsxiAdoptionError ''Adoption evidence changed after preflight'')
             else if contains_v2_identity current
             then Inl (EsxiAdoptionError ''Adoption candidate gained a managed identity'')
             else res_bind (adopted_fields current (ad_identity item) (ad_source_name item)) (\<lambda>desired.
               Inr (r, desired)))) = Inr p" and t: "t = s"
    using run unfolding target_record_def sel
    by (auto simp: io_bind_Inr io_read_def io_raise_def pure_read [OF netbox_reader.get_R [OF reader]]
        split: option.splits if_splits)
  let ?current = "custom_fields_of nb s r" and ?e = "hd (ad_candidates item)"
  obtain desired where "fields_snapshot ?current = ev_snapshot ?e" "evidence_is_current nb s net item ?e r = Inr True"
    "\<not> contains_v2_identity ?current" "adopted_fields ?current (ad_identity item) (ad_source_name item) = Inr desired"
    "p = (r, desired)"
    using rest by (auto simp: Let_def res_bind_eq_Inr split: if_splits)
  with valid get intarget t adopted_fields_Inr [OF this(4)] show ?thesis
    by (simp add: checked_adoption_def Let_def)
qed

lemma prepare_adoptions_checked:
  assumes "netbox_reader nb (=)" and "io_map (prepare_adoption nb plan net) items s = (Inr pending, t)"
  shows "t = s \<and> list_all2 (checked_adoption nb s plan net) items pending"
  using assms(2)
proof (induction items arbitrary: pending)
  case (Cons item items)
  then show ?case by (auto simp: io_bind_Inr io_return_def dest!: prepare_adoption_checked [OF assms(1)])
qed (simp add: io_return_def)

text \<open>C14: A confirmed adoption checks everything before it writes.  Either it fails and NetBox is untouched, or it was
  confirmed, the plan is free of ambiguity, and every SAFE item passed every check in the state before the first
  write: its record exists under the planned id, lies in the target, has the custom fields of the preflight, still
  shows the planned evidence and holds no managed identity; what is written to it is its own custom fields, which
  then carry the item's identity and differ in no other key.\<close>

theorem adoption_checks_first:
  assumes "netbox_reader nb (=)" and "apply_esxi_adoption_plan nb plan confirmed s = (r, t)"
  shows "(\<exists>e. r = Inl e) \<and> t = s
    \<or> confirmed \<and> (\<forall>item \<in> set (ap_items plan). ad_classification item \<noteq> Adopt_AMBIGUOUS)
      \<and> (\<exists>net pending. load_adoption_network nb s = (Inr net, s)
          \<and> list_all2 (checked_adoption nb s plan net)
              (filter (\<lambda>item. ad_classification item = Adopt_SAFE) (ap_items plan)) pending
          \<and> t = snd (io_map (write_adoption nb) pending s)
          \<and> (\<forall>n. r = Inr n \<longrightarrow> n = length pending))"
proof (cases "prepare_adoptions nb plan confirmed s")
  case (Pair pr u)
  have u: "u = s" using pure_read [OF netbox_reader.prepare_adoptions_R [OF assms(1)]] Pair by blast
  show ?thesis
  proof (cases pr)
    case (Inl e)
    with Pair u assms(2) have "r = Inl e \<and> t = s" by (simp add: apply_esxi_adoption_plan_def io_bind_def)
    then show ?thesis by blast
  next
    case (Inr pending)
    with Pair u have p: "prepare_adoptions nb plan confirmed s = (Inr pending, s)" by simp
    then have c: "confirmed" and na: "\<forall>item \<in> set (ap_items plan). ad_classification item \<noteq> Adopt_AMBIGUOUS"
      by (auto simp: prepare_adoptions_def io_raise_def list_ex_iff split: if_splits)
    from na have "\<not> list_ex (\<lambda>item. ad_classification item = Adopt_AMBIGUOUS) (ap_items plan)" by (simp add: list_ex_iff)
    with p c obtain net where net: "load_adoption_network nb s = (Inr net, s)"
      and m: "io_map (prepare_adoption nb plan net) (filter (\<lambda>item. ad_classification item = Adopt_SAFE) (ap_items plan)) s
        = (Inr pending, s)"
      by (auto simp: prepare_adoptions_def io_bind_Inr
          pure_read [OF netbox_reader.load_adoption_network_R [OF assms(1)]])
    from prepare_adoptions_checked [OF assms(1) m]
    have l: "list_all2 (checked_adoption nb s plan net)
        (filter (\<lambda>item. ad_classification item = Adopt_SAFE) (ap_items plan)) pending" ..
    have "t = snd (io_map (write_adoption nb) pending s) \<and> (\<forall>n. r = Inr n \<longrightarrow> n = length pending)"
      using assms(2) p
      by (cases "io_map (write_adoption nb) pending s")
        (auto simp: apply_esxi_adoption_plan_def io_bind_def io_return_def split: sum.splits)
    with c na net l show ?thesis by blast
  qed
qed

section \<open>A sample\<close>

definition sample_esxi_vm :: "string \<Rightarrow> string \<Rightarrow> discovered_interface list \<Rightarrow> discovered_vm" where
  "sample_esxi_vm name external_id nics = sample_vm\<lparr>g_source := ''esxi'', g_source_instance := ''esx-a'',
     g_legacy_identity_owner := False, g_source_id := external_id, g_vmid := StrId external_id, g_original_name := name,
     g_interfaces := nics, vm_external_id := Some external_id\<rparr>"

definition sample_esxi_host :: discovered_host where
  "sample_esxi_host = sample_host\<lparr>h_source := ''esxi'', h_source_instance := ''esx-a'', h_legacy_identity_owner := False,
     h_source_id := ''host-1'', h_original_name := ''esx1'', h_interfaces := [],
     h_virtual_machines := [sample_esxi_vm ''db'' ''vm-db''
         [sample_nic\<lparr>nic_mac_address := Some ''00:50:56:aa:00:01'', nic_ip_addresses := [], nic_external_id := Some ''4000''\<rparr>],
       sample_esxi_vm ''web'' ''vm-web'' []], h_containers := []\<rparr>"

definition sample_esxi_fields :: "string \<Rightarrow> string \<Rightarrow> json" where
  "sample_esxi_fields kind external_id = JObj [(''sync_identities'', JList [JObj [(''schema'', JStr ''v2''),
     (''type'', JStr ''esxi''), (''instance'', JStr ''esx-a''), (''kind'', JStr kind),
     (''external_id'', JStr external_id)]]), (''sync_original_names'', JNull)]"

definition sample_esxi_netbox :: fake_state where
  "sample_esxi_netbox = \<lparr>fk_records =
     [(''dcim.sites'', [fake_rec [(''id'', JInt 1), (''slug'', JStr ''lab'')]]),
      (''virtualization.cluster_types'', [fake_rec [(''id'', JInt 7), (''slug'', JStr ''vmware'')]]),
      (''virtualization.clusters'', [fake_rec [(''id'', JInt 8), (''name'', JStr ''ESX''), (''type'', JInt 7),
         (''scope_type'', JStr ''dcim.site''), (''scope_id'', JInt 1)]]),
      (''dcim.devices'', [fake_rec [(''id'', JInt 10), (''name'', JStr ''esx1''), (''site'', JInt 1), (''cluster'', JInt 8),
         (''custom_fields'', sample_esxi_fields ''host'' ''host-1'')]]),
      (''virtualization.virtual_machines'',
        [fake_rec [(''id'', JInt 20), (''name'', JStr ''DB''), (''cluster'', JInt 8), (''custom_fields'', JObj [])],
         fake_rec [(''id'', JInt 21), (''name'', JStr ''web''), (''cluster'', JInt 8),
           (''custom_fields'', sample_esxi_fields ''vm'' ''vm-web'')]]),
      (''virtualization.interfaces'', [fake_rec [(''id'', JInt 30), (''name'', JStr ''eth0''), (''virtual_machine'', JInt 20)]]),
      (''dcim.mac_addresses'', [fake_rec [(''id'', JInt 40), (''mac_address'', JStr ''00:50:56:AA:00:01''),
         (''assigned_object_type'', JStr ''virtualization.vminterface''), (''assigned_object_id'', JInt 30)]])],
     fk_mutations = []\<rparr>"

definition sample_esxi_config :: source_config where
  "sample_esxi_config = \<lparr>sc_id = ''esx-a'', sc_source_instance = ''esx-a'', sc_name = ''ESXi'', sc_source_type = ''esxi'',
     sc_address = ''esx.lab'', sc_enabled = True, sc_sync_enabled = True, sc_sync_interval_seconds = 600,
     sc_verify_ssl = True, sc_target = sample_target\<lparr>t_cluster_type_slug := ''vmware'', t_cluster_name := ''ESX''\<rparr>,
     sc_credentials = \<lparr>cr_username = ''sync'', cr_token_id = \<lparr>sr_provider = ''file'', sr_key = ''a''\<rparr>,
       cr_token_secret = \<lparr>sr_provider = ''file'', sr_key = ''a''\<rparr>\<rparr>,
     sc_legacy_identity_owner = False, sc_settings = []\<rparr>"

lemma sample_adoption_run:
  "case build_esxi_adoption_plan fake_netbox [sample_esxi_host] sample_esxi_config sample_esxi_netbox of
     (Inl e, t) \<Rightarrow> False
   | (Inr plan, t) \<Rightarrow> map (\<lambda>item. (ad_source_name item, ad_classification item, ad_selected_object_id item)) (ap_items plan)
       = [(''esx1'', Adopt_MANAGED, Some 10), (''db'', Adopt_SAFE, Some 20),
          (''web'', Adopt_MANAGED, Some 21)]
     \<and> fst (apply_esxi_adoption_plan fake_netbox plan True sample_esxi_netbox) = Inr 1"
  by code_simp

lemma sample_adoption:
  obtains plan t item where
    "build_esxi_adoption_plan fake_netbox [sample_esxi_host] sample_esxi_config sample_esxi_netbox = (Inr plan, t)"
    "item \<in> set (ap_items plan)" "ad_source_name item = ''db''" "ad_classification item = Adopt_SAFE"
    "fst (apply_esxi_adoption_plan fake_netbox plan True sample_esxi_netbox) = Inr 1"
proof -
  from sample_adoption_run [THEN run_obtain] obtain plan t where
    run: "build_esxi_adoption_plan fake_netbox [sample_esxi_host] sample_esxi_config sample_esxi_netbox = (Inr plan, t)"
    and m: "map (\<lambda>item. (ad_source_name item, ad_classification item, ad_selected_object_id item)) (ap_items plan)
       = [(''esx1'', Adopt_MANAGED, Some 10), (''db'', Adopt_SAFE, Some 20), (''web'', Adopt_MANAGED, Some 21)]"
    and one: "fst (apply_esxi_adoption_plan fake_netbox plan True sample_esxi_netbox) = Inr 1"
    by (elim exE conjE) (rule that)
  have "(''db'', Adopt_SAFE, Some 20) \<in>
      set (map (\<lambda>item. (ad_source_name item, ad_classification item, ad_selected_object_id item)) (ap_items plan))"
    unfolding m by simp
  then obtain item where "item \<in> set (ap_items plan)" "ad_source_name item = ''db''" "ad_classification item = Adopt_SAFE"
    by auto
  with run one that show thesis by blast
qed

theorem adoption_plan_sound_witness:
  "\<exists>plan t item records net live.
     build_esxi_adoption_plan fake_netbox [sample_esxi_host] sample_esxi_config sample_esxi_netbox = (Inr plan, t)
     \<and> ad_classification item = Adopt_SAFE \<and> t = sample_esxi_netbox
     \<and> sound_item fake_netbox sample_esxi_netbox net live
         (in_adoption_target fake_netbox sample_esxi_netbox (ad_object_kind item) (ap_site_id plan) (ap_cluster_id plan))
         records item"
proof -
  obtain plan t item where
    run: "build_esxi_adoption_plan fake_netbox [sample_esxi_host] sample_esxi_config sample_esxi_netbox = (Inr plan, t)"
    and item: "item \<in> set (ap_items plan)" "ad_classification item = Adopt_SAFE"
    by (rule sample_adoption)
  from adoption_plan_sound [OF fake_reads.netbox_reader_axioms run item(1)] run item(2) show ?thesis by blast
qed

theorem adoption_exclusive_witness:
  "\<exists>plan t. build_esxi_adoption_plan fake_netbox [sample_esxi_host] sample_esxi_config sample_esxi_netbox = (Inr plan, t)
     \<and> distinct (map (\<lambda>item. (ad_object_kind item, ad_selected_object_id item))
         (filter (\<lambda>item. ad_selected_object_id item \<noteq> None) (ap_items plan)))"
proof -
  obtain plan t item where
    run: "build_esxi_adoption_plan fake_netbox [sample_esxi_host] sample_esxi_config sample_esxi_netbox = (Inr plan, t)"
    by (rule sample_adoption)
  with adoption_exclusive [OF fake_reads.netbox_reader_axioms run] show ?thesis by blast
qed

theorem adoption_checks_first_witness:
  "\<exists>plan t net pending. apply_esxi_adoption_plan fake_netbox plan True sample_esxi_netbox = (Inr 1, t)
     \<and> load_adoption_network fake_netbox sample_esxi_netbox = (Inr net, sample_esxi_netbox)
     \<and> list_all2 (checked_adoption fake_netbox sample_esxi_netbox plan net)
         (filter (\<lambda>item. ad_classification item = Adopt_SAFE) (ap_items plan)) pending
     \<and> length pending = 1"
proof -
  obtain plan t item where "fst (apply_esxi_adoption_plan fake_netbox plan True sample_esxi_netbox) = Inr 1"
    by (rule sample_adoption)
  then obtain u where run: "apply_esxi_adoption_plan fake_netbox plan True sample_esxi_netbox = (Inr 1, u)"
    by (cases "apply_esxi_adoption_plan fake_netbox plan True sample_esxi_netbox") auto
  have "\<exists>net pending. load_adoption_network fake_netbox sample_esxi_netbox = (Inr net, sample_esxi_netbox)
     \<and> list_all2 (checked_adoption fake_netbox sample_esxi_netbox plan net)
         (filter (\<lambda>item. ad_classification item = Adopt_SAFE) (ap_items plan)) pending \<and> length pending = 1"
    using adoption_checks_first [OF fake_reads.netbox_reader_axioms run] by fastforce
  with run show ?thesis by blast
qed

end
