(* ===== verification/EsxiMigration.thy ===== *)
theory EsxiMigration
  imports EsxiAdoption
begin

text \<open>
  The read-only migration preflight of an ESXi source (netbox_sync/esxi_migration.py): the adoption plan's
  verdict on every host and machine, and, for the managed ones, what every discovered interface corresponds to
  in NetBox.  A snapshot of the assignments of addresses and MACs to interfaces is taken once.  The result
  types of hosts and machines have the same fields and are one record here.
\<close>

datatype object_migration = Obj_MANAGED | Obj_NEW | Obj_REVIEW_REQUIRED | Obj_SAFE_LEGACY_CANDIDATE | Obj_AMBIGUOUS

datatype interface_migration = If_MATCH_EXISTING | If_SAFE_RENAME_OR_REUSE | If_CREATE | If_AMBIGUOUS | If_CONFLICT

record object_candidate =
  oc_object_id :: int
  oc_object_name :: string
  oc_signals :: "string list"
  oc_conflicts :: "string list"

record interface_candidate =
  ic_parent_id :: json
  ic_parent_name :: string
  ic_interface_id :: int
  ic_interface_name :: string
  ic_signals :: "string list"
  ic_conflicts :: "string list"
  ic_current_ips :: "string list"
  ic_current_macs :: "string list"
  ic_ip_assignments :: "(int \<times> string) list"
  ic_mac_assignments :: "(int \<times> string) list"

record interface_item =
  ii_name :: string
  ii_external_id :: "string option"
  ii_ips :: "string list"
  ii_mac :: "string option"
  ii_classification :: interface_migration
  ii_candidates :: "interface_candidate list"
  ii_conflicts :: "string list"

record object_migration_item =
  om_name :: string
  om_external_id :: string
  om_classification :: object_migration
  om_candidates :: "object_candidate list"
  om_interfaces :: "interface_item list"

record migration_plan =
  mp_source_instance :: string
  mp_site_id :: int
  mp_cluster_id :: int
  mp_hosts :: "object_migration_item list"
  mp_virtual_machines :: "object_migration_item list"

section \<open>Who owns which address\<close>

text \<open>An assignment: the type and id of the interface an address record names, and the record's own id.\<close>

type_synonym assignment = "json \<times> json \<times> int"

record 'r ownership =
  ow_host_interfaces :: "'r list"
  ow_vm_interfaces :: "'r list"
  ow_devices :: "(int \<times> 'r) list"
  ow_vms :: "(int \<times> 'r) list"
  ow_ips :: "(string \<times> assignment list) list"
  ow_macs :: "(string \<times> assignment list) list"

definition ow_interfaces :: "'r ownership \<Rightarrow> string \<Rightarrow> 'r list" where
  "ow_interfaces ow kind = (if kind = ''host'' then ow_host_interfaces ow else ow_vm_interfaces ow)"

definition ow_parents :: "'r ownership \<Rightarrow> string \<Rightarrow> (int \<times> 'r) list" where
  "ow_parents ow kind = (if kind = ''host'' then ow_devices ow else ow_vms ow)"

definition assignment_of :: "('s, 'r) netbox \<Rightarrow> 's \<Rightarrow> 'r \<Rightarrow> assignment" where
  "assignment_of nb s r =
     (jget (nb_data nb s r) ''assigned_object_type'', review_object_id (jget (nb_data nb s r) ''assigned_object_id''), nb_id nb s r)"

definition assignments_by_address ::
    "('s, 'r) netbox \<Rightarrow> 's \<Rightarrow> (json \<Rightarrow> string option) \<Rightarrow> string \<Rightarrow> 'r list \<Rightarrow> (string \<times> assignment list) list" where
  "assignments_by_address nb s canonical field records =
     fold (\<lambda>r d. let a = assignment_of nb s r
        in case canonical (jget (nb_data nb s r) field) of
             None \<Rightarrow> d
           | Some address \<Rightarrow> if fst a \<noteq> JNull \<or> fst (snd a) \<noteq> JNull then dappend address a d else d) records []"

definition load_ownership :: "('s, 'r) netbox \<Rightarrow> ('s, 'r ownership) io" where
  "load_ownership nb =
     io_bind (nb_all nb ''dcim.interfaces'') (\<lambda>host_interfaces.
     io_bind (nb_all nb ''virtualization.interfaces'') (\<lambda>vm_interfaces.
     io_bind (nb_all nb ''dcim.devices'') (\<lambda>devices.
     io_bind (nb_all nb ''virtualization.virtual_machines'') (\<lambda>vms.
     io_bind (nb_all nb ''ipam.ip_addresses'') (\<lambda>ips.
     io_bind (nb_all nb ''dcim.mac_addresses'') (\<lambda>macs.
     io_read (\<lambda>s. Inr \<lparr>ow_host_interfaces = host_interfaces, ow_vm_interfaces = vm_interfaces,
         ow_devices = index_by_id nb s devices, ow_vms = index_by_id nb s vms,
         ow_ips = assignments_by_address nb s (\<lambda>v. ip_of_attr (Some (AVal v))) ''address'' ips,
         ow_macs = assignments_by_address nb s (\<lambda>v. mac_of_attr (Some (AVal v))) ''mac_address'' macs\<rparr>)))))))"

definition owned_interfaces :: "('s, 'r) netbox \<Rightarrow> 's \<Rightarrow> 'r ownership \<Rightarrow> string \<Rightarrow> int \<Rightarrow> 'r list" where
  "owned_interfaces nb s ow kind parent_id =
     filter (has_relation nb s (relation_of kind) parent_id) (ow_interfaces ow kind)"

definition assigned_here :: "string \<Rightarrow> int \<Rightarrow> assignment \<Rightarrow> bool" where
  "assigned_here expected_type interface_id a \<longleftrightarrow>
     fst a = JStr expected_type \<and> py_eq (fst (snd a)) (JInt interface_id)"

definition addresses_of :: "string \<Rightarrow> int \<Rightarrow> (string \<times> assignment list) list \<Rightarrow> string list" where
  "addresses_of expected_type interface_id d =
     sort (map fst (filter (\<lambda>(address, assignments). list_ex (assigned_here expected_type interface_id) assignments) d))"

definition record_assignments ::
    "string \<Rightarrow> int \<Rightarrow> (string \<times> assignment list) list \<Rightarrow> (int \<times> string) list" where
  "record_assignments expected_type interface_id d =
     sort_key (\<lambda>(i, address). (py_str_int i, address)) (remdups (concat (map (\<lambda>(address, assignments).
       map (\<lambda>a. (snd (snd a), address)) (filter (assigned_here expected_type interface_id) assignments)) d)))"

definition object_name :: "('s, 'r) netbox \<Rightarrow> 's \<Rightarrow> 'r \<Rightarrow> string" where
  "object_name nb s r =
     (case nb_attr nb s r ''name'' of None \<Rightarrow> ''id='' @ py_str_int (nb_id nb s r) | Some a \<Rightarrow> attr_str a)"

definition interface_candidate_of ::
    "('s, 'r) netbox \<Rightarrow> 's \<Rightarrow> 'r ownership \<Rightarrow> string \<Rightarrow> string list \<Rightarrow> string list \<Rightarrow> 'r \<Rightarrow> interface_candidate" where
  "interface_candidate_of nb s ow kind signals conflicts r =
     (let parent_id = review_object_id (jget (nb_data nb s r) (relation_of kind));
          here = assigned_type_of kind; i = nb_id nb s r
      in \<lparr>ic_parent_id = parent_id,
          ic_parent_name = (case lookup_id (ow_parents ow kind) parent_id of
             Some p \<Rightarrow> object_name nb s p | None \<Rightarrow> ''id='' @ py_str parent_id),
          ic_interface_id = i, ic_interface_name = object_name nb s r,
          ic_signals = sort signals, ic_conflicts = sort conflicts,
          ic_current_ips = addresses_of here i (ow_ips ow), ic_current_macs = addresses_of here i (ow_macs ow),
          ic_ip_assignments = record_assignments here i (ow_ips ow),
          ic_mac_assignments = record_assignments here i (ow_macs ow)\<rparr>)"

section \<open>One discovered interface\<close>

text \<open>What the correlation reads of a host interface or a machine's card.\<close>

record live_interface =
  li_name :: string
  li_external_id :: "string option"
  li_ips :: "string list"
  li_mac :: "string option"

definition live_network :: "string list \<Rightarrow> string list" where
  "live_network texts = sort (remdups (some_values (map esxi_ip texts)))"

definition live_host_interface :: "discovered_host \<Rightarrow> discovered_host_interface \<Rightarrow> live_interface" where
  "live_host_interface host i =
     (let extra_ips = (if hi_management i then (case h_management_ip host of Some a \<Rightarrow> if a = [] then [] else [a] | None \<Rightarrow> []) else [])
      in \<lparr>li_name = hi_name i, li_external_id = None, li_ips = live_network (extra_ips @ hi_addresses i),
          li_mac = optional_mac (hi_mac_address i)\<rparr>)"

definition live_vm_interface :: "discovered_interface \<Rightarrow> live_interface" where
  "live_vm_interface nic =
     \<lparr>li_name = nic_name nic, li_external_id = nic_external_id nic, li_ips = live_network (nic_ip_addresses nic),
      li_mac = optional_mac (nic_mac_address nic)\<rparr>"

record 'r network_hits =
  nh_hits :: "(int \<times> ('r \<times> string) list) list"
  nh_conflicts :: "string list"
  nh_duplicate :: bool

definition hit_step ::
    "('s, 'r) netbox \<Rightarrow> 's \<Rightarrow> string \<Rightarrow> (int \<times> 'r) list \<Rightarrow> string \<Rightarrow> assignment \<Rightarrow> 'r network_hits \<Rightarrow> 'r network_hits" where
  "hit_step nb s expected_type by_id signal a acc =
     (if fst a \<noteq> JStr expected_type \<or> fst (snd a) = JNull
      then acc\<lparr>nh_conflicts := nh_conflicts acc @
             [signal @ '' assigned to '' @ py_str (fst a) @ '':'' @ py_str (fst (snd a))]\<rparr>
      else (case lookup_id by_id (fst (snd a)) of
          None \<Rightarrow> acc\<lparr>nh_conflicts := nh_conflicts acc @
             [signal @ '' references missing interface id='' @ py_str (fst (snd a))]\<rparr>
        | Some interface \<Rightarrow> acc\<lparr>nh_hits := dappend (nb_id nb s interface) (interface, signal) (nh_hits acc)\<rparr>))"

definition network_values :: "'r ownership \<Rightarrow> live_interface \<Rightarrow> (string \<times> assignment list) list" where
  "network_values ow live =
     map (\<lambda>a. (''ip:'' @ a, dgetl (ow_ips ow) a)) (li_ips live)
     @ (case li_mac live of None \<Rightarrow> [] | Some m \<Rightarrow> [(''mac:'' @ m, dgetl (ow_macs ow) m)])"

definition network_hits_of :: "('s, 'r) netbox \<Rightarrow> 's \<Rightarrow> 'r ownership \<Rightarrow> string \<Rightarrow> live_interface \<Rightarrow> 'r network_hits" where
  "network_hits_of nb s ow kind live =
     (let acc = fold (\<lambda>(signal, assignments) acc.
            fold (hit_step nb s (assigned_type_of kind) (index_by_id nb s (ow_interfaces ow kind)) signal) assignments
              (if length assignments > 1 then acc\<lparr>nh_duplicate := True\<rparr> else acc))
          (network_values ow live) \<lparr>nh_hits = [], nh_conflicts = [], nh_duplicate = False\<rparr>
      in acc\<lparr>nh_conflicts := sort (remdups (nh_conflicts acc))\<rparr>)"

definition interface_item_of ::
    "live_interface \<Rightarrow> interface_migration \<Rightarrow> interface_candidate list \<Rightarrow> string list \<Rightarrow> interface_item" where
  "interface_item_of live classification candidates conflicts =
     \<lparr>ii_name = li_name live, ii_external_id = li_external_id live, ii_ips = li_ips live, ii_mac = li_mac live,
      ii_classification = classification, ii_candidates = candidates, ii_conflicts = conflicts\<rparr>"

text \<open>A hit: an interface of NetBox and the signals that lead to it.\<close>

definition hit_candidate ::
    "('s, 'r) netbox \<Rightarrow> 's \<Rightarrow> 'r ownership \<Rightarrow> string \<Rightarrow> string list \<Rightarrow> ('r \<times> string) list \<Rightarrow> interface_candidate" where
  "hit_candidate nb s ow kind conflicts entry =
     interface_candidate_of nb s ow kind (remdups (map snd entry)) conflicts (fst (hd entry))"

text \<open>The correlation of an interface no record carries the identity of.\<close>

definition correlate_by_network ::
    "('s, 'r) netbox \<Rightarrow> 's \<Rightarrow> 'r ownership \<Rightarrow> string \<Rightarrow> int \<Rightarrow> live_interface \<Rightarrow> interface_item" where
  "correlate_by_network nb s ow kind parent_id live =
     (let hits = network_hits_of nb s ow kind live;
          owned = owned_interfaces nb s ow kind parent_id;
          owned_ids = map (nb_id nb s) owned;
          foreign = map snd (filter (\<lambda>(k, entry). k \<notin> set owned_ids) (nh_hits hits));
          here = map snd (filter (\<lambda>(k, entry). k \<in> set owned_ids) (nh_hits hits));
          all_candidates = map (hit_candidate nb s ow kind []) here
            @ map (hit_candidate nb s ow kind [''foreign_parent'']) foreign;
          exact_names = filter (\<lambda>r. casefold (object_name nb s r) = casefold (li_name live)) owned
      in if nh_conflicts hits \<noteq> [] \<or> foreign \<noteq> [] then
           interface_item_of live If_CONFLICT all_candidates
             (if nh_conflicts hits \<noteq> [] then nh_conflicts hits else [''network evidence belongs to another object''])
         else if nh_duplicate hits \<or> length here > 1 then
           interface_item_of live If_AMBIGUOUS all_candidates [''duplicate network evidence'']
         else if length here = 1 then
           let candidate = hit_candidate nb s ow kind [] (hd here)
           in interface_item_of live
                (if casefold (ic_interface_name candidate) = casefold (li_name live)
                 then If_MATCH_EXISTING else If_SAFE_RENAME_OR_REUSE) [candidate] []
         else if length exact_names = 1 then
           interface_item_of live If_MATCH_EXISTING
             [interface_candidate_of nb s ow kind [''exact_name''] [] (hd exact_names)] []
         else if length exact_names > 1 then
           interface_item_of live If_AMBIGUOUS
             (map (interface_candidate_of nb s ow kind [''exact_name''] []) exact_names) [''duplicate interface names'']
         else interface_item_of live If_CREATE [] [])"

definition correlate_interface ::
    "('s, 'r) netbox \<Rightarrow> 's \<Rightarrow> 'r ownership \<Rightarrow> string \<Rightarrow> 'r option \<Rightarrow> 'r list \<Rightarrow> live_interface \<Rightarrow> interface_item res" where
  "correlate_interface nb s ow kind parent identity_matches live =
     (if length identity_matches > 1 then
        Inr (interface_item_of live If_AMBIGUOUS
          (map (interface_candidate_of nb s ow kind [''source_identity_v2''] []) identity_matches) [''duplicate interface identity''])
      else if length identity_matches = 1 then
        Inr (interface_item_of live If_MATCH_EXISTING
          [interface_candidate_of nb s ow kind [''source_identity_v2''] [] (hd identity_matches)] [])
      else (case parent of
          None \<Rightarrow> Inl (AttributeError ''id'')
        | Some p \<Rightarrow> Inr (correlate_by_network nb s ow kind (nb_id nb s p) live)))"

section \<open>Shared interfaces\<close>

definition claiming :: "interface_item \<Rightarrow> bool" where
  "claiming item \<longleftrightarrow> ii_classification item \<in> {If_MATCH_EXISTING, If_SAFE_RENAME_OR_REUSE}"

definition interface_claims :: "interface_item list \<Rightarrow> (int \<times> nat) list" where
  "interface_claims items =
     concat (map (\<lambda>(k, item). if claiming item then map (\<lambda>c. (ic_interface_id c, k)) (ii_candidates item) else [])
       (enumerate 0 items))"

definition mark_shared_interface_claims :: "interface_item list \<Rightarrow> interface_item list" where
  "mark_shared_interface_claims items =
     map (\<lambda>(k, item). if k \<in> set (shared_claims (interface_claims items))
        then item\<lparr>ii_classification := If_AMBIGUOUS,
               ii_conflicts := sort (remdups (ii_conflicts item @ [''shared interface claim'']))\<rparr>
        else item)
       (enumerate 0 items)"

section \<open>The plan\<close>

definition object_class :: "adoption_class \<Rightarrow> object_migration" where
  "object_class c = (case c of
       Adopt_MANAGED \<Rightarrow> Obj_MANAGED
     | Adopt_SAFE \<Rightarrow> Obj_SAFE_LEGACY_CANDIDATE
     | Adopt_REVIEW \<Rightarrow> Obj_REVIEW_REQUIRED
     | Adopt_AMBIGUOUS \<Rightarrow> Obj_AMBIGUOUS
     | Adopt_UNMATCHED \<Rightarrow> Obj_NEW)"

definition object_candidates :: "adoption_item \<Rightarrow> object_candidate list" where
  "object_candidates item =
     map (\<lambda>e. \<lparr>oc_object_id = ev_object_id e, oc_object_name = ev_object_name e, oc_signals = ev_signals e,
       oc_conflicts = ev_conflicts e\<rparr>) (ad_candidates item)"

definition object_item :: "string \<Rightarrow> string \<Rightarrow> adoption_item \<Rightarrow> interface_item list \<Rightarrow> object_migration_item" where
  "object_item name external_id item interfaces =
     \<lparr>om_name = name, om_external_id = external_id, om_classification = object_class (ad_classification item),
      om_candidates = object_candidates item, om_interfaces = mark_shared_interface_claims interfaces\<rparr>"

text \<open>The items by identity; of two items with one identity the later is found.\<close>

definition item_of_identity :: "adoption_plan \<Rightarrow> source_identity \<Rightarrow> adoption_item res" where
  "item_of_identity plan i = lookup_key (rev (map (\<lambda>item. (ad_identity item, item)) (ap_items plan))) i"

definition selected_record :: "('s, 'r) netbox \<Rightarrow> string \<Rightarrow> adoption_item \<Rightarrow> ('s, 'r option) io" where
  "selected_record nb kind item =
     nb_get nb (adoption_endpoint kind) [(''id'', case ad_selected_object_id item of None \<Rightarrow> JNull | Some i \<Rightarrow> JInt i)]"

definition migrate_host ::
    "('s, 'r) netbox \<Rightarrow> adoption_plan \<Rightarrow> 'r ownership \<Rightarrow> discovered_host \<Rightarrow> ('s, object_migration_item) io" where
  "migrate_host nb plan ow host =
     io_bind (io_lift (res_bind (host_source_identity host) (item_of_identity plan))) (\<lambda>item.
     io_bind (if ad_classification item \<noteq> Adopt_MANAGED then io_return []
        else io_bind (selected_record nb ''host'' item) (\<lambda>device.
          io_read (\<lambda>s. res_map (\<lambda>i. correlate_interface nb s ow ''host'' device [] (live_host_interface host i))
            (h_interfaces host)))) (\<lambda>interfaces.
       io_return (object_item (h_original_name host) (h_source_id host) item interfaces)))"

definition migrate_vm ::
    "('s, 'r) netbox \<Rightarrow> adoption_plan \<Rightarrow> 'r ownership \<Rightarrow> discovered_vm \<Rightarrow> ('s, object_migration_item) io" where
  "migrate_vm nb plan ow vm =
     io_bind (io_lift (res_bind (virtual_machine_source_identity vm) (item_of_identity plan))) (\<lambda>item.
     io_bind (if ad_classification item \<noteq> Adopt_MANAGED then io_return []
        else io_bind (selected_record nb ''vm'' item) (\<lambda>found.
          (case found of
             None \<Rightarrow> io_raise (AttributeError ''id'')
           | Some netbox_vm \<Rightarrow> io_read (\<lambda>s.
               let existing = owned_interfaces nb s ow ''vm'' (nb_id nb s netbox_vm)
               in res_map (\<lambda>nic. res_bind (find_nic_sync_identity_matches (custom_fields_of nb s) existing (VmGuest vm) nic)
                    (\<lambda>matches. correlate_interface nb s ow ''vm'' (Some netbox_vm) matches (live_vm_interface nic)))
                    (g_interfaces vm))))) (\<lambda>interfaces.
       io_return (object_item (g_original_name vm) (or_text (vm_external_id vm) (vmid_text (g_vmid vm))) item interfaces)))"

definition build_esxi_migration_plan ::
    "('s, 'r) netbox \<Rightarrow> discovered_host list \<Rightarrow> source_config \<Rightarrow> ('s, migration_plan) io" where
  "build_esxi_migration_plan nb hosts config =
     io_bind (build_esxi_adoption_plan nb hosts config) (\<lambda>plan.
     io_bind (load_ownership nb) (\<lambda>ow.
     io_bind (io_map (\<lambda>host. io_bind (migrate_host nb plan ow host) (\<lambda>host_item.
         io_bind (io_map (migrate_vm nb plan ow) (h_virtual_machines host)) (\<lambda>vm_items.
           io_return (host_item, vm_items)))) hosts) (\<lambda>results.
       io_return \<lparr>mp_source_instance = sc_source_instance config, mp_site_id = ap_site_id plan,
         mp_cluster_id = ap_cluster_id plan, mp_hosts = map fst results, mp_virtual_machines = concat (map snd results)\<rparr>)))"

section \<open>Reads\<close>

context netbox_reader
begin

lemma load_ownership_R: "preserves R (load_ownership nb)"
  unfolding load_ownership_def by (intro reader_intros)

lemma migrate_vm_R: "preserves R (migrate_vm nb plan ow vm)"
  unfolding migrate_vm_def selected_record_def by (intro reader_intros)

lemma migrate_host_R: "preserves R (migrate_host nb plan ow host)"
  unfolding migrate_host_def selected_record_def by (intro reader_intros)

lemma migration_plan_R: "preserves R (build_esxi_migration_plan nb hosts config)"
  unfolding build_esxi_migration_plan_def
  by (intro reader_intros adoption_plan_R load_ownership_R migrate_vm_R migrate_host_R)

end

section \<open>What the network evidence of an interface shows\<close>

lemma index_by_id_fold:
  "dget (fold (\<lambda>r d. dset (nb_id nb s r) r d) rs d) k = Some r \<Longrightarrow> dget d k = Some r \<or> r \<in> set rs \<and> nb_id nb s r = k"
  by (induction rs arbitrary: d) (fastforce split: if_splits)+

lemma index_by_id_Some: "dget (index_by_id nb s rs) k = Some r \<Longrightarrow> r \<in> set rs \<and> nb_id nb s r = k"
  using index_by_id_fold [of nb s rs "[]" k r] by (simp add: index_by_id_def)

lemma lookup_index: "lookup_id (index_by_id nb s rs) v = Some r \<Longrightarrow> r \<in> set rs \<and> py_eq v (JInt (nb_id nb s r))"
  by (auto simp: lookup_id_def num_value_def split: json.splits dest!: index_by_id_Some)

definition settled :: "string \<Rightarrow> (int \<times> 'r) list \<Rightarrow> assignment \<Rightarrow> bool" where
  "settled expected_type by_id a \<longleftrightarrow> fst a = JStr expected_type \<and> (\<exists>r. lookup_id by_id (fst (snd a)) = Some r)"

lemma lookup_JNull [simp]: "lookup_id d JNull = None"
  by (simp add: lookup_id_def)

definition hit_key :: "('s, 'r) netbox \<Rightarrow> 's \<Rightarrow> (int \<times> 'r) list \<Rightarrow> assignment \<Rightarrow> int" where
  "hit_key nb s by_id a = nb_id nb s (the (lookup_id by_id (fst (snd a))))"

lemma hit_step_conflicts:
  "nh_conflicts (hit_step nb s ty by_id signal a acc) = [] \<longleftrightarrow> nh_conflicts acc = [] \<and> settled ty by_id a"
  by (auto simp: hit_step_def settled_def split: option.splits)

lemma hit_step_keys:
  "settled ty by_id a \<Longrightarrow> set (map fst (nh_hits (hit_step nb s ty by_id signal a acc)))
     = insert (hit_key nb s by_id a) (set (map fst (nh_hits acc)))"
  by (auto simp: hit_step_def settled_def hit_key_def keys_dappend simp del: set_map split: option.splits)

lemma hit_step_duplicate [simp]: "nh_duplicate (hit_step nb s ty by_id signal a acc) = nh_duplicate acc"
  by (simp add: hit_step_def split: option.split)

lemma hit_fold:
  "nh_conflicts (fold (hit_step nb s ty by_id signal) as acc) = [] \<longleftrightarrow> nh_conflicts acc = [] \<and> (\<forall>a \<in> set as. settled ty by_id a)"
  "nh_duplicate (fold (hit_step nb s ty by_id signal) as acc) = nh_duplicate acc"
  "(\<forall>a \<in> set as. settled ty by_id a) \<Longrightarrow> set (map fst (nh_hits (fold (hit_step nb s ty by_id signal) as acc)))
     = set (map fst (nh_hits acc)) \<union> hit_key nb s by_id ` set as"
  by (induction as arbitrary: acc) (auto simp: hit_step_conflicts hit_step_keys simp del: set_map)

definition values_fold ::
    "('s, 'r) netbox \<Rightarrow> 's \<Rightarrow> string \<Rightarrow> (int \<times> 'r) list \<Rightarrow> (string \<times> assignment list) list \<Rightarrow> 'r network_hits \<Rightarrow> 'r network_hits" where
  "values_fold nb s ty by_id vs acc =
     fold (\<lambda>(signal, assignments) acc. fold (hit_step nb s ty by_id signal) assignments
        (if length assignments > 1 then acc\<lparr>nh_duplicate := True\<rparr> else acc)) vs acc"

lemma values_fold_spec:
  "nh_conflicts (values_fold nb s ty by_id vs acc) = [] \<longleftrightarrow>
     nh_conflicts acc = [] \<and> (\<forall>v \<in> set vs. \<forall>a \<in> set (snd v). settled ty by_id a)"
  "nh_duplicate (values_fold nb s ty by_id vs acc) \<longleftrightarrow> nh_duplicate acc \<or> (\<exists>v \<in> set vs. 1 < length (snd v))"
  "(\<forall>v \<in> set vs. \<forall>a \<in> set (snd v). settled ty by_id a) \<Longrightarrow>
     set (map fst (nh_hits (values_fold nb s ty by_id vs acc)))
       = set (map fst (nh_hits acc)) \<union> (\<Union>v \<in> set vs. hit_key nb s by_id ` set (snd v))"
proof (induction vs arbitrary: acc)
  case (Cons v vs)
  obtain signal assignments where v: "v = (signal, assignments)" by (cases v)
  { case 1 show ?case using Cons.IH(1) by (auto simp: values_fold_def v hit_fold(1)) }
  { case 2 show ?case using Cons.IH(2) by (auto simp: values_fold_def v hit_fold(2)) }
  { case 3 then show ?case using Cons.IH(3) by (auto simp: values_fold_def v hit_fold(3) simp del: set_map) }
qed (simp_all add: values_fold_def)

text \<open>Every hit is a record of its key's id.\<close>

definition hits_ok :: "('s, 'r) netbox \<Rightarrow> 's \<Rightarrow> (int \<times> ('r \<times> string) list) list \<Rightarrow> bool" where
  "hits_ok nb s hits \<longleftrightarrow> distinct (map fst hits) \<and> (\<forall>(k, entry) \<in> set hits. entry \<noteq> [] \<and> (\<forall>(r, signal) \<in> set entry. nb_id nb s r = k))"

lemma dappend_mem:
  "(k, vs) \<in> set (dappend key v d) \<Longrightarrow> (k, vs) \<in> set d \<or> k = key \<and> (vs = [v] \<or> (\<exists>ws. (key, ws) \<in> set d \<and> vs = ws @ [v]))"
  by (induction key v d rule: dappend.induct) (auto split: if_splits)

lemma hits_ok_dappend: "hits_ok nb s hits \<Longrightarrow> hits_ok nb s (dappend (nb_id nb s r) (r, signal) hits)"
  unfolding hits_ok_def by (auto simp: keys_dappend simp del: set_map dest!: dappend_mem) fastforce+

lemma values_fold_ok: "hits_ok nb s (nh_hits acc) \<Longrightarrow> hits_ok nb s (nh_hits (values_fold nb s ty by_id vs acc))"
proof (induction vs arbitrary: acc)
  case (Cons v vs)
  have "hits_ok nb s (nh_hits (fold (hit_step nb s ty by_id signal) as acc))" if "hits_ok nb s (nh_hits acc)" for signal as acc
    using that by (induction as arbitrary: acc) (auto simp: hit_step_def hits_ok_dappend split: option.split)
  with Cons show ?case by (cases v) (simp add: values_fold_def)
qed (simp add: values_fold_def)

lemma network_hits_spec:
  fixes nb :: "('s, 'r) netbox" and s ow kind
  defines "ty \<equiv> assigned_type_of kind" and "by_id \<equiv> index_by_id nb s (ow_interfaces ow kind)"
  shows "nh_conflicts (network_hits_of nb s ow kind live) = [] \<longleftrightarrow>
      (\<forall>v \<in> set (network_values ow live). \<forall>a \<in> set (snd v). settled ty by_id a)"
    and "nh_duplicate (network_hits_of nb s ow kind live) \<longleftrightarrow> (\<exists>v \<in> set (network_values ow live). 1 < length (snd v))"
    and "nh_conflicts (network_hits_of nb s ow kind live) = [] \<Longrightarrow>
      set (map fst (nh_hits (network_hits_of nb s ow kind live)))
        = (\<Union>v \<in> set (network_values ow live). hit_key nb s by_id ` set (snd v))"
    and "hits_ok nb s (nh_hits (network_hits_of nb s ow kind live))"
proof -
  let ?acc = "\<lparr>nh_hits = [], nh_conflicts = [], nh_duplicate = False\<rparr> :: 'r network_hits"
  have h: "network_hits_of nb s ow kind live =
      (values_fold nb s ty by_id (network_values ow live) ?acc)\<lparr>nh_conflicts :=
        sort (remdups (nh_conflicts (values_fold nb s ty by_id (network_values ow live) ?acc)))\<rparr>"
    by (simp add: network_hits_of_def values_fold_def ty_def by_id_def Let_def)
  have sr: "sort (remdups xs) = [] \<longleftrightarrow> xs = []" for xs :: "string list"
    by (metis set_empty set_remdups set_sort)
  show "nh_conflicts (network_hits_of nb s ow kind live) = [] \<longleftrightarrow>
      (\<forall>v \<in> set (network_values ow live). \<forall>a \<in> set (snd v). settled ty by_id a)"
    unfolding h by (simp add: sr values_fold_spec)
  then show "nh_conflicts (network_hits_of nb s ow kind live) = [] \<Longrightarrow>
      set (map fst (nh_hits (network_hits_of nb s ow kind live)))
        = (\<Union>v \<in> set (network_values ow live). hit_key nb s by_id ` set (snd v))"
    unfolding h using values_fold_spec(3) [of "network_values ow live" ty by_id nb s ?acc] by simp
  show "nh_duplicate (network_hits_of nb s ow kind live) \<longleftrightarrow> (\<exists>v \<in> set (network_values ow live). 1 < length (snd v))"
    unfolding h by (simp add: values_fold_spec)
  show "hits_ok nb s (nh_hits (network_hits_of nb s ow kind live))"
    unfolding h using values_fold_ok [of nb s ?acc] by (simp add: hits_ok_def)
qed

lemma settled_assigned_here:
  assumes "settled ty (index_by_id nb s rs) a" and "hit_key nb s (index_by_id nb s rs) a = k"
  shows "assigned_here ty k a"
proof -
  obtain r where "fst a = JStr ty" "lookup_id (index_by_id nb s rs) (fst (snd a)) = Some r"
    using assms(1) by (auto simp: settled_def)
  with assms(2) lookup_index [OF this(2)] show ?thesis by (simp add: hit_key_def assigned_here_def)
qed

text \<open>The verdict when the network evidence decides: no evidence at all, or one interface of the parent.\<close>

definition evidence_agrees :: "string \<Rightarrow> interface_candidate list \<Rightarrow> (string \<times> assignment list) list \<Rightarrow> bool" where
  "evidence_agrees ty candidates vs \<longleftrightarrow>
     (\<forall>v \<in> set vs. length (snd v) \<le> 1
        \<and> (\<forall>a \<in> set (snd v). \<exists>c. candidates = [c] \<and> assigned_here ty (ic_interface_id c) a))"

lemma no_conflict_evidence:
  fixes nb :: "('s, 'r) netbox" and s ow kind live
  defines "hits \<equiv> network_hits_of nb s ow kind live"
  assumes "nh_conflicts hits = []" and "\<not> nh_duplicate hits"
  shows "nh_hits hits = [] \<Longrightarrow> evidence_agrees (assigned_type_of kind) candidates (network_values ow live)"
    and "nh_hits hits = [(k, entry)] \<Longrightarrow> evidence_agrees (assigned_type_of kind) [hit_candidate nb s ow kind cs entry] (network_values ow live)
      \<and> ic_interface_id (hit_candidate nb s ow kind cs entry) = k"
proof -
  let ?ty = "assigned_type_of kind" and ?ix = "index_by_id nb s (ow_interfaces ow kind)"
  note spec = network_hits_spec [of nb s ow kind live, folded hits_def]
  have ok: "settled ?ty ?ix a" if "v \<in> set (network_values ow live)" "a \<in> set (snd v)" for v a
    using spec(1) assms(2) that by blast
  have short: "length (snd v) \<le> 1" if "v \<in> set (network_values ow live)" for v
    using spec(2) assms(3) that by force
  note keys = spec(3) [OF assms(2)]
  show "nh_hits hits = [] \<Longrightarrow> evidence_agrees ?ty candidates (network_values ow live)"
    using keys short unfolding evidence_agrees_def by auto
  assume one: "nh_hits hits = [(k, entry)]"
  have id: "ic_interface_id (hit_candidate nb s ow kind cs entry) = k"
    using spec(4) one
    by (cases entry) (auto simp: hits_ok_def hit_candidate_def interface_candidate_of_def Let_def)
  have "assigned_here ?ty k a" if "v \<in> set (network_values ow live)" "a \<in> set (snd v)" for v a
  proof -
    have "hit_key nb s ?ix a \<in> {k}" using keys that unfolding one by auto
    with settled_assigned_here [OF ok [OF that]] show ?thesis by simp
  qed
  with id short show "evidence_agrees ?ty [hit_candidate nb s ow kind cs entry] (network_values ow live)
      \<and> ic_interface_id (hit_candidate nb s ow kind cs entry) = k"
    unfolding evidence_agrees_def by auto
qed


section \<open>Shared interfaces stay undecided\<close>

lemma interface_claims_mem:
  "(key, k) \<in> set (interface_claims items) \<longleftrightarrow>
     k < length items \<and> claiming (items ! k) \<and> key \<in> ic_interface_id ` set (ii_candidates (items ! k))"
  by (auto simp: interface_claims_def in_set_enumerate_eq image_iff Bex_def)

lemma nth_mark_interface_claims:
  "k < length items \<Longrightarrow> mark_shared_interface_claims items ! k =
     (if k \<in> set (shared_claims (interface_claims items))
      then (items ! k)\<lparr>ii_classification := If_AMBIGUOUS,
             ii_conflicts := sort (remdups (ii_conflicts (items ! k) @ [''shared interface claim'']))\<rparr>
      else items ! k)"
  by (simp add: mark_shared_interface_claims_def nth_enumerate_eq)

lemma mark_interface_claims_exclusive:
  assumes "j < k" and "k < length items" and "claiming (mark_shared_interface_claims items ! j)"
    and "claiming (mark_shared_interface_claims items ! k)"
  shows "ic_interface_id ` set (ii_candidates (mark_shared_interface_claims items ! j))
    \<inter> ic_interface_id ` set (ii_candidates (mark_shared_interface_claims items ! k)) = {}"
proof -
  let ?claims = "interface_claims items"
  have len: "j < length items" using assms by simp
  have un: "mark_shared_interface_claims items ! l = items ! l \<and> l \<notin> set (shared_claims ?claims)"
    if "l < length items" "claiming (mark_shared_interface_claims items ! l)" for l
    using that by (auto simp: nth_mark_interface_claims claiming_def split: if_splits)
  note uj = un [OF len assms(3)] and uk = un [OF assms(2,4)]
  have "key \<notin> ic_interface_id ` set (ii_candidates (items ! k))"
    if "key \<in> ic_interface_id ` set (ii_candidates (items ! j))" for key
  proof
    assume "key \<in> ic_interface_id ` set (ii_candidates (items ! k))"
    then have "(key, j) \<in> set ?claims" "(key, k) \<in> set ?claims"
      using that len assms uj uk by (simp_all add: interface_claims_mem)
    with uj assms(1) show False unfolding mem_shared_claims by blast
  qed
  with uj uk show ?thesis by auto
qed

section \<open>The objects of a plan\<close>

lemma length_mark_interface_claims [simp]: "length (mark_shared_interface_claims items) = length items"
  by (simp add: mark_shared_interface_claims_def)

definition claims_disjoint :: "interface_item list \<Rightarrow> bool" where
  "claims_disjoint items \<longleftrightarrow>
     (\<forall>k j. j < k \<and> k < length items \<and> claiming (items ! j) \<and> claiming (items ! k)
        \<longrightarrow> ic_interface_id ` set (ii_candidates (items ! j)) \<inter> ic_interface_id ` set (ii_candidates (items ! k)) = {})"

text \<open>What an object item repeats of the adoption plan, and that its interfaces share no claim.\<close>

definition object_sound :: "adoption_plan \<Rightarrow> source_identity \<Rightarrow> object_migration_item \<Rightarrow> bool" where
  "object_sound plan i om \<longleftrightarrow>
     (\<exists>item \<in> set (ap_items plan). ad_identity item = i
        \<and> om_classification om = object_class (ad_classification item)
        \<and> map oc_object_id (om_candidates om) = map ev_object_id (ad_candidates item))
     \<and> claims_disjoint (om_interfaces om)
     \<and> (om_classification om \<noteq> Obj_MANAGED \<longrightarrow> om_interfaces om = [])"

lemma item_of_identity_Inr: "item_of_identity plan i = Inr item \<Longrightarrow> item \<in> set (ap_items plan) \<and> ad_identity item = i"
  by (auto simp: item_of_identity_def lookup_key_def split: option.splits dest!: dget_Some_mem)

lemma object_class_MANAGED: "object_class c = Obj_MANAGED \<longleftrightarrow> c = Adopt_MANAGED"
  by (cases c) (simp_all add: object_class_def)

lemma object_class_NEW: "object_class c = Obj_NEW \<longleftrightarrow> c = Adopt_UNMATCHED"
  by (cases c) (simp_all add: object_class_def)

lemma object_item_sound:
  assumes "item_of_identity plan i = Inr item" and "ad_classification item \<noteq> Adopt_MANAGED \<longrightarrow> interfaces = []"
  shows "object_sound plan i (object_item name external_id item interfaces)"
proof -
  have cand: "map oc_object_id (om_candidates (object_item name external_id item interfaces)) = map ev_object_id (ad_candidates item)"
    by (simp add: object_item_def object_candidates_def)
  have ifs: "om_interfaces (object_item name external_id item interfaces) = mark_shared_interface_claims interfaces"
    and cl: "om_classification (object_item name external_id item interfaces) = object_class (ad_classification item)"
    by (simp_all add: object_item_def)
  show ?thesis
    unfolding object_sound_def claims_disjoint_def cand ifs cl object_class_MANAGED length_mark_interface_claims
  proof (intro conjI allI impI)
    show "\<exists>item' \<in> set (ap_items plan). ad_identity item' = i \<and> object_class (ad_classification item) = object_class (ad_classification item')
        \<and> map ev_object_id (ad_candidates item) = map ev_object_id (ad_candidates item')"
      using item_of_identity_Inr [OF assms(1)] by blast
    show "mark_shared_interface_claims interfaces = []" if "ad_classification item \<noteq> Adopt_MANAGED"
      using that assms(2) by (simp add: mark_shared_interface_claims_def)
  qed (elim conjE, rule mark_interface_claims_exclusive)
qed

lemma migrate_vm_sound:
  assumes "migrate_vm nb plan ow vm s = (Inr om, t)"
  shows "\<exists>i. virtual_machine_source_identity vm = Inr i \<and> object_sound plan i om
    \<and> om_external_id om = or_text (vm_external_id vm) (vmid_text (g_vmid vm)) \<and> om_name om = g_original_name vm"
proof -
  obtain item interfaces i where i: "virtual_machine_source_identity vm = Inr i" "item_of_identity plan i = Inr item"
    and none: "ad_classification item \<noteq> Adopt_MANAGED \<longrightarrow> interfaces = []"
    and om: "om = object_item (g_original_name vm) (or_text (vm_external_id vm) (vmid_text (g_vmid vm))) item interfaces"
    using assms unfolding migrate_vm_def
    by (auto simp: io_bind_Inr io_lift_def io_return_def res_bind_eq_Inr split: if_splits)
  from object_item_sound [OF i(2) none] i(1) show ?thesis unfolding om by (simp add: object_item_def)
qed

lemma migrate_host_sound:
  assumes "migrate_host nb plan ow h s = (Inr om, t)"
  shows "\<exists>i. host_source_identity h = Inr i \<and> object_sound plan i om"
proof -
  obtain item interfaces i where i: "host_source_identity h = Inr i" "item_of_identity plan i = Inr item"
    and none: "ad_classification item \<noteq> Adopt_MANAGED \<longrightarrow> interfaces = []"
    and om: "om = object_item (h_original_name h) (h_source_id h) item interfaces"
    using assms unfolding migrate_host_def
    by (auto simp: io_bind_Inr io_lift_def io_return_def res_bind_eq_Inr split: if_splits)
  from object_item_sound [OF i(2) none] i(1) show ?thesis unfolding om by blast
qed

lemma list_all2_mem2: "list_all2 P xs ys \<Longrightarrow> y \<in> set ys \<Longrightarrow> \<exists>x \<in> set xs. P x y"
  by (metis in_set_conv_nth list_all2_conv_all_nth)

lemma io_map_Inr_mem:
  assumes "io_map f xs s = (Inr ys, t)" and "y \<in> set ys"
  shows "\<exists>x \<in> set xs. \<exists>u v. f x u = (Inr y, v)"
  using assms
proof (induction xs arbitrary: s ys)
  case (Cons x xs)
  then obtain z zs u where "f x s = (Inr z, u)" "io_map f xs u = (Inr zs, t)" "ys = z # zs"
    by (auto simp: io_bind_Inr io_return_def)
  with Cons.IH [of u zs] Cons.prems(2) show ?case by (cases "y = z") auto
qed (simp add: io_return_def)

lemma migration_plan_parts:
  assumes reader: "netbox_reader nb (=)" and "build_esxi_migration_plan nb hosts config s = (Inr mplan, t)"
  obtains plan where "t = s" "build_esxi_adoption_plan nb hosts config s = (Inr plan, s)"
    "mp_site_id mplan = ap_site_id plan" "mp_cluster_id mplan = ap_cluster_id plan"
    "\<And>om. om \<in> set (mp_virtual_machines mplan) \<Longrightarrow>
       \<exists>h \<in> set hosts. \<exists>vm \<in> set (h_virtual_machines h). \<exists>i. virtual_machine_source_identity vm = Inr i \<and> object_sound plan i om
         \<and> om_external_id om = or_text (vm_external_id vm) (vmid_text (g_vmid vm))"
    "\<And>om. om \<in> set (mp_hosts mplan) \<Longrightarrow> \<exists>h \<in> set hosts. \<exists>i. host_source_identity h = Inr i \<and> object_sound plan i om"
proof -
  have t: "t = s" using pure_read [OF netbox_reader.migration_plan_R [OF reader]] assms(2) by blast
  obtain plan ow results u where plan: "build_esxi_adoption_plan nb hosts config s = (Inr plan, s)"
    and results: "io_map (\<lambda>host. io_bind (migrate_host nb plan ow host) (\<lambda>host_item.
         io_bind (io_map (migrate_vm nb plan ow) (h_virtual_machines host)) (\<lambda>vm_items.
           io_return (host_item, vm_items)))) hosts u = (Inr results, t)"
    and m: "mplan = \<lparr>mp_source_instance = sc_source_instance config, mp_site_id = ap_site_id plan,
         mp_cluster_id = ap_cluster_id plan, mp_hosts = map fst results, mp_virtual_machines = concat (map snd results)\<rparr>"
    using assms(2) unfolding build_esxi_migration_plan_def
    by (auto simp: io_bind_Inr io_return_def pure_read [OF netbox_reader.adoption_plan_R [OF reader]])
  have r: "\<exists>h \<in> set hosts. (\<exists>u v. migrate_host nb plan ow h u = (Inr (fst p), v))
      \<and> (\<forall>om \<in> set (snd p). \<exists>vm \<in> set (h_virtual_machines h). \<exists>u v. migrate_vm nb plan ow vm u = (Inr om, v))"
    if "p \<in> set results" for p
    using io_map_Inr_mem [OF results that] by (fastforce simp: io_bind_Inr io_return_def dest: io_map_Inr_mem)
  show thesis
  proof (rule that [OF t plan])
    show "mp_site_id mplan = ap_site_id plan" "mp_cluster_id mplan = ap_cluster_id plan" by (simp_all add: m)
    fix om
    { assume "om \<in> set (mp_virtual_machines mplan)"
      then obtain p where p: "p \<in> set results" "om \<in> set (snd p)" by (auto simp: m)
      with r obtain h vm u v where "h \<in> set hosts" "vm \<in> set (h_virtual_machines h)" "migrate_vm nb plan ow vm u = (Inr om, v)"
        by blast
      with migrate_vm_sound [OF this(3)] show "\<exists>h \<in> set hosts. \<exists>vm \<in> set (h_virtual_machines h).
          \<exists>i. virtual_machine_source_identity vm = Inr i \<and> object_sound plan i om
            \<and> om_external_id om = or_text (vm_external_id vm) (vmid_text (g_vmid vm))" by blast }
    { assume "om \<in> set (mp_hosts mplan)"
      then obtain p where p: "p \<in> set results" "om = fst p" by (auto simp: m)
      with r obtain h u v where "h \<in> set hosts" "migrate_host nb plan ow h u = (Inr om, v)" by blast
      with migrate_host_sound [OF this(2)] show "\<exists>h \<in> set hosts. \<exists>i. host_source_identity h = Inr i \<and> object_sound plan i om"
        by blast }
  qed
qed

text \<open>A machine of the plan that is managed: its identity is carried by exactly one machine of NetBox, which lies in
  the target cluster and is the item's only candidate.\<close>

definition managed_machine ::
    "('s, 'r) netbox \<Rightarrow> 's \<Rightarrow> discovered_host list \<Rightarrow> int \<Rightarrow> int \<Rightarrow> object_migration_item \<Rightarrow> bool" where
  "managed_machine nb s hosts site_id cluster_id om \<longleftrightarrow>
     (\<exists>h \<in> set hosts. \<exists>vm \<in> set (h_virtual_machines h). \<exists>i records r. virtual_machine_source_identity vm = Inr i
        \<and> om_external_id om = or_text (vm_external_id vm) (vmid_text (g_vmid vm))
        \<and> nb_all nb ''virtualization.virtual_machines'' s = (Inr records, s)
        \<and> filter (carries nb s i) records = [r] \<and> map oc_object_id (om_candidates om) = [nb_id nb s r]
        \<and> (\<exists>r' \<in> set records. in_adoption_target nb s ''vm'' site_id cluster_id r' \<and> nb_id nb s r' = nb_id nb s r))"

lemma managed_machineE:
  assumes "managed_machine nb s hosts site_id cluster_id om"
  obtains h vm i records r where "h \<in> set hosts" "vm \<in> set (h_virtual_machines h)" "virtual_machine_source_identity vm = Inr i"
    "om_external_id om = or_text (vm_external_id vm) (vmid_text (g_vmid vm))"
    "nb_all nb ''virtualization.virtual_machines'' s = (Inr records, s)" "filter (carries nb s i) records = [r]"
    "map oc_object_id (om_candidates om) = [nb_id nb s r]"
    "\<exists>r' \<in> set records. in_adoption_target nb s ''vm'' site_id cluster_id r' \<and> nb_id nb s r' = nb_id nb s r"
proof -
  have "\<exists>h vm i records r. h \<in> set hosts \<and> vm \<in> set (h_virtual_machines h) \<and> virtual_machine_source_identity vm = Inr i
        \<and> om_external_id om = or_text (vm_external_id vm) (vmid_text (g_vmid vm))
        \<and> nb_all nb ''virtualization.virtual_machines'' s = (Inr records, s)
        \<and> filter (carries nb s i) records = [r] \<and> map oc_object_id (om_candidates om) = [nb_id nb s r]
        \<and> (\<exists>r' \<in> set records. in_adoption_target nb s ''vm'' site_id cluster_id r' \<and> nb_id nb s r' = nb_id nb s r)"
    using assms unfolding managed_machine_def by (elim bexE exE conjE) (intro exI conjI bexI, assumption+)
  then show thesis by (elim exE conjE) (rule that)
qed

lemma vm_identity_kind: "virtual_machine_source_identity vm = Inr i \<Longrightarrow> si_kind i \<noteq> ''host''"
  by (auto simp: virtual_machine_source_identity_def qemu_source_identity_def identity_of_Inr split: if_splits)

lemma managed_vm_sound:
  assumes reader: "netbox_reader nb (=)" and plan: "build_esxi_adoption_plan nb hosts config s = (Inr plan, s)"
    and vm: "h \<in> set hosts" "vm \<in> set (h_virtual_machines h)" "virtual_machine_source_identity vm = Inr i"
    and om: "object_sound plan i om" "om_external_id om = or_text (vm_external_id vm) (vmid_text (g_vmid vm))"
      "om_classification om = Obj_MANAGED"
  shows "managed_machine nb s hosts (ap_site_id plan) (ap_cluster_id plan) om"
proof -
  obtain item where item: "item \<in> set (ap_items plan)" "ad_identity item = i" "ad_classification item = Adopt_MANAGED"
    "map oc_object_id (om_candidates om) = map ev_object_id (ad_candidates item)"
    using om(1,3) object_class_MANAGED unfolding object_sound_def by metis
  obtain records net live where r: "nb_all nb (adoption_endpoint (ad_object_kind item)) s = (Inr records, s)"
    and d: "discovered_object hosts (ad_object_kind item) (ad_identity item) (ad_source_name item) live"
    and sound: "sound_item nb s net live (in_adoption_target nb s (ad_object_kind item) (ap_site_id plan) (ap_cluster_id plan))
        records item"
    using adoption_item_sound [OF reader plan item(1)] by blast
  have kind: "ad_object_kind item = ''vm''"
    using d vm_identity_kind [OF vm(3)] item(2) by (auto simp: discovered_object_def dest: host_source_identity_valid)
  have "\<exists>q. filter (carries nb s i) records = [q] \<and> ad_selected_object_id item = Some (nb_id nb s q)
      \<and> map ev_object_id (ad_candidates item) = [nb_id nb s q]
      \<and> (\<exists>r' \<in> set records. in_adoption_target nb s ''vm'' (ap_site_id plan) (ap_cluster_id plan) r' \<and> nb_id nb s r' = nb_id nb s q)"
    using sound unfolding sound_item_def item(2,3) kind adoption_class.case .
  then obtain q where "filter (carries nb s i) records = [q]" "map ev_object_id (ad_candidates item) = [nb_id nb s q]"
    "\<exists>r' \<in> set records. in_adoption_target nb s ''vm'' (ap_site_id plan) (ap_cluster_id plan) r' \<and> nb_id nb s r' = nb_id nb s q"
    by (elim exE conjE) (rule that)
  moreover have "nb_all nb ''virtualization.virtual_machines'' s = (Inr records, s)"
    using r by (simp add: kind adoption_endpoint_def)
  ultimately show ?thesis
    unfolding managed_machine_def using vm om(2) item(4)
    by (intro bexI [of _ h] bexI [of _ vm] exI [of _ i] exI [of _ records] exI [of _ q] conjI) simp_all
qed

text \<open>A machine of the plan that is new: no machine of NetBox carries its identity.\<close>

definition new_machine ::
    "('s, 'r) netbox \<Rightarrow> 's \<Rightarrow> discovered_host list \<Rightarrow> object_migration_item \<Rightarrow> bool" where
  "new_machine nb s hosts om \<longleftrightarrow>
     (\<exists>h \<in> set hosts. \<exists>vm \<in> set (h_virtual_machines h). \<exists>i records. virtual_machine_source_identity vm = Inr i
        \<and> om_external_id om = or_text (vm_external_id vm) (vmid_text (g_vmid vm))
        \<and> nb_all nb ''virtualization.virtual_machines'' s = (Inr records, s) \<and> filter (carries nb s i) records = [])"

lemma new_vm_sound:
  assumes reader: "netbox_reader nb (=)" and plan: "build_esxi_adoption_plan nb hosts config s = (Inr plan, s)"
    and vm: "h \<in> set hosts" "vm \<in> set (h_virtual_machines h)" "virtual_machine_source_identity vm = Inr i"
    and om: "object_sound plan i om" "om_external_id om = or_text (vm_external_id vm) (vmid_text (g_vmid vm))"
      "om_classification om = Obj_NEW"
  shows "new_machine nb s hosts om"
proof -
  obtain item where item: "item \<in> set (ap_items plan)" "ad_identity item = i" "ad_classification item = Adopt_UNMATCHED"
    using om(1,3) object_class_NEW unfolding object_sound_def by metis
  obtain records net live where r: "nb_all nb (adoption_endpoint (ad_object_kind item)) s = (Inr records, s)"
    and d: "discovered_object hosts (ad_object_kind item) (ad_identity item) (ad_source_name item) live"
    and sound: "sound_item nb s net live (in_adoption_target nb s (ad_object_kind item) (ap_site_id plan) (ap_cluster_id plan))
        records item"
    using adoption_item_sound [OF reader plan item(1)] by blast
  have kind: "ad_object_kind item = ''vm''"
    using d vm_identity_kind [OF vm(3)] item(2) by (auto simp: discovered_object_def dest: host_source_identity_valid)
  have "filter (carries nb s i) records = []"
    using sound unfolding sound_item_def item(2,3) kind adoption_class.case by (rule conjunct1)
  moreover have "nb_all nb ''virtualization.virtual_machines'' s = (Inr records, s)"
    using r by (simp add: kind adoption_endpoint_def)
  ultimately show ?thesis
    unfolding new_machine_def using vm om(2)
    by (intro bexI [of _ h] bexI [of _ vm] exI [of _ i] exI [of _ records] conjI) simp_all
qed

lemma migration_items_sound:
  assumes "netbox_reader nb (=)" and "build_esxi_migration_plan nb hosts config s = (Inr plan, t)"
  shows "t = s
    \<and> (\<forall>om \<in> set (mp_virtual_machines plan). om_classification om = Obj_MANAGED \<longrightarrow>
         managed_machine nb s hosts (mp_site_id plan) (mp_cluster_id plan) om)
    \<and> (\<forall>om \<in> set (mp_virtual_machines plan). om_classification om = Obj_NEW \<longrightarrow> new_machine nb s hosts om)
    \<and> (\<forall>om \<in> set (mp_hosts plan) \<union> set (mp_virtual_machines plan). claims_disjoint (om_interfaces om)
         \<and> (om_classification om \<noteq> Obj_MANAGED \<longrightarrow> om_interfaces om = []))"
proof -
  obtain adoption where t: "t = s" and a: "build_esxi_adoption_plan nb hosts config s = (Inr adoption, s)"
    and ids: "mp_site_id plan = ap_site_id adoption" "mp_cluster_id plan = ap_cluster_id adoption"
    and vms: "\<And>om. om \<in> set (mp_virtual_machines plan) \<Longrightarrow>
       \<exists>h \<in> set hosts. \<exists>vm \<in> set (h_virtual_machines h). \<exists>i. virtual_machine_source_identity vm = Inr i \<and> object_sound adoption i om
         \<and> om_external_id om = or_text (vm_external_id vm) (vmid_text (g_vmid vm))"
    and hs: "\<And>om. om \<in> set (mp_hosts plan) \<Longrightarrow> \<exists>h \<in> set hosts. \<exists>i. host_source_identity h = Inr i \<and> object_sound adoption i om"
    using migration_plan_parts [OF assms] by metis
  have "managed_machine nb s hosts (mp_site_id plan) (mp_cluster_id plan) om"
    if "om \<in> set (mp_virtual_machines plan)" "om_classification om = Obj_MANAGED" for om
    unfolding ids using vms [OF that(1)] managed_vm_sound [OF assms(1) a] that(2) by blast
  moreover have "new_machine nb s hosts om" if "om \<in> set (mp_virtual_machines plan)" "om_classification om = Obj_NEW" for om
    using vms [OF that(1)] new_vm_sound [OF assms(1) a] that(2) by blast
  moreover have "claims_disjoint (om_interfaces om) \<and> (om_classification om \<noteq> Obj_MANAGED \<longrightarrow> om_interfaces om = [])"
    if "om \<in> set (mp_hosts plan) \<union> set (mp_virtual_machines plan)" for om
    using that vms hs unfolding object_sound_def by blast
  ultimately show ?thesis using t by blast
qed

text \<open>C17: What the migration preflight says of the objects.  It changes nothing.  A machine it calls managed has its
  identity on exactly one machine of NetBox, in the target cluster, its only candidate, and one it calls new has its
  identity on no machine; only managed objects get verdicts on their interfaces, and no two interfaces of one object are given the same interface of NetBox.\<close>

theorem migration_plan_sound:
  assumes "netbox_reader nb (=)" and "build_esxi_migration_plan nb hosts config s = (Inr plan, t)"
  shows "t = s
    \<and> (\<forall>om \<in> set (mp_virtual_machines plan). om_classification om = Obj_MANAGED \<longrightarrow>
         managed_machine nb s hosts (mp_site_id plan) (mp_cluster_id plan) om)
    \<and> (\<forall>om \<in> set (mp_virtual_machines plan). om_classification om = Obj_NEW \<longrightarrow> new_machine nb s hosts om)
    \<and> (\<forall>om \<in> set (mp_hosts plan) \<union> set (mp_virtual_machines plan). claims_disjoint (om_interfaces om)
         \<and> (om_classification om \<noteq> Obj_MANAGED \<longrightarrow> om_interfaces om = []))"
  by (rule migration_items_sound [OF assms])

section \<open>A sample\<close>

text \<open>One managed machine without cards, on a managed host without interfaces.\<close>

definition managed_esxi_host :: discovered_host where
  "managed_esxi_host = sample_esxi_host\<lparr>h_virtual_machines := [sample_esxi_vm ''web'' ''vm-web'' []]\<rparr>"

definition managed_esxi_netbox :: fake_state where
  "managed_esxi_netbox = \<lparr>fk_records =
     [(''dcim.sites'', [fake_rec [(''id'', JInt 1), (''slug'', JStr ''lab'')]]),
      (''virtualization.cluster_types'', [fake_rec [(''id'', JInt 7), (''slug'', JStr ''vmware'')]]),
      (''virtualization.clusters'', [fake_rec [(''id'', JInt 8), (''name'', JStr ''ESX''), (''type'', JInt 7),
         (''scope_type'', JStr ''dcim.site''), (''scope_id'', JInt 1)]]),
      (''dcim.devices'', [fake_rec [(''id'', JInt 10), (''name'', JStr ''esx1''), (''site'', JInt 1), (''cluster'', JInt 8),
         (''custom_fields'', sample_esxi_fields ''host'' ''host-1'')]]),
      (''virtualization.virtual_machines'',
        [fake_rec [(''id'', JInt 21), (''name'', JStr ''web''), (''cluster'', JInt 8),
           (''custom_fields'', sample_esxi_fields ''vm'' ''vm-web'')]])],
     fk_mutations = []\<rparr>"

lemma managed_migration_run:
  "case build_esxi_migration_plan fake_netbox [managed_esxi_host] sample_esxi_config managed_esxi_netbox of
     (Inl e, t) \<Rightarrow> False
   | (Inr plan, t) \<Rightarrow> map om_classification (mp_virtual_machines plan) = [Obj_MANAGED]"
  by code_simp

theorem migration_plan_sound_witness:
  "\<exists>plan om. build_esxi_migration_plan fake_netbox [managed_esxi_host] sample_esxi_config managed_esxi_netbox
       = (Inr plan, managed_esxi_netbox)
     \<and> mp_virtual_machines plan = [om]
     \<and> managed_machine fake_netbox managed_esxi_netbox [managed_esxi_host] (mp_site_id plan) (mp_cluster_id plan) om"
proof -
  from managed_migration_run [THEN run_obtain] obtain plan t where
    run: "build_esxi_migration_plan fake_netbox [managed_esxi_host] sample_esxi_config managed_esxi_netbox = (Inr plan, t)"
    and m: "map om_classification (mp_virtual_machines plan) = [Obj_MANAGED]" by (elim exE conjE) (rule that)
  obtain om where om: "mp_virtual_machines plan = [om]" "om_classification om = Obj_MANAGED" using m by auto
  with migration_plan_sound [OF fake_reads.netbox_reader_axioms run] run show ?thesis by auto
qed

text \<open>The card of \<open>db\<close>: its MAC is recorded on the interface \<open>eth0\<close> of the machine 20.\<close>

definition sample_ownership :: "fake_handle ownership" where
  "sample_ownership = (case load_ownership fake_netbox sample_esxi_netbox of (Inr ow, t) \<Rightarrow> ow | (Inl e, t) \<Rightarrow>
     \<lparr>ow_host_interfaces = [], ow_vm_interfaces = [], ow_devices = [], ow_vms = [], ow_ips = [], ow_macs = []\<rparr>)"

definition sample_live_interface :: live_interface where
  "sample_live_interface = \<lparr>li_name = ''net0'', li_external_id = None, li_ips = [], li_mac = Some ''00:50:56:AA:00:01''\<rparr>"

lemma sample_correlation:
  "ii_classification (correlate_by_network fake_netbox sample_esxi_netbox sample_ownership ''vm'' 20 sample_live_interface)
       \<in> {If_MATCH_EXISTING, If_SAFE_RENAME_OR_REUSE, If_CREATE}
   \<and> ii_candidates (correlate_by_network fake_netbox sample_esxi_netbox sample_ownership ''vm'' 20 sample_live_interface) \<noteq> []"
  by code_simp


end
