(* ===== verification/EsxiRuntime.thy ===== *)
theory EsxiRuntime
  imports EsxiMigration RuntimePlan
begin

text \<open>
  The normal run of an ESXi source (netbox_sync/esxi_runtime.py) and what the runtime plan and the worker call of
  the ESXi provider: the review of an adoption plan (\<open>build_esxi_review\<close> of application/discovery_review.py), the
  run on the planning facade and the run on NetBox.  The printed preflight is not modelled.
\<close>

definition EsxiRuntimeError :: "string \<Rightarrow> py_exn" where
  "EsxiRuntimeError message = CodedError ''EsxiRuntimeError'' message"

section \<open>The preflight\<close>

definition managed_vm_ids :: "migration_plan \<Rightarrow> string list res" where
  "managed_vm_ids plan =
     (let selected = filter (\<lambda>item. om_classification item = Obj_MANAGED) (mp_virtual_machines plan);
          external_ids = map om_external_id selected
      in if \<not> distinct external_ids
         then Inl (EsxiRuntimeError ''ESXi runtime plan contains duplicate managed VM identities'')
         else if list_ex (\<lambda>item. length (om_candidates item) \<noteq> 1) selected
         then Inl (EsxiRuntimeError ''Managed ESXi VM must have exactly one NetBox identity match'')
         else Inr external_ids)"

text \<open>The identities seen so far, over all hosts, and the machines kept of one host.\<close>

definition select_vm :: "string list \<Rightarrow> string list \<times> discovered_vm list \<Rightarrow> discovered_vm \<Rightarrow> (string list \<times> discovered_vm list) res" where
  "select_vm managed_ids acc vm =
     res_bind (virtual_machine_source_identity vm) (\<lambda>i.
       if si_external_id i \<in> set (fst acc) then Inl (EsxiRuntimeError ''Duplicate discovered ESXi VM identity'')
       else Inr (si_external_id i # fst acc,
         if si_external_id i \<in> set managed_ids then snd acc @ [vm] else snd acc))"

definition filter_host ::
    "string \<Rightarrow> string list \<Rightarrow> string list \<times> discovered_host list \<Rightarrow> discovered_host \<Rightarrow> (string list \<times> discovered_host list) res" where
  "filter_host inst managed_ids acc host =
     (if h_source host \<noteq> ''esxi'' \<or> h_source_instance host \<noteq> inst
      then Inl (EsxiRuntimeError ''Discovered host is outside ESXi source scope'')
      else res_bind (res_fold (select_vm managed_ids) (fst acc, []) (h_virtual_machines host)) (\<lambda>(ids, selected).
        Inr (ids, snd acc @ [host\<lparr>h_virtual_machines := selected\<rparr>])))"

definition filtered_hosts :: "discovered_host list \<Rightarrow> source_config \<Rightarrow> string list \<Rightarrow> discovered_host list res" where
  "filtered_hosts hosts config managed_ids =
     res_bind (res_fold (filter_host (sc_source_instance config) managed_ids) ([], []) hosts) (\<lambda>(ids, filtered).
       if set managed_ids \<subseteq> set ids then Inr filtered
       else Inl (EsxiRuntimeError ''Managed ESXi VM is missing from discovery''))"

definition is_runtime_error :: "py_exn \<Rightarrow> bool" where
  "is_runtime_error e = (case e of CodedError cls m \<Rightarrow> cls = ''EsxiRuntimeError'' | _ \<Rightarrow> False)"

definition esxi_preflight ::
    "('s, 'r) netbox \<Rightarrow> discovered_host list \<Rightarrow> source_config \<Rightarrow> ('s, migration_plan \<times> discovered_host list) io" where
  "esxi_preflight nb hosts config =
     io_try (io_bind (build_esxi_migration_plan nb hosts config) (\<lambda>plan.
         io_lift (res_bind (managed_vm_ids plan) (\<lambda>managed_ids.
                  res_bind (filtered_hosts hosts config managed_ids) (\<lambda>filtered. Inr (plan, filtered))))))
       (\<lambda>e. if is_runtime_error e \<or> \<not> is_exception e then io_raise e
            else io_raise (EsxiRuntimeError ''ESXi runtime preflight failed''))"

section \<open>The run\<close>

definition run_esxi_stages :: "('s, 'r) netbox \<Rightarrow> discovered_host list \<Rightarrow> sync_target \<Rightarrow> bool \<Rightarrow> ('s, unit) io" where
  "run_esxi_stages nb hosts target confirmed =
     io_bind (apply_virtual_machines nb hosts target confirmed) (\<lambda>vm_counts.
     io_bind (apply_vm_networks nb hosts target confirmed) (\<lambda>net_counts.
       io_return ()))"

definition execute_esxi_runtime ::
    "('s, 'r) netbox \<Rightarrow> discovered_host list \<Rightarrow> source_config \<Rightarrow> bool \<Rightarrow> ('s, migration_plan) io" where
  "execute_esxi_runtime nb hosts config confirmed =
     (if sc_source_type config \<noteq> ''esxi'' then io_raise (EsxiRuntimeError ''ESXi runtime requires source_type=esxi'')
      else
      io_bind (esxi_preflight nb hosts config) (\<lambda>(plan, filtered).
      io_bind (run_esxi_stages nb filtered (sc_target config) False) (\<lambda>_.
        if \<not> confirmed then io_return plan
        else io_bind (run_esxi_stages nb filtered (sc_target config) True) (\<lambda>_. io_return plan))))"

section \<open>The provider\<close>

definition esxi_review_of_class :: "adoption_class \<Rightarrow> review_classification \<times> string \<times> string \<times> string" where
  "esxi_review_of_class c = (case c of
       Adopt_MANAGED \<Rightarrow> (MANAGED, ''IDENTITY_MATCH'', ''none'',
         ''Stable source identity matches an existing NetBox object.'')
     | Adopt_SAFE \<Rightarrow> (REVIEW_REQUIRED, ''SAFE_ADOPTION_CANDIDATE'', ''review'',
         ''Stable evidence exists, but Web discovery never adopts objects.'')
     | Adopt_REVIEW \<Rightarrow> (REVIEW_REQUIRED, ''LEGACY_REVIEW_REQUIRED'', ''review'',
         ''Legacy evidence requires operator review and is not adopted.'')
     | Adopt_AMBIGUOUS \<Rightarrow> (CONFLICT, ''AMBIGUOUS_LEGACY_MATCH'', ''review'',
         ''Legacy evidence is ambiguous; processing is blocked.'')
     | Adopt_UNMATCHED \<Rightarrow> (WOULD_CREATE, ''NO_IDENTITY_MATCH'', ''create'',
         ''No existing object has this stable source identity.''))"

definition esxi_review_item :: "adoption_item \<Rightarrow> review_item" where
  "esxi_review_item item =
     (case esxi_review_of_class (ad_classification item) of (classification, code, action, reason) \<Rightarrow>
       \<lparr>ri_object_kind = ad_object_kind item, ri_name = ad_source_name item,
        ri_external_id = si_external_id (ad_identity item), ri_classification = classification,
        ri_reason_code = code, ri_reason = reason, ri_future_action = action,
        ri_matched_object_id = (case ad_selected_object_id item of None \<Rightarrow> JNull | Some i \<Rightarrow> JInt i),
        ri_matched_object_name = (case find (\<lambda>e. Some (ev_object_id e) = ad_selected_object_id item) (ad_candidates item) of
          None \<Rightarrow> JNull | Some e \<Rightarrow> JStr (ev_object_name e))\<rparr>)"

definition build_esxi_review :: "adoption_plan \<Rightarrow> source_config \<Rightarrow> discovery_review" where
  "build_esxi_review plan config =
     \<lparr>rv_source_instance = sc_source_instance config, rv_source_type = sc_source_type config,
      rv_site_slug = t_site_slug (sc_target config), rv_cluster_name = t_cluster_name (sc_target config),
      rv_items = map esxi_review_item (ap_items plan)\<rparr>"

definition esxi_provider_of :: "('s, 'r) netbox \<Rightarrow> ('s, 'r) esxi_provider" where
  "esxi_provider_of nb =
     \<lparr>ep_review = (\<lambda>hosts config. io_bind (build_esxi_adoption_plan nb hosts config) (\<lambda>plan.
         io_return (build_esxi_review plan config))),
      ep_planned = (\<lambda>hosts config confirmed. io_bind (execute_esxi_runtime (planning_netbox nb) hosts config confirmed) (\<lambda>_.
         io_return ())),
      ep_run = (\<lambda>hosts config confirmed. io_bind (execute_esxi_runtime nb hosts config confirmed) (\<lambda>_. io_return ()))\<rparr>"

section \<open>Reads and writes\<close>

context netbox_reader
begin

lemma esxi_preflight_R: "preserves R (esxi_preflight nb hosts config)"
  unfolding esxi_preflight_def by (intro reader_intros migration_plan_R)

lemma esxi_stages_unconfirmed_R: "preserves R (run_esxi_stages nb hosts target False)"
  unfolding run_esxi_stages_def by (intro reader_intros vm_unconfirmed_R vm_net_unconfirmed_R)

lemma esxi_unconfirmed_R: "preserves R (execute_esxi_runtime nb hosts config False)"
  unfolding execute_esxi_runtime_def
  by (intro reader_intros esxi_preflight_R esxi_stages_unconfirmed_R) simp_all

end

definition esxi_may_create :: "string \<Rightarrow> obj \<Rightarrow> bool" where
  "esxi_may_create ep kvs \<longleftrightarrow> net_may_create ep kvs \<or> ep = ''virtualization.virtual_machines'' \<and> map fst kvs = VM_FIELDS"

definition esxi_may_update :: "obj \<Rightarrow> bool" where
  "esxi_may_update kvs \<longleftrightarrow> net_may_update kvs \<or> set (map fst kvs) \<subseteq> set VM_FIELDS"

context netbox_writer
begin

lemma esxi_run_R:
  assumes "\<And>ep kvs. esxi_may_create ep kvs \<Longrightarrow> may_create ep kvs" and "\<And>kvs. esxi_may_update kvs \<Longrightarrow> may_update kvs"
  shows "preserves R (execute_esxi_runtime nb hosts config confirmed)"
proof -
  have "preserves R (run_esxi_stages nb hosts target c)" for hosts target c
    unfolding run_esxi_stages_def
    by (intro reader_intros vm_apply_R vm_net_apply_R) (auto intro: assms simp: esxi_may_create_def esxi_may_update_def)
  then show ?thesis
    unfolding execute_esxi_runtime_def by (intro reader_intros esxi_preflight_R)
qed

end

lemma esxi_provider_reads:
  assumes "netbox_reader nb R"
  shows "esxi_reads R (esxi_provider_of nb)"
proof -
  note intros = preserves_bind preserves_return netbox_reader.R_refl [OF assms] netbox_reader.R_trans [OF assms]
  have planning: "netbox_writer (planning_netbox nb) (plan_rel R (\<lambda>_ _. True) (\<lambda>_. True)) (\<lambda>_ _. True) (\<lambda>_. True)"
    by (rule planning_writer [OF assms])
  have reader: "netbox_reader (planning_netbox nb) (plan_rel R (\<lambda>_ _. True) (\<lambda>_. True))"
    using planning by (simp add: netbox_writer_def)
  have "preserves (plan_rel R (\<lambda>_ _. True) (\<lambda>_. True)) (ep_planned (esxi_provider_of nb) hosts config True)" for hosts config
    unfolding esxi_provider_of_def esxi_provider.select_convs
    by (intro preserves_bind preserves_return netbox_writer.esxi_run_R [OF planning]
        netbox_reader.R_refl [OF reader] netbox_reader.R_trans [OF reader]) simp_all
  moreover have "preserves R (ep_review (esxi_provider_of nb) hosts config)" for hosts config
    unfolding esxi_provider_of_def esxi_provider.select_convs
    by (intro intros netbox_reader.adoption_plan_R [OF assms])
  moreover have "preserves R (ep_run (esxi_provider_of nb) hosts config False)" for hosts config
    unfolding esxi_provider_of_def esxi_provider.select_convs
    by (intro intros netbox_reader.esxi_unconfirmed_R [OF assms])
  ultimately show ?thesis by (simp add: esxi_reads_def)
qed

section \<open>Which machines a run is about\<close>

text \<open>Every machine of the discovery belongs to the source (what \<open>discover_hosts\<close> of the provider returns).\<close>

definition esxi_scoped :: "discovered_host list \<Rightarrow> source_config \<Rightarrow> bool" where
  "esxi_scoped hosts config \<longleftrightarrow> (\<forall>h \<in> set hosts. \<forall>vm \<in> set (h_virtual_machines h).
     g_source vm = ''esxi'' \<and> g_source_instance vm = sc_source_instance config)"

text \<open>The identity of the machine is on exactly one machine of NetBox, which lies in the target cluster.\<close>

definition bound_machine :: "('s, 'r) netbox \<Rightarrow> 's \<Rightarrow> int \<Rightarrow> int \<Rightarrow> discovered_vm \<Rightarrow> bool" where
  "bound_machine nb s site_id cluster_id vm \<longleftrightarrow>
     (\<exists>i records r. virtual_machine_source_identity vm = Inr i
        \<and> nb_all nb ''virtualization.virtual_machines'' s = (Inr records, s) \<and> filter (carries nb s i) records = [r]
        \<and> (\<exists>r' \<in> set records. in_adoption_target nb s ''vm'' site_id cluster_id r' \<and> nb_id nb s r' = nb_id nb s r))"

lemma select_vm_mem:
  assumes "res_fold (select_vm managed_ids) (ids0, []) vms = Inr (ids, selected)" and "vm \<in> set selected"
  shows "vm \<in> set vms \<and> (\<exists>i. virtual_machine_source_identity vm = Inr i \<and> si_external_id i \<in> set managed_ids)"
proof -
  have "\<forall>vm \<in> set (snd (ids, selected)). vm \<in> set vms
      \<and> (\<exists>i. virtual_machine_source_identity vm = Inr i \<and> si_external_id i \<in> set managed_ids)"
    by (rule res_fold_invariant [OF assms(1)]) (auto simp: select_vm_def res_bind_eq_Inr split: if_splits)
  with assms(2) show ?thesis by auto
qed

lemma filtered_hosts_mem:
  assumes "filtered_hosts hosts config managed_ids = Inr filtered" and "h \<in> set filtered" and "vm \<in> set (h_virtual_machines h)"
  shows "(\<exists>h0 \<in> set hosts. vm \<in> set (h_virtual_machines h0))
    \<and> (\<exists>i. virtual_machine_source_identity vm = Inr i \<and> si_external_id i \<in> set managed_ids)"
proof -
  obtain ids where run: "res_fold (filter_host (sc_source_instance config) managed_ids) ([], []) hosts = Inr (ids, filtered)"
    using assms(1) by (auto simp: filtered_hosts_def res_bind_eq_Inr split: if_splits)
  have "\<forall>h \<in> set (snd (ids, filtered)). \<forall>vm \<in> set (h_virtual_machines h). (\<exists>h0 \<in> set hosts. vm \<in> set (h_virtual_machines h0))
      \<and> (\<exists>i. virtual_machine_source_identity vm = Inr i \<and> si_external_id i \<in> set managed_ids)"
    by (rule res_fold_invariant [OF run])
      (auto simp: filter_host_def res_bind_eq_Inr split: if_splits prod.splits dest!: select_vm_mem)
  with assms(2,3) show ?thesis by auto
qed

lemma esxi_identity:
  assumes "esxi_scoped hosts config" and "h \<in> set hosts" and "vm \<in> set (h_virtual_machines h)"
    and "virtual_machine_source_identity vm = Inr i"
  shows "i = \<lparr>si_schema = IDENTITY_SCHEMA_V2, si_type = ''esxi'', si_instance = sc_source_instance config, si_kind = ''vm'',
      si_external_id = or_text (vm_external_id vm) (vmid_text (g_vmid vm))\<rparr>"
proof -
  have "g_source vm = ''esxi''" "g_source_instance vm = sc_source_instance config"
    using assms(1-3) by (auto simp: esxi_scoped_def)
  with assms(4) show ?thesis
    by (cases i) (auto simp: virtual_machine_source_identity_def identity_of_Inr valid_identity_def)
qed

lemma filtered_machine_bound:
  assumes reader: "netbox_reader nb (=)" and scoped: "esxi_scoped hosts config"
    and plan: "build_esxi_migration_plan nb hosts config s = (Inr plan, s)" and ids: "managed_vm_ids plan = Inr managed_ids"
    and filtered: "filtered_hosts hosts config managed_ids = Inr filtered" "h \<in> set filtered" "vm \<in> set (h_virtual_machines h)"
  shows "bound_machine nb s (mp_site_id plan) (mp_cluster_id plan) vm"
proof -
  obtain h0 i where h0: "h0 \<in> set hosts" "vm \<in> set (h_virtual_machines h0)" and i: "virtual_machine_source_identity vm = Inr i"
    and ext: "si_external_id i \<in> set managed_ids"
    using filtered_hosts_mem [OF filtered] by blast
  have "managed_ids = map om_external_id (filter (\<lambda>item. om_classification item = Obj_MANAGED) (mp_virtual_machines plan))"
    using ids by (auto simp: managed_vm_ids_def Let_def split: if_splits)
  with ext obtain om where om: "om \<in> set (mp_virtual_machines plan)" "om_classification om = Obj_MANAGED"
    "om_external_id om = si_external_id i" by auto
  have "managed_machine nb s hosts (mp_site_id plan) (mp_cluster_id plan) om"
    using migration_items_sound [OF reader plan] om(1,2) by blast
  then obtain h1 vm1 j records r where h1: "h1 \<in> set hosts" "vm1 \<in> set (h_virtual_machines h1)" "virtual_machine_source_identity vm1 = Inr j"
    and e: "om_external_id om = or_text (vm_external_id vm1) (vmid_text (g_vmid vm1))"
    and r: "nb_all nb ''virtualization.virtual_machines'' s = (Inr records, s)" "filter (carries nb s j) records = [r]"
      "map oc_object_id (om_candidates om) = [nb_id nb s r]" "\<exists>r' \<in> set records. in_adoption_target nb s ''vm'' (mp_site_id plan) (mp_cluster_id plan) r' \<and> nb_id nb s r' = nb_id nb s r"
    by (rule managed_machineE)
  have "i = j" using esxi_identity [OF scoped h0 i] esxi_identity [OF scoped h1] e om(3) by simp
  then show ?thesis unfolding bound_machine_def using i r by (intro exI conjI) simp_all
qed

lemma esxi_preflight_Inr:
  assumes reader: "netbox_reader nb (=)" and "esxi_preflight nb hosts config s = (Inr (plan, filtered), t)"
  shows "t = s \<and> build_esxi_migration_plan nb hosts config s = (Inr plan, s)
    \<and> (\<exists>managed_ids. managed_vm_ids plan = Inr managed_ids \<and> filtered_hosts hosts config managed_ids = Inr filtered)"
proof -
  have t: "t = s" using pure_read [OF netbox_reader.esxi_preflight_R [OF reader]] assms(2) by blast
  obtain u where "io_bind (build_esxi_migration_plan nb hosts config) (\<lambda>plan.
         io_lift (res_bind (managed_vm_ids plan) (\<lambda>managed_ids.
                  res_bind (filtered_hosts hosts config managed_ids) (\<lambda>filtered. Inr (plan, filtered))))) s = (Inr (plan, filtered), u)"
    using assms(2) unfolding esxi_preflight_def io_try_def io_raise_def by (auto split: prod.splits sum.splits if_splits)
  then show ?thesis
    using t pure_read [OF netbox_reader.migration_plan_R [OF reader]]
    by (auto simp: io_bind_Inr io_lift_def res_bind_eq_Inr)
qed

lemma esxi_run_parts:
  assumes reader: "netbox_reader nb (=)" and run: "execute_esxi_runtime nb hosts config confirmed s = (r, t)" and changed: "t \<noteq> s"
  obtains plan managed_ids filtered x y where "confirmed" "build_esxi_migration_plan nb hosts config s = (Inr plan, s)"
    "managed_vm_ids plan = Inr managed_ids" "filtered_hosts hosts config managed_ids = Inr filtered"
    "apply_virtual_machines nb filtered (sc_target config) False s = (Inr x, s)"
    "apply_vm_networks nb filtered (sc_target config) False s = (Inr y, s)"
    "t = snd (run_esxi_stages nb filtered (sc_target config) True s)"
proof -
  note pure = pure_read [OF netbox_reader.vm_unconfirmed_R [OF reader]] pure_read [OF netbox_reader.vm_net_unconfirmed_R [OF reader]]
  have type: "sc_source_type config = ''esxi''"
    using run changed by (auto simp: execute_esxi_runtime_def io_raise_def split: if_splits)
  obtain p u where p: "esxi_preflight nb hosts config s = (p, u)" by (cases "esxi_preflight nb hosts config s")
  have u: "u = s" using pure_read [OF netbox_reader.esxi_preflight_R [OF reader]] p by blast
  obtain plan filtered where pf: "p = Inr (plan, filtered)"
    using run changed type p u by (cases p) (auto simp: execute_esxi_runtime_def io_bind_def)
  obtain q v where q: "run_esxi_stages nb filtered (sc_target config) False s = (q, v)"
    by (cases "run_esxi_stages nb filtered (sc_target config) False s")
  have v: "v = s" using pure_read [OF netbox_reader.esxi_stages_unconfirmed_R [OF reader]] q by blast
  have c: "confirmed" and ok: "q = Inr ()"
    using run changed type p u pf q v by (cases q; auto simp: execute_esxi_runtime_def io_bind_def io_return_def split: if_splits)+
  have t: "t = snd (run_esxi_stages nb filtered (sc_target config) True s)"
    using run type p u pf q v c ok
    by (auto simp: execute_esxi_runtime_def io_bind_def io_return_def split: prod.splits sum.splits)
  obtain x y where "apply_virtual_machines nb filtered (sc_target config) False s = (Inr x, s)"
    "apply_vm_networks nb filtered (sc_target config) False s = (Inr y, s)"
    using q v ok unfolding run_esxi_stages_def io_bind_Inr pure by (auto simp: io_bind_Inr pure)
  with c t esxi_preflight_Inr [OF reader] p u pf that show thesis by blast
qed

text \<open>C7: The gate of an ESXi run.  If it leaves NetBox changed it was confirmed, every precheck of both stages passed
  on the state before the first write, and what was written is the machine stage and the network stage on the
  selected machines; each of these has its identity on exactly one machine of NetBox, in the target cluster.\<close>

theorem esxi_runtime_gate:
  assumes "netbox_reader nb (=)" and "esxi_scoped hosts config"
    and "execute_esxi_runtime nb hosts config confirmed s = (r, t)" and "t \<noteq> s"
  shows "confirmed \<and> (\<exists>plan filtered x y. build_esxi_migration_plan nb hosts config s = (Inr plan, s)
      \<and> apply_virtual_machines nb filtered (sc_target config) False s = (Inr x, s)
      \<and> apply_vm_networks nb filtered (sc_target config) False s = (Inr y, s)
      \<and> t = snd (run_esxi_stages nb filtered (sc_target config) True s)
      \<and> (\<forall>h \<in> set filtered. \<forall>vm \<in> set (h_virtual_machines h).
           bound_machine nb s (mp_site_id plan) (mp_cluster_id plan) vm))"
proof -
  obtain plan managed_ids filtered x y where c: "confirmed" and plan: "build_esxi_migration_plan nb hosts config s = (Inr plan, s)"
    and f: "managed_vm_ids plan = Inr managed_ids" "filtered_hosts hosts config managed_ids = Inr filtered"
    and stages: "apply_virtual_machines nb filtered (sc_target config) False s = (Inr x, s)"
      "apply_vm_networks nb filtered (sc_target config) False s = (Inr y, s)"
      "t = snd (run_esxi_stages nb filtered (sc_target config) True s)"
    by (rule esxi_run_parts [OF assms(1,3,4)])
  have "bound_machine nb s (mp_site_id plan) (mp_cluster_id plan) vm"
    if "h \<in> set filtered" "vm \<in> set (h_virtual_machines h)" for h vm
    by (rule filtered_machine_bound [OF assms(1,2) plan f that])
  with c plan stages show ?thesis by blast
qed

section \<open>No machine is created\<close>

context netbox_writer
begin

lemma vm_stage_updates:
  assumes precheck: "vm_precheck nb hosts config s = (Inr (cluster, contexts), u)"
    and matched: "\<forall>c \<in> set contexts. \<exists>vm r cf ch changes. c = VmMatch vm r cf ch changes"
    and may: "\<And>kvs. set (map fst kvs) \<subseteq> set VM_FIELDS \<Longrightarrow> may_update kvs"
  shows "R s (snd (apply_virtual_machines nb hosts config True s))"
proof -
  have ok: "\<forall>c \<in> set contexts. vm_context_ok c" using returnsD [OF vm_precheck_returns precheck] by simp
  have step: "preserves R (vm_write_step nb cluster counts c)" if c_mem: "c \<in> set contexts" for counts c
  proof -
    obtain vm r cf ch changes where c: "c = VmMatch vm r cf ch changes" using matched c_mem by blast
    have "set (map fst changes) \<subseteq> set VM_FIELDS" using bspec [OF ok c_mem] c by (simp add: vm_context_ok_def)
    with c show ?thesis by (auto simp: vm_write_step_def intro!: reader_intros update_R may)
  qed
  have su: "R s u" using preservesD [OF vm_precheck_R, of s hosts config] precheck by simp
  have "preserves R (io_bind (io_fold (vm_write_step nb cluster) no_counts contexts) (\<lambda>counts. io_return (Some counts)))"
    by (intro reader_intros preserves_fold_mem step)
  from transpD [OF R_trans su preservesD [OF this, of u]] show ?thesis
    using precheck by (simp add: apply_virtual_machines_def io_bind_def)
qed

end

text \<open>C18: An ESXi run never creates a machine.  Whatever a relation between states allows besides creating a machine -
  the network stage's creations, the updates of managed fields - a run, confirmed or not, stays in it: every
  machine it works on is matched with one of NetBox before the first write.\<close>

theorem esxi_creates_no_machine:
  assumes reader: "netbox_reader nb (=)" and writer: "netbox_writer nb R net_may_create esxi_may_update"
    and filtered: "\<And>ep fs rs all. fst (nb_filter nb ep fs s) = Inr rs \<Longrightarrow> fst (nb_all nb ep s) = Inr all \<Longrightarrow> set rs \<subseteq> set all"
    and run: "execute_esxi_runtime nb hosts config confirmed s = (r, t)"
  shows "R s t"
proof (cases "t = s")
  case True
  have "reflp R" using writer by (auto simp: netbox_writer_def intro: netbox_reader.R_refl)
  with True show ?thesis by (simp add: reflpD)
next
  case False
  obtain plan managed_ids kept x y where stages: "apply_virtual_machines nb kept (sc_target config) False s = (Inr x, s)"
      "apply_vm_networks nb kept (sc_target config) False s = (Inr y, s)"
    and t: "t = snd (run_esxi_stages nb kept (sc_target config) True s)"
    by (rule esxi_run_parts [OF reader run False])
  obtain cluster contexts where pre: "vm_precheck nb kept (sc_target config) s = (Inr (cluster, contexts), s)"
    and matched: "\<forall>c \<in> set contexts. \<exists>vm r cf ch changes. c = VmMatch vm r cf ch changes"
    using vm_precheck_matched [OF reader _ stages] filtered by auto
  have trans: "transp R" using writer by (auto simp: netbox_writer_def intro: netbox_reader.R_trans)
  have vm: "R s (snd (apply_virtual_machines nb kept (sc_target config) True s))"
    by (rule netbox_writer.vm_stage_updates [OF writer pre matched]) (simp add: esxi_may_update_def)
  have net: "preserves R (apply_vm_networks nb kept (sc_target config) True)"
    by (rule netbox_writer.vm_net_apply_R [OF writer]) (simp_all add: esxi_may_update_def)
  obtain a u where a: "apply_virtual_machines nb kept (sc_target config) True s = (a, u)"
    by (cases "apply_virtual_machines nb kept (sc_target config) True s")
  show ?thesis
  proof (cases a)
    case (Inl e)
    with t a vm show ?thesis by (simp add: run_esxi_stages_def io_bind_def)
  next
    case (Inr k)
    have "R u (snd (apply_vm_networks nb kept (sc_target config) True u))" by (rule preservesD [OF net])
    with vm a have "R s (snd (apply_vm_networks nb kept (sc_target config) True u))" using trans by (auto elim: transpD)
    then show ?thesis
      using t a Inr by (auto simp: run_esxi_stages_def io_bind_def io_return_def split: prod.splits sum.splits)
  qed
qed

section \<open>A sample\<close>

lemma managed_run:
  "case execute_esxi_runtime fake_netbox [managed_esxi_host] sample_esxi_config True managed_esxi_netbox of
     (Inl e, t) \<Rightarrow> False
   | (Inr plan, t) \<Rightarrow> fk_mutations t \<noteq> []"
  by code_simp

lemma managed_scoped: "esxi_scoped [managed_esxi_host] sample_esxi_config"
  by (simp add: esxi_scoped_def managed_esxi_host_def sample_esxi_host_def sample_esxi_vm_def sample_esxi_config_def)

theorem esxi_runtime_gate_witness:
  "\<exists>plan filtered t. build_esxi_migration_plan fake_netbox [managed_esxi_host] sample_esxi_config managed_esxi_netbox
       = (Inr plan, managed_esxi_netbox)
     \<and> t = snd (run_esxi_stages fake_netbox filtered (sc_target sample_esxi_config) True managed_esxi_netbox)
     \<and> t \<noteq> managed_esxi_netbox"
proof -
  from managed_run [THEN run_obtain] obtain plan t where
    run: "execute_esxi_runtime fake_netbox [managed_esxi_host] sample_esxi_config True managed_esxi_netbox = (Inr plan, t)"
    and m: "fk_mutations t \<noteq> []" by (elim exE conjE) (rule that)
  have "t \<noteq> managed_esxi_netbox" using m by (auto simp: managed_esxi_netbox_def)
  with esxi_runtime_gate [OF fake_reads.netbox_reader_axioms managed_scoped run] show ?thesis by blast
qed

theorem esxi_creates_no_machine_witness:
  "fake_log net_may_create esxi_may_update managed_esxi_netbox
     (snd (execute_esxi_runtime fake_netbox [managed_esxi_host] sample_esxi_config True managed_esxi_netbox))
   \<and> snd (execute_esxi_runtime fake_netbox [managed_esxi_host] sample_esxi_config True managed_esxi_netbox) \<noteq> managed_esxi_netbox"
proof -
  from managed_run [THEN run_obtain] obtain plan t where
    run: "execute_esxi_runtime fake_netbox [managed_esxi_host] sample_esxi_config True managed_esxi_netbox = (Inr plan, t)"
    and m: "fk_mutations t \<noteq> []" by (elim exE conjE) (rule that)
  with esxi_creates_no_machine [OF fake_reads.netbox_reader_axioms fake.netbox_writer_axioms fake_filter_all run]
  show ?thesis by (auto simp: managed_esxi_netbox_def)
qed

end
