(* ===== verification/EsxiBootstrap.thy ===== *)
theory EsxiBootstrap
  imports EsxiRuntime
begin

text \<open>
  The two operator commands after an ESXi migration preflight: creating the machines proven new
  (netbox_sync/esxi_vm_bootstrap.py) and reconciling the networks of the managed ones
  (netbox_sync/esxi_network_bootstrap.py).  Both take the plan the operator saw, plan again, and go on only
  where the two agree.
\<close>

definition EsxiNewVmBootstrapError :: "string \<Rightarrow> py_exn" where
  "EsxiNewVmBootstrapError message = CodedError ''EsxiNewVmBootstrapError'' message"

definition EsxiNetworkBootstrapError :: "string \<Rightarrow> py_exn" where
  "EsxiNetworkBootstrapError message = CodedError ''EsxiNetworkBootstrapError'' message"

definition in_source :: "source_config \<Rightarrow> string \<Rightarrow> string \<Rightarrow> bool" where
  "in_source config source inst \<longleftrightarrow> source = ''esxi'' \<and> inst = sc_source_instance config"

text \<open>The items of a plan by external id; of two with one id the later is found.\<close>

definition item_by_external_id :: "migration_plan \<Rightarrow> string \<Rightarrow> object_migration_item option" where
  "item_by_external_id plan external_id =
     dget (rev (map (\<lambda>item. (om_external_id item, item)) (mp_virtual_machines plan))) external_id"

definition same_target :: "migration_plan \<Rightarrow> migration_plan \<Rightarrow> bool" where
  "same_target plan fresh \<longleftrightarrow> mp_source_instance fresh = mp_source_instance plan
     \<and> mp_site_id fresh = mp_site_id plan \<and> mp_cluster_id fresh = mp_cluster_id plan"

definition replan ::
    "('s, 'r) netbox \<Rightarrow> py_exn \<Rightarrow> discovered_host list \<Rightarrow> source_config \<Rightarrow> ('s, migration_plan) io" where
  "replan nb err hosts config =
     io_try (build_esxi_migration_plan nb hosts config) (\<lambda>e. io_raise (if is_exception e then err else e))"

section \<open>New machines\<close>

definition discovered_vms :: "discovered_host list \<Rightarrow> source_config \<Rightarrow> discovered_vm list res" where
  "discovered_vms hosts config =
     res_bind (res_map (\<lambda>host.
       if \<not> in_source config (h_source host) (h_source_instance host)
       then Inl (EsxiNewVmBootstrapError ''Discovered host is outside ESXi source scope'')
       else if \<not> list_all (\<lambda>vm. in_source config (g_source vm) (g_source_instance vm)) (h_virtual_machines host)
       then Inl (EsxiNewVmBootstrapError ''Discovered VM is outside ESXi source scope'')
       else Inr (h_virtual_machines host)) hosts) (\<lambda>vms. Inr (concat vms))"

definition keyed_vms :: "discovered_vm list \<Rightarrow> (source_identity \<times> discovered_vm) list res" where
  "keyed_vms vms = res_map (\<lambda>vm. res_bind (virtual_machine_source_identity vm) (\<lambda>i. Inr (i, vm))) vms"

definition unique_discovered :: "discovered_vm list \<Rightarrow> (string \<times> discovered_vm) list res" where
  "unique_discovered vms =
     res_bind (keyed_vms vms) (\<lambda>keyed.
       if repeated_keys (group_by fst keyed []) \<noteq> []
       then Inl (EsxiNewVmBootstrapError ''Duplicate discovered ESXi VM identities'')
       else Inr (fold (\<lambda>(i, vm) d. dset (si_external_id i) vm d) keyed []))"

definition selected_new :: "migration_plan \<Rightarrow> object_migration_item list res" where
  "selected_new plan =
     (let selected = filter (\<lambda>item. om_classification item = Obj_NEW) (mp_virtual_machines plan)
      in if \<not> distinct (map om_external_id selected)
         then Inl (EsxiNewVmBootstrapError ''Migration plan contains duplicate NEW VM identities'')
         else if \<not> distinct (map (casefold \<circ> om_name) selected)
         then Inl (EsxiNewVmBootstrapError ''Migration plan contains duplicate NEW VM names'')
         else if list_ex (\<lambda>item. om_candidates item \<noteq> [] \<or> om_interfaces item \<noteq> []) selected
         then Inl (EsxiNewVmBootstrapError ''Invalid NEW VM migration plan item'')
         else Inr selected)"

definition validate_target :: "('s, 'r) netbox \<Rightarrow> migration_plan \<Rightarrow> migration_plan \<Rightarrow> ('s, 'r) io" where
  "validate_target nb plan fresh =
     (if \<not> same_target plan fresh
      then io_raise (EsxiNewVmBootstrapError ''ESXi migration target changed after preflight'')
      else
      io_bind (nb_get nb ''dcim.sites'' [(''id'', JInt (mp_site_id fresh))]) (\<lambda>found_site.
      io_bind (nb_get nb ''virtualization.clusters'' [(''id'', JInt (mp_cluster_id fresh))]) (\<lambda>found_cluster.
      (case (found_site, found_cluster) of
         (Some site, Some cluster) \<Rightarrow> io_read (\<lambda>s.
           if jget (nb_data nb s cluster) ''scope_type'' = JStr ''dcim.site''
              \<and> py_eq (review_object_id (jget (nb_data nb s cluster) ''scope_id'')) (JInt (nb_id nb s site))
           then Inr cluster
           else Inl (EsxiNewVmBootstrapError ''ESXi bootstrap cluster moved outside target site''))
       | _ \<Rightarrow> io_raise (EsxiNewVmBootstrapError ''ESXi bootstrap target no longer exists'')))))"

definition validate_selected ::
    "object_migration_item list \<Rightarrow> migration_plan \<Rightarrow> (string \<times> discovered_vm) list \<Rightarrow> discovered_vm list res" where
  "validate_selected selected fresh discovered_by_id =
     res_map (\<lambda>planned.
       case (item_by_external_id fresh (om_external_id planned), dget discovered_by_id (om_external_id planned)) of
         (Some current, Some vm) \<Rightarrow>
           if om_classification current \<noteq> Obj_NEW \<or> om_name current \<noteq> om_name planned \<or> om_candidates current \<noteq> []
           then Inl (EsxiNewVmBootstrapError ''NEW VM evidence is stale'') else Inr vm
       | _ \<Rightarrow> Inl (EsxiNewVmBootstrapError ''NEW VM evidence is stale'')) selected"

definition validate_target_names :: "('s, 'r) netbox \<Rightarrow> 'r \<Rightarrow> discovered_vm list \<Rightarrow> ('s, unit) io" where
  "validate_target_names nb cluster vms =
     io_bind (io_read (\<lambda>s. Inr (nb_id nb s cluster))) (\<lambda>cluster_id.
     io_bind (nb_filter nb ''virtualization.virtual_machines'' [(''cluster_id'', JInt cluster_id)]) (\<lambda>existing.
     io_read (\<lambda>s.
       res_bind (res_map (\<lambda>r. res_bind (record_text nb s r) (\<lambda>name. Inr (casefold name))) existing) (\<lambda>names.
         if list_ex (\<lambda>vm. casefold (g_original_name vm) \<in> set names) vms
         then Inl (EsxiNewVmBootstrapError ''Desired VM name already exists'') else Inr ()))))"

text \<open>The classes \<open>except (TypeError, ValueError, RuntimeError)\<close> catches.\<close>

definition is_field_error :: "py_exn \<Rightarrow> bool" where
  "is_field_error e = (case e of
       TypeError m \<Rightarrow> True | ValueError m \<Rightarrow> True | RuntimeError m \<Rightarrow> True
     | HostApplyError m \<Rightarrow> True | VMApplyError m \<Rightarrow> True | VMNetworkApplyError m \<Rightarrow> True
     | LXCApplyError m \<Rightarrow> True | LXCNetworkApplyError m \<Rightarrow> True | CodedError cls m \<Rightarrow> True | _ \<Rightarrow> False)"

definition create_fields_of :: "int \<Rightarrow> discovered_vm \<Rightarrow> (discovered_vm \<times> obj) res" where
  "create_fields_of cluster_id vm =
     (case build_vm_create_fields vm cluster_id None of
        Inl e \<Rightarrow> Inl (if is_field_error e then EsxiNewVmBootstrapError ''Invalid ESXi VM create fields'' else e)
      | Inr fields_of \<Rightarrow> Inr (vm, fields_of))"

definition ordered_vms :: "discovered_vm list \<Rightarrow> discovered_vm list res" where
  "ordered_vms vms =
     res_bind (keyed_vms vms) (\<lambda>keyed.
       Inr (map snd (sort_key (\<lambda>(i, vm). (casefold (g_original_name vm), si_external_id i)) keyed)))"

definition new_vm_preflight ::
    "('s, 'r) netbox \<Rightarrow> discovered_host list \<Rightarrow> source_config \<Rightarrow> migration_plan \<Rightarrow> ('s, (discovered_vm \<times> obj) list) io" where
  "new_vm_preflight nb hosts config plan =
     (if sc_source_type config \<noteq> ''esxi''
      then io_raise (EsxiNewVmBootstrapError ''ESXi bootstrap requires source_type=esxi'')
      else if sc_source_instance config \<noteq> mp_source_instance plan
      then io_raise (EsxiNewVmBootstrapError ''Configuration source instance does not match migration plan'')
      else
      io_bind (io_lift (res_bind (discovered_vms hosts config) unique_discovered)) (\<lambda>discovered_by_id.
      io_bind (io_lift (selected_new plan)) (\<lambda>selected.
      io_bind (replan nb (EsxiNewVmBootstrapError ''ESXi VM bootstrap preflight failed'') hosts config) (\<lambda>fresh.
      io_bind (validate_target nb plan fresh) (\<lambda>cluster.
      io_bind (io_lift (validate_selected selected fresh discovered_by_id)) (\<lambda>vms.
      io_bind (validate_target_names nb cluster vms) (\<lambda>_.
      io_bind (io_lift (ordered_vms vms)) (\<lambda>ordered.
      io_read (\<lambda>s. res_map (create_fields_of (nb_id nb s cluster)) ordered)))))))))"

text \<open>
  The creations.  A failure ends them with an error that carries the ids created so far, so the result is these
  ids and the error, if there was one.
\<close>

fun create_new_vms ::
    "('s, 'r) netbox \<Rightarrow> int list \<Rightarrow> (discovered_vm \<times> obj) list \<Rightarrow> ('s, int list \<times> py_exn option) io" where
  "create_new_vms nb created [] = io_return (created, None)"
| "create_new_vms nb created ((vm, kvs) # pending) =
     io_bind (io_attempt is_exception (nb_create nb ''virtualization.virtual_machines'' kvs)) (\<lambda>outcome.
       case outcome of
         Inl e \<Rightarrow> io_return (created, Some (EsxiNewVmBootstrapError ''ESXi VM creation failed''))
       | Inr r \<Rightarrow> io_bind (io_read (\<lambda>s. Inr (nb_id nb s r))) (\<lambda>i. create_new_vms nb (created @ [i]) pending))"

definition apply_esxi_new_vm_bootstrap ::
    "('s, 'r) netbox \<Rightarrow> discovered_host list \<Rightarrow> source_config \<Rightarrow> migration_plan \<Rightarrow> bool \<Rightarrow> ('s, int list \<times> py_exn option) io" where
  "apply_esxi_new_vm_bootstrap nb hosts config plan confirmed =
     (if \<not> confirmed then io_raise (EsxiNewVmBootstrapError ''ESXi NEW VM bootstrap requires explicit confirmation'')
      else io_bind (new_vm_preflight nb hosts config plan) (create_new_vms nb []))"

section \<open>Networks of managed machines\<close>

definition discovered_step ::
    "source_config \<Rightarrow> (string \<times> discovered_vm) list \<Rightarrow> discovered_vm \<Rightarrow> (string \<times> discovered_vm) list res" where
  "discovered_step config d vm =
     res_bind (virtual_machine_source_identity vm) (\<lambda>i.
       if si_type i \<noteq> ''esxi'' \<or> si_instance i \<noteq> sc_source_instance config \<or> dget d (si_external_id i) \<noteq> None
       then Inl (EsxiNetworkBootstrapError ''Discovered ESXi VM identity is invalid or duplicated'')
       else Inr (dset (si_external_id i) vm d))"

definition discovered_by_identity :: "discovered_host list \<Rightarrow> source_config \<Rightarrow> (string \<times> discovered_vm) list res" where
  "discovered_by_identity hosts config =
     res_fold (\<lambda>d host.
       if \<not> in_source config (h_source host) (h_source_instance host)
       then Inl (EsxiNetworkBootstrapError ''Discovered host is outside ESXi source scope'')
       else res_fold (discovered_step config) d (h_virtual_machines host)) [] hosts"

definition selected_managed :: "migration_plan \<Rightarrow> object_migration_item list res" where
  "selected_managed plan =
     (let selected = filter (\<lambda>item. om_classification item = Obj_MANAGED) (mp_virtual_machines plan)
      in if \<not> distinct (map om_external_id selected)
         then Inl (EsxiNetworkBootstrapError ''Migration plan contains duplicate managed VM identities'')
         else if list_ex (\<lambda>item. length (om_candidates item) \<noteq> 1) selected
         then Inl (EsxiNetworkBootstrapError ''Managed VM migration item must have exactly one identity match'')
         else Inr selected)"

definition same_managed_object :: "object_migration_item \<Rightarrow> object_migration_item \<Rightarrow> bool" where
  "same_managed_object planned current \<longleftrightarrow>
     om_classification current = Obj_MANAGED \<and> om_name current = om_name planned \<and> length (om_candidates current) = 1
     \<and> oc_object_id (hd (om_candidates current)) = oc_object_id (hd (om_candidates planned))"

definition validate_managed_plan ::
    "migration_plan \<Rightarrow> migration_plan \<Rightarrow> object_migration_item list \<Rightarrow> (string \<times> discovered_vm) list \<Rightarrow> string list res" where
  "validate_managed_plan plan fresh selected discovered =
     (if \<not> same_target plan fresh
      then Inl (EsxiNetworkBootstrapError ''ESXi network bootstrap target changed after preflight'')
      else res_map (\<lambda>planned.
        case item_by_external_id fresh (om_external_id planned) of
          None \<Rightarrow> Inl (EsxiNetworkBootstrapError ''MANAGED VM evidence is stale'')
        | Some current \<Rightarrow>
            if dget discovered (om_external_id planned) = None \<or> \<not> same_managed_object planned current
            then Inl (EsxiNetworkBootstrapError ''MANAGED VM evidence is stale'')
            else Inr (om_external_id planned)) selected)"

definition keep_selected :: "string list \<Rightarrow> discovered_host \<Rightarrow> discovered_host res" where
  "keep_selected selected_ids host =
     res_bind (keyed_vms (h_virtual_machines host)) (\<lambda>keyed.
       Inr (host\<lparr>h_virtual_machines := map snd (filter (\<lambda>(i, vm). si_external_id i \<in> set selected_ids) keyed)\<rparr>))"

definition network_bootstrap_preflight ::
    "('s, 'r) netbox \<Rightarrow> discovered_host list \<Rightarrow> source_config \<Rightarrow> migration_plan \<Rightarrow> bool \<Rightarrow> ('s, discovered_host list) io" where
  "network_bootstrap_preflight nb hosts config plan confirmed =
     (if \<not> confirmed
      then io_raise (EsxiNetworkBootstrapError ''ESXi network bootstrap requires explicit confirmation'')
      else if sc_source_type config \<noteq> ''esxi''
      then io_raise (EsxiNetworkBootstrapError ''ESXi network bootstrap requires source_type=esxi'')
      else if sc_source_instance config \<noteq> mp_source_instance plan
      then io_raise (EsxiNetworkBootstrapError ''Configuration source instance does not match migration plan'')
      else
      io_bind (io_lift (discovered_by_identity hosts config)) (\<lambda>discovered.
      io_bind (io_lift (selected_managed plan)) (\<lambda>selected.
      io_bind (replan nb (EsxiNetworkBootstrapError ''ESXi network bootstrap preflight failed'') hosts config) (\<lambda>fresh.
      io_lift (res_bind (validate_managed_plan plan fresh selected discovered) (\<lambda>selected_ids.
        res_map (keep_selected selected_ids) hosts))))))"

definition apply_esxi_managed_vm_network_bootstrap ::
    "('s, 'r) netbox \<Rightarrow> discovered_host list \<Rightarrow> source_config \<Rightarrow> migration_plan \<Rightarrow> bool \<Rightarrow> ('s, net_counts option) io" where
  "apply_esxi_managed_vm_network_bootstrap nb hosts config plan confirmed =
     io_bind (network_bootstrap_preflight nb hosts config plan confirmed) (\<lambda>filtered.
       apply_vm_networks nb filtered (sc_target config) True)"

section \<open>Reads\<close>

context netbox_reader
begin

lemma validate_target_R: "preserves R (validate_target nb plan fresh)"
  unfolding validate_target_def by (intro reader_intros)

lemma validate_names_R: "preserves R (validate_target_names nb cluster vms)"
  unfolding validate_target_names_def by (intro reader_intros)

lemma replan_R: "preserves R (replan nb err hosts config)"
  unfolding replan_def by (intro reader_intros migration_plan_R)

lemma new_vm_preflight_R: "preserves R (new_vm_preflight nb hosts config plan)"
  unfolding new_vm_preflight_def by (intro reader_intros validate_target_R validate_names_R replan_R)

lemma network_bootstrap_preflight_R: "preserves R (network_bootstrap_preflight nb hosts config plan confirmed)"
  unfolding network_bootstrap_preflight_def by (intro reader_intros replan_R)

end

section \<open>What the checks of the new machines establish\<close>

lemma discovered_vms_Inr:
  assumes "discovered_vms hosts config = Inr vms"
  shows "esxi_scoped hosts config \<and> (\<forall>vm \<in> set vms. \<exists>h \<in> set hosts. vm \<in> set (h_virtual_machines h))"
proof -
  define scoped_vms where "scoped_vms = (\<lambda>host :: discovered_host. if \<not> in_source config (h_source host) (h_source_instance host)
       then Inl (EsxiNewVmBootstrapError ''Discovered host is outside ESXi source scope'')
       else if \<not> list_all (\<lambda>vm. in_source config (g_source vm) (g_source_instance vm)) (h_virtual_machines host)
       then Inl (EsxiNewVmBootstrapError ''Discovered VM is outside ESXi source scope'')
       else Inr (h_virtual_machines host))"
  obtain vmss where run: "res_map scoped_vms hosts = Inr vmss" and vms: "vms = concat vmss"
    using assms by (auto simp: discovered_vms_def res_bind_eq_Inr scoped_vms_def)
  have "\<exists>xs. scoped_vms h = Inr xs" if "h \<in> set hosts" for h using res_map_mem_fst [OF run that] by blast
  moreover have "\<exists>h \<in> set hosts. scoped_vms h = Inr xs" if "xs \<in> set vmss" for xs using res_map_mem [OF run that] .
  ultimately show ?thesis
    by (fastforce simp: vms scoped_vms_def esxi_scoped_def in_source_def list_all_iff split: if_splits)
qed

lemma keyed_vms_Inr:
  assumes "keyed_vms vms = Inr keyed"
  shows "map snd keyed = vms \<and> (\<forall>(i, vm) \<in> set keyed. virtual_machine_source_identity vm = Inr i)"
proof -
  have "list_all2 (\<lambda>vm p. virtual_machine_source_identity vm = Inr (fst p) \<and> snd p = vm) vms keyed"
    using assms unfolding keyed_vms_def res_map_eq_Inr
    by (rule list_all2_mono) (auto simp: res_bind_eq_Inr)
  then show ?thesis by (induction rule: list_all2_induct) auto
qed

lemma identity_index:
  "dget (fold (\<lambda>(i, vm) d. dset (si_external_id i) vm d) keyed d) k = Some vm \<Longrightarrow>
     dget d k = Some vm \<or> (\<exists>i. (i, vm) \<in> set keyed \<and> si_external_id i = k)"
  by (induction keyed arbitrary: d) (fastforce split: if_splits)+

lemma unique_discovered_Inr:
  assumes "unique_discovered vms = Inr d" and "dget d k = Some vm"
  shows "vm \<in> set vms \<and> (\<exists>i. virtual_machine_source_identity vm = Inr i \<and> si_external_id i = k)"
proof -
  obtain keyed where keyed: "keyed_vms vms = Inr keyed" and d: "d = fold (\<lambda>(i, vm) d. dset (si_external_id i) vm d) keyed []"
    using assms(1) by (auto simp: unique_discovered_def res_bind_eq_Inr split: if_splits)
  obtain i where "(i, vm) \<in> set keyed" "si_external_id i = k" using identity_index assms(2) d by fastforce
  with keyed_vms_Inr [OF keyed] show ?thesis by (metis (mono_tags, lifting) case_prodD image_eqI list.set_map snd_conv)
qed

lemma item_by_external_id_Some:
  "item_by_external_id plan k = Some om \<Longrightarrow> om \<in> set (mp_virtual_machines plan) \<and> om_external_id om = k"
  by (auto simp: item_by_external_id_def dest!: dget_Some_mem)

text \<open>A planned machine and what is discovered of it, still new in the fresh plan.\<close>

definition still_new :: "migration_plan \<Rightarrow> (string \<times> discovered_vm) list \<Rightarrow> object_migration_item \<Rightarrow> discovered_vm \<Rightarrow> bool" where
  "still_new fresh d planned vm \<longleftrightarrow> dget d (om_external_id planned) = Some vm
     \<and> (\<exists>om \<in> set (mp_virtual_machines fresh). om_external_id om = om_external_id planned
          \<and> om_classification om = Obj_NEW \<and> om_name om = om_name planned)"

lemma validate_selected_Inr:
  assumes "validate_selected selected fresh d = Inr vms"
  shows "list_all2 (still_new fresh d) selected vms"
  using assms unfolding validate_selected_def res_map_eq_Inr
  by (rule list_all2_mono) (auto simp: still_new_def split: option.splits if_splits dest!: item_by_external_id_Some)

lemma still_new_identities:
  assumes "list_all2 (still_new fresh d) selected vms" and "unique_discovered all = Inr d"
    and "distinct (map om_external_id selected)"
  shows "distinct (map virtual_machine_source_identity vms)"
proof -
  have ext: "list_all2 (\<lambda>planned vm. \<exists>i. virtual_machine_source_identity vm = Inr i \<and> si_external_id i = om_external_id planned)
      selected vms"
    by (rule list_all2_mono [OF assms(1)]) (use unique_discovered_Inr [OF assms(2)] in \<open>auto simp: still_new_def\<close>)
  have "map om_external_id selected
      = map (\<lambda>vm. case virtual_machine_source_identity vm of Inl e \<Rightarrow> [] | Inr i \<Rightarrow> si_external_id i) vms"
    using ext by (induction rule: list_all2_induct) auto
  then have "map om_external_id selected
      = map (\<lambda>r. case r of Inl e \<Rightarrow> [] | Inr i \<Rightarrow> si_external_id i) (map virtual_machine_source_identity vms)"
    by (simp add: comp_def)
  then show ?thesis using assms(3) by (auto simp: distinct_map intro: inj_on_imageI2 simp del: o_apply)
qed

lemma ordered_vms_Inr:
  assumes "ordered_vms vms = Inr ordered"
  shows "mset ordered = mset vms"
proof -
  obtain keyed where k: "keyed_vms vms = Inr keyed"
    and o: "ordered = map snd (sort_key (\<lambda>(i, vm). (casefold (g_original_name vm), si_external_id i)) keyed)"
    using assms by (auto simp: ordered_vms_def res_bind_eq_Inr)
  have "mset ordered = mset (map snd keyed)" by (simp add: o)
  with keyed_vms_Inr [OF k] show ?thesis by simp
qed

text \<open>A machine about to be created: its identity is on no machine of NetBox, no machine of the target cluster has its
  name, and the operator saw it as new.\<close>

definition creatable :: "('s, 'r) netbox \<Rightarrow> 's \<Rightarrow> migration_plan \<Rightarrow> 'r \<Rightarrow> discovered_vm \<Rightarrow> bool" where
  "creatable nb s plan cluster vm \<longleftrightarrow>
     (\<exists>i records existing. virtual_machine_source_identity vm = Inr i
        \<and> nb_all nb ''virtualization.virtual_machines'' s = (Inr records, s) \<and> filter (carries nb s i) records = []
        \<and> nb_filter nb ''virtualization.virtual_machines'' [(''cluster_id'', JInt (nb_id nb s cluster))] s = (Inr existing, s)
        \<and> (\<forall>r \<in> set existing. \<forall>name. record_text nb s r = Inr name \<longrightarrow> casefold name \<noteq> casefold (g_original_name vm))
        \<and> (\<exists>planned \<in> set (mp_virtual_machines plan). om_external_id planned = si_external_id i
             \<and> om_classification planned = Obj_NEW))"

lemma replan_Inr: "replan nb err hosts config s = (Inr plan, t) \<longleftrightarrow> build_esxi_migration_plan nb hosts config s = (Inr plan, t)"
  by (auto simp: replan_def io_try_def io_raise_def split: prod.splits sum.splits)

lemma validate_target_Inr:
  assumes reader: "netbox_reader nb (=)" and "validate_target nb plan fresh s = (Inr cluster, t)"
  shows "same_target plan fresh \<and> nb_get nb ''virtualization.clusters'' [(''id'', JInt (mp_cluster_id fresh))] s = (Inr (Some cluster), s)"
  using assms(2) unfolding validate_target_def
  by (auto simp: io_bind_Inr io_raise_def io_read_def pure_read [OF netbox_reader.get_R [OF reader]] split: if_splits option.splits)

lemma validate_names_Inr:
  assumes reader: "netbox_reader nb (=)" and "validate_target_names nb cluster vms s = (Inr u, t)"
  shows "\<exists>existing. nb_filter nb ''virtualization.virtual_machines'' [(''cluster_id'', JInt (nb_id nb s cluster))] s = (Inr existing, s)
    \<and> (\<forall>vm \<in> set vms. \<forall>r \<in> set existing. \<forall>name. record_text nb s r = Inr name \<longrightarrow> casefold name \<noteq> casefold (g_original_name vm))"
proof -
  obtain existing names where e: "nb_filter nb ''virtualization.virtual_machines'' [(''cluster_id'', JInt (nb_id nb s cluster))] s
      = (Inr existing, s)"
    and n: "res_map (\<lambda>r. res_bind (record_text nb s r) (\<lambda>name. Inr (casefold name))) existing = Inr names"
    and free: "\<not> list_ex (\<lambda>vm. casefold (g_original_name vm) \<in> set names) vms"
    using assms(2) unfolding validate_target_names_def
    by (auto simp: io_bind_Inr io_read_def res_bind_eq_Inr pure_read [OF netbox_reader.filter_R [OF reader]] split: if_splits)
  have "casefold name \<in> set names" if "r \<in> set existing" "record_text nb s r = Inr name" for r name
    using res_map_mem_fst [OF n that(1)] that(2) by auto
  with e free show ?thesis by (force simp: list_ex_iff)
qed

section \<open>New machines: the gate\<close>

lemma new_vm_preflight_parts:
  assumes reader: "netbox_reader nb (=)" and "new_vm_preflight nb hosts config plan s = (Inr pending, t)"
  obtains all d selected fresh cluster vms ordered where "t = s" "sc_source_instance config = mp_source_instance plan"
    "discovered_vms hosts config = Inr all" "unique_discovered all = Inr d" "selected_new plan = Inr selected"
    "build_esxi_migration_plan nb hosts config s = (Inr fresh, s)" "validate_target nb plan fresh s = (Inr cluster, s)"
    "validate_selected selected fresh d = Inr vms" "validate_target_names nb cluster vms s = (Inr (), s)"
    "ordered_vms vms = Inr ordered" "res_map (create_fields_of (nb_id nb s cluster)) ordered = Inr pending"
proof -
  note pure = pure_read [OF netbox_reader.migration_plan_R [OF reader]] pure_read [OF netbox_reader.validate_target_R [OF reader]]
    pure_read [OF netbox_reader.validate_names_R [OF reader]]
  show thesis
    using assms(2) that unfolding new_vm_preflight_def
    by (auto simp: io_bind_Inr io_lift_def io_read_def io_raise_def replan_Inr res_bind_eq_Inr pure split: if_splits)
qed

lemma selected_new_Inr:
  "selected_new plan = Inr selected \<Longrightarrow> distinct (map om_external_id selected)
     \<and> (\<forall>planned \<in> set selected. planned \<in> set (mp_virtual_machines plan) \<and> om_classification planned = Obj_NEW)"
  by (auto simp: selected_new_def Let_def split: if_splits)

lemma selected_creatable:
  assumes reader: "netbox_reader nb (=)" and scoped: "esxi_scoped hosts config"
    and all: "\<forall>vm \<in> set all. \<exists>h \<in> set hosts. vm \<in> set (h_virtual_machines h)"
    and d: "unique_discovered all = Inr d" and selected: "selected_new plan = Inr selected"
    and fresh: "build_esxi_migration_plan nb hosts config s = (Inr fresh, s)"
    and vms: "validate_selected selected fresh d = Inr vms" and names: "validate_target_names nb cluster vms s = (Inr (), s)"
    and vm: "vm \<in> set vms"
  shows "creatable nb s plan cluster vm"
proof -
  obtain planned where p: "planned \<in> set selected" and sn: "still_new fresh d planned vm"
    using list_all2_mem2 [OF validate_selected_Inr [OF vms] vm] by blast
  then obtain om where om: "om \<in> set (mp_virtual_machines fresh)" "om_external_id om = om_external_id planned"
    "om_classification om = Obj_NEW" and dg: "dget d (om_external_id planned) = Some vm" by (auto simp: still_new_def)
  obtain i where i: "virtual_machine_source_identity vm = Inr i" "si_external_id i = om_external_id planned" and "vm \<in> set all"
    using unique_discovered_Inr [OF d dg] by blast
  with all obtain h where h: "h \<in> set hosts" "vm \<in> set (h_virtual_machines h)" by blast
  have "new_machine nb s hosts om" using migration_items_sound [OF reader fresh] om(1,3) by blast
  then obtain h1 vm1 j records where h1: "h1 \<in> set hosts" "vm1 \<in> set (h_virtual_machines h1)" "virtual_machine_source_identity vm1 = Inr j"
    and e: "om_external_id om = or_text (vm_external_id vm1) (vmid_text (g_vmid vm1))"
    and r: "nb_all nb ''virtualization.virtual_machines'' s = (Inr records, s)" "filter (carries nb s j) records = []"
    unfolding new_machine_def by (elim bexE exE conjE) (rule that)
  have "i = j" using esxi_identity [OF scoped h i(1)] esxi_identity [OF scoped h1] e om(2) i(2) by simp
  then have "filter (carries nb s i) records = []" using r by simp
  moreover obtain existing where
    "nb_filter nb ''virtualization.virtual_machines'' [(''cluster_id'', JInt (nb_id nb s cluster))] s = (Inr existing, s)"
    "\<forall>r \<in> set existing. \<forall>name. record_text nb s r = Inr name \<longrightarrow> casefold name \<noteq> casefold (g_original_name vm)"
    using validate_names_Inr [OF reader names] vm by blast
  moreover have "planned \<in> set (mp_virtual_machines plan)" "om_classification planned = Obj_NEW" "om_external_id planned = si_external_id i"
    using selected_new_Inr [OF selected] p i(2) by auto
  ultimately show ?thesis
    unfolding creatable_def using i(1) r(1)
    by (intro exI [of _ i] exI [of _ records] exI [of _ existing] conjI bexI [of _ planned]) assumption+
qed

lemma create_fields_pending:
  assumes "res_map (create_fields_of cluster_id) ordered = Inr pending"
  shows "map fst pending = ordered \<and> (\<forall>(vm, kvs) \<in> set pending. build_vm_create_fields vm cluster_id None = Inr kvs)"
proof -
  have "list_all2 (\<lambda>vm p. fst p = vm \<and> build_vm_create_fields vm cluster_id None = Inr (snd p)) ordered pending"
    using assms unfolding res_map_eq_Inr
    by (rule list_all2_mono) (auto simp: create_fields_of_def split: sum.splits)
  then show ?thesis by (induction rule: list_all2_induct) auto
qed

lemma new_vm_preflight_sound:
  assumes reader: "netbox_reader nb (=)" and run: "new_vm_preflight nb hosts config plan s = (Inr pending, t)"
  shows "t = s \<and> (\<exists>cluster. nb_get nb ''virtualization.clusters'' [(''id'', JInt (mp_cluster_id plan))] s = (Inr (Some cluster), s)
    \<and> distinct (map (virtual_machine_source_identity \<circ> fst) pending)
    \<and> (\<forall>(vm, kvs) \<in> set pending. creatable nb s plan cluster vm
          \<and> build_vm_create_fields vm (nb_id nb s cluster) None = Inr kvs))"
proof -
  obtain all d selected fresh cluster vms ordered where t: "t = s"
    and all: "discovered_vms hosts config = Inr all" and d: "unique_discovered all = Inr d"
    and selected: "selected_new plan = Inr selected" and fresh: "build_esxi_migration_plan nb hosts config s = (Inr fresh, s)"
    and target: "validate_target nb plan fresh s = (Inr cluster, s)" and vms: "validate_selected selected fresh d = Inr vms"
    and names: "validate_target_names nb cluster vms s = (Inr (), s)" and o: "ordered_vms vms = Inr ordered"
    and pending: "res_map (create_fields_of (nb_id nb s cluster)) ordered = Inr pending"
    by (rule new_vm_preflight_parts [OF reader run])
  note p = create_fields_pending [OF pending]
  have ids: "distinct (map virtual_machine_source_identity vms)"
    by (rule still_new_identities [OF validate_selected_Inr [OF vms] d]) (use selected_new_Inr [OF selected] in blast)
  have "mset (map virtual_machine_source_identity ordered) = mset (map virtual_machine_source_identity vms)"
    using ordered_vms_Inr [OF o] by simp
  then have "distinct (map virtual_machine_source_identity (map fst pending))"
    using ids p mset_eq_imp_distinct_iff by metis
  then have distinct: "distinct (map (virtual_machine_source_identity \<circ> fst) pending)" by simp
  have "creatable nb s plan cluster vm" if mem: "(vm, kvs) \<in> set pending" for vm kvs
  proof (rule selected_creatable [OF reader _ _ d selected fresh vms names])
    have "vm \<in> set ordered" using p mem by force
    then show "vm \<in> set vms" using ordered_vms_Inr [OF o] mset_eq_setD by blast
  qed (use discovered_vms_Inr [OF all] in blast)+
  with t p distinct validate_target_Inr [OF reader target] show ?thesis
    by (intro conjI exI [of _ cluster]) (auto simp: same_target_def)
qed

lemma create_new_vms_result:
  "create_new_vms nb created pending s = (Inr (ids, err), t) \<Longrightarrow>
     \<exists>done. ids = created @ done \<and> length done \<le> length pending \<and> (err = None \<longleftrightarrow> length done = length pending)"
proof (induction pending arbitrary: created s)
  case (Cons p pending)
  obtain vm kvs where p: "p = (vm, kvs)" by (cases p)
  obtain outcome w where rest: "(case outcome of
         Inl (e :: py_exn) \<Rightarrow> io_return (created, Some (EsxiNewVmBootstrapError ''ESXi VM creation failed''))
       | Inr r \<Rightarrow> io_bind (io_read (\<lambda>s. Inr (nb_id nb s r))) (\<lambda>i. create_new_vms nb (created @ [i]) pending)) w = (Inr (ids, err), t)"
    using Cons.prems unfolding p create_new_vms.simps io_bind_Inr by (elim exE conjE) (rule that)
  show ?case
  proof (cases outcome)
    case (Inl e)
    with rest show ?thesis by (auto simp: io_return_def)
  next
    case (Inr r)
    with rest have "create_new_vms nb (created @ [nb_id nb w r]) pending w = (Inr (ids, err), t)"
      by (simp add: io_bind_Inr io_read_def)
    from Cons.IH [OF this] obtain more where "ids = created @ (nb_id nb w r # more)" "length more \<le> length pending"
      "err = None \<longleftrightarrow> length more = length pending" by auto
    then show ?thesis by (intro exI [of _ "nb_id nb w r # more"]) simp
  qed
qed (simp add: io_return_def)

text \<open>C15: The gate of the creation of new machines.  If it leaves NetBox changed it was confirmed and what was done is the
  creations, in order, of machines the operator saw as new; before the first write each of them carried an identity
  no machine of NetBox carries, no two the same, and a name no machine of the target cluster has.  The ids returned
  are as many as the machines exactly if no error is reported with them.\<close>

theorem new_vm_bootstrap_gate:
  assumes "netbox_reader nb (=)" and "apply_esxi_new_vm_bootstrap nb hosts config plan confirmed s = (r, t)" and "t \<noteq> s"
  shows "confirmed \<and> (\<exists>pending cluster. t = snd (create_new_vms nb [] pending s)
      \<and> nb_get nb ''virtualization.clusters'' [(''id'', JInt (mp_cluster_id plan))] s = (Inr (Some cluster), s)
      \<and> distinct (map (virtual_machine_source_identity \<circ> fst) pending)
      \<and> (\<forall>(vm, kvs) \<in> set pending. creatable nb s plan cluster vm \<and> build_vm_create_fields vm (nb_id nb s cluster) None = Inr kvs)
      \<and> (\<forall>ids err. r = Inr (ids, err) \<longrightarrow> length ids \<le> length pending \<and> (err = None \<longleftrightarrow> length ids = length pending)))"
proof -
  have c: "confirmed" using assms(2,3) by (auto simp: apply_esxi_new_vm_bootstrap_def io_raise_def split: if_splits)
  obtain p u where p: "new_vm_preflight nb hosts config plan s = (p, u)" by (cases "new_vm_preflight nb hosts config plan s")
  have u: "u = s" using pure_read [OF netbox_reader.new_vm_preflight_R [OF assms(1)]] p by blast
  obtain pending where pending: "p = Inr pending" and run: "create_new_vms nb [] pending s = (r, t)"
    using assms(2,3) c p u by (cases p) (auto simp: apply_esxi_new_vm_bootstrap_def io_bind_def)
  have "length ids \<le> length pending \<and> (err = None \<longleftrightarrow> length ids = length pending)" if r: "r = Inr (ids, err)" for ids err
    using create_new_vms_result [of nb "[]" pending s ids err t] run r by auto
  moreover obtain cluster where
      "nb_get nb ''virtualization.clusters'' [(''id'', JInt (mp_cluster_id plan))] s = (Inr (Some cluster), s)"
      "distinct (map (virtual_machine_source_identity \<circ> fst) pending)"
      "\<forall>(vm, kvs) \<in> set pending. creatable nb s plan cluster vm \<and> build_vm_create_fields vm (nb_id nb s cluster) None = Inr kvs"
    using new_vm_preflight_sound [OF assms(1) p [unfolded pending]] by (elim exE conjE) (rule that)
  ultimately show ?thesis using c run by (intro conjI exI [of _ pending] exI [of _ cluster]) simp_all
qed

section \<open>Networks of managed machines: the gate\<close>

lemma discovered_by_identity_scoped:
  assumes "discovered_by_identity hosts config = Inr d"
  shows "esxi_scoped hosts config"
proof -
  have step: "si_type i = ''esxi'' \<and> si_instance i = sc_source_instance config"
    if "virtual_machine_source_identity vm = Inr i" "discovered_step config d vm = Inr d'" for d d' vm i
    using that by (auto simp: discovered_step_def split: if_splits)
  have vms: "\<forall>vm \<in> set vms. g_source vm = ''esxi'' \<and> g_source_instance vm = sc_source_instance config"
    if "res_fold (discovered_step config) d vms = Inr d'" for d d' vms
    using that
  proof (induction vms arbitrary: d)
    case (Cons vm vms)
    then obtain e where e: "discovered_step config d vm = Inr e" "res_fold (discovered_step config) e vms = Inr d'"
      by (auto simp: res_bind_eq_Inr)
    then obtain i where i: "virtual_machine_source_identity vm = Inr i" by (auto simp: discovered_step_def res_bind_eq_Inr)
    with step [OF i e(1)] virtual_machine_source_identity_valid [OF i] Cons.IH [OF e(2)] show ?case by auto
  qed simp
  have "\<forall>h \<in> set hosts. \<forall>vm \<in> set (h_virtual_machines h). g_source vm = ''esxi'' \<and> g_source_instance vm = sc_source_instance config"
    if "res_fold (\<lambda>d host. if \<not> in_source config (h_source host) (h_source_instance host)
         then Inl (EsxiNetworkBootstrapError ''Discovered host is outside ESXi source scope'')
         else res_fold (discovered_step config) d (h_virtual_machines host)) d0 hosts = Inr d" for d0
    using that
  proof (induction hosts arbitrary: d0)
    case (Cons h hosts)
    then obtain e where "res_fold (discovered_step config) d0 (h_virtual_machines h) = Inr e"
      and rest: "res_fold (\<lambda>d host. if \<not> in_source config (h_source host) (h_source_instance host)
         then Inl (EsxiNetworkBootstrapError ''Discovered host is outside ESXi source scope'')
         else res_fold (discovered_step config) d (h_virtual_machines host)) e hosts = Inr d"
      by (auto simp: res_bind_eq_Inr split: if_splits)
    with vms Cons.IH [OF rest] show ?case by auto
  qed simp
  then show ?thesis using assms by (simp add: discovered_by_identity_def esxi_scoped_def)
qed

text \<open>A machine whose network is reconciled: bound to one machine of NetBox, the one the operator's plan named.\<close>

definition reconciled :: "('s, 'r) netbox \<Rightarrow> 's \<Rightarrow> migration_plan \<Rightarrow> discovered_vm \<Rightarrow> bool" where
  "reconciled nb s plan vm \<longleftrightarrow>
     (\<exists>i planned c records r. virtual_machine_source_identity vm = Inr i
        \<and> planned \<in> set (mp_virtual_machines plan) \<and> om_classification planned = Obj_MANAGED
        \<and> om_external_id planned = si_external_id i \<and> om_candidates planned = [c]
        \<and> nb_all nb ''virtualization.virtual_machines'' s = (Inr records, s) \<and> filter (carries nb s i) records = [r]
        \<and> nb_id nb s r = oc_object_id c
        \<and> (\<exists>r' \<in> set records. in_adoption_target nb s ''vm'' (mp_site_id plan) (mp_cluster_id plan) r' \<and> nb_id nb s r' = nb_id nb s r))"

lemma kept_machine:
  assumes "res_map (keep_selected ids) hosts = Inr kept" and "h \<in> set kept" and "vm \<in> set (h_virtual_machines h)"
  shows "\<exists>h0 \<in> set hosts. vm \<in> set (h_virtual_machines h0)
    \<and> (\<exists>i. virtual_machine_source_identity vm = Inr i \<and> si_external_id i \<in> set ids)"
proof -
  obtain h0 where h0: "h0 \<in> set hosts" "keep_selected ids h0 = Inr h" using res_map_mem [OF assms(1,2)] by blast
  obtain keyed where k: "keyed_vms (h_virtual_machines h0) = Inr keyed"
    and h: "h = h0\<lparr>h_virtual_machines := map snd (filter (\<lambda>(i, vm). si_external_id i \<in> set ids) keyed)\<rparr>"
    using h0(2) by (auto simp: keep_selected_def res_bind_eq_Inr)
  obtain i where i: "(i, vm) \<in> set keyed" "si_external_id i \<in> set ids" using assms(3) by (auto simp: h)
  have "vm \<in> set (map snd keyed)" using i(1) by force
  with keyed_vms_Inr [OF k] i h0(1) show ?thesis by fastforce
qed

lemma network_preflight_parts:
  assumes reader: "netbox_reader nb (=)" and "network_bootstrap_preflight nb hosts config plan confirmed s = (Inr kept, t)"
  obtains d selected fresh ids where "confirmed" "discovered_by_identity hosts config = Inr d"
    "selected_managed plan = Inr selected" "build_esxi_migration_plan nb hosts config s = (Inr fresh, s)"
    "validate_managed_plan plan fresh selected d = Inr ids" "res_map (keep_selected ids) hosts = Inr kept"
proof -
  note pure = pure_read [OF netbox_reader.migration_plan_R [OF reader]]
  show thesis
    using assms(2) that unfolding network_bootstrap_preflight_def
    by (auto simp: io_bind_Inr io_lift_def io_raise_def replan_Inr res_bind_eq_Inr pure split: if_splits)
qed

lemma managed_plan_item:
  assumes "selected_managed plan = Inr selected" and "validate_managed_plan plan fresh selected d = Inr ids" and "k \<in> set ids"
  shows "same_target plan fresh \<and> (\<exists>planned \<in> set (mp_virtual_machines plan). \<exists>om \<in> set (mp_virtual_machines fresh). \<exists>c.
      om_classification planned = Obj_MANAGED \<and> om_external_id planned = k \<and> om_candidates planned = [c]
      \<and> om_external_id om = k \<and> om_classification om = Obj_MANAGED \<and> map oc_object_id (om_candidates om) = [oc_object_id c])"
proof -
  obtain planned where p: "planned \<in> set selected" "k = om_external_id planned"
    and cur: "\<exists>om. item_by_external_id fresh k = Some om \<and> same_managed_object planned om" and st: "same_target plan fresh"
    using assms(2,3) by (auto simp: validate_managed_plan_def split: if_splits option.splits dest!: res_map_mem)
  obtain om where om: "om \<in> set (mp_virtual_machines fresh)" "om_external_id om = k" "same_managed_object planned om"
    using cur item_by_external_id_Some by blast
  have pl: "planned \<in> set (mp_virtual_machines plan)" "om_classification planned = Obj_MANAGED" "length (om_candidates planned) = 1"
    using assms(1) p(1) by (auto simp: selected_managed_def Let_def list_ex_iff split: if_splits)
  obtain c where c: "om_candidates planned = [c]" using pl(3) by (auto simp: length_Suc_conv)
  have "map oc_object_id (om_candidates om) = [oc_object_id c]" "om_classification om = Obj_MANAGED"
    using om(3) c by (auto simp: same_managed_object_def length_Suc_conv)
  with st pl p om c show ?thesis
    by (intro conjI bexI [of _ planned] bexI [of _ om] exI [of _ c]) simp_all
qed

lemma kept_reconciled:
  assumes reader: "netbox_reader nb (=)" and run: "network_bootstrap_preflight nb hosts config plan confirmed s = (Inr kept, t)"
    and vm: "h \<in> set kept" "vm \<in> set (h_virtual_machines h)"
  shows "reconciled nb s plan vm"
proof -
  obtain d selected fresh ids where d: "discovered_by_identity hosts config = Inr d"
    and selected: "selected_managed plan = Inr selected" and fresh: "build_esxi_migration_plan nb hosts config s = (Inr fresh, s)"
    and ids: "validate_managed_plan plan fresh selected d = Inr ids" and kept: "res_map (keep_selected ids) hosts = Inr kept"
    by (rule network_preflight_parts [OF reader run])
  note scoped = discovered_by_identity_scoped [OF d]
  obtain h0 i where h0: "h0 \<in> set hosts" "vm \<in> set (h_virtual_machines h0)" and i: "virtual_machine_source_identity vm = Inr i"
    "si_external_id i \<in> set ids"
    using kept_machine [OF kept vm] by blast
  obtain planned om c where st: "same_target plan fresh" and pl: "planned \<in> set (mp_virtual_machines plan)"
      "om_classification planned = Obj_MANAGED" "om_external_id planned = si_external_id i" "om_candidates planned = [c]"
    and om: "om \<in> set (mp_virtual_machines fresh)" "om_external_id om = si_external_id i" "om_classification om = Obj_MANAGED"
      "map oc_object_id (om_candidates om) = [oc_object_id c]"
    using managed_plan_item [OF selected ids i(2)] by (elim bexE exE conjE) (rule that)
  have "managed_machine nb s hosts (mp_site_id fresh) (mp_cluster_id fresh) om"
    using migration_items_sound [OF reader fresh] om(1,3) by blast
  then obtain h1 vm1 j records r where h1: "h1 \<in> set hosts" "vm1 \<in> set (h_virtual_machines h1)" "virtual_machine_source_identity vm1 = Inr j"
    and e: "om_external_id om = or_text (vm_external_id vm1) (vmid_text (g_vmid vm1))"
    and r: "nb_all nb ''virtualization.virtual_machines'' s = (Inr records, s)" "filter (carries nb s j) records = [r]"
      "map oc_object_id (om_candidates om) = [nb_id nb s r]"
      "\<exists>r' \<in> set records. in_adoption_target nb s ''vm'' (mp_site_id fresh) (mp_cluster_id fresh) r' \<and> nb_id nb s r' = nb_id nb s r"
    by (rule managed_machineE)
  have "i = j" using esxi_identity [OF scoped h0 i(1)] esxi_identity [OF scoped h1] e om(2) by simp
  then have "filter (carries nb s i) records = [r]" using r(2) by simp
  moreover have "nb_id nb s r = oc_object_id c" using r(3) om(4) by simp
  moreover have "\<exists>r' \<in> set records. in_adoption_target nb s ''vm'' (mp_site_id plan) (mp_cluster_id plan) r' \<and> nb_id nb s r' = nb_id nb s r"
    using r(4) st by (simp add: same_target_def)
  ultimately show ?thesis
    unfolding reconciled_def using i(1) pl r(1)
    by (intro exI [of _ i] exI [of _ planned] exI [of _ c] exI [of _ records] exI [of _ r] conjI) assumption+
qed

text \<open>C16: The gate of the network reconciliation.  If it leaves NetBox changed it was confirmed and what was done is the
  machine network stage on machines of the discovery, each of which is, before the first write, bound by its identity
  to exactly one machine of NetBox, in the target cluster: the object the plan the operator saw names for it.\<close>

theorem network_bootstrap_gate:
  assumes "netbox_reader nb (=)" and "apply_esxi_managed_vm_network_bootstrap nb hosts config plan confirmed s = (r, t)"
    and "t \<noteq> s"
  shows "confirmed \<and> (\<exists>kept. t = snd (apply_vm_networks nb kept (sc_target config) True s)
      \<and> (\<forall>h \<in> set kept. \<forall>vm \<in> set (h_virtual_machines h). reconciled nb s plan vm))"
proof -
  obtain p u where p: "network_bootstrap_preflight nb hosts config plan confirmed s = (p, u)"
    by (cases "network_bootstrap_preflight nb hosts config plan confirmed s")
  have u: "u = s" using pure_read [OF netbox_reader.network_bootstrap_preflight_R [OF assms(1)]] p by blast
  obtain kept where kept: "p = Inr kept" and t: "t = snd (apply_vm_networks nb kept (sc_target config) True s)"
    using assms(2,3) p u by (cases p) (auto simp: apply_esxi_managed_vm_network_bootstrap_def io_bind_def)
  have "confirmed" using network_preflight_parts [OF assms(1) p [unfolded kept]] by blast
  moreover have "reconciled nb s plan vm" if "h \<in> set kept" "vm \<in> set (h_virtual_machines h)" for h vm
    by (rule kept_reconciled [OF assms(1) p [unfolded kept] that])
  ultimately show ?thesis using t by blast
qed

section \<open>A sample\<close>

definition new_esxi_host :: discovered_host where
  "new_esxi_host = sample_esxi_host\<lparr>h_virtual_machines := [sample_esxi_vm ''app'' ''vm-app'' []]\<rparr>"

definition sample_operator_plan :: "object_migration_item \<Rightarrow> migration_plan" where
  "sample_operator_plan item = \<lparr>mp_source_instance = ''esx-a'', mp_site_id = 1, mp_cluster_id = 8, mp_hosts = [],
     mp_virtual_machines = [item]\<rparr>"

definition app_item :: object_migration_item where
  "app_item = \<lparr>om_name = ''app'', om_external_id = ''vm-app'', om_classification = Obj_NEW, om_candidates = [], om_interfaces = []\<rparr>"

lemma new_vm_run:
  "case apply_esxi_new_vm_bootstrap fake_netbox [new_esxi_host] sample_esxi_config (sample_operator_plan app_item) True
      managed_esxi_netbox of
     (Inl e, t) \<Rightarrow> False
   | (Inr result, t) \<Rightarrow> snd result = None \<and> fk_mutations t \<noteq> []"
  by code_simp

theorem new_vm_bootstrap_gate_witness:
  "\<exists>ids pending t. apply_esxi_new_vm_bootstrap fake_netbox [new_esxi_host] sample_esxi_config
       (sample_operator_plan app_item) True managed_esxi_netbox = (Inr (ids, None), t)
     \<and> t = snd (create_new_vms fake_netbox [] pending managed_esxi_netbox) \<and> length ids = length pending
     \<and> t \<noteq> managed_esxi_netbox"
proof -
  from new_vm_run [THEN run_obtain] obtain result t where
    run: "apply_esxi_new_vm_bootstrap fake_netbox [new_esxi_host] sample_esxi_config (sample_operator_plan app_item) True
      managed_esxi_netbox = (Inr result, t)" and m: "snd result = None" "fk_mutations t \<noteq> []" by (elim exE conjE) (rule that)
  obtain ids where r: "result = (ids, None)" using m(1) by (cases result) simp
  have t: "t \<noteq> managed_esxi_netbox" using m(2) by (auto simp: managed_esxi_netbox_def)
  from new_vm_bootstrap_gate [OF fake_reads.netbox_reader_axioms run t] show ?thesis using run t unfolding r by blast
qed

definition carded_esxi_host :: discovered_host where
  "carded_esxi_host = sample_esxi_host\<lparr>h_virtual_machines := [sample_esxi_vm ''web'' ''vm-web''
     [sample_nic\<lparr>nic_mac_address := None, nic_ip_addresses := [], nic_external_id := Some ''4000''\<rparr>]]\<rparr>"

definition web_item :: object_migration_item where
  "web_item = \<lparr>om_name = ''web'', om_external_id = ''vm-web'', om_classification = Obj_MANAGED,
     om_candidates = [\<lparr>oc_object_id = 21, oc_object_name = ''web'', oc_signals = [], oc_conflicts = []\<rparr>], om_interfaces = []\<rparr>"

lemma network_bootstrap_run:
  "case apply_esxi_managed_vm_network_bootstrap fake_netbox [carded_esxi_host] sample_esxi_config
      (sample_operator_plan web_item) True managed_esxi_netbox of
     (Inl e, t) \<Rightarrow> False
   | (Inr result, t) \<Rightarrow> fk_mutations t \<noteq> []"
  by code_simp

theorem network_bootstrap_gate_witness:
  "\<exists>result kept t. apply_esxi_managed_vm_network_bootstrap fake_netbox [carded_esxi_host] sample_esxi_config
       (sample_operator_plan web_item) True managed_esxi_netbox = (Inr result, t)
     \<and> t = snd (apply_vm_networks fake_netbox kept (sc_target sample_esxi_config) True managed_esxi_netbox)
     \<and> t \<noteq> managed_esxi_netbox"
proof -
  from network_bootstrap_run [THEN run_obtain] obtain result t where
    run: "apply_esxi_managed_vm_network_bootstrap fake_netbox [carded_esxi_host] sample_esxi_config
       (sample_operator_plan web_item) True managed_esxi_netbox = (Inr result, t)" and m: "fk_mutations t \<noteq> []"
    by (elim exE conjE) (rule that)
  have t: "t \<noteq> managed_esxi_netbox" using m by (auto simp: managed_esxi_netbox_def)
  from network_bootstrap_gate [OF fake_reads.netbox_reader_axioms run t] show ?thesis using run t by blast
qed

end
