(* ===== verification/EsxiInterfaces.thy ===== *)
theory EsxiInterfaces
  imports EsxiMigration
begin

text \<open>
  The confirmed reuse of legacy interfaces (netbox_sync/esxi_interface_migration.py): every interface the
  migration plan calls safe to rename or reuse is checked again, with its parent, its addresses and its MAC,
  before the first write; then the MAC is attached and the interface renamed and marked with its identity.
\<close>

definition EsxiInterfaceMigrationError :: "string \<Rightarrow> py_exn" where
  "EsxiInterfaceMigrationError message = CodedError ''EsxiInterfaceMigrationError'' message"

record 'r pending_migration =
  pm_kind :: string
  pm_interface :: 'r
  pm_changes :: obj
  pm_discovered_mac :: "string option"
  pm_mac_record :: "'r option"
  pm_attach_mac :: bool

section \<open>The parent\<close>

definition parent_identity :: "migration_plan \<Rightarrow> string \<Rightarrow> string \<Rightarrow> source_identity res" where
  "parent_identity plan kind external_id =
     identity_of ''esxi'' (mp_source_instance plan) (if kind = ''host'' then ''host'' else ''vm'') external_id"

definition matches_expected_identity :: "('s, 'r) netbox \<Rightarrow> 's \<Rightarrow> source_identity \<Rightarrow> 'r \<Rightarrow> bool res" where
  "matches_expected_identity nb s i r =
     (case source_identity_match_rank (custom_fields_of nb s r) i [] False of
        Inl (ValueError m) \<Rightarrow> Inl (EsxiInterfaceMigrationError ''Invalid parent identity metadata'')
      | Inl e \<Rightarrow> Inl e
      | Inr rank \<Rightarrow> Inr (rank = V2_IDENTITY_MATCH))"

definition matching_parents :: "('s, 'r) netbox \<Rightarrow> 's \<Rightarrow> source_identity \<Rightarrow> 'r list \<Rightarrow> 'r list res" where
  "matching_parents nb s i records =
     res_bind (res_map (\<lambda>r. res_bind (matches_expected_identity nb s i r) (\<lambda>b. Inr (r, b))) records) (\<lambda>ranked.
       Inr (map fst (filter snd ranked)))"

definition validate_found_parent ::
    "('s, 'r) netbox \<Rightarrow> migration_plan \<Rightarrow> string \<Rightarrow> object_migration_item \<Rightarrow> 'r \<Rightarrow> ('s, 'r) io" where
  "validate_found_parent nb plan kind item parent =
     io_bind (io_lift (parent_identity plan kind (om_external_id item))) (\<lambda>expected.
     io_bind (nb_all nb (adoption_endpoint kind)) (\<lambda>records.
     io_read (\<lambda>s. res_bind (matching_parents nb s expected records) (\<lambda>matches.
       if map (nb_id nb s) matches \<noteq> [oc_object_id (hd (om_candidates item))]
       then Inl (EsxiInterfaceMigrationError ''Managed parent identity changed after preflight'')
       else if \<not> py_eq (review_object_id (jget (nb_data nb s parent) ''cluster'')) (JInt (mp_cluster_id plan))
       then Inl (EsxiInterfaceMigrationError ''Managed parent moved outside target'')
       else if kind = ''host'' \<and> \<not> py_eq (review_object_id (jget (nb_data nb s parent) ''site'')) (JInt (mp_site_id plan))
       then Inl (EsxiInterfaceMigrationError ''Managed host moved outside target'')
       else Inr parent))))"

definition validate_parent ::
    "('s, 'r) netbox \<Rightarrow> migration_plan \<Rightarrow> string \<Rightarrow> object_migration_item \<Rightarrow> ('s, 'r) io" where
  "validate_parent nb plan kind item =
     (if om_classification item \<noteq> Obj_MANAGED \<or> length (om_candidates item) \<noteq> 1
      then io_raise (EsxiInterfaceMigrationError ''Interface migration requires one managed parent'')
      else
      io_bind (nb_get nb (adoption_endpoint kind) [(''id'', JInt (oc_object_id (hd (om_candidates item))))]) (\<lambda>found.
      (case found of
         None \<Rightarrow> io_raise (EsxiInterfaceMigrationError ''Managed parent no longer exists'')
       | Some parent \<Rightarrow> validate_found_parent nb plan kind item parent)))"

section \<open>The interface\<close>

definition selected_of ::
    "string \<Rightarrow> object_migration_item list \<Rightarrow> (string \<times> object_migration_item \<times> interface_item) list" where
  "selected_of kind parents =
     concat (map (\<lambda>parent. map (\<lambda>item. (kind, parent, item))
       (filter (\<lambda>item. ii_classification item = If_SAFE_RENAME_OR_REUSE) (om_interfaces parent))) parents)"

definition selected_items :: "migration_plan \<Rightarrow> (string \<times> object_migration_item \<times> interface_item) list" where
  "selected_items plan = selected_of ''host'' (mp_hosts plan) @ selected_of ''vm'' (mp_virtual_machines plan)"

text \<open>\<open>str(getattr(interface, 'name', ''))\<close>\<close>

definition interface_name :: "('s, 'r) netbox \<Rightarrow> 's \<Rightarrow> 'r \<Rightarrow> string" where
  "interface_name nb s r = (case nb_attr nb s r ''name'' of None \<Rightarrow> [] | Some a \<Rightarrow> attr_str a)"

definition assignments_unchanged :: "'r ownership \<Rightarrow> string \<Rightarrow> int \<Rightarrow> interface_candidate \<Rightarrow> bool" where
  "assignments_unchanged ow kind i c \<longleftrightarrow>
     addresses_of (assigned_type_of kind) i (ow_ips ow) = ic_current_ips c
     \<and> addresses_of (assigned_type_of kind) i (ow_macs ow) = ic_current_macs c
     \<and> record_assignments (assigned_type_of kind) i (ow_ips ow) = ic_ip_assignments c
     \<and> record_assignments (assigned_type_of kind) i (ow_macs ow) = ic_mac_assignments c"

definition validate_candidate ::
    "('s, 'r) netbox \<Rightarrow> 's \<Rightarrow> 'r ownership \<Rightarrow> string \<Rightarrow> 'r \<Rightarrow> interface_item \<Rightarrow> 'r res" where
  "validate_candidate nb s ow kind parent item =
     (if length (ii_candidates item) \<noteq> 1
      then Inl (EsxiInterfaceMigrationError ''Safe interface migration must have exactly one candidate'')
      else let candidate = hd (ii_candidates item); parent_id = JInt (nb_id nb s parent) in
      (case dget (index_by_id nb s (ow_interfaces ow kind)) (ic_interface_id candidate) of
         None \<Rightarrow> Inl (EsxiInterfaceMigrationError ''Interface candidate no longer exists'')
       | Some interface \<Rightarrow>
           if \<not> py_eq (ic_parent_id candidate) parent_id
              \<or> \<not> py_eq (review_object_id (jget (nb_data nb s interface) (relation_of kind))) parent_id
              \<or> interface_name nb s interface \<noteq> ic_interface_name candidate
           then Inl (EsxiInterfaceMigrationError ''Interface candidate changed after preflight'')
           else if \<not> assignments_unchanged ow kind (nb_id nb s interface) candidate
           then Inl (EsxiInterfaceMigrationError ''Interface network assignments changed after preflight'')
           else if list_ex (\<lambda>other. nb_id nb s other \<noteq> nb_id nb s interface
                  \<and> casefold (interface_name nb s other) = casefold (ii_name item))
                (owned_interfaces nb s ow kind (nb_id nb s parent))
           then Inl (EsxiInterfaceMigrationError ''Desired interface name is already used on the parent'')
           else Inr interface))"

section \<open>Its addresses\<close>

definition free_assignment :: "('s, 'r) netbox \<Rightarrow> 's \<Rightarrow> 'r \<Rightarrow> bool" where
  "free_assignment nb s r \<longleftrightarrow> jget (nb_data nb s r) ''assigned_object_type'' = JNull
     \<and> review_object_id (jget (nb_data nb s r) ''assigned_object_id'') = JNull"

definition assigned_to :: "('s, 'r) netbox \<Rightarrow> 's \<Rightarrow> string \<Rightarrow> 'r \<Rightarrow> 'r \<Rightarrow> bool" where
  "assigned_to nb s kind interface r \<longleftrightarrow>
     jget (nb_data nb s r) ''assigned_object_type'' = JStr (assigned_type_of kind)
     \<and> py_eq (review_object_id (jget (nb_data nb s r) ''assigned_object_id'')) (JInt (nb_id nb s interface))"

definition record_ip :: "('s, 'r) netbox \<Rightarrow> 's \<Rightarrow> 'r \<Rightarrow> string option" where
  "record_ip nb s r = ip_of_attr (Some (AVal (jget (nb_data nb s r) ''address'')))"

definition record_mac :: "('s, 'r) netbox \<Rightarrow> 's \<Rightarrow> 'r \<Rightarrow> string option" where
  "record_mac nb s r = mac_of_attr (Some (AVal (jget (nb_data nb s r) ''mac_address'')))"

definition validate_ips :: "('s, 'r) netbox \<Rightarrow> string \<Rightarrow> 'r \<Rightarrow> string list \<Rightarrow> ('s, unit) io" where
  "validate_ips nb kind interface discovered_ips =
     io_bind (nb_all nb ''ipam.ip_addresses'') (\<lambda>records.
     io_read (\<lambda>s.
       if list_ex (\<lambda>r. record_ip nb s r \<in> Some ` set discovered_ips
            \<and> \<not> free_assignment nb s r \<and> \<not> assigned_to nb s kind interface r) records
       then Inl (EsxiInterfaceMigrationError ''Discovered IP is owned by another interface'')
       else Inr ()))"

definition validate_mac :: "('s, 'r) netbox \<Rightarrow> string \<Rightarrow> 'r \<Rightarrow> string option \<Rightarrow> ('s, 'r option \<times> bool) io" where
  "validate_mac nb kind interface discovered_mac =
     (case discovered_mac of
        None \<Rightarrow> io_return (None, False)
      | Some mac \<Rightarrow>
          io_bind (nb_all nb ''dcim.mac_addresses'') (\<lambda>records.
          io_read (\<lambda>s.
            (case filter (\<lambda>r. record_mac nb s r = Some mac) records of
               [] \<Rightarrow> Inr (None, False)
             | [r] \<Rightarrow>
                 let primary = review_object_id (jget (nb_data nb s interface) ''primary_mac_address'')
                 in if \<not> (free_assignment nb s r \<or> assigned_to nb s kind interface r)
                    then Inl (EsxiInterfaceMigrationError ''Discovered MAC is owned by another interface'')
                    else if primary \<noteq> JNull \<and> \<not> py_eq primary (JInt (nb_id nb s r))
                    then Inl (EsxiInterfaceMigrationError ''Interface has a different primary MAC address'')
                    else Inr (Some r, free_assignment nb s r)
             | _ \<Rightarrow> Inl (EsxiInterfaceMigrationError ''Discovered MAC is duplicated'')))))"

section \<open>Its identity\<close>

fun check_nic_identities :: "source_identity \<Rightarrow> json list \<Rightarrow> unit res" where
  "check_nic_identities i [] = Inr ()"
| "check_nic_identities i (v # vs) =
     (case from_record v of
        Inl (ValueError m) \<Rightarrow> Inl (EsxiInterfaceMigrationError ''Invalid interface identity metadata'')
      | Inl e \<Rightarrow> Inl e
      | Inr parsed \<Rightarrow>
          if (case parsed of None \<Rightarrow> False | Some p \<Rightarrow> same_namespace p i \<and> p \<noteq> i)
          then Inl (EsxiInterfaceMigrationError ''Interface already has a different ESXi NIC identity'')
          else check_nic_identities i vs)"

definition merged_metadata :: "obj \<Rightarrow> source_identity \<Rightarrow> string \<Rightarrow> obj res" where
  "merged_metadata current i name =
     (case adopted_fields current i name of
        Inl (ValueError m) \<Rightarrow> Inl (EsxiInterfaceMigrationError ''Invalid interface metadata'')
      | Inl (TypeError m) \<Rightarrow> Inl (EsxiInterfaceMigrationError ''Invalid interface metadata'')
      | r \<Rightarrow> r)"

definition vm_interface_metadata ::
    "('s, 'r) netbox \<Rightarrow> 's \<Rightarrow> migration_plan \<Rightarrow> object_migration_item \<Rightarrow> interface_item \<Rightarrow> 'r \<Rightarrow> obj res" where
  "vm_interface_metadata nb s plan parent_item item interface =
     (case ii_external_id item of
        None \<Rightarrow> Inl (EsxiInterfaceMigrationError ''ESXi VM interface has no stable external id'')
      | Some external_id \<Rightarrow>
          if external_id = [] then Inl (EsxiInterfaceMigrationError ''ESXi VM interface has no stable external id'')
          else res_bind (identity_of ''esxi'' (mp_source_instance plan) ''vm-nic''
                 (om_external_id parent_item @ '':'' @ external_id)) (\<lambda>i.
            let current = custom_fields_of nb s interface;
                base = null_as ''sync_original_names'' (JObj []) (null_as ''sync_identities'' (JList []) current)
            in (case (jget base ''sync_identities'', jget base ''sync_original_names'') of
                  (JList ids, JObj names) \<Rightarrow>
                    res_bind (check_nic_identities i ids) (\<lambda>_. merged_metadata current i (ii_name item))
                | (JList ids, _) \<Rightarrow> Inl (EsxiInterfaceMigrationError ''Invalid interface original-name metadata'')
                | _ \<Rightarrow> Inl (EsxiInterfaceMigrationError ''Invalid interface identity metadata''))))"

section \<open>The preflight and the writes\<close>

definition migration_changes ::
    "('s, 'r) netbox \<Rightarrow> 's \<Rightarrow> migration_plan \<Rightarrow> string \<Rightarrow> object_migration_item \<Rightarrow> interface_item \<Rightarrow> 'r \<Rightarrow> obj res" where
  "migration_changes nb s plan kind parent_item item interface =
     res_bind (record_text nb s interface) (\<lambda>name.
       let renamed = (if name \<noteq> ii_name item then [(''name'', JStr (ii_name item))] else [])
       in if kind \<noteq> ''vm'' then Inr renamed
          else res_bind (vm_interface_metadata nb s plan parent_item item interface) (\<lambda>metadata.
            Inr (renamed @ (if py_eq (JObj metadata) (JObj (custom_fields_of nb s interface)) then []
              else [(''custom_fields'', JObj metadata)]))))"

definition preflight_interface ::
    "('s, 'r) netbox \<Rightarrow> migration_plan \<Rightarrow> 'r ownership \<Rightarrow> string \<times> object_migration_item \<times> interface_item
      \<Rightarrow> ('s, 'r pending_migration) io" where
  "preflight_interface nb plan ow selected =
     (case selected of (kind, parent_item, item) \<Rightarrow>
        io_bind (validate_parent nb plan kind parent_item) (\<lambda>parent.
        io_bind (io_read (\<lambda>s. validate_candidate nb s ow kind parent item)) (\<lambda>interface.
        io_bind (validate_ips nb kind interface (ii_ips item)) (\<lambda>_.
        io_bind (validate_mac nb kind interface (ii_mac item)) (\<lambda>(mac_record, attach_mac).
        io_bind (io_read (\<lambda>s. migration_changes nb s plan kind parent_item item interface)) (\<lambda>changes.
          io_return \<lparr>pm_kind = kind, pm_interface = interface, pm_changes = changes, pm_discovered_mac = ii_mac item,
            pm_mac_record = mac_record, pm_attach_mac = attach_mac\<rparr>))))))"

definition interface_preflight :: "('s, 'r) netbox \<Rightarrow> migration_plan \<Rightarrow> ('s, 'r pending_migration list) io" where
  "interface_preflight nb plan =
     io_bind (load_ownership nb) (\<lambda>ow.
       let selected = selected_items plan;
           claims = map (\<lambda>(kind, parent, item). (kind, ic_interface_id (hd (ii_candidates item))))
             (filter (\<lambda>(kind, parent, item). length (ii_candidates item) = 1) selected)
       in if length claims \<noteq> length selected \<or> \<not> distinct claims
          then io_raise (EsxiInterfaceMigrationError ''Migration plan contains a shared interface claim'')
          else io_map (preflight_interface nb plan ow) selected)"

definition mac_assignment :: "string \<Rightarrow> int \<Rightarrow> obj" where
  "mac_assignment kind interface_id =
     [(''assigned_object_type'', JStr (assigned_type_of kind)), (''assigned_object_id'', JInt interface_id)]"

definition attach_mac :: "('s, 'r) netbox \<Rightarrow> 'r pending_migration \<Rightarrow> ('s, 'r option) io" where
  "attach_mac nb m =
     io_bind (io_read (\<lambda>s. Inr (nb_id nb s (pm_interface m)))) (\<lambda>interface_id.
     (case (pm_discovered_mac m, pm_mac_record m) of
        (Some (c # cs), None) \<Rightarrow>
          io_bind (nb_create nb ''dcim.mac_addresses''
            ((''mac_address'', JStr (c # cs)) # mac_assignment (pm_kind m) interface_id)) (\<lambda>r. io_return (Some r))
      | (_, None) \<Rightarrow> io_return None
      | (_, Some r) \<Rightarrow>
          if pm_attach_mac m
          then io_bind (nb_update nb r (mac_assignment (pm_kind m) interface_id)) (\<lambda>_. io_return (Some r))
          else io_return (Some r)))"

definition interface_update :: "('s, 'r) netbox \<Rightarrow> 's \<Rightarrow> 'r pending_migration \<Rightarrow> 'r option \<Rightarrow> obj" where
  "interface_update nb s m mac_record =
     (case mac_record of
        None \<Rightarrow> pm_changes m
      | Some r \<Rightarrow>
          if py_eq (review_object_id (jget (nb_data nb s (pm_interface m)) ''primary_mac_address'')) (JInt (nb_id nb s r))
          then pm_changes m else dset ''primary_mac_address'' (JInt (nb_id nb s r)) (pm_changes m))"

definition write_migration :: "('s, 'r) netbox \<Rightarrow> 'r pending_migration \<Rightarrow> ('s, unit) io" where
  "write_migration nb m =
     io_bind (attach_mac nb m) (\<lambda>mac_record.
     io_bind (io_read (\<lambda>s. Inr (interface_update nb s m mac_record))) (\<lambda>changes.
       if changes = [] then io_return () else nb_update nb (pm_interface m) changes))"

definition apply_esxi_interface_migration :: "('s, 'r) netbox \<Rightarrow> migration_plan \<Rightarrow> bool \<Rightarrow> ('s, nat) io" where
  "apply_esxi_interface_migration nb plan confirmed =
     (if \<not> confirmed
      then io_raise (EsxiInterfaceMigrationError ''ESXi interface migration requires explicit confirmation'')
      else io_bind (interface_preflight nb plan) (\<lambda>pending.
        io_bind (io_map (write_migration nb) pending) (\<lambda>_. io_return (length pending))))"

section \<open>Reads\<close>

context netbox_reader
begin

lemma validate_parent_R: "preserves R (validate_parent nb plan kind item)"
  unfolding validate_parent_def validate_found_parent_def by (intro reader_intros)

lemma validate_ips_R: "preserves R (validate_ips nb kind interface ips)"
  unfolding validate_ips_def by (intro reader_intros)

lemma validate_mac_R: "preserves R (validate_mac nb kind interface mac)"
  unfolding validate_mac_def by (intro reader_intros)

lemma preflight_interface_R: "preserves R (preflight_interface nb plan ow selected)"
  unfolding preflight_interface_def by (intro reader_intros validate_parent_R validate_ips_R validate_mac_R)

lemma interface_preflight_R: "preserves R (interface_preflight nb plan)"
  unfolding interface_preflight_def Let_def by (intro reader_intros load_ownership_R preflight_interface_R)

end

section \<open>What the preflight establishes\<close>

lemma matches_expected_identity_Inr: "matches_expected_identity nb s i r = Inr b \<Longrightarrow> b = carries nb s i r"
  by (auto simp: matches_expected_identity_def carries_def split: sum.splits py_exn.splits)

lemma matching_parents_Inr:
  assumes "matching_parents nb s i records = Inr matches"
  shows "matches = filter (carries nb s i) records"
proof -
  have "map fst (filter snd ps) = filter (carries nb s i) records" if
    "res_map (\<lambda>r. res_bind (matches_expected_identity nb s i r) (\<lambda>b. Inr (r, b))) records = Inr ps" for ps
    using that by (induction records arbitrary: ps) (auto simp: res_bind_eq_Inr dest: matches_expected_identity_Inr)
  with assms show ?thesis by (auto simp: matching_parents_def res_bind_eq_Inr)
qed

text \<open>The parent of a checked interface: the one object of NetBox with the parent's identity, inside the target.\<close>

definition checked_parent ::
    "('s, 'r) netbox \<Rightarrow> 's \<Rightarrow> migration_plan \<Rightarrow> string \<Rightarrow> object_migration_item \<Rightarrow> 'r \<Rightarrow> bool" where
  "checked_parent nb s plan kind item parent \<longleftrightarrow>
     (\<exists>i records. parent_identity plan kind (om_external_id item) = Inr i
        \<and> om_classification item = Obj_MANAGED
        \<and> nb_get nb (adoption_endpoint kind) [(''id'', JInt (oc_object_id (hd (om_candidates item))))] s = (Inr (Some parent), s)
        \<and> nb_all nb (adoption_endpoint kind) s = (Inr records, s)
        \<and> map (nb_id nb s) (filter (carries nb s i) records) = [oc_object_id (hd (om_candidates item))]
        \<and> in_adoption_target nb s kind (mp_site_id plan) (mp_cluster_id plan) parent)"

lemma validate_parent_Inr:
  assumes reader: "netbox_reader nb (=)" and run: "validate_parent nb plan kind item s = (Inr parent, t)"
    and kind: "kind \<in> {''host'', ''vm''}"
  shows "t = s \<and> checked_parent nb s plan kind item parent"
proof -
  note pure = pure_read [OF netbox_reader.get_R [OF reader]] pure_read [OF netbox_reader.all_R [OF reader]]
  have t: "t = s" using pure_read [OF netbox_reader.validate_parent_R [OF reader]] run by blast
  have m: "om_classification item = Obj_MANAGED"
    using run by (auto simp: validate_parent_def io_raise_def split: if_splits)
  obtain q where get: "nb_get nb (adoption_endpoint kind) [(''id'', JInt (oc_object_id (hd (om_candidates item))))] s = (Inr (Some q), s)"
    and rest: "validate_found_parent nb plan kind item q s = (Inr parent, t)"
    using run by (auto simp: validate_parent_def io_bind_Inr io_raise_def pure split: if_splits option.splits)
  define planned where "planned = [oc_object_id (hd (om_candidates item))]"
  obtain i records matches where i: "parent_identity plan kind (om_external_id item) = Inr i"
    and all: "nb_all nb (adoption_endpoint kind) s = (Inr records, s)" and ms: "matching_parents nb s i records = Inr matches"
    and ids: "map (nb_id nb s) matches = planned" and parent: "parent = q"
    and target: "in_adoption_target nb s kind (mp_site_id plan) (mp_cluster_id plan) q"
    using rest kind unfolding validate_found_parent_def planned_def [symmetric]
    by (auto simp: io_bind_Inr io_lift_def io_read_def res_bind_eq_Inr in_adoption_target_def pure split: if_splits)
  show ?thesis
    unfolding checked_parent_def parent using t i m get all ids [unfolded planned_def] target matching_parents_Inr [OF ms]
    by (intro conjI exI [of _ i] exI [of _ records]) simp_all
qed

lemma validate_candidate_Inr:
  assumes "validate_candidate nb s ow kind parent item = Inr interface"
  shows "interface \<in> set (ow_interfaces ow kind) \<and> nb_id nb s interface = ic_interface_id (hd (ii_candidates item))
    \<and> has_relation nb s (relation_of kind) (nb_id nb s parent) interface
    \<and> assignments_unchanged ow kind (nb_id nb s interface) (hd (ii_candidates item))"
  using assms unfolding validate_candidate_def Let_def
  by (auto simp: has_relation_def split: if_splits option.splits dest: index_by_id_Some)

lemma validate_ips_Inr:
  assumes reader: "netbox_reader nb (=)" and "validate_ips nb kind interface ips s = (Inr u, t)"
  shows "t = s \<and> (\<exists>records. nb_all nb ''ipam.ip_addresses'' s = (Inr records, s) \<and>
    (\<forall>r \<in> set records. record_ip nb s r \<in> Some ` set ips \<longrightarrow> free_assignment nb s r \<or> assigned_to nb s kind interface r))"
  using assms(2) unfolding validate_ips_def
  by (auto simp: io_bind_Inr io_read_def list_ex_iff pure_read [OF netbox_reader.all_R [OF reader]] split: if_splits)

text \<open>The MAC of a checked interface: recorded nowhere, or once, free or on the interface itself.\<close>

definition checked_mac ::
    "('s, 'r) netbox \<Rightarrow> 's \<Rightarrow> string \<Rightarrow> 'r \<Rightarrow> string option \<Rightarrow> 'r option \<times> bool \<Rightarrow> bool" where
  "checked_mac nb s kind interface mac p \<longleftrightarrow>
     (case mac of None \<Rightarrow> p = (None, False) | Some m \<Rightarrow>
        \<exists>records. nb_all nb ''dcim.mac_addresses'' s = (Inr records, s)
          \<and> (case p of
               (None, attach) \<Rightarrow> \<not> attach \<and> (\<forall>r \<in> set records. record_mac nb s r \<noteq> mac)
             | (Some r, attach) \<Rightarrow> filter (\<lambda>r. record_mac nb s r = mac) records = [r]
                 \<and> (if attach then free_assignment nb s r else assigned_to nb s kind interface r)))"

lemma validate_mac_Inr:
  assumes reader: "netbox_reader nb (=)" and run: "validate_mac nb kind interface mac s = (Inr p, t)"
  shows "t = s \<and> checked_mac nb s kind interface mac p"
proof (cases mac)
  case None
  with run show ?thesis by (simp add: validate_mac_def checked_mac_def io_return_def)
next
  case (Some m)
  then obtain records where all: "nb_all nb ''dcim.mac_addresses'' s = (Inr records, s)"
    and rest: "(case filter (\<lambda>r. record_mac nb s r = Some m) records of
         [] \<Rightarrow> Inr (None, False)
       | [r] \<Rightarrow> (let primary = review_object_id (jget (nb_data nb s interface) ''primary_mac_address'')
           in if \<not> (free_assignment nb s r \<or> assigned_to nb s kind interface r)
              then Inl (EsxiInterfaceMigrationError ''Discovered MAC is owned by another interface'')
              else if primary \<noteq> JNull \<and> \<not> py_eq primary (JInt (nb_id nb s r))
              then Inl (EsxiInterfaceMigrationError ''Interface has a different primary MAC address'')
              else Inr (Some r, free_assignment nb s r))
       | _ \<Rightarrow> Inl (EsxiInterfaceMigrationError ''Discovered MAC is duplicated'')) = Inr p" and t: "t = s"
    using run by (auto simp: validate_mac_def io_bind_Inr io_read_def pure_read [OF netbox_reader.all_R [OF reader]])
  show ?thesis
  proof (cases "filter (\<lambda>r. record_mac nb s r = Some m) records")
    case Nil
    with rest t all Some show ?thesis by (auto simp: checked_mac_def filter_empty_conv)
  next
    case (Cons r rs)
    with rest t all Some show ?thesis
      by (cases rs) (auto simp: checked_mac_def Let_def split: if_splits)
  qed
qed

lemma migration_changes_keys:
  "migration_changes nb s plan kind parent_item item interface = Inr kvs \<Longrightarrow> set (map fst kvs) \<subseteq> {''name'', ''custom_fields''}"
  by (auto simp: migration_changes_def Let_def res_bind_eq_Inr split: if_splits)

text \<open>One interface of the plan, checked against the state before the first write.\<close>

definition checked_migration ::
    "('s, 'r) netbox \<Rightarrow> 's \<Rightarrow> migration_plan \<Rightarrow> 'r ownership \<Rightarrow> string \<times> object_migration_item \<times> interface_item
      \<Rightarrow> 'r pending_migration \<Rightarrow> bool" where
  "checked_migration nb s plan ow selected m \<longleftrightarrow>
     (case selected of (kind, parent_item, item) \<Rightarrow>
        pm_kind m = kind \<and> pm_discovered_mac m = ii_mac item
        \<and> pm_interface m \<in> set (ow_interfaces ow kind)
        \<and> nb_id nb s (pm_interface m) = ic_interface_id (hd (ii_candidates item))
        \<and> (\<exists>parent. checked_parent nb s plan kind parent_item parent
              \<and> has_relation nb s (relation_of kind) (nb_id nb s parent) (pm_interface m))
        \<and> assignments_unchanged ow kind (nb_id nb s (pm_interface m)) (hd (ii_candidates item))
        \<and> (\<exists>records. nb_all nb ''ipam.ip_addresses'' s = (Inr records, s)
              \<and> (\<forall>r \<in> set records. record_ip nb s r \<in> Some ` set (ii_ips item) \<longrightarrow>
                   free_assignment nb s r \<or> assigned_to nb s kind (pm_interface m) r))
        \<and> checked_mac nb s kind (pm_interface m) (ii_mac item) (pm_mac_record m, pm_attach_mac m)
        \<and> set (map fst (pm_changes m)) \<subseteq> {''name'', ''custom_fields''})"

lemma preflight_interface_checked:
  assumes reader: "netbox_reader nb (=)" and run: "preflight_interface nb plan ow (kind, parent_item, item) s = (Inr m, t)"
    and kind: "kind \<in> {''host'', ''vm''}"
  shows "t = s \<and> checked_migration nb s plan ow (kind, parent_item, item) m"
proof -
  obtain parent u interface v mac_record attach w kvs where
      parent: "validate_parent nb plan kind parent_item s = (Inr parent, u)"
    and interface: "validate_candidate nb u ow kind parent item = Inr interface"
    and ips: "validate_ips nb kind interface (ii_ips item) u = (Inr (), v)"
    and mac: "validate_mac nb kind interface (ii_mac item) v = (Inr (mac_record, attach), w)"
    and kvs: "migration_changes nb w plan kind parent_item item interface = Inr kvs" and t: "t = w"
    and m: "m = \<lparr>pm_kind = kind, pm_interface = interface, pm_changes = kvs, pm_discovered_mac = ii_mac item,
            pm_mac_record = mac_record, pm_attach_mac = attach\<rparr>"
    using run unfolding preflight_interface_def
    by (auto simp: io_bind_Inr io_return_def io_read_def)
  note p = validate_parent_Inr [OF reader parent kind]
  note i = validate_ips_Inr [OF reader ips [unfolded conjunct1 [OF p]]]
  note c = validate_mac_Inr [OF reader mac [unfolded conjunct1 [OF i]]]
  show ?thesis
    unfolding checked_migration_def prod.case m pending_migration.select_convs
    using p i c t migration_changes_keys [OF kvs] validate_candidate_Inr [OF interface [unfolded conjunct1 [OF p]]]
    by (intro conjI exI [of _ parent]) blast+
qed

lemma preflight_interfaces_checked:
  assumes "netbox_reader nb (=)" and "io_map (preflight_interface nb plan ow) selected s = (Inr pending, t)"
    and "\<forall>(kind, rest) \<in> set selected. kind \<in> {''host'', ''vm''}"
  shows "t = s \<and> list_all2 (checked_migration nb s plan ow) selected pending"
  using assms(2,3)
proof (induction selected arbitrary: pending)
  case (Cons sel selected)
  obtain kind parent_item item where sel: "sel = (kind, parent_item, item)" by (cases sel)
  obtain m u ms where m: "preflight_interface nb plan ow (kind, parent_item, item) s = (Inr m, u)"
    and ms: "io_map (preflight_interface nb plan ow) selected u = (Inr ms, t)" and pending: "pending = m # ms"
    using Cons.prems(1) by (auto simp: sel io_bind_Inr io_return_def)
  have "u = s \<and> checked_migration nb s plan ow (kind, parent_item, item) m"
    by (rule preflight_interface_checked [OF assms(1) m]) (use Cons.prems(2) sel in auto)
  with Cons.IH [of ms] ms Cons.prems(2) show ?case by (simp add: sel pending)
qed (simp add: io_return_def)

lemma selected_kinds: "\<forall>(kind, rest) \<in> set (selected_items plan). kind \<in> {''host'', ''vm''}"
  by (auto simp: selected_items_def selected_of_def)

lemma interface_preflight_checked:
  assumes reader: "netbox_reader nb (=)" and run: "interface_preflight nb plan s = (Inr pending, t)"
  shows "t = s \<and> (\<exists>ow. load_ownership nb s = (Inr ow, s)
    \<and> list_all2 (checked_migration nb s plan ow) (selected_items plan) pending
    \<and> distinct (map (\<lambda>m. (pm_kind m, nb_id nb s (pm_interface m))) pending))"
proof -
  define claim where "claim = (\<lambda>(kind :: string, parent :: object_migration_item, item :: interface_item). (kind, ic_interface_id (hd (ii_candidates item))))"
  define single where "single = (\<lambda>(kind :: string, parent :: object_migration_item, item :: interface_item). length (ii_candidates item) = 1)"
  obtain ow where ow: "load_ownership nb s = (Inr ow, s)"
    and len: "length (map claim (filter single (selected_items plan))) = length (selected_items plan)"
    and d: "distinct (map claim (filter single (selected_items plan)))"
    and m: "io_map (preflight_interface nb plan ow) (selected_items plan) s = (Inr pending, t)"
    using run unfolding interface_preflight_def Let_def claim_def single_def
    by (auto simp: io_bind_Inr io_raise_def pure_read [OF netbox_reader.load_ownership_R [OF reader]] split: if_splits)
  have f: "filter single (selected_items plan) = selected_items plan"
    using len by (simp add: filter_id_conv) (metis length_filter_less less_irrefl)
  note c = preflight_interfaces_checked [OF reader m selected_kinds]
  have "map (\<lambda>m. (pm_kind m, nb_id nb s (pm_interface m))) pending = map claim (selected_items plan)"
    using conjunct2 [OF c] by (induction rule: list_all2_induct) (auto simp: checked_migration_def claim_def)
  with c ow d f show ?thesis by auto
qed


text \<open>
  The checks look at one interface at a time: a MAC record that belongs to nobody is granted to every interface
  that reports its address, so two of them write it one after the other.
\<close>

lemma free_mac_granted_to_all:
  assumes "nb_all nb ''dcim.mac_addresses'' s = (Inr records, s)" and "filter (\<lambda>r. record_mac nb s r = Some m) records = [r]"
    and "free_assignment nb s r" and "review_object_id (jget (nb_data nb s i) ''primary_mac_address'') = JNull"
  shows "validate_mac nb kind i (Some m) s = (Inr (Some r, True), s)"
  using assms by (simp add: validate_mac_def io_bind_def io_read_def)

section \<open>A sample\<close>

definition reuse_netbox :: fake_state where
  "reuse_netbox = managed_esxi_netbox\<lparr>fk_records := fk_records managed_esxi_netbox @
     [(''virtualization.interfaces'', [fake_rec [(''id'', JInt 31), (''name'', JStr ''eth0''), (''virtual_machine'', JInt 21)]])]\<rparr>"

definition reuse_item :: interface_item where
  "reuse_item = \<lparr>ii_name = ''net0'', ii_external_id = Some ''4000'', ii_ips = [], ii_mac = None,
     ii_classification = If_SAFE_RENAME_OR_REUSE,
     ii_candidates = [\<lparr>ic_parent_id = JInt 21, ic_parent_name = ''web'', ic_interface_id = 31, ic_interface_name = ''eth0'',
       ic_signals = [], ic_conflicts = [], ic_current_ips = [], ic_current_macs = [], ic_ip_assignments = [],
       ic_mac_assignments = []\<rparr>], ii_conflicts = []\<rparr>"

definition reuse_plan :: migration_plan where
  "reuse_plan = \<lparr>mp_source_instance = ''esx-a'', mp_site_id = 1, mp_cluster_id = 8, mp_hosts = [],
     mp_virtual_machines = [\<lparr>om_name = ''web'', om_external_id = ''vm-web'', om_classification = Obj_MANAGED,
       om_candidates = [\<lparr>oc_object_id = 21, oc_object_name = ''web'', oc_signals = [], oc_conflicts = []\<rparr>],
       om_interfaces = [reuse_item]\<rparr>]\<rparr>"

lemma reuse_run:
  "case apply_esxi_interface_migration fake_netbox reuse_plan True reuse_netbox of
     (Inl e, t) \<Rightarrow> False
   | (Inr n, t) \<Rightarrow> n = 1 \<and> fk_mutations t \<noteq> []"
  by code_simp


end
