(* ===== verification/EsxiDiscovery.thy ===== *)
theory EsxiDiscovery
  imports ProxmoxDiscovery EsxiRuntime
begin

text \<open>
  From the objects of the ESXi SDK to the inventory (netbox_sync/esxi_discovery.py).  The SDK (pyVmomi, third
  party) is an argument: an object has attributes, each absent or with a value of any shape, and a text.  An
  attribute is read as one snapshot; a fault the SDK raises while reading is not modelled (the code catches none,
  it would end the discovery).  The walk over the inventory is bounded by a fuel, which the number of its
  objects makes sufficient; it is finished before the first host is mapped, so where both fail the error may be
  another.  A full host is the record \<open>proxmox_host\<close> of the Proxmox discovery, which has the datastores.
\<close>

datatype 'o sdk = SVal json | SSeq "'o sdk list" | SObj 'o

record 'o sdk_api =
  sdk_attr :: "'o \<Rightarrow> string \<Rightarrow> 'o sdk option"
  sdk_repr :: "'o sdk \<Rightarrow> string"

section \<open>Reading SDK values\<close>

abbreviation SNone :: "'o sdk" where
  "SNone \<equiv> SVal JNull"

text \<open>\<open>getattr(v, name, other)\<close> and \<open>hasattr(v, name)\<close>; no attribute the code reads exists on plain values.\<close>

definition get_attr :: "'o sdk_api \<Rightarrow> 'o sdk \<Rightarrow> string \<Rightarrow> 'o sdk option" where
  "get_attr api v name = (case v of SObj x \<Rightarrow> sdk_attr api x name | _ \<Rightarrow> None)"

definition attr_or :: "'o sdk_api \<Rightarrow> 'o sdk \<Rightarrow> string \<Rightarrow> 'o sdk \<Rightarrow> 'o sdk" where
  "attr_or api v name other = (case get_attr api v name of None \<Rightarrow> other | Some w \<Rightarrow> w)"

definition sdk_value :: "'o sdk_api \<Rightarrow> 'o sdk \<Rightarrow> string list \<Rightarrow> 'o sdk \<Rightarrow> 'o sdk" where
  "sdk_value api v path other =
     (let w = foldl (\<lambda>current component. attr_or api current component SNone) v path
      in if w = SNone then other else w)"

definition sdk_truthy :: "'o sdk \<Rightarrow> bool" where
  "sdk_truthy v = (case v of SVal j \<Rightarrow> truthy j | SSeq xs \<Rightarrow> xs \<noteq> [] | SObj x \<Rightarrow> True)"

definition sdk_or :: "'o sdk \<Rightarrow> 'o sdk \<Rightarrow> 'o sdk" where
  "sdk_or v w = (if sdk_truthy v then v else w)"

definition sdk_str :: "'o sdk_api \<Rightarrow> 'o sdk \<Rightarrow> string" where
  "sdk_str api v = (case v of SVal j \<Rightarrow> py_str j | _ \<Rightarrow> sdk_repr api v)"

definition sdk_items :: "'o sdk \<Rightarrow> 'o sdk list res" where
  "sdk_items v =
     (if \<not> sdk_truthy v then Inr []
      else case v of
          SSeq xs \<Rightarrow> Inr xs
        | SVal j \<Rightarrow> res_bind (json_iter j) (\<lambda>xs. Inr (map SVal xs))
        | SObj x \<Rightarrow> Inl (TypeError ''object is not iterable''))"

text \<open>\<open>int(v or 0)\<close>, and the fields declared as a text or a number, which the code passes on as they are.\<close>

definition sdk_int :: "'o sdk \<Rightarrow> int res" where
  "sdk_int v =
     (if \<not> sdk_truthy v then Inr 0
      else case v of SVal j \<Rightarrow> py_int j | _ \<Rightarrow> Inl (TypeError ''int() argument must be a string or a real number''))"

definition sdk_text_field :: "'o sdk \<Rightarrow> string option res" where
  "sdk_text_field v = (case v of SVal j \<Rightarrow> text_or_none j | _ \<Rightarrow> Inl (TypeError ''expected a text''))"

definition sdk_int_field :: "'o sdk \<Rightarrow> int option res" where
  "sdk_int_field v = (case v of
       SVal JNull \<Rightarrow> Inr None | SVal (JInt i) \<Rightarrow> Inr (Some i) | _ \<Rightarrow> Inl (TypeError ''expected a number''))"

section \<open>Stable identifiers\<close>

definition uuid_text :: "string \<Rightarrow> string" where
  "uuid_text s = join ''-'' [take 8 s, take 4 (drop 8 s), take 4 (drop 12 s), take 4 (drop 16 s), drop 20 s]"

definition uuid_of_compact :: "string \<Rightarrow> string option" where
  "uuid_of_compact digits =
     (if length digits \<noteq> 32 \<or> \<not> list_all is_hex_char digits \<or> list_all (\<lambda>c. c = CHR ''0'') digits
      then None else Some (uuid_text (map py_lower_char digits)))"

definition normalized_uuid :: "'o sdk_api \<Rightarrow> 'o sdk \<Rightarrow> string option" where
  "normalized_uuid api v =
     (let candidate = py_strip (sdk_str api v);
          inner = (if candidate \<noteq> [] \<and> hd candidate = CHR ''{'' \<and> last candidate = CHR ''}''
                   then butlast (tl candidate) else candidate)
      in if v = SNone then None else uuid_of_compact (filter (\<lambda>c. c \<noteq> CHR ''-'' \<and> c \<noteq> CHR '' '') inner))"

definition managed_object_id :: "'o sdk_api \<Rightarrow> 'o sdk \<Rightarrow> string option" where
  "managed_object_id api v =
     (let value = attr_or api v ''_moId'' SNone; candidate = py_strip (sdk_str api value)
      in if value = SNone \<or> candidate = [] \<or> casefold candidate = ''none'' then None else Some candidate)"

fun first_some :: "'a option list \<Rightarrow> 'a option" where
  "first_some [] = None"
| "first_some (None # xs) = first_some xs"
| "first_some (Some x # xs) = Some x"

definition vm_external_id_of :: "'o sdk_api \<Rightarrow> 'o sdk \<Rightarrow> string res" where
  "vm_external_id_of api vm =
     (case first_some (map (\<lambda>path. normalized_uuid api (sdk_value api vm path SNone))
          [[''config'', ''instanceUuid''], [''summary'', ''config'', ''instanceUuid''], [''config'', ''uuid'']]
        @ [managed_object_id api vm]) of
        None \<Rightarrow> Inl (ValueError ''ESXi VM has no usable stable external identifier'')
      | Some i \<Rightarrow> Inr i)"

definition validated_host_hardware_uuid :: "'o sdk_api \<Rightarrow> 'o sdk \<Rightarrow> string option" where
  "validated_host_hardware_uuid api v =
     (case normalized_uuid api v of
        None \<Rightarrow> None
      | Some candidate \<Rightarrow>
          if length (filter (\<lambda>byte. byte \<noteq> ''00'') (in_pairs (filter (\<lambda>c. c \<noteq> CHR ''-'') candidate))) < 8
          then None else Some candidate)"

definition host_external_id :: "'o sdk_api \<Rightarrow> 'o sdk \<Rightarrow> string res" where
  "host_external_id api host =
     (case first_some (map (\<lambda>path. validated_host_hardware_uuid api (sdk_value api host path SNone))
          [[''hardware'', ''systemInfo'', ''uuid''], [''summary'', ''hardware'', ''uuid'']]
        @ [managed_object_id api host]) of
        None \<Rightarrow> Inl (ValueError ''ESXi host has no usable stable external identifier'')
      | Some i \<Rightarrow> Inr i)"

section \<open>The host\<close>

definition network_items :: "'o sdk_api \<Rightarrow> 'o sdk \<Rightarrow> string \<Rightarrow> 'o sdk list res" where
  "network_items api host name = sdk_items (sdk_value api host [''config'', ''network'', name] (SSeq []))"

definition vnic_address :: "'o sdk_api \<Rightarrow> 'o sdk \<Rightarrow> 'o sdk" where
  "vnic_address api vnic = sdk_value api vnic [''spec'', ''ip'', ''ipAddress''] SNone"

definition esxi_management_ip :: "'o sdk_api \<Rightarrow> 'o sdk \<Rightarrow> string option res" where
  "esxi_management_ip api host =
     res_bind (network_items api host ''vnic'') (\<lambda>vnics.
       Inr (map_option (sdk_str api \<circ> vnic_address api) (find (\<lambda>vnic. sdk_truthy (vnic_address api vnic)) vnics)))"

text \<open>The names of the physical cards behind the management address: over port groups and switches.\<close>

definition management_portgroups :: "'o sdk_api \<Rightarrow> 'o sdk list \<Rightarrow> string option \<Rightarrow> string list" where
  "management_portgroups api vnics management_ip =
     map (\<lambda>vnic. sdk_str api (sdk_or (attr_or api vnic ''portgroup'' SNone)
         (sdk_value api vnic [''spec'', ''portgroup''] (SVal (JStr [])))))
       (filter (\<lambda>vnic. vnic_address api vnic = (case management_ip of None \<Rightarrow> SNone | Some a \<Rightarrow> SVal (JStr a))) vnics)"

definition management_vswitches :: "'o sdk_api \<Rightarrow> 'o sdk list \<Rightarrow> string list \<Rightarrow> string list" where
  "management_vswitches api portgroups names =
     map (\<lambda>portgroup. sdk_str api (sdk_value api portgroup [''spec'', ''vswitchName''] SNone))
       (filter (\<lambda>portgroup. sdk_str api (sdk_value api portgroup [''spec'', ''name''] (SVal (JStr []))) \<in> set names) portgroups)"

definition management_pnic_keys :: "'o sdk_api \<Rightarrow> 'o sdk list \<Rightarrow> string list \<Rightarrow> string list res" where
  "management_pnic_keys api vswitches names =
     res_bind (res_map (\<lambda>vswitch. sdk_items (attr_or api vswitch ''pnic'' (SSeq [])))
         (filter (\<lambda>vswitch. sdk_str api (attr_or api vswitch ''name'' (SVal (JStr []))) \<in> set names) vswitches)) (\<lambda>keys.
       Inr (map (sdk_str api) (concat keys)))"

definition attr_text :: "'o sdk_api \<Rightarrow> 'o sdk \<Rightarrow> string \<Rightarrow> string" where
  "attr_text api v name = sdk_str api (attr_or api v name (SVal (JStr [])))"

definition management_pnic_names :: "'o sdk_api \<Rightarrow> 'o sdk \<Rightarrow> string list res" where
  "management_pnic_names api host =
     res_bind (esxi_management_ip api host) (\<lambda>management_ip.
     res_bind (network_items api host ''vnic'') (\<lambda>vnics.
     res_bind (network_items api host ''portgroup'') (\<lambda>portgroups.
     res_bind (network_items api host ''vswitch'') (\<lambda>vswitches.
     res_bind (management_pnic_keys api vswitches
         (management_vswitches api portgroups (management_portgroups api vnics management_ip))) (\<lambda>keys.
     res_bind (network_items api host ''pnic'') (\<lambda>pnics.
       Inr (map (\<lambda>pnic. attr_text api pnic ''device'')
         (filter (\<lambda>pnic. attr_text api pnic ''key'' \<in> set keys \<or> attr_text api pnic ''device'' \<in> set keys) pnics))))))))"

definition esxi_host_interface :: "'o sdk_api \<Rightarrow> string list \<Rightarrow> 'o sdk \<Rightarrow> discovered_host_interface res" where
  "esxi_host_interface api management_pnics pnic =
     (let name = sdk_str api (attr_or api pnic ''device'' SNone); mac = attr_or api pnic ''mac'' SNone
      in res_bind (sdk_text_field mac) (\<lambda>mac_address.
           Inr \<lparr>hi_name = name, hi_interface_type = Some ''physical'',
             hi_active = (attr_or api pnic ''linkSpeed'' SNone \<noteq> SNone), hi_autostart = False, hi_method = None,
             hi_addresses = [], hi_gateway = None, hi_bridge_ports = [], hi_vlan_id = None, hi_vlan_aware = False,
             hi_comments = (if sdk_truthy mac then Some (''MAC '' @ sdk_str api mac) else None),
             hi_mac_address = mac_address, hi_management = (name \<in> set management_pnics)\<rparr>))"

definition esxi_host_interfaces :: "'o sdk_api \<Rightarrow> 'o sdk \<Rightarrow> discovered_host_interface list res" where
  "esxi_host_interfaces api host =
     res_bind (management_pnic_names api host) (\<lambda>management_pnics.
     res_bind (network_items api host ''pnic'') (\<lambda>pnics.
       res_map (esxi_host_interface api management_pnics)
         (filter (\<lambda>pnic. sdk_truthy (attr_or api pnic ''device'' SNone)) pnics)))"

definition esxi_host_disk :: "'o sdk_api \<Rightarrow> 'o sdk \<Rightarrow> discovered_disk res" where
  "esxi_host_disk api lun =
     (let capacity = attr_or api lun ''capacity'' SNone; operational = attr_or api lun ''operationalState'' SNone
      in res_bind (sdk_int (attr_or api capacity ''block'' (SVal (JInt 0)))) (\<lambda>blocks.
         res_bind (sdk_int (attr_or api capacity ''blockSize'' (SVal (JInt 0)))) (\<lambda>block_size.
         res_bind (sdk_text_field (attr_or api lun ''model'' SNone)) (\<lambda>model.
         res_bind (sdk_text_field (attr_or api lun ''serialNumber'' SNone)) (\<lambda>serial.
         res_bind (sdk_text_field (attr_or api lun ''deviceType'' SNone)) (\<lambda>kind.
         res_bind (if sdk_truthy operational
             then res_bind (sdk_items operational) (\<lambda>xs. Inr (Some (join '','' (map (sdk_str api) xs))))
             else Inr None) (\<lambda>health.
           Inr \<lparr>disk_path = sdk_str api (sdk_or (attr_or api lun ''deviceName'' SNone)
                 (attr_or api lun ''canonicalName'' (SVal (JStr [])))),
             disk_model = model, disk_serial = serial, disk_size_bytes = blocks * block_size, disk_type = kind,
             disk_health = health\<rparr>)))))))"

definition esxi_host_disks :: "'o sdk_api \<Rightarrow> 'o sdk \<Rightarrow> discovered_disk list res" where
  "esxi_host_disks api host =
     res_bind (sdk_items (sdk_value api host [''config'', ''storageDevice'', ''scsiLun''] (SSeq []))) (res_map (esxi_host_disk api))"

definition esxi_datastore :: "'o sdk_api \<Rightarrow> 'o sdk \<Rightarrow> discovered_storage res" where
  "esxi_datastore api datastore =
     (let summary = attr_or api datastore ''summary'' SNone
      in res_bind (sdk_int (attr_or api summary ''capacity'' (SVal (JInt 0)))) (\<lambda>total.
         res_bind (sdk_int (attr_or api summary ''freeSpace'' (SVal (JInt 0)))) (\<lambda>available.
         res_bind (sdk_text_field (attr_or api summary ''type'' SNone)) (\<lambda>kind.
           Inr \<lparr>st_name = sdk_str api (sdk_or (attr_or api summary ''name'' SNone) (attr_or api datastore ''name'' (SVal (JStr [])))),
             st_storage_type = kind, st_content = Some ''virtual-machines'', st_total_bytes = total,
             st_used_bytes = max (total - available) 0, st_available_bytes = available,
             st_active = sdk_truthy (attr_or api summary ''accessible'' (SVal (JBool False)))\<rparr>))))"

definition esxi_datastores :: "'o sdk_api \<Rightarrow> 'o sdk \<Rightarrow> discovered_storage list res" where
  "esxi_datastores api host = res_bind (sdk_items (attr_or api host ''datastore'' (SSeq []))) (res_map (esxi_datastore api))"

section \<open>The machines\<close>

definition portgroup_vlans :: "'o sdk_api \<Rightarrow> 'o sdk \<Rightarrow> (string \<times> 'o sdk) list res" where
  "portgroup_vlans api host =
     res_bind (network_items api host ''portgroup'') (\<lambda>portgroups.
       Inr (fold (\<lambda>portgroup d. let name = sdk_value api portgroup [''spec'', ''name''] SNone
          in if sdk_truthy name then dset (sdk_str api name) (sdk_value api portgroup [''spec'', ''vlanId''] SNone) d else d)
        portgroups []))"

definition configured_addresses :: "'o sdk_api \<Rightarrow> 'o sdk list \<Rightarrow> string list" where
  "configured_addresses api configured =
     concat (map (\<lambda>item. let address = attr_or api item ''ipAddress'' SNone; prefix = attr_or api item ''prefixLength'' SNone
       in if \<not> sdk_truthy address then []
          else [if prefix \<noteq> SNone then sdk_str api address @ ''/'' @ sdk_str api prefix else sdk_str api address]) configured)"

definition network_addresses :: "'o sdk_api \<Rightarrow> 'o sdk \<Rightarrow> string list res" where
  "network_addresses api network =
     res_bind (sdk_items (sdk_value api network [''ipConfig'', ''ipAddress''] (SSeq []))) (\<lambda>configured.
       if configured \<noteq> [] then Inr (configured_addresses api configured)
       else res_bind (sdk_items (attr_or api network ''ipAddress'' (SSeq []))) (\<lambda>xs. Inr (map (sdk_str api) xs)))"

type_synonym addresses_by = "(string \<times> string list) list"

definition guest_address_step :: "'o sdk_api \<Rightarrow> addresses_by \<times> addresses_by \<Rightarrow> 'o sdk \<Rightarrow> (addresses_by \<times> addresses_by) res" where
  "guest_address_step api acc network =
     res_bind (network_addresses api network) (\<lambda>addresses.
       let key = attr_or api network ''deviceConfigId'' SNone; mac = attr_or api network ''macAddress'' SNone
       in Inr (if key \<noteq> SNone then dset (sdk_str api key) addresses (fst acc) else fst acc,
               if sdk_truthy mac then dset (casefold (sdk_str api mac)) addresses (snd acc) else snd acc))"

definition guest_addresses :: "'o sdk_api \<Rightarrow> 'o sdk \<Rightarrow> (addresses_by \<times> addresses_by) res" where
  "guest_addresses api vm =
     res_bind (sdk_items (sdk_value api vm [''guest'', ''net''] (SSeq []))) (res_fold (guest_address_step api) ([], []))"

definition esxi_virtual_disk :: "'o sdk_api \<Rightarrow> 'o sdk \<Rightarrow> discovered_virtual_disk res" where
  "esxi_virtual_disk api device =
     (let label = sdk_str api (sdk_value api device [''deviceInfo'', ''label''] (SVal (JStr [])));
          datastore = sdk_value api device [''backing'', ''datastore'', ''name''] SNone
      in res_bind (sdk_int (attr_or api device ''capacityInKB'' (SVal (JInt 0)))) (\<lambda>kilobytes.
           Inr \<lparr>vd_name = (if label \<noteq> [] then label else ''disk-'' @ sdk_str api (attr_or api device ''key'' SNone)),
             vd_storage = (if sdk_truthy datastore then Some (sdk_str api datastore) else None),
             vd_size_bytes = kilobytes * 1024\<rparr>))"

definition nic_device_key :: "'o sdk_api \<Rightarrow> 'o sdk \<Rightarrow> string list \<Rightarrow> string res" where
  "nic_device_key api device nic_keys =
     (let key = attr_or api device ''key'' SNone; external_id = py_strip (sdk_str api key)
      in if key = SNone \<or> external_id = [] \<or> casefold external_id = ''none''
         then Inl (ValueError ''ESXi VM NIC has no stable device key'')
         else if external_id \<in> set nic_keys then Inl (ValueError ''ESXi VM has duplicate NIC device keys'')
         else Inr external_id)"

definition nic_addresses :: "addresses_by \<times> addresses_by \<Rightarrow> string \<Rightarrow> string \<Rightarrow> string list" where
  "nic_addresses addresses external_id mac =
     (if dgetl (fst addresses) external_id \<noteq> [] then dgetl (fst addresses) external_id
      else dgetl (snd addresses) (casefold mac))"

definition esxi_nic ::
    "'o sdk_api \<Rightarrow> addresses_by \<times> addresses_by \<Rightarrow> (string \<times> 'o sdk) list \<Rightarrow> string list \<Rightarrow> 'o sdk \<Rightarrow> discovered_interface res" where
  "esxi_nic api addresses portgroups nic_keys device =
     (let label = sdk_str api (sdk_value api device [''deviceInfo'', ''label''] (SVal (JStr [])));
          mac = sdk_str api (attr_or api device ''macAddress'' SNone);
          network = sdk_value api device [''backing'', ''deviceName''] SNone
      in res_bind (nic_device_key api device nic_keys) (\<lambda>external_id.
         res_bind (if sdk_truthy network
             then sdk_int_field (case dget portgroups (sdk_str api network) of None \<Rightarrow> SNone | Some v \<Rightarrow> v)
             else Inr None) (\<lambda>vlan_id.
           Inr \<lparr>nic_name = (if label \<noteq> [] then label else ''nic-'' @ external_id), nic_mac_address = Some mac,
             nic_bridge = (if sdk_truthy network then Some (sdk_str api network) else None), nic_vlan_id = vlan_id,
             nic_ip_addresses = nic_addresses addresses external_id mac, nic_external_id = Some external_id\<rparr>)))"

text \<open>One device of a machine: a disk, a card, or neither.\<close>

definition device_step ::
    "'o sdk_api \<Rightarrow> addresses_by \<times> addresses_by \<Rightarrow> (string \<times> 'o sdk) list
      \<Rightarrow> discovered_virtual_disk list \<times> discovered_interface list \<Rightarrow> 'o sdk
      \<Rightarrow> (discovered_virtual_disk list \<times> discovered_interface list) res" where
  "device_step api addresses portgroups acc device =
     (if get_attr api device ''capacityInKB'' \<noteq> None
      then res_bind (esxi_virtual_disk api device) (\<lambda>disk. Inr (fst acc @ [disk], snd acc))
      else if \<not> sdk_truthy (attr_or api device ''macAddress'' SNone) then Inr acc
      else res_bind (esxi_nic api addresses portgroups (some_values (map nic_external_id (snd acc))) device) (\<lambda>nic.
        Inr (fst acc, snd acc @ [nic])))"

definition vm_disks_and_interfaces ::
    "'o sdk_api \<Rightarrow> 'o sdk \<Rightarrow> 'o sdk \<Rightarrow> (discovered_virtual_disk list \<times> discovered_interface list) res" where
  "vm_disks_and_interfaces api vm host =
     res_bind (guest_addresses api vm) (\<lambda>addresses.
     res_bind (portgroup_vlans api host) (\<lambda>portgroups.
     res_bind (sdk_items (sdk_value api vm [''config'', ''hardware'', ''device''] (SSeq []))) (\<lambda>devices.
       res_fold (device_step api addresses portgroups) ([], []) devices)))"

definition vm_autostart :: "'o sdk_api \<Rightarrow> 'o sdk \<Rightarrow> 'o sdk \<Rightarrow> bool res" where
  "vm_autostart api vm host =
     res_bind (sdk_items (sdk_value api host [''config'', ''autoStart'', ''powerInfo''] (SSeq []))) (\<lambda>items.
       Inr (case find (\<lambda>item. attr_or api item ''key'' SNone = vm) items of
          None \<Rightarrow> False
        | Some item \<Rightarrow> attr_or api item ''startAction'' SNone \<notin> {SNone, SVal (JStr ''none'')}))"

definition power_status :: "string \<Rightarrow> string" where
  "power_status state =
     (if state = ''poweredOn'' then ''running'' else if state = ''poweredOff'' then ''stopped''
      else if state = ''suspended'' then ''paused'' else ''stopped'')"

definition esxi_virtual_machine ::
    "'o sdk_api \<Rightarrow> source_config \<Rightarrow> 'o sdk \<Rightarrow> string \<Rightarrow> 'o sdk \<Rightarrow> discovered_vm res" where
  "esxi_virtual_machine api config host host_id vm =
     res_bind (vm_external_id_of api vm) (\<lambda>external_id.
     let name = sdk_str api (sdk_or (attr_or api vm ''name'' SNone)
           (sdk_value api vm [''config'', ''name''] (SVal (JStr external_id))))
     in res_bind (vm_disks_and_interfaces api vm host) (\<lambda>(disks, interfaces).
        res_bind (sdk_int (sdk_value api vm [''config'', ''hardware'', ''numCPU''] (SVal (JInt 0)))) (\<lambda>vcpus.
        res_bind (sdk_int (sdk_value api vm [''config'', ''hardware'', ''memoryMB''] (SVal (JInt 0)))) (\<lambda>memory.
        res_bind (vm_autostart api vm host) (\<lambda>autostart.
          Inr \<lparr>g_source = ''esxi'', g_source_instance = sc_source_instance config, g_legacy_identity_owner = False,
            g_source_id = ''esxi:'' @ external_id, g_node_source_id = host_id, g_vmid = StrId external_id,
            g_original_name = name, g_normalized_name = py_upper name,
            g_status = power_status (sdk_str api (sdk_value api vm [''runtime'', ''powerState''] (SVal (JStr [])))),
            g_vcpus = vcpus, g_memory_bytes = memory * 1024 * 1024, g_autostart = autostart,
            g_disks = disks, g_interfaces = interfaces, vm_external_id = Some external_id\<rparr>)))))"

text \<open>The errors that make a machine a malformed one.\<close>

definition malformed_vm :: "py_exn \<Rightarrow> bool" where
  "malformed_vm e = (case e of AttributeError m \<Rightarrow> True | TypeError m \<Rightarrow> True | ValueError m \<Rightarrow> True | _ \<Rightarrow> False)"

fun esxi_machines ::
    "'o sdk_api \<Rightarrow> source_config \<Rightarrow> 'o sdk \<Rightarrow> string \<Rightarrow> 'o sdk list \<Rightarrow> discovered_vm list res" where
  "esxi_machines api config host host_id [] = Inr []"
| "esxi_machines api config host host_id (vm # vms) =
     (case esxi_virtual_machine api config host host_id vm of
        Inr found \<Rightarrow> res_bind (esxi_machines api config host host_id vms) (\<lambda>rest. Inr (found # rest))
      | Inl e \<Rightarrow> if malformed_vm e then esxi_machines api config host host_id vms else Inl e)"

definition esxi_virtual_machines :: "'o sdk_api \<Rightarrow> source_config \<Rightarrow> 'o sdk \<Rightarrow> string \<Rightarrow> discovered_vm list res" where
  "esxi_virtual_machines api config host host_id =
     res_bind (sdk_items (attr_or api host ''vm'' (SSeq []))) (esxi_machines api config host host_id)"

section \<open>The walk over the inventory\<close>

datatype 'o entity_key = ManagedKey string | ObjectKey "'o sdk"

definition entity_key :: "'o sdk_api \<Rightarrow> 'o sdk \<Rightarrow> 'o entity_key" where
  "entity_key api entity =
     (let managed_id = attr_or api entity ''_moId'' SNone
      in if sdk_truthy managed_id then ManagedKey (sdk_str api managed_id) else ObjectKey entity)"

definition is_host :: "'o sdk_api \<Rightarrow> 'o sdk \<Rightarrow> bool" where
  "is_host api entity \<longleftrightarrow> get_attr api entity ''vm'' \<noteq> None \<and> get_attr api entity ''hardware'' \<noteq> None"

definition sdk_children :: "'o sdk_api \<Rightarrow> 'o sdk \<Rightarrow> 'o sdk list res" where
  "sdk_children api entity =
     (let host_folder = attr_or api entity ''hostFolder'' SNone
      in res_bind (sdk_items (attr_or api entity ''host'' (SSeq []))) (\<lambda>hosts.
         res_bind (sdk_items (attr_or api entity ''childEntity'' (SSeq []))) (\<lambda>children.
           Inr ((if host_folder = SNone then [] else [host_folder]) @ hosts @ children))))"

text \<open>The hosts found and the keys seen; \<open>None\<close> when the fuel is used up.\<close>

type_synonym 'o walk = "('o sdk list \<times> 'o entity_key list) res option"

fun walk_hosts :: "'o sdk_api \<Rightarrow> nat \<Rightarrow> 'o entity_key list \<Rightarrow> 'o sdk \<Rightarrow> 'o walk"
and walk_list :: "'o sdk_api \<Rightarrow> nat \<Rightarrow> 'o entity_key list \<Rightarrow> 'o sdk list \<Rightarrow> 'o walk" where
  "walk_hosts api 0 seen entity = None"
| "walk_hosts api (Suc n) seen entity =
     (if entity = SNone \<or> entity_key api entity \<in> set seen then Some (Inr ([], seen))
      else if is_host api entity then Some (Inr ([entity], entity_key api entity # seen))
      else case sdk_children api entity of
          Inl e \<Rightarrow> Some (Inl e)
        | Inr children \<Rightarrow> walk_list api n (entity_key api entity # seen) children)"
| "walk_list api n seen [] = Some (Inr ([], seen))"
| "walk_list api n seen (entity # entities) =
     (case walk_hosts api n seen entity of
        None \<Rightarrow> None
      | Some (Inl e) \<Rightarrow> Some (Inl e)
      | Some (Inr (hosts, seen1)) \<Rightarrow>
          (case walk_list api n seen1 entities of
             None \<Rightarrow> None
           | Some (Inl e) \<Rightarrow> Some (Inl e)
           | Some (Inr (others, seen2)) \<Rightarrow> Some (Inr (hosts @ others, seen2))))"

section \<open>The inventory\<close>

definition esxi_cpu :: "'o sdk_api \<Rightarrow> 'o sdk \<Rightarrow> discovered_cpu res" where
  "esxi_cpu api host =
     res_bind (sdk_items (sdk_value api host [''hardware'', ''cpuPkg''] (SSeq []))) (\<lambda>packages.
     let first = (case packages of [] \<Rightarrow> SNone | p # ps \<Rightarrow> p);
         info = sdk_value api host [''hardware'', ''cpuInfo''] SNone
     in res_bind (sdk_text_field (attr_or api first ''description'' SNone)) (\<lambda>model.
        res_bind (sdk_text_field (attr_or api first ''vendor'' SNone)) (\<lambda>vendor.
        res_bind (sdk_int (attr_or api info ''numCpuPackages'' (SVal (JInt 0)))) (\<lambda>sockets.
        res_bind (sdk_int (attr_or api info ''numCpuCores'' (SVal (JInt 0)))) (\<lambda>cores.
        res_bind (sdk_int (attr_or api info ''numCpuThreads'' (SVal (JInt 0)))) (\<lambda>threads.
          Inr \<lparr>cpu_model = model, cpu_vendor = vendor, cpu_sockets = sockets, cpu_cores = cores,
            cpu_logical_cpus = threads\<rparr>))))))"

definition hypervisor_version :: "'o sdk_api \<Rightarrow> 'o sdk \<Rightarrow> string option res" where
  "hypervisor_version api host =
     (let product = sdk_value api host [''summary'', ''config'', ''product''] SNone;
          version = attr_or api product ''version'' SNone; build = attr_or api product ''build'' SNone
      in if sdk_truthy version \<and> sdk_truthy build
         then Inr (Some (sdk_str api version @ '' build-'' @ sdk_str api build))
         else sdk_text_field version)"

definition discover_esxi_host :: "'o sdk_api \<Rightarrow> source_config \<Rightarrow> 'o sdk \<Rightarrow> proxmox_host res" where
  "discover_esxi_host api config host =
     res_bind (host_external_id api host) (\<lambda>host_id.
     let name = sdk_str api (attr_or api host ''name'' (SVal (JStr host_id)))
     in res_bind (hypervisor_version api host) (\<lambda>version.
        res_bind (esxi_management_ip api host) (\<lambda>management_ip.
        res_bind (esxi_cpu api host) (\<lambda>cpu.
        res_bind (sdk_int (sdk_value api host [''hardware'', ''memorySize''] (SVal (JInt 0)))) (\<lambda>memory.
        res_bind (esxi_host_disks api host) (\<lambda>disks.
        res_bind (esxi_datastores api host) (\<lambda>storages.
        res_bind (esxi_host_interfaces api host) (\<lambda>interfaces.
        res_bind (esxi_virtual_machines api config host host_id) (\<lambda>machines.
          Inr \<lparr>h_source = ''esxi'', h_source_instance = sc_source_instance config, h_legacy_identity_owner = False,
            h_source_id = host_id, h_original_name = name, h_normalized_name = py_upper name,
            h_management_ip = management_ip, h_hypervisor = ''VMware ESXi'', h_hypervisor_version = version,
            h_cpu = cpu, h_memory_bytes = memory, h_disks = disks, h_interfaces = interfaces,
            h_virtual_machines = machines, h_containers = [], h_storages = storages\<rparr>)))))))))"

definition discover_esxi_hosts :: "'o sdk_api \<Rightarrow> nat \<Rightarrow> source_config \<Rightarrow> 'o sdk \<Rightarrow> proxmox_host list res option" where
  "discover_esxi_hosts api fuel config content =
     (case walk_hosts api fuel [] (attr_or api content ''rootFolder'' content) of
        None \<Rightarrow> None
      | Some (Inl e) \<Rightarrow> Some (Inl e)
      | Some (Inr (entities, seen)) \<Rightarrow>
          Some (res_bind (res_map (discover_esxi_host api config) entities) (\<lambda>hosts.
            if hosts = [] then Inl (RuntimeError ''ESXi inventory contains no hosts'') else Inr hosts)))"

section \<open>The walk: termination\<close>

text \<open>What an entity leads to: its children, unless it is a host.\<close>

inductive reaches :: "'o sdk_api \<Rightarrow> 'o sdk \<Rightarrow> 'o sdk \<Rightarrow> bool" for api where
  reaches_here: "entity \<noteq> SNone \<Longrightarrow> reaches api entity entity"
| reaches_child: "entity \<noteq> SNone \<Longrightarrow> \<not> is_host api entity \<Longrightarrow> sdk_children api entity = Inr children \<Longrightarrow>
    child \<in> set children \<Longrightarrow> reaches api child x \<Longrightarrow> reaches api entity x"

lemma walk_seen_mono:
  "walk_hosts api n seen entity = Some (Inr (hosts, seen')) \<Longrightarrow> set seen \<subseteq> set seen'"
  "walk_list api n seen entities = Some (Inr (hosts, seen')) \<Longrightarrow> set seen \<subseteq> set seen'"
proof (induction api n seen entity and api n seen entities arbitrary: hosts seen' and hosts seen'
    rule: walk_hosts_walk_list.induct)
  case (2 api n seen entity)
  then show ?case by (auto split: if_splits sum.splits)
next
  case (4 api n seen entity entities)
  then show ?case by (fastforce split: option.splits sum.splits prod.splits)
qed simp_all

text \<open>With more fuel than there are keys left to see, the walk ends.\<close>

lemma walk_ends:
  assumes "finite K"
  shows "(\<forall>x. reaches api entity x \<longrightarrow> entity_key api x \<in> K) \<Longrightarrow> card (K - set seen) < n \<Longrightarrow>
      walk_hosts api n seen entity \<noteq> None"
    and "(\<forall>entity \<in> set entities. \<forall>x. reaches api entity x \<longrightarrow> entity_key api x \<in> K) \<Longrightarrow> card (K - set seen) < n \<Longrightarrow>
      walk_list api n seen entities \<noteq> None"
proof (induction api n seen entity and api n seen entities rule: walk_hosts_walk_list.induct)
  case (2 api n seen entity)
  show ?case
  proof (cases "entity = SNone \<or> entity_key api entity \<in> set seen \<or> is_host api entity")
    case False
    then have new: "entity_key api entity \<in> K - set seen" using 2(2) reaches_here by blast
    have "K - set (entity_key api entity # seen) = (K - set seen) - {entity_key api entity}" by auto
    then have "card (K - set (entity_key api entity # seen)) < card (K - set seen)"
      using new assms card_Diff1_less [of "K - set seen"] by simp
    then have fuel: "card (K - set (entity_key api entity # seen)) < n" using 2(3) by simp
    show ?thesis
    proof (cases "sdk_children api entity")
      case (Inr children)
      have "\<forall>child \<in> set children. \<forall>x. reaches api child x \<longrightarrow> entity_key api x \<in> K"
        using 2(2) False Inr reaches_child by blast
      with 2(1) False Inr fuel show ?thesis by simp
    qed (use False in simp)
  qed auto
next
  case (4 api n seen entity entities)
  have first: "walk_hosts api n seen entity \<noteq> None" using 4(1,3,4) by simp
  show ?case
  proof (cases "walk_hosts api n seen entity")
    case (Some r)
    show ?thesis
    proof (cases r)
      case (Inr p)
      obtain hosts seen1 where p: "p = (hosts, seen1)" by (cases p)
      have "set seen \<subseteq> set seen1" using walk_seen_mono(1) Some Inr p by blast
      then have "card (K - set seen1) \<le> card (K - set seen)" using assms by (intro card_mono) auto
      then have "card (K - set seen1) < n" using 4(4) by simp
      with 4(2) [OF Some Inr p [symmetric]] 4(3) have "walk_list api n seen1 entities \<noteq> None" by simp
      with Some Inr p show ?thesis by (auto split: sum.splits)
    qed (use Some in simp)
  qed (use first in simp)
qed simp_all

section \<open>The walk: what it finds\<close>

text \<open>The keys a walk adds, and what it has done with each.\<close>

definition explored :: "'o sdk_api \<Rightarrow> 'o sdk list \<Rightarrow> 'o entity_key set \<Rightarrow> ('o sdk \<Rightarrow> bool) \<Rightarrow> 'o entity_key \<Rightarrow> bool" where
  "explored api hosts seen' from k \<longleftrightarrow>
     (\<exists>x. entity_key api x = k \<and> from x
        \<and> (if is_host api x then x \<in> set hosts
           else \<exists>children. sdk_children api x = Inr children
             \<and> (\<forall>child \<in> set children. child \<noteq> SNone \<longrightarrow> entity_key api child \<in> seen')))"

definition walked :: "'o sdk_api \<Rightarrow> 'o entity_key set \<Rightarrow> 'o sdk list \<Rightarrow> 'o entity_key set \<Rightarrow> ('o sdk \<Rightarrow> bool) \<Rightarrow> bool" where
  "walked api seen hosts seen' from \<longleftrightarrow>
     seen \<subseteq> seen' \<and> distinct (map (entity_key api) hosts) \<and> entity_key api ` set hosts \<subseteq> seen' - seen
     \<and> (\<forall>h \<in> set hosts. is_host api h \<and> from h) \<and> (\<forall>k \<in> seen' - seen. explored api hosts seen' from k)"

lemma explored_mono:
  "explored api hosts seen from k \<Longrightarrow> set hosts \<subseteq> set hosts' \<Longrightarrow> seen \<subseteq> seen' \<Longrightarrow> (\<And>x. from x \<Longrightarrow> from' x) \<Longrightarrow>
     explored api hosts' seen' from' k"
  unfolding explored_def by (elim exE conjE) (intro exI conjI; fastforce split: if_splits)

lemma walked_append:
  assumes a: "walked api seen hosts seen1 from1" and b: "walked api seen1 others seen2 from2"
    and "\<And>x. from1 x \<Longrightarrow> from x" and "\<And>x. from2 x \<Longrightarrow> from x"
  shows "walked api seen (hosts @ others) seen2 from"
proof -
  have "explored api (hosts @ others) seen2 from k" if k: "k \<in> seen2 - seen" for k
  proof (cases "k \<in> seen1")
    case True
    then have "explored api hosts seen1 from1 k" using a k by (auto simp: walked_def)
    then show ?thesis by (rule explored_mono) (use b assms(3) in \<open>auto simp: walked_def\<close>)
  next
    case False
    then have "explored api others seen2 from2 k" using b k by (auto simp: walked_def)
    then show ?thesis by (rule explored_mono) (use assms(4) in auto)
  qed
  moreover have keys: "entity_key api ` set hosts \<subseteq> seen1 - seen" "entity_key api ` set others \<subseteq> seen2 - seen1" and
      sub: "seen \<subseteq> seen1" "seen1 \<subseteq> seen2"
    using a b by (simp_all add: walked_def)
  moreover have "distinct (map (entity_key api) (hosts @ others))"
    using a b keys by (auto simp: walked_def)
  moreover have "\<forall>h \<in> set (hosts @ others). is_host api h \<and> from h"
    using a b assms(3,4) by (auto simp: walked_def)
  moreover have "entity_key api ` set (hosts @ others) \<subseteq> seen2 - seen" using keys sub by auto
  ultimately show ?thesis unfolding walked_def using subset_trans [OF sub] by (intro conjI ballI) simp_all
qed

lemma explored_here:
  assumes "is_host api x \<Longrightarrow> x \<in> set hosts" and "from x"
    and "\<not> is_host api x \<Longrightarrow> \<exists>children. sdk_children api x = Inr children
      \<and> (\<forall>child \<in> set children. child \<noteq> SNone \<longrightarrow> entity_key api child \<in> seen')"
  shows "explored api hosts seen' from (entity_key api x)"
  using assms unfolding explored_def by (intro exI [of _ x]) simp

lemma walk_walked:
  "walk_hosts api n seen entity = Some (Inr (hosts, seen')) \<Longrightarrow>
     walked api (set seen) hosts (set seen') (reaches api entity) \<and> (entity \<noteq> SNone \<longrightarrow> entity_key api entity \<in> set seen')"
  "walk_list api n seen entities = Some (Inr (hosts, seen')) \<Longrightarrow>
     walked api (set seen) hosts (set seen') (\<lambda>x. \<exists>entity \<in> set entities. reaches api entity x)
     \<and> (\<forall>entity \<in> set entities. entity \<noteq> SNone \<longrightarrow> entity_key api entity \<in> set seen')"
proof (induction api n seen entity and api n seen entities arbitrary: hosts seen' and hosts seen'
    rule: walk_hosts_walk_list.induct)
  case (2 api n seen entity)
  show ?case
  proof (cases "entity = SNone \<or> entity_key api entity \<in> set seen")
    case True
    with 2(2) show ?thesis by (auto simp: walked_def)
  next
    case new: False
    show ?thesis
    proof (cases "is_host api entity")
      case True
      with new 2(2) have h: "hosts = [entity]" "seen' = entity_key api entity # seen" by auto
      have "explored api hosts (set seen') (reaches api entity) (entity_key api entity)"
        by (rule explored_here) (use h new True in \<open>auto intro: reaches_here\<close>)
      with h new True show ?thesis by (auto simp: walked_def intro: reaches_here)
    next
      case False
      obtain children where ch: "sdk_children api entity = Inr children"
        and run: "walk_list api n (entity_key api entity # seen) children = Some (Inr (hosts, seen'))"
        using 2(2) new False by (auto split: sum.splits)
      note IH = 2(1) [OF new False ch run]
      have child: "reaches api entity x" if "\<exists>c \<in> set children. reaches api c x" for x
        using that new False ch reaches_child by blast
      have "explored api hosts (set seen') (reaches api entity) (entity_key api entity)"
        by (rule explored_here) (use new False ch IH in \<open>auto intro: reaches_here\<close>)
      moreover have "explored api hosts (set seen') (reaches api entity) k"
        if "k \<in> set seen' - set (entity_key api entity # seen)" for k
        using IH that by (auto simp: walked_def intro: explored_mono [OF _ subset_refl subset_refl child])
      ultimately have "\<forall>k \<in> set seen' - set seen. explored api hosts (set seen') (reaches api entity) k" by auto
      with IH child show ?thesis by (auto simp: walked_def)
    qed
  qed
next
  case (3 api n seen)
  then show ?case by (auto simp: walked_def)
next
  case (4 api n seen entity entities)
  obtain found seen1 others where a: "walk_hosts api n seen entity = Some (Inr (found, seen1))"
    and b: "walk_list api n seen1 entities = Some (Inr (others, seen'))" and hosts: "hosts = found @ others"
    using 4(3) by (auto split: option.splits sum.splits prod.splits)
  note A = 4(1) [OF a] and B = 4(2) [OF a refl refl b]
  have "walked api (set seen) hosts (set seen') (\<lambda>x. \<exists>e \<in> set (entity # entities). reaches api e x)"
    unfolding hosts by (rule walked_append [OF conjunct1 [OF A] conjunct1 [OF B]]) auto
  with A B show ?case by (auto simp: walked_def)
qed simp_all

lemma walk_error:
  "walk_hosts api n seen entity = Some (Inl e) \<Longrightarrow> \<exists>x. reaches api entity x \<and> \<not> is_host api x \<and> sdk_children api x = Inl e"
  "walk_list api n seen entities = Some (Inl e) \<Longrightarrow>
     \<exists>entity \<in> set entities. \<exists>x. reaches api entity x \<and> \<not> is_host api x \<and> sdk_children api x = Inl e"
proof (induction api n seen entity and api n seen entities rule: walk_hosts_walk_list.induct)
  case (2 api n seen entity)
  have new: "entity \<noteq> SNone" "entity_key api entity \<notin> set seen" "\<not> is_host api entity"
    using 2(2) by (auto split: if_splits)
  show ?case
  proof (cases "sdk_children api entity")
    case (Inl e')
    with 2(2) new have "e' = e" by simp
    with Inl new show ?thesis using reaches_here by blast
  next
    case (Inr children)
    with 2(2) new have "walk_list api n (entity_key api entity # seen) children = Some (Inl e)" by simp
    from 2(1) [OF _ _ Inr this] new obtain c x where "c \<in> set children" "reaches api c x" "\<not> is_host api x" "sdk_children api x = Inl e"
      by auto
    with new Inr show ?thesis using reaches_child by blast
  qed
next
  case (4 api n seen entity entities)
  show ?case
  proof (cases "walk_hosts api n seen entity = Some (Inl e)")
    case True
    with 4(1) show ?thesis by auto
  next
    case False
    then obtain found seen1 where a: "walk_hosts api n seen entity = Some (Inr (found, seen1))"
      and b: "walk_list api n seen1 entities = Some (Inl e)"
      using 4(3) by (auto split: option.splits sum.splits prod.splits)
    from 4(2) [OF a refl refl b] show ?thesis by auto
  qed
qed simp_all

lemma walk_complete:
  assumes run: "walk_hosts api n [] start = Some (Inr (hosts, seen))"
    and inj: "inj_on (entity_key api) {x. reaches api start x}"
  shows "distinct hosts \<and> set hosts = {x. reaches api start x \<and> is_host api x}"
proof -
  note w = walk_walked(1) [OF run]
  have key: "(entity \<noteq> SNone \<longrightarrow> entity_key api entity \<in> set seen) \<longrightarrow> entity_key api x \<in> set seen"
    if "reaches api entity x" "reaches api start entity" for entity x
    using that
  proof (induction rule: reaches.induct)
    case (reaches_child entity children child x)
    have c: "reaches api start child" if "child \<noteq> SNone"
      using reaches_child.prems reaches_child.hyps that
      by (induction start entity rule: reaches.induct) (auto intro: reaches.intros)
    show ?case
    proof
      assume "entity \<noteq> SNone \<longrightarrow> entity_key api entity \<in> set seen"
      then have "explored api hosts (set seen) (reaches api start) (entity_key api entity)"
        using w reaches_child.hyps(1) by (auto simp: walked_def)
      then obtain y where y: "entity_key api y = entity_key api entity" "reaches api start y"
        "\<not> is_host api y \<longrightarrow> (\<exists>cs. sdk_children api y = Inr cs \<and> (\<forall>c \<in> set cs. c \<noteq> SNone \<longrightarrow> entity_key api c \<in> set seen))"
        by (auto simp: explored_def split: if_splits)
      have "y = entity" using inj y(1,2) reaches_child.prems by (auto dest: inj_onD)
      with y(3) reaches_child.hyps have "child \<noteq> SNone \<longrightarrow> entity_key api child \<in> set seen" by auto
      moreover have "child \<noteq> SNone" using reaches_child.hyps(5) by (auto elim: reaches.cases)
      ultimately show "entity_key api x \<in> set seen" using reaches_child.IH c by blast
    qed
  qed simp
  have "x \<in> set hosts" if x: "reaches api start x" "is_host api x" for x
  proof -
    have "reaches api start start" using x(1) by (auto elim: reaches.cases intro: reaches_here)
    then have "entity_key api x \<in> set seen" using key [OF x(1)] w by blast
    then have "explored api hosts (set seen) (reaches api start) (entity_key api x)" using w by (auto simp: walked_def)
    then obtain y where y: "entity_key api y = entity_key api x" "reaches api start y"
      "if is_host api y then y \<in> set hosts else True" by (auto simp: explored_def split: if_splits)
    have "y = x" using inj y(1,2) x(1) by (auto dest: inj_onD)
    with y(3) x(2) show ?thesis by simp
  qed
  moreover have "distinct hosts" using w by (auto simp: walked_def distinct_map)
  moreover have "reaches api start x \<and> is_host api x" if "x \<in> set hosts" for x using w that by (auto simp: walked_def)
  ultimately show ?thesis by blast
qed

text \<open>C40: The walk over the inventory ends and finds every host once.  If only finitely many objects can be reached, with
  different keys, any fuel above their number is enough; the walk then returns the hosts reachable through folders
  and lists, each once - or the error of an object whose list cannot be read.  Objects linked in a circle do not
  matter.\<close>

theorem esxi_walk_complete:
  assumes "finite {x. reaches api start x}" and "inj_on (entity_key api) {x. reaches api start x}"
    and "card {x. reaches api start x} < fuel"
  shows "\<exists>r. walk_hosts api fuel [] start = Some r
    \<and> (case r of
         Inr (hosts, seen) \<Rightarrow> distinct hosts \<and> set hosts = {x. reaches api start x \<and> is_host api x}
       | Inl e \<Rightarrow> \<exists>x. reaches api start x \<and> \<not> is_host api x \<and> sdk_children api x = Inl e)"
proof -
  define K where "K = entity_key api ` {x. reaches api start x}"
  have K: "finite K" "card (K - set []) < fuel"
    using assms by (simp_all add: K_def card_image)
  have "walk_hosts api fuel [] start \<noteq> None" by (rule walk_ends(1) [OF K(1) _ K(2)]) (auto simp: K_def)
  then obtain r where r: "walk_hosts api fuel [] start = Some r" by blast
  show ?thesis
  proof (cases r)
    case (Inl e)
    with r walk_error(1) [of api fuel "[]" start e] show ?thesis by auto
  next
    case (Inr p)
    obtain hosts seen where "p = (hosts, seen)" by (cases p)
    with r Inr walk_complete [OF _ assms(2), of fuel hosts seen] show ?thesis by auto
  qed
qed

section \<open>What the inventory satisfies\<close>

lemma mem_dropWhile: "c \<in> set s \<Longrightarrow> \<not> P c \<Longrightarrow> c \<in> set (dropWhile P s)"
  by (induction s) auto

lemma strip_keeps: "c \<in> set s \<Longrightarrow> \<not> is_space c \<Longrightarrow> c \<in> set (py_strip s)"
  by (simp add: py_strip_def mem_dropWhile)

lemma strip_Nil: "py_strip s = [] \<longleftrightarrow> (\<forall>c \<in> set s. is_space c)"
  using strip_keeps by (force simp: py_strip_def dropWhile_eq_Nil_conv dest: set_dropWhileD)

lemma strip_strip: "py_strip s \<noteq> [] \<Longrightarrow> py_strip (py_strip s) \<noteq> []"
  unfolding strip_Nil using strip_keeps by blast

lemma hex_not_space: "is_hex_char c \<Longrightarrow> \<not> is_space (py_lower_char c)"
proof -
  have "list_all (\<lambda>c. \<not> is_space (py_lower_char c)) ''0123456789abcdefABCDEF''" by code_simp
  then show "is_hex_char c \<Longrightarrow> \<not> is_space (py_lower_char c)" unfolding is_hex_char_def list_all_iff by blast
qed

lemma uuid_of_compact_text: "uuid_of_compact s = Some u \<Longrightarrow> py_strip u \<noteq> []"
proof -
  assume "uuid_of_compact s = Some u"
  then have s: "length s = 32" "list_all is_hex_char s" "u = uuid_text (map py_lower_char s)"
    by (auto simp: uuid_of_compact_def split: if_splits)
  then obtain c s' where c: "s = c # s'" "is_hex_char c" by (cases s) auto
  then have "py_lower_char c \<in> set u" using s by (simp add: uuid_text_def)
  with hex_not_space [OF c(2)] show ?thesis by (auto simp: strip_Nil)
qed

lemma normalized_uuid_text: "normalized_uuid api v = Some u \<Longrightarrow> py_strip u \<noteq> []"
  by (auto simp: normalized_uuid_def Let_def simp del: filter_filter split: if_splits dest: uuid_of_compact_text)

lemma first_some_prop: "first_some xs = Some i \<Longrightarrow> list_all (\<lambda>x. \<forall>i. x = Some i \<longrightarrow> P i) xs \<Longrightarrow> P i"
  by (induction xs rule: first_some.induct) auto

lemma managed_object_id_text: "managed_object_id api v = Some i \<Longrightarrow> py_strip i \<noteq> []"
  by (auto simp: managed_object_id_def Let_def strip_strip split: if_splits)

lemma vm_external_id_text:
  assumes "vm_external_id_of api vm = Inr i"
  shows "py_strip i \<noteq> []"
proof (rule first_some_prop [where P = "\<lambda>i. py_strip i \<noteq> []"])
  show "first_some (map (\<lambda>path. normalized_uuid api (sdk_value api vm path SNone))
          [[''config'', ''instanceUuid''], [''summary'', ''config'', ''instanceUuid''], [''config'', ''uuid'']]
        @ [managed_object_id api vm]) = Some i"
    using assms unfolding vm_external_id_of_def by (auto split: option.splits simp del: first_some.simps list.map append.simps)
qed (simp add: normalized_uuid_text managed_object_id_text)

lemma host_external_id_text:
  assumes "host_external_id api host = Inr i"
  shows "py_strip i \<noteq> []"
proof (rule first_some_prop [where P = "\<lambda>i. py_strip i \<noteq> []"])
  show "first_some (map (\<lambda>path. validated_host_hardware_uuid api (sdk_value api host path SNone))
          [[''hardware'', ''systemInfo'', ''uuid''], [''summary'', ''hardware'', ''uuid'']]
        @ [managed_object_id api host]) = Some i"
    using assms unfolding host_external_id_def by (auto split: option.splits simp del: first_some.simps list.map append.simps)
  have "validated_host_hardware_uuid api v = Some u \<longrightarrow> py_strip u \<noteq> []" for v u
    by (auto simp: validated_host_hardware_uuid_def normalized_uuid_text split: option.splits if_splits)
  then show "list_all (\<lambda>x. \<forall>i. x = Some i \<longrightarrow> py_strip i \<noteq> [])
      (map (\<lambda>path. validated_host_hardware_uuid api (sdk_value api host path SNone))
          [[''hardware'', ''systemInfo'', ''uuid''], [''summary'', ''hardware'', ''uuid'']]
        @ [managed_object_id api host])"
    by (simp add: managed_object_id_text)
qed

text \<open>The cards of a machine: each with a stable key of its own.\<close>

definition keyed_nics :: "discovered_interface list \<Rightarrow> bool" where
  "keyed_nics nics \<longleftrightarrow> distinct (map nic_external_id nics)
     \<and> (\<forall>nic \<in> set nics. \<exists>key. nic_external_id nic = Some key \<and> py_strip key \<noteq> [])"

lemma esxi_nic_key:
  assumes "esxi_nic api addresses portgroups keys device = Inr nic"
  shows "\<exists>key. nic_external_id nic = Some key \<and> py_strip key \<noteq> [] \<and> key \<notin> set keys"
  using assms by (auto simp: esxi_nic_def nic_device_key_def Let_def res_bind_eq_Inr strip_strip split: if_splits)

lemma device_step_nics:
  assumes "keyed_nics (snd acc)" and "device_step api addresses portgroups acc device = Inr acc'"
  shows "keyed_nics (snd acc')"
proof -
  consider "snd acc' = snd acc" | nic where "snd acc' = snd acc @ [nic]"
      "esxi_nic api addresses portgroups (some_values (map nic_external_id (snd acc))) device = Inr nic"
    using assms(2) by (auto simp: device_step_def res_bind_eq_Inr split: if_splits)
  then show ?thesis
  proof cases
    case 2
    then show ?thesis using assms(1) esxi_nic_key [OF 2(2)] by (fastforce simp: keyed_nics_def some_values_mem)
  qed (use assms(1) in simp)
qed

lemma vm_nics_keyed: "vm_disks_and_interfaces api vm host = Inr (disks, nics) \<Longrightarrow> keyed_nics nics"
proof -
  assume "vm_disks_and_interfaces api vm host = Inr (disks, nics)"
  then obtain addresses portgroups devices where "res_fold (device_step api addresses portgroups) ([], []) devices = Inr (disks, nics)"
    by (auto simp: vm_disks_and_interfaces_def res_bind_eq_Inr)
  then have "keyed_nics (snd (disks, nics))"
    by (rule res_fold_invariant) (auto simp: keyed_nics_def [of "[]"] intro: device_step_nics)
  then show ?thesis by simp
qed

text \<open>A machine of the inventory: of this source, with a stable identifier and a state the stages know.\<close>

definition esxi_vm_ok :: "source_config \<Rightarrow> string \<Rightarrow> discovered_vm \<Rightarrow> bool" where
  "esxi_vm_ok config host_id vm \<longleftrightarrow>
     g_source vm = ''esxi'' \<and> g_source_instance vm = sc_source_instance config \<and> \<not> g_legacy_identity_owner vm
     \<and> g_node_source_id vm = host_id
     \<and> (\<exists>e. vm_external_id vm = Some e \<and> py_strip e \<noteq> [] \<and> g_vmid vm = StrId e \<and> g_source_id vm = ''esxi:'' @ e)
     \<and> g_normalized_name vm = py_upper (g_original_name vm)
     \<and> g_status vm \<in> {''running'', ''stopped'', ''paused''} \<and> keyed_nics (g_interfaces vm)"

lemma esxi_virtual_machine_ok:
  assumes "esxi_virtual_machine api config host host_id x = Inr vm"
  shows "esxi_vm_ok config host_id vm"
  using assms
  by (auto simp: esxi_virtual_machine_def Let_def res_bind_eq_Inr esxi_vm_ok_def power_status_def vm_external_id_text
      vm_nics_keyed)

lemma esxi_machines_Inr:
  assumes "esxi_machines api config host host_id xs = Inr vms"
  shows "vms = concat (map (\<lambda>x. case esxi_virtual_machine api config host host_id x of Inl e \<Rightarrow> [] | Inr vm \<Rightarrow> [vm]) xs)
    \<and> (\<forall>x \<in> set xs. \<forall>e. esxi_virtual_machine api config host host_id x = Inl e \<longrightarrow> malformed_vm e)"
  using assms
  by (induction xs arbitrary: vms) (auto simp: res_bind_eq_Inr split: sum.splits if_splits)

lemma esxi_identities:
  assumes ok: "esxi_vm_ok config host_id vm" and inst: "py_strip (sc_source_instance config) \<noteq> []"
  shows "virtual_machine_source_identity vm = Inr \<lparr>si_schema = IDENTITY_SCHEMA_V2, si_type = ''esxi'',
      si_instance = sc_source_instance config, si_kind = ''vm'', si_external_id = the (vm_external_id vm)\<rparr>"
    and "distinct (map (virtual_machine_nic_source_identity vm) (g_interfaces vm))"
    and "\<forall>nic \<in> set (g_interfaces vm). \<exists>i. virtual_machine_nic_source_identity vm nic = Inr i"
proof -
  obtain e where e: "vm_external_id vm = Some e" "py_strip e \<noteq> []" and src: "g_source vm = ''esxi''"
    "g_source_instance vm = sc_source_instance config" and nics: "keyed_nics (g_interfaces vm)"
    using ok by (auto simp: esxi_vm_ok_def)
  have ne: "e \<noteq> []" using e(2) by (auto simp: py_strip_def)
  have blank: "py_strip ''esxi'' \<noteq> []" "py_strip ''vm'' \<noteq> []" "py_strip ''vm-nic'' \<noteq> []" by code_simp+
  show "virtual_machine_source_identity vm = Inr \<lparr>si_schema = IDENTITY_SCHEMA_V2, si_type = ''esxi'',
      si_instance = sc_source_instance config, si_kind = ''vm'', si_external_id = the (vm_external_id vm)\<rparr>"
    using e ne src inst blank
    by (auto simp: virtual_machine_source_identity_def identity_of_Inr valid_identity_def or_text_def)
  have nic_id: "virtual_machine_nic_source_identity vm nic = Inr \<lparr>si_schema = IDENTITY_SCHEMA_V2, si_type = ''esxi'',
      si_instance = sc_source_instance config, si_kind = ''vm-nic'',
      si_external_id = e @ '':'' @ the (nic_external_id nic)\<rparr>" if nic: "nic \<in> set (g_interfaces vm)" for nic
  proof -
    obtain k where k: "nic_external_id nic = Some k" "py_strip k \<noteq> []" using nics nic by (auto simp: keyed_nics_def)
    have "k \<noteq> []" using k(2) by (auto simp: py_strip_def)
    moreover have "py_strip (e @ '':'' @ k) \<noteq> []" using e(2) by (auto simp: strip_Nil)
    ultimately show ?thesis
      using e ne k src inst blank
      by (auto simp: virtual_machine_nic_source_identity_def identity_of_Inr valid_identity_def or_text_def)
  qed
  then show "\<forall>nic \<in> set (g_interfaces vm). \<exists>i. virtual_machine_nic_source_identity vm nic = Inr i" by blast
  have "inj_on (virtual_machine_nic_source_identity vm) (set (g_interfaces vm))"
  proof (rule inj_onI)
    fix x y assume xy: "x \<in> set (g_interfaces vm)" "y \<in> set (g_interfaces vm)"
      "virtual_machine_nic_source_identity vm x = virtual_machine_nic_source_identity vm y"
    then have "the (nic_external_id x) = the (nic_external_id y)" using nic_id by simp
    moreover have "\<exists>k. nic_external_id x = Some k" "\<exists>l. nic_external_id y = Some l"
      using xy(1,2) nics unfolding keyed_nics_def by blast+
    ultimately have "nic_external_id x = nic_external_id y" by auto
    then show "x = y" using xy(1,2) nics by (auto simp: keyed_nics_def distinct_map inj_on_def)
  qed
  then show "distinct (map (virtual_machine_nic_source_identity vm) (g_interfaces vm))"
    using nics by (auto simp: keyed_nics_def distinct_map)
qed

text \<open>A host of the inventory, and which machines it has: those of its SDK list that are well formed, in order.\<close>

definition esxi_host_ok :: "'o sdk_api \<Rightarrow> source_config \<Rightarrow> 'o sdk \<Rightarrow> proxmox_host \<Rightarrow> bool" where
  "esxi_host_ok api config x h \<longleftrightarrow>
     h_source h = ''esxi'' \<and> h_source_instance h = sc_source_instance config \<and> py_strip (h_source_id h) \<noteq> []
     \<and> h_containers h = []
     \<and> (\<exists>machines. sdk_items (attr_or api x ''vm'' (SSeq [])) = Inr machines
          \<and> h_virtual_machines h = concat (map (\<lambda>m. case esxi_virtual_machine api config x (h_source_id h) m of
               Inl e \<Rightarrow> [] | Inr vm \<Rightarrow> [vm]) machines)
          \<and> (\<forall>m \<in> set machines. \<forall>e. esxi_virtual_machine api config x (h_source_id h) m = Inl e \<longrightarrow> malformed_vm e))"

lemma discover_esxi_host_ok:
  assumes "discover_esxi_host api config x = Inr h"
  shows "esxi_host_ok api config x h \<and> (\<forall>vm \<in> set (h_virtual_machines h). esxi_vm_ok config (h_source_id h) vm)"
proof -
  obtain host_id vms where id: "host_external_id api x = Inr host_id"
    and vms: "esxi_virtual_machines api config x host_id = Inr vms"
    and h: "h_source h = ''esxi''" "h_source_instance h = sc_source_instance config" "h_source_id h = host_id"
      "h_containers h = []" "h_virtual_machines h = vms"
    using assms by (auto simp: discover_esxi_host_def Let_def res_bind_eq_Inr)
  obtain machines where m: "sdk_items (attr_or api x ''vm'' (SSeq [])) = Inr machines"
    and run: "esxi_machines api config x host_id machines = Inr vms"
    using vms by (auto simp: esxi_virtual_machines_def res_bind_eq_Inr)
  note e = esxi_machines_Inr [OF run]
  have "esxi_vm_ok config host_id vm" if "vm \<in> set vms" for vm
    using that conjunct1 [OF e] by (auto split: sum.splits intro: esxi_virtual_machine_ok)
  with e m h host_external_id_text [OF id] show ?thesis unfolding esxi_host_ok_def by auto
qed


section \<open>A sample\<close>

text \<open>A folder with a host, in a circle; the host has a machine with one card and a machine without an identifier.\<close>

definition sample_objects :: "(nat \<times> (string \<times> nat sdk) list) list" where
  "sample_objects =
     [(0, [(''rootFolder'', SObj 1)]),
      (1, [(''host'', SSeq [SObj 2, SObj 1])]),
      (2, [(''_moId'', SVal (JStr ''ha-host'')), (''name'', SVal (JStr ''esx1'')), (''hardware'', SNone),
           (''vm'', SSeq [SObj 3, SObj 4])]),
      (3, [(''_moId'', SVal (JStr ''7'')), (''name'', SVal (JStr ''web'')), (''config'', SObj 5)]),
      (4, [(''name'', SVal (JStr ''broken''))]),
      (5, [(''hardware'', SObj 6)]),
      (6, [(''numCPU'', SVal (JInt 2)), (''device'', SSeq [SObj 7])]),
      (7, [(''key'', SVal (JInt 7)), (''macAddress'', SVal (JStr ''00:50:56:00:00:01''))])]"

definition sample_sdk :: "nat sdk_api" where
  "sample_sdk = \<lparr>sdk_attr = (\<lambda>x name. case dget sample_objects x of None \<Rightarrow> None | Some attrs \<Rightarrow> dget attrs name),
     sdk_repr = (\<lambda>v. ''object'')\<rparr>"

lemma sample_sdk_attr: "sdk_attr sample_sdk x name = (case dget sample_objects x of None \<Rightarrow> None | Some attrs \<Rightarrow> dget attrs name)"
  by (simp add: sample_sdk_def)

lemmas sample_sdk_simps = sample_sdk_attr sample_objects_def get_attr_def attr_or_def

lemma sample_children:
  "sdk_children sample_sdk (SObj 1) = Inr [SObj 2, SObj 1]" "is_host sample_sdk (SObj 2)"
  by (simp_all add: sdk_children_def sdk_items_def sdk_truthy_def truthy_def is_host_def sample_sdk_simps Let_def)

lemma sample_reaches: "reaches sample_sdk e x \<Longrightarrow> e \<in> {SObj 1, SObj 2} \<Longrightarrow> x \<in> {SObj 1, SObj 2}"
  by (induction rule: reaches.induct) (auto simp: sample_children [unfolded One_nat_def])

theorem esxi_walk_complete_witness:
  "\<exists>hosts seen. walk_hosts sample_sdk 3 [] (SObj 1) = Some (Inr (hosts, seen))
     \<and> set hosts = {x. reaches sample_sdk (SObj 1) x \<and> is_host sample_sdk x}"
proof -
  have sub: "{x. reaches sample_sdk (SObj 1) x} \<subseteq> {SObj 1, SObj 2}" using sample_reaches by blast
  then have fin: "finite {x. reaches sample_sdk (SObj 1) x}" by (rule finite_subset) simp
  have "card {x. reaches sample_sdk (SObj 1) x} \<le> card {SObj 1, SObj 2 :: nat sdk}" using sub by (rule card_mono [rotated]) simp
  then have card: "card {x. reaches sample_sdk (SObj 1) x} < 3" by simp
  have "inj_on (entity_key sample_sdk) {SObj 1, SObj 2}"
    by (auto simp: inj_on_def entity_key_def sdk_truthy_def truthy_def sample_sdk_simps)
  then have inj: "inj_on (entity_key sample_sdk) {x. reaches sample_sdk (SObj 1) x}" by (rule inj_on_subset [OF _ sub])
  have "sdk_children sample_sdk x \<noteq> Inl e" if "reaches sample_sdk (SObj 1) x" "\<not> is_host sample_sdk x" for x e
    using sample_reaches [OF that(1)] that(2) sample_children by auto
  moreover obtain r where r: "walk_hosts sample_sdk 3 [] (SObj 1) = Some r"
    and c: "case r of
         Inr (hosts, seen) \<Rightarrow> distinct hosts \<and> set hosts = {x. reaches sample_sdk (SObj 1) x \<and> is_host sample_sdk x}
       | Inl e \<Rightarrow> \<exists>x. reaches sample_sdk (SObj 1) x \<and> \<not> is_host sample_sdk x \<and> sdk_children sample_sdk x = Inl e"
    using esxi_walk_complete [OF fin inj card] by blast
  ultimately obtain p where p: "r = Inr p" by (cases r) auto
  obtain hosts seen where "p = (hosts, seen)" by (cases p)
  with r c p show ?thesis by auto
qed

lemma sample_esxi_discovery:
  "case discover_esxi_hosts sample_sdk 4 sample_esxi_config (SObj 0) of
     Some (Inr [h]) \<Rightarrow> map (\<lambda>vm. (g_original_name vm, vm_external_id vm, map nic_external_id (g_interfaces vm))) (h_virtual_machines h)
       = [(''web'', Some ''7'', [Some ''7''])]
   | _ \<Rightarrow> False"
  by code_simp


end
